(* ===== verification/Prelude.thy ===== *)
theory Prelude
  imports Main "HOL-Library.Word" "HOL-Library.Monad_Syntax"
begin

text \<open>
  Shared vocabulary of the development: the machine types of the C++ code, the conversion
  between \<open>std::string\<close> and bytes, little-endian object representations, and the generic
  lemmas on lists, options and words that the component theories use.

  \<^item> \<open>u8\<close>, \<open>u16\<close>, \<open>u32\<close>, \<open>u64\<close>: the fixed-width integers of \<open>cstdint\<close>. Signed fields are
    kept as the same word and read with \<open>sint\<close> where the code compares or prints them.
  \<^item> \<open>std::string\<close> is \<open>string\<close>: one \<open>char\<close> per byte.
  \<^item> A fault is the \<open>None\<close> of the option monad: the C++ execution has undefined behaviour
    (an out-of-bounds \<open>memcpy\<close>, a null dereference, a dangling reference). Ordinary failures
    are ordinary values.
\<close>

unbundle bit_operations_syntax

subsection \<open>Fact collections\<close>

named_theorems stream_simps \<open>how the stream operations act on offset, buffer and rest\<close>
named_theorems wire_simps \<open>encodings unfolded to byte lists\<close>
named_theorems safe_intros \<open>readers that stay inside their buffer\<close>

subsection \<open>Machine types\<close>

type_synonym u8 = "8 word"
type_synonym u16 = "16 word"
type_synonym u32 = "32 word"
type_synonym u64 = "64 word"
type_synonym byte = "8 word"
type_synonym bytes = "8 word list"

subsection \<open>Options\<close>

lemma bind_SomeI: "m = Some x \<Longrightarrow> f x = r \<Longrightarrow> m \<bind> f = r"
  by simp

subsection \<open>Characters and bytes\<close>

definition byte_of_char :: "char \<Rightarrow> byte" where
  "byte_of_char c = word_of_nat (of_char c)"

definition char_of_byte :: "byte \<Rightarrow> char" where
  "char_of_byte b = char_of (unat b)"

abbreviation bytes_of_string :: "string \<Rightarrow> bytes" where
  "bytes_of_string \<equiv> map byte_of_char"

abbreviation string_of_bytes :: "bytes \<Rightarrow> string" where
  "string_of_bytes \<equiv> map char_of_byte"

lemma unat_byte_of_char [simp]: "unat (byte_of_char c) = of_char c"
proof -
  have "of_char c < (256 :: nat)" by simp
  then show ?thesis by (simp add: byte_of_char_def unat_of_nat)
qed

lemma char_of_byte_of_char [simp]: "char_of_byte (byte_of_char c) = c"
  by (simp add: char_of_byte_def)

lemma byte_of_char_of_byte [simp]: "byte_of_char (char_of_byte b) = b"
proof -
  have "unat b < 256" using unsigned_less [of b, where ?'a = nat] by simp
  then show ?thesis by (simp add: byte_of_char_def char_of_byte_def)
qed

lemma char_of_byte_comp [simp]: "char_of_byte \<circ> byte_of_char = id"
  by (rule ext) simp

lemma byte_of_char_comp [simp]: "byte_of_char \<circ> char_of_byte = id"
  by (rule ext) simp

subsection \<open>Little-endian object representation\<close>

text \<open>
  The code copies integers and floats to and from byte buffers with \<open>memcpy\<close>; the targets
  it is built for (x86 and ARM) are little-endian. A \<open>float\<close> is only ever copied, so its
  bit pattern stands for it.
\<close>

definition le_bytes :: "'a::len word \<Rightarrow> bytes" where
  "le_bytes w = map (\<lambda>i. ucast (drop_bit (8 * i) w)) [0..<LENGTH('a) div 8]"

fun of_le :: "bytes \<Rightarrow> 'a::len word" where
  "of_le [] = 0"
| "of_le (b # bs) = ucast b OR push_bit 8 (of_le bs)"

lemma length_le_bytes [simp]: "length (le_bytes (w :: 'a::len word)) = LENGTH('a) div 8"
  by (simp add: le_bytes_def)

lemma bit_of_le:
  "bit (of_le bs :: 'a::len word) n \<longleftrightarrow>
     n < LENGTH('a) \<and> n div 8 < length bs \<and> bit (bs ! (n div 8)) (n mod 8)"
proof (induction bs arbitrary: n)
  case Nil
  then show ?case by simp
next
  case (Cons b bs)
  show ?case
  proof (cases "n < 8")
    case True
    then show ?thesis
      by (auto simp: bit_or_iff bit_push_bit_iff bit_ucast_iff)
  next
    case False
    then obtain m where m: "n = m + 8" by (metis add.commute le_Suc_ex not_less)
    have "\<not> bit b n"
      using False by (simp add: impossible_bit)
    moreover have "(m + 8) div 8 = Suc (m div 8)" by simp
    ultimately show ?thesis
      using Cons.IH [of m] m False
      by (auto simp: bit_or_iff bit_push_bit_iff bit_ucast_iff simp del: div_add_self2)
  qed
qed

lemma of_le_bytes [simp]:
  assumes "8 dvd LENGTH('a)"
  shows "of_le (le_bytes w) = (w :: 'a::len word)"
proof (rule bit_word_eqI)
  fix n assume n: "n < LENGTH('a)"
  with assms have "n div 8 < LENGTH('a) div 8"
    by (metis dvd_div_mult_self less_mult_imp_div_less)
  then show "bit (of_le (le_bytes w) :: 'a word) n = bit w n"
    using n by (simp add: bit_of_le le_bytes_def bit_ucast_iff bit_drop_bit_eq)
qed

lemma le_bytes_of_le:
  assumes "length bs = LENGTH('a) div 8" and "8 dvd LENGTH('a)"
  shows "le_bytes (of_le bs :: 'a::len word) = bs"
proof (rule nth_equalityI)
  show "length (le_bytes (of_le bs :: 'a word)) = length bs"
    using assms by simp
next
  fix i assume "i < length (le_bytes (of_le bs :: 'a word))"
  then have i: "i < LENGTH('a) div 8" by simp
  show "le_bytes (of_le bs :: 'a word) ! i = bs ! i"
  proof (rule bit_word_eqI)
    fix n assume n: "n < LENGTH(8)"
    from i n assms(2) have "8 * i + n < LENGTH('a)"
      by (auto elim: dvdE)
    then show "bit (le_bytes (of_le bs :: 'a word) ! i) n = bit (bs ! i) n"
      using i n assms(1)
      by (simp add: le_bytes_def bit_ucast_iff bit_drop_bit_eq bit_of_le add.commute)
  qed
qed

lemma le_bytes_u8: "le_bytes (w :: u8) = [w]"
  by (simp add: le_bytes_def)

lemma le_bytes_u16: "le_bytes (w :: u16) = [ucast w, ucast (drop_bit 8 w)]"
  by (simp add: le_bytes_def upt_rec)

lemma le_bytes_u32:
  "le_bytes (w :: u32) =
     [ucast w, ucast (drop_bit 8 w), ucast (drop_bit 16 w), ucast (drop_bit 24 w)]"
  by (simp add: le_bytes_def upt_rec)

lemmas le_bytes_simps [wire_simps] = le_bytes_u8 le_bytes_u16 le_bytes_u32

subsection \<open>Lists\<close>

lemma take_drop_append: "length xs = n \<Longrightarrow> take n (xs @ ys) = xs \<and> drop n (xs @ ys) = ys"
  by simp

lemma drop_prefix: "drop n xs = ys @ zs \<Longrightarrow> drop (n + length ys) xs = zs"
  by (metis add.commute append_eq_conv_conj drop_drop)

lemma drop_prefix_length: "drop n xs = ys @ zs \<Longrightarrow> n \<le> length xs \<Longrightarrow> n + length ys \<le> length xs"
  by (metis length_append length_drop le_add1 le_diff_conv2 add.commute)

subsection \<open>Words\<close>

lemma unat_word_of_nat_lt: "n < 2 ^ LENGTH('a) \<Longrightarrow> unat (word_of_nat n :: 'a::len word) = n"
  by (simp add: unat_of_nat take_bit_nat_eq_self_iff)

lemma ucast_word_of_nat_down:
  "LENGTH('b::len) \<le> LENGTH('a::len) \<Longrightarrow> ucast (word_of_nat n :: 'a word) = (word_of_nat n :: 'b word)"
  by transfer (simp add: min_def)

lemma unat_ucast_up:
  assumes "LENGTH('a::len) \<le> LENGTH('b::len)"
  shows "unat (ucast (w :: 'a word) :: 'b word) = unat w"
proof -
  have "unat w < 2 ^ LENGTH('a)" by (rule unsigned_less)
  also have "(2::nat) ^ LENGTH('a) \<le> 2 ^ LENGTH('b)" using assms by simp
  finally show ?thesis by (simp add: unsigned_ucast_eq take_bit_nat_eq_self)
qed

end
