(* ===== verification/ByteStream.thy ===== *)
theory ByteStream
  imports Prelude
begin

text \<open>
  \<open>utils::ByteStream\<close> (\<open>src/utils/byte_stream.hpp\<close>): the growable buffer every encoder
  writes into and the cursor every decoder reads with. \<open>LengthType\<close> is the type of the
  length word; \<open>std::size_t\<close> is 64 bits, so the bounds check \<open>get_size() - read_offset_ < size\<close>
  wraps, and a read with the cursor beyond the end passes it: that read is a fault.
\<close>

subsection \<open>State and writers\<close>

record bstream =
  data_vec :: bytes
  data_span :: bytes
  read_offset :: u64

definition empty_stream :: bstream where
  "empty_stream = \<lparr>data_vec = [], data_span = [], read_offset = 0\<rparr>"

definition span_stream :: "bytes \<Rightarrow> bstream" where
  "span_stream bs = \<lparr>data_vec = [], data_span = bs, read_offset = 0\<rparr>"

definition write_data :: "bytes \<Rightarrow> bstream \<Rightarrow> bstream" where
  "write_data d s = s\<lparr>data_vec := data_vec s @ d\<rparr>"

definition write_word :: "'a::len word \<Rightarrow> bstream \<Rightarrow> bstream" where
  "write_word w s = write_data (le_bytes w) s"

text \<open>The first argument only fixes the type \<open>LengthType\<close> of the length word.\<close>

definition write_vector :: "'l::len itself \<Rightarrow> bytes \<Rightarrow> bool \<Rightarrow> bstream \<Rightarrow> bstream" where
  "write_vector T v info s =
     write_data v (if info then write_word (word_of_nat (length v) :: 'l word) s else s)"

definition write_string :: "'l::len itself \<Rightarrow> string \<Rightarrow> bool \<Rightarrow> bstream \<Rightarrow> bstream" where
  "write_string T str info s =
     write_data (bytes_of_string str)
       (if info then write_word (word_of_nat (length str) :: 'l word) s else s)"

definition get_data :: "bstream \<Rightarrow> bytes" where
  "get_data s = (if data_vec s \<noteq> [] then data_vec s else data_span s)"

text \<open>\<open>take_data\<close> moves the written vector out, which leaves it empty.\<close>

definition take_data :: "bstream \<Rightarrow> bytes \<times> bstream" where
  "take_data s = (if data_vec s \<noteq> [] then (data_vec s, s\<lparr>data_vec := []\<rparr>) else (data_span s, s))"

definition get_raw_ptr :: "bstream \<Rightarrow> bytes" where
  "get_raw_ptr s = (if data_vec s = [] then data_span s else data_vec s)"

definition get_size :: "bstream \<Rightarrow> u64" where
  "get_size s = word_of_nat (if data_vec s = [] then length (data_span s) else length (data_vec s))"

subsection \<open>Readers\<close>

definition skip :: "u64 \<Rightarrow> bstream \<Rightarrow> bstream" where
  "skip n s = s\<lparr>read_offset := read_offset s + n\<rparr>"

definition backtrack :: "u64 \<Rightarrow> bstream \<Rightarrow> bstream" where
  "backtrack n s = s\<lparr>read_offset := read_offset s - n\<rparr>"

text \<open>
  \<open>read_data\<close>: \<open>Some (None, s)\<close> is the return value \<open>false\<close>, \<open>Some (Some d, s')\<close> is \<open>true\<close>
  with the bytes copied out, \<open>None\<close> is the \<open>memcpy\<close> that leaves the buffer.
\<close>

definition read_data :: "u64 \<Rightarrow> bstream \<Rightarrow> (bytes option \<times> bstream) option" where
  "read_data n s =
     (if get_size s - read_offset s < n then Some (None, s)
      else if unat (read_offset s) + unat n \<le> length (get_raw_ptr s)
      then Some (Some (take (unat n) (drop (unat (read_offset s)) (get_raw_ptr s))), skip n s)
      else None)"

text \<open>
  \<open>template <typename T> bool read(T& value)\<close> for a trivially copyable word: the old value
  stays when the read fails.
\<close>

definition read_word :: "'a::len word \<Rightarrow> bstream \<Rightarrow> (bool \<times> 'a word \<times> bstream) option" where
  "read_word old s = do {
     (r, s) \<leftarrow> read_data (word_of_nat (LENGTH('a) div 8)) s;
     Some (case r of None \<Rightarrow> (False, old, s) | Some d \<Rightarrow> (True, of_le d, s))
   }"

definition read_vector :: "'l::len word \<Rightarrow> bytes \<Rightarrow> bstream \<Rightarrow> (bool \<times> bytes \<times> bstream) option" where
  "read_vector len old s = do {
     (ok, len, s) \<leftarrow> (if len = 0 then read_word len s else Some (True, len, s));
     if \<not> ok then Some (False, old, s)
     else if get_size s - read_offset s < ucast len then Some (False, old, s)
     else do {
       (r, s) \<leftarrow> read_data (ucast len) s;
       Some (case r of None \<Rightarrow> (False, replicate (unat len) 0, s) | Some d \<Rightarrow> (True, d, s))
     }
   }"

definition read_string :: "'l::len word \<Rightarrow> string \<Rightarrow> bstream \<Rightarrow> (bool \<times> string \<times> bstream) option" where
  "read_string len old s = do {
     (ok, len, s) \<leftarrow> (if len = 0 then read_word len s else Some (True, len, s));
     if \<not> ok then Some (False, old, s)
     else if get_size s - read_offset s < ucast len then Some (False, old, s)
     else do {
       (r, s) \<leftarrow> read_data (ucast len) s;
       Some (case r of None \<Rightarrow> (False, replicate (unat len) (CHR 0x00), s)
                     | Some d \<Rightarrow> (True, string_of_bytes d, s))
     }
   }"

text \<open>
  Most callers drop the returned flag: \<open>bs.read(field)\<close> as a statement, with the field's
  previous value as the argument.
\<close>

definition rd :: "'a::len word \<Rightarrow> bstream \<Rightarrow> ('a word \<times> bstream) option" where
  "rd old s = do { (ok, v, s) \<leftarrow> read_word old s; Some (v, s) }"

definition rd_str :: "'l::len word \<Rightarrow> string \<Rightarrow> bstream \<Rightarrow> (string \<times> bstream) option" where
  "rd_str len old s = do { (ok, v, s) \<leftarrow> read_string len old s; Some (v, s) }"

text \<open>\<open>for (i = 0; i < n; i++) bs.read(v[i])\<close> over elements that start out as given.\<close>

fun rd_seq :: "('b \<Rightarrow> bstream \<Rightarrow> ('a \<times> bstream) option) \<Rightarrow> 'b list \<Rightarrow> bstream \<Rightarrow> ('a list \<times> bstream) option"
where
  "rd_seq f [] s = Some ([], s)"
| "rd_seq f (x # xs) s = do {
     (v, s) \<leftarrow> f x s;
     (vs, s) \<leftarrow> rd_seq f xs s;
     Some (v # vs, s)
   }"

subsection \<open>The cursor\<close>

text \<open>
  \<open>in_bounds\<close> is the state every stream is in that only reads: the cursor has not passed the
  end, and the buffer is an object of the address space.
\<close>

definition in_bounds :: "bstream \<Rightarrow> bool" where
  "in_bounds s \<longleftrightarrow> length (get_raw_ptr s) < 2 ^ 64 \<and> unat (read_offset s) \<le> length (get_raw_ptr s)"

definition remaining :: "bstream \<Rightarrow> bytes" where
  "remaining s = drop (unat (read_offset s)) (get_raw_ptr s)"

definition advance :: "nat \<Rightarrow> bstream \<Rightarrow> bstream" where
  "advance n s = skip (word_of_nat n) s"

lemma get_size_alt: "get_size s = word_of_nat (length (get_raw_ptr s))"
  by (simp add: get_size_def get_raw_ptr_def)

lemma get_data_alt: "get_data s = get_raw_ptr s"
  by (simp add: get_data_def get_raw_ptr_def)

lemma get_raw_ptr_skip [simp, stream_simps]: "get_raw_ptr (skip n s) = get_raw_ptr s"
  by (simp add: skip_def get_raw_ptr_def)

lemma get_raw_ptr_advance [simp, stream_simps]: "get_raw_ptr (advance n s) = get_raw_ptr s"
  by (simp add: advance_def)

lemma in_bounds_span [simp, stream_simps]:
  "length d < 2 ^ 64 \<Longrightarrow> in_bounds (span_stream d)"
  by (simp add: in_bounds_def span_stream_def get_raw_ptr_def)

lemma remaining_span [simp, stream_simps]: "remaining (span_stream d) = d"
  by (simp add: remaining_def span_stream_def get_raw_ptr_def)

lemma length_remaining: "in_bounds s \<Longrightarrow> length (remaining s) < 2 ^ 64"
  by (auto simp: in_bounds_def remaining_def)

lemma unat_offset_advance:
  assumes "in_bounds s" and "n \<le> length (remaining s)"
  shows "unat (read_offset (advance n s)) = unat (read_offset s) + n"
proof -
  from assms have "unat (read_offset s) + n < 2 ^ 64"
    by (auto simp: in_bounds_def remaining_def)
  then show ?thesis
    by (simp add: advance_def skip_def unat_word_ariths unat_of_nat)
qed

lemma in_bounds_advance [stream_simps]:
  "in_bounds s \<Longrightarrow> n \<le> length (remaining s) \<Longrightarrow> in_bounds (advance n s)"
  using unat_offset_advance [of s n] by (auto simp: in_bounds_def remaining_def)

lemma remaining_advance [stream_simps]:
  "in_bounds s \<Longrightarrow> n \<le> length (remaining s) \<Longrightarrow> remaining (advance n s) = drop n (remaining s)"
  using unat_offset_advance [of s n] by (simp add: remaining_def add.commute)

lemma advance_advance [stream_simps]: "advance m (advance n s) = advance (n + m) s"
  by (simp add: advance_def skip_def add.assoc)

lemma advance_0 [simp, stream_simps]: "advance 0 s = s"
  by (simp add: advance_def skip_def)

text \<open>The wrapped difference of the bounds check is the number of bytes left, while in bounds.\<close>

lemma size_minus_offset:
  assumes "in_bounds s"
  shows "unat (get_size s - read_offset s) = length (remaining s)"
proof -
  have sz: "unat (get_size s) = length (get_raw_ptr s)"
    using assms by (simp add: in_bounds_def get_size_alt unat_of_nat)
  then have "read_offset s \<le> get_size s"
    using assms by (simp add: in_bounds_def word_le_nat_alt)
  then show ?thesis
    by (simp add: unat_sub sz remaining_def)
qed

lemma read_data_in_bounds:
  assumes "in_bounds s"
  shows "read_data n s =
    (if unat n \<le> length (remaining s)
     then Some (Some (take (unat n) (remaining s)), advance (unat n) s)
     else Some (None, s))"
proof -
  have "get_size s - read_offset s < n \<longleftrightarrow> length (remaining s) < unat n"
    using size_minus_offset [OF assms] by (simp add: word_less_nat_alt)
  moreover have "unat n \<le> length (remaining s) \<longleftrightarrow>
      unat (read_offset s) + unat n \<le> length (get_raw_ptr s)"
    using assms by (auto simp: in_bounds_def remaining_def)
  ultimately show ?thesis
    by (auto simp: read_data_def remaining_def advance_def not_less)
qed

subsection \<open>Reads inside the buffer\<close>

lemma read_word_in_bounds:
  assumes "in_bounds s" and "LENGTH('a) div 8 < 2 ^ 64"
  shows "read_word (old :: 'a::len word) s =
    (if LENGTH('a) div 8 \<le> length (remaining s)
     then Some (True, of_le (take (LENGTH('a) div 8) (remaining s)), advance (LENGTH('a) div 8) s)
     else Some (False, old, s))"
  using assms by (simp add: read_word_def read_data_in_bounds unat_of_nat)

text \<open>
  A reader is safe when, from a cursor inside the buffer, it neither faults nor leaves the
  buffer, and does not change what the stream holds.
\<close>

definition safe_run :: "bstream \<Rightarrow> ('a \<times> bstream) option \<Rightarrow> bool" where
  "safe_run s r \<longleftrightarrow> (case r of None \<Rightarrow> False
     | Some (_, s') \<Rightarrow> in_bounds s' \<and> get_raw_ptr s' = get_raw_ptr s \<and>
         unat (read_offset s) \<le> unat (read_offset s'))"

definition safe_reader :: "(bstream \<Rightarrow> ('a \<times> bstream) option) \<Rightarrow> bool" where
  "safe_reader f \<longleftrightarrow> (\<forall>s. in_bounds s \<longrightarrow> safe_run s (f s))"

lemma safe_readerD: "safe_reader f \<Longrightarrow> in_bounds s \<Longrightarrow> safe_run s (f s)"
  by (simp add: safe_reader_def)

lemma safe_run_Some [simp]: "in_bounds s \<Longrightarrow> safe_run s (Some (x, s))"
  by (simp add: safe_run_def)

lemma safe_run_obtain:
  assumes "safe_run s r"
  obtains x s' where "r = Some (x, s')" and "in_bounds s'" and "get_raw_ptr s' = get_raw_ptr s"
    and "unat (read_offset s) \<le> unat (read_offset s')"
  using assms by (cases r) (auto simp: safe_run_def)

lemma safe_run_trans: "safe_run s (Some (x, s1)) \<Longrightarrow> safe_run s1 r \<Longrightarrow> safe_run s r"
  by (cases r) (auto simp: safe_run_def)

lemma safe_run_bind:
  assumes "safe_run s m" and "\<And>x s'. in_bounds s' \<Longrightarrow> safe_run s' (f (x, s'))"
  shows "safe_run s (m \<bind> f)"
  using assms(1) safe_run_trans [OF _ assms(2)]
  by (elim safe_run_obtain) (auto simp: safe_run_def)

lemma safe_run_advance:
  "in_bounds s \<Longrightarrow> n \<le> length (remaining s) \<Longrightarrow> safe_run s (Some (x, advance n s))"
  by (simp add: safe_run_def in_bounds_advance unat_offset_advance)

lemma safe_read_data [safe_intros]: "safe_reader (read_data n)"
  by (simp add: safe_reader_def read_data_in_bounds safe_run_advance)

lemma safe_rd [safe_intros]: "LENGTH('a) div 8 < 2 ^ 64 \<Longrightarrow> safe_reader (rd (old :: 'a::len word))"
  by (simp add: safe_reader_def rd_def read_word_in_bounds safe_run_advance)

lemma safe_read_string:
  assumes "LENGTH('l) div 8 < 2 ^ 64" and s: "in_bounds s"
  shows "\<exists>ok v s'. read_string (len :: 'l::len word) old s = Some (ok, v, s') \<and>
     safe_run s (Some (v, s'))"
proof -
  have "\<exists>ok l s1. (if len = 0 then read_word len s else Some (True, len, s)) = Some (ok, l, s1) \<and>
      safe_run s (Some (l, s1))"
    using assms by (auto simp: read_word_in_bounds safe_run_advance)
  then obtain ok l s1 where 1: "(if len = 0 then read_word len s else Some (True, len, s)) = Some (ok, l, s1)"
    and 2: "safe_run s (Some (l, s1))" by blast
  from 2 have s1: "in_bounds s1" by (simp add: safe_run_def)
  show ?thesis
  proof (cases "ok \<and> \<not> get_size s1 - read_offset s1 < ucast l")
    case False
    with 1 2 show ?thesis by (auto simp: read_string_def safe_run_def)
  next
    case True
    have "safe_run s1 (read_data (ucast l) s1)"
      using safe_readerD [OF safe_read_data s1] .
    then obtain r s2 where "read_data (ucast l) s1 = Some (r, s2)" and "safe_run s1 (Some (r, s2))"
      by (elim safe_run_obtain) (auto simp: safe_run_def)
    with 1 2 True show ?thesis
      by (auto simp: read_string_def safe_run_def split: option.split)
  qed
qed

lemma safe_rd_str [safe_intros]:
  "LENGTH('l) div 8 < 2 ^ 64 \<Longrightarrow> safe_reader (rd_str (len :: 'l::len word) old)"
  unfolding safe_reader_def
proof (intro allI impI)
  fix s assume "LENGTH('l) div 8 < 2 ^ 64" and "in_bounds s"
  from safe_read_string [OF this, of len old] obtain ok v s' where
    "read_string len old s = Some (ok, v, s')" and "safe_run s (Some (v, s'))" by blast
  then show "safe_run s (rd_str len old s)" by (simp add: rd_str_def safe_run_def)
qed

lemma safe_rd_seq [safe_intros]:
  assumes "\<And>x. safe_reader (f x)"
  shows "safe_reader (rd_seq f xs)"
proof (induction xs)
  case Nil
  show ?case by (simp add: safe_reader_def)
next
  case (Cons x xs)
  show ?case
    unfolding safe_reader_def rd_seq.simps
    by (auto intro!: safe_run_bind safe_readerD [OF assms] safe_readerD [OF Cons.IH])
qed

subsection \<open>The reader and codec interfaces\<close>

text \<open>
  What every decoder of the proxy promises its callers. A \<open>reader\<close> never leaves the buffer; a
  \<open>codec\<close> is a reader that recovers what the matching encoder wrote, wherever in the buffer the
  encoding stands, and leaves the cursor right behind it.
\<close>

locale reader =
  fixes dec :: "bstream \<Rightarrow> ('a \<times> bstream) option"
  assumes safe: "safe_reader dec"
begin

lemma dec_total: "in_bounds s \<Longrightarrow> \<exists>x s'. dec s = Some (x, s') \<and> in_bounds s'"
  using safe_readerD [OF safe, of s] by (auto elim: safe_run_obtain)

lemma dec_keeps_buffer: "in_bounds s \<Longrightarrow> dec s = Some (x, s') \<Longrightarrow> get_raw_ptr s' = get_raw_ptr s"
  using safe_readerD [OF safe, of s] by (simp add: safe_run_def)

lemma dec_list_total:
  "in_bounds s \<Longrightarrow> \<exists>xs s'. rd_seq (\<lambda>_. dec) ys s = Some (xs, s') \<and> in_bounds s' \<and> length xs = length ys"
proof (induction ys arbitrary: s)
  case Nil
  then show ?case by simp
next
  case (Cons y ys)
  obtain x s1 where 1: "dec s = Some (x, s1)" "in_bounds s1"
    using dec_total [OF Cons.prems] by blast
  obtain xs s2 where "rd_seq (\<lambda>_. dec) ys s1 = Some (xs, s2)" "in_bounds s2" "length xs = length ys"
    using Cons.IH [OF 1(2)] by blast
  with 1 show ?case by auto
qed

end

locale codec = reader dec
  for dec :: "bstream \<Rightarrow> ('a \<times> bstream) option" +
  fixes enc :: "'a \<Rightarrow> bytes" and ok :: "'a \<Rightarrow> bool"
  assumes dec_enc:
    "in_bounds s \<Longrightarrow> remaining s = enc x @ rest \<Longrightarrow> ok x \<Longrightarrow>
       dec s = Some (x, advance (length (enc x)) s)"
begin

lemma after_enc:
  assumes "in_bounds s" and "remaining s = enc x @ rest"
  shows "in_bounds (advance (length (enc x)) s)" and "remaining (advance (length (enc x)) s) = rest"
  using assms by (simp_all add: in_bounds_advance remaining_advance)

text \<open>A run of encoded elements is read back by the element-wise loop.\<close>

lemma dec_list:
  "in_bounds s \<Longrightarrow> remaining s = concat (map enc xs) @ rest \<Longrightarrow> list_all ok xs \<Longrightarrow>
   length ys = length xs \<Longrightarrow>
   rd_seq (\<lambda>_. dec) ys s = Some (xs, advance (length (concat (map enc xs))) s)"
proof (induction xs arbitrary: s ys)
  case Nil
  then show ?case by simp
next
  case (Cons x xs)
  then obtain y ys' where ys: "ys = y # ys'" by (cases ys) auto
  have r: "remaining s = enc x @ (concat (map enc xs) @ rest)" using Cons.prems by simp
  let ?s = "advance (length (enc x)) s"
  have "dec s = Some (x, ?s)" using Cons.prems r by (intro dec_enc) auto
  moreover have "rd_seq (\<lambda>_. dec) ys' ?s = Some (xs, advance (length (concat (map enc xs))) ?s)"
    using Cons.prems r ys after_enc [OF _ r] by (intro Cons.IH) auto
  ultimately show ?case by (simp add: ys advance_advance)
qed

end

text \<open>Two codecs in sequence are a codec of pairs.\<close>

locale codec_pair = a: codec da ea oka + b: codec db eb okb
  for da :: "bstream \<Rightarrow> ('a \<times> bstream) option" and ea oka
  and db :: "bstream \<Rightarrow> ('b \<times> bstream) option" and eb okb
begin

lemma pair_safe: "safe_reader (\<lambda>s. do { (x, s) \<leftarrow> da s; (y, s) \<leftarrow> db s; Some ((x, y), s) })"
  unfolding safe_reader_def
  by (auto intro!: safe_run_bind safe_readerD [OF a.safe] safe_readerD [OF b.safe])

lemma pair_enc:
  assumes s: "in_bounds s" and r: "remaining s = ea x @ eb y @ rest" and ok: "oka x" "okb y"
  shows "do { (x, s) \<leftarrow> da s; (y, s) \<leftarrow> db s; Some ((x, y), s) } =
    Some ((x, y), advance (length (ea x @ eb y)) s)"
proof -
  let ?s = "advance (length (ea x)) s"
  have 1: "da s = Some (x, ?s)" using s r ok by (intro a.dec_enc)
  have 2: "db ?s = Some (y, advance (length (eb y)) ?s)"
    using a.after_enc [OF s r] ok by (intro b.dec_enc)
  show ?thesis by (simp add: 1 2 advance_advance)
qed

end

sublocale codec_pair \<subseteq> pair: codec
  "\<lambda>s. do { (x, s) \<leftarrow> da s; (y, s) \<leftarrow> db s; Some ((x, y), s) }"
  "\<lambda>(x, y). ea x @ eb y" "\<lambda>(x, y). oka x \<and> okb y"
  by unfold_locales (auto simp: pair_safe pair_enc)

subsection \<open>Words and strings are codecs\<close>

definition enc_string :: "'l::len itself \<Rightarrow> string \<Rightarrow> bytes" where
  "enc_string T str = le_bytes (word_of_nat (length str) :: 'l word) @ bytes_of_string str"

lemma get_raw_ptr_write_data [stream_simps]:
  "data_span s = [] \<Longrightarrow> get_raw_ptr (write_data d s) = get_raw_ptr s @ d"
  by (auto simp: write_data_def get_raw_ptr_def)

lemma rd_enc:
  assumes "8 dvd LENGTH('a)" and "LENGTH('a) < 2 ^ 64" and s: "in_bounds s"
    and r: "remaining s = le_bytes (w :: 'a::len word) @ rest"
  shows "read_word old s = Some (True, w, advance (LENGTH('a) div 8) s)"
    and "rd old s = Some (w, advance (LENGTH('a) div 8) s)"
proof -
  have "LENGTH('a) div 8 < 2 ^ 64" using assms(2) by linarith
  then show "read_word old s = Some (True, w, advance (LENGTH('a) div 8) s)"
    using assms by (simp add: read_word_in_bounds)
  then show "rd old s = Some (w, advance (LENGTH('a) div 8) s)" by (simp add: rd_def)
qed

lemma read_string_enc:
  fixes str :: string
  assumes l: "8 dvd LENGTH('l)" "LENGTH('l::len) \<le> 64" and s: "in_bounds s"
    and r: "remaining s = enc_string TYPE('l) str @ rest" and ok: "length str < 2 ^ LENGTH('l)"
  shows "read_string (0 :: 'l word) old s =
    Some (True, str, advance (length (enc_string TYPE('l) str)) s)"
proof -
  let ?l = "word_of_nat (length str) :: 'l word" and ?k = "LENGTH('l) div 8"
  let ?s = "advance ?k s"
  have r': "remaining s = le_bytes ?l @ bytes_of_string str @ rest"
    using r by (simp add: enc_string_def)
  have k: "?k \<le> length (remaining s)" using r' by simp
  have s1: "in_bounds ?s" "remaining ?s = bytes_of_string str @ rest"
    using in_bounds_advance [OF s k] remaining_advance [OF s k] r' by simp_all
  have rw: "read_word (0 :: 'l word) s = Some (True, ?l, ?s)"
    using rd_enc(1) [OF l(1) _ s r'] l(2) by simp
  have "unat ?l = length str" using ok by (rule unat_word_of_nat_lt)
  then have u: "unat (ucast ?l :: u64) = length str"
    using l(2) by (simp add: unat_ucast_up)
  have "\<not> get_size ?s - read_offset ?s < ucast ?l"
    using size_minus_offset [OF s1(1)] u s1(2) by (simp add: word_less_nat_alt)
  moreover have "read_data (ucast ?l) ?s = Some (Some (bytes_of_string str), advance (length str) ?s)"
    using s1 u by (simp add: read_data_in_bounds)
  ultimately show ?thesis
    by (simp add: read_string_def rw enc_string_def advance_advance)
qed

lemma rd_str_enc:
  assumes "8 dvd LENGTH('l)" "LENGTH('l::len) \<le> 64" "in_bounds s"
    "remaining s = enc_string TYPE('l) str @ rest" "length str < 2 ^ LENGTH('l)"
  shows "rd_str (0 :: 'l word) old s = Some (str, advance (length (enc_string TYPE('l) str)) s)"
  by (simp add: rd_str_def read_string_enc [OF assms])

interpretation u8_codec: codec "rd (old :: u8)" le_bytes "\<lambda>_. True"
  by unfold_locales (auto simp: safe_rd rd_enc)

interpretation u16_codec: codec "rd (old :: u16)" le_bytes "\<lambda>_. True"
  by unfold_locales (auto simp: safe_rd rd_enc)

interpretation u32_codec: codec "rd (old :: u32)" le_bytes "\<lambda>_. True"
  by unfold_locales (auto simp: safe_rd rd_enc)

interpretation str16_codec: codec "rd_str (0 :: u16) old" "enc_string TYPE(16)" "\<lambda>s. length s < 2 ^ 16"
  by unfold_locales (auto simp: safe_rd_str rd_str_enc)

interpretation str32_codec: codec "rd_str (0 :: u32) old" "enc_string TYPE(32)" "\<lambda>s. length s < 2 ^ 32"
  by unfold_locales (auto simp: safe_rd_str rd_str_enc)

subsection \<open>Readers and what they read\<close>

text \<open>
  \<open>reads f x bs\<close>: wherever the bytes \<open>bs\<close> stand at the cursor, \<open>f\<close> reads the value \<open>x\<close> and leaves
  the cursor right behind them. Unlike \<open>codec\<close> it asks nothing of \<open>f\<close> on other bytes, so it also
  applies to readers that skip without looking.
\<close>

named_theorems reads_intros \<open>what the elementary readers read\<close>

definition reads :: "(bstream \<Rightarrow> ('a \<times> bstream) option) \<Rightarrow> 'a \<Rightarrow> bytes \<Rightarrow> bool" where
  "reads f x bs \<longleftrightarrow> (\<forall>s rest. in_bounds s \<longrightarrow> remaining s = bs @ rest \<longrightarrow>
     f s = Some (x, advance (length bs) s))"

lemma readsD:
  "reads f x bs \<Longrightarrow> in_bounds s \<Longrightarrow> remaining s = bs @ rest \<Longrightarrow> f s = Some (x, advance (length bs) s)"
  by (simp add: reads_def)

lemma reads_return: "reads (\<lambda>s. Some (x, s)) x []"
  by (simp add: reads_def)

lemma reads_bind:
  assumes "reads f x bs" and "reads (g x) y cs"
  shows "reads (\<lambda>s. f s \<bind> (\<lambda>(x, s). g x s)) y (bs @ cs)"
  unfolding reads_def
proof (intro allI impI)
  fix s rest assume s: "in_bounds s" and r: "remaining s = (bs @ cs) @ rest"
  let ?s = "advance (length bs) s"
  have 1: "f s = Some (x, ?s)" by (rule readsD [OF assms(1) s]) (simp add: r)
  have "in_bounds ?s" "remaining ?s = cs @ rest"
    using s r by (simp_all add: in_bounds_advance remaining_advance)
  from readsD [OF assms(2) this] 1 show "f s \<bind> (\<lambda>(x, s). g x s) = Some (y, advance (length (bs @ cs)) s)"
    by (simp add: advance_advance)
qed

lemma reads_bind_last:
  "reads f x bs \<Longrightarrow> reads (\<lambda>s. f s \<bind> (\<lambda>(x, s). Some (h x, s))) (h x) bs"
  using reads_bind [OF _ reads_return, of f x bs "\<lambda>x s. Some (h x, s)"]
  by (simp add: reads_def)

lemma reads_rd [reads_intros]:
  "8 dvd LENGTH('a) \<Longrightarrow> LENGTH('a) < 2 ^ 64 \<Longrightarrow> reads (rd (old :: 'a::len word)) w (le_bytes w)"
  by (simp add: reads_def rd_enc)

lemma reads_str [reads_intros]:
  "length str < 65536 \<Longrightarrow> reads (rd_str (0 :: u16) old) str (enc_string TYPE(16) str)"
  by (simp add: reads_def rd_str_enc)

lemma reads_data: "length d < 2 ^ 64 \<Longrightarrow> reads (read_data (word_of_nat (length d))) (Some d) d"
  by (simp add: reads_def read_data_in_bounds unat_word_of_nat_lt)

lemma reads_skip: "length pad = unat n \<Longrightarrow> reads (\<lambda>s. Some ((), skip n s)) () pad"
  by (simp add: reads_def advance_def)

lemma reads_seq:
  assumes "list_all2 (\<lambda>x y. reads (f y) x (e x)) xs ys"
  shows "reads (rd_seq f ys) xs (concat (map e xs))"
  using assms
proof (induction xs ys rule: list_all2_induct)
  case Nil
  then show ?case by (simp add: reads_return)
next
  case (Cons x xs y ys)
  have "reads (\<lambda>s. f y s \<bind> (\<lambda>(v, s). rd_seq f ys s \<bind> (\<lambda>(vs, s). Some (v # vs, s)))) (x # xs)
      (e x @ concat (map e xs))"
    by (rule reads_bind [OF Cons.hyps(1)]) (rule reads_bind_last [OF Cons.IH])
  then show ?case by (simp add: rd_seq.simps(2) [abs_def])
qed

subsection \<open>Properties\<close>

text \<open>Whatever a stream with a 16-bit length word writes as a string, reading it back gives the
  string, cut to its length modulo 65536.\<close>

theorem read_written_string:
  assumes "length str < 2 ^ 63"
  shows "\<exists>s. rd_str (0 :: u16) old
      (span_stream (get_data (write_string TYPE(16) str True empty_stream))) =
    Some (take (length str mod 65536) str, s)"
proof -
  let ?l = "word_of_nat (length str) :: u16" and ?d = "enc_string TYPE(16) str"
  have d: "get_data (write_string TYPE(16) str True empty_stream) = ?d"
    by (simp add: write_string_def write_word_def write_data_def empty_stream_def get_data_def
        enc_string_def le_bytes_u16)
  let ?s = "span_stream ?d"
  have s: "in_bounds ?s" using assms by (simp add: enc_string_def)
  have r: "remaining ?s = le_bytes ?l @ bytes_of_string str" by (simp add: enc_string_def)
  note s1 = u16_codec.after_enc [OF s r]
  have len: "unat ?l = length str mod 65536" by (simp add: unat_of_nat take_bit_eq_mod)
  have rw: "read_word (0 :: u16) ?s = Some (True, ?l, advance 2 ?s)"
    using rd_enc(1) [OF _ _ s r] by simp
  have le: "length str mod 65536 \<le> length (remaining (advance 2 ?s))" using s1(2) by simp
  have sz: "\<not> get_size (advance 2 ?s) - read_offset (advance 2 ?s) < ucast ?l"
    using size_minus_offset [of "advance 2 ?s"] s1 le
    by (simp add: word_less_nat_alt unat_ucast_up len)
  have "read_data (ucast ?l) (advance 2 ?s) =
      Some (Some (take (length str mod 65536) (bytes_of_string str)), advance (length str mod 65536) (advance 2 ?s))"
    using s1 le by (simp add: read_data_in_bounds unat_ucast_up len)
  then show ?thesis
    by (simp add: d rd_str_def read_string_def rw sz take_map)
qed

theorem read_written_string_witness:
  "\<exists>s. rd_str (0 :: u16) [] (span_stream (get_data (write_string TYPE(16) ''abc'' True empty_stream))) =
    Some (''abc'', s)"
  using read_written_string [of "''abc''" "[]"] by simp

text \<open>The bounds check of a read does not protect a cursor that has been moved past the end: any
  read from there leaves the buffer.\<close>

theorem read_past_end_faults:
  assumes "length d < unat k" and "unat k < 2 ^ 63" and "0 < unat n" and "unat n < 2 ^ 63"
  shows "read_data n (skip k (span_stream d)) = None"
proof -
  let ?s = "skip k (span_stream d)"
  have off: "read_offset ?s = k" by (simp add: skip_def span_stream_def)
  have ptr: "get_raw_ptr (span_stream d) = d"
    by (simp add: span_stream_def get_raw_ptr_def)
  have sz: "unat (get_size ?s) = length d"
    using assms(1,2) by (simp add: get_size_alt ptr unat_word_of_nat_lt)
  then have "unat (get_size ?s - k) = 2 ^ 64 + length d - unat k"
    using assms(1) by (simp add: unat_sub_if_size word_size)
  then have "\<not> get_size ?s - read_offset ?s < n"
    using assms by (simp add: word_less_nat_alt off)
  then show ?thesis using assms(1) by (simp add: read_data_def off ptr)
qed

theorem read_past_end_faults_witness: "read_data 1 (skip 4 (span_stream [1, 2, 3])) = None"
  by (rule read_past_end_faults) simp_all

end
