(* ===== verification/CharConv.thy ===== *)
theory CharConv
  imports Prelude
begin

text \<open>
  The part of the C++ standard library's \<open>charconv\<close> that the code relies on:
  \<open>std::from_chars\<close> on integers (no leading blanks or plus sign, a minus sign only for signed
  types, the longest run of digits, \<open>ec\<close> set when there is none or when the value does not fit)
  and \<open>std::to_chars\<close> in base ten.
\<close>

datatype errc = InvalidArgument | ResultOutOfRange

subsection \<open>Digits\<close>

definition digit_value :: "char \<Rightarrow> nat option" where
  "digit_value c = (let n = of_char c :: nat in
     if 48 \<le> n \<and> n \<le> 57 then Some (n - 48)
     else if 97 \<le> n \<and> n \<le> 122 then Some (n - 87)
     else if 65 \<le> n \<and> n \<le> 90 then Some (n - 55)
     else None)"

definition is_digit :: "nat \<Rightarrow> char \<Rightarrow> bool" where
  "is_digit base c = (case digit_value c of None \<Rightarrow> False | Some d \<Rightarrow> d < base)"

definition digits_value :: "nat \<Rightarrow> string \<Rightarrow> nat" where
  "digits_value base ds = foldl (\<lambda>acc c. acc * base + the (digit_value c)) 0 ds"

definition dec_digit :: "nat \<Rightarrow> char" where
  "dec_digit d = char_of (48 + d)"

fun dec_nat :: "nat \<Rightarrow> string" where
  "dec_nat n = (if n < 10 then [dec_digit n] else dec_nat (n div 10) @ [dec_digit (n mod 10)])"

declare dec_nat.simps [simp del]

definition to_chars :: "int \<Rightarrow> string" where
  "to_chars i = (if i < 0 then CHR ''-'' # dec_nat (nat (- i)) else dec_nat (nat i))"

text \<open>
  \<open>from_chars\<close> for an integer type with the range \<open>lo..hi\<close>; a type is signed when \<open>lo < 0\<close>.
\<close>

definition from_chars :: "nat \<Rightarrow> int \<Rightarrow> int \<Rightarrow> string \<Rightarrow> errc + int" where
  "from_chars base lo hi s =
     (let neg = (lo < 0 \<and> s \<noteq> [] \<and> hd s = CHR ''-'');
          ds = takeWhile (is_digit base) (if neg then tl s else s);
          v = (if neg then - int (digits_value base ds) else int (digits_value base ds))
      in if ds = [] then Inl InvalidArgument
         else if lo \<le> v \<and> v \<le> hi then Inr v else Inl ResultOutOfRange)"

abbreviation from_chars_i32 :: "string \<Rightarrow> errc + int" where
  "from_chars_i32 \<equiv> from_chars 10 (- (2 ^ 31)) (2 ^ 31 - 1)"

abbreviation from_chars_u32 :: "nat \<Rightarrow> string \<Rightarrow> errc + int" where
  "from_chars_u32 base \<equiv> from_chars base 0 (2 ^ 32 - 1)"

abbreviation from_chars_u16 :: "string \<Rightarrow> errc + int" where
  "from_chars_u16 \<equiv> from_chars 10 0 (2 ^ 16 - 1)"

abbreviation from_chars_u8 :: "string \<Rightarrow> errc + int" where
  "from_chars_u8 \<equiv> from_chars 10 0 (2 ^ 8 - 1)"

subsection \<open>Printing and parsing\<close>

lemma digit_value_dec_digit [simp]: "d < 10 \<Longrightarrow> digit_value (dec_digit d) = Some d"
  by (simp add: dec_digit_def digit_value_def Let_def)

lemma is_digit_dec_digit [simp]: "d < 10 \<Longrightarrow> is_digit 10 (dec_digit d)"
  by (simp add: is_digit_def)

lemma digits_value_snoc: "digits_value b (ds @ [c]) = digits_value b ds * b + the (digit_value c)"
  by (simp add: digits_value_def)

lemma dec_nat_digits: "\<forall>c \<in> set (dec_nat n). is_digit 10 c"
proof (induction n rule: dec_nat.induct)
  case (1 n)
  then show ?case by (cases "n < 10") (auto simp: dec_nat.simps [of n])
qed

lemma dec_nat_nonempty [simp]: "dec_nat n \<noteq> []"
  by (subst dec_nat.simps) simp

lemma dec_nat_value: "digits_value 10 (dec_nat n) = n"
proof (induction n rule: dec_nat.induct)
  case (1 n)
  then show ?case
    by (cases "n < 10") (auto simp: dec_nat.simps [of n] digits_value_snoc, simp add: digits_value_def)
qed

lemma minus_no_digit: "\<not> is_digit b (CHR ''-'')"
  by (simp add: is_digit_def digit_value_def)

lemma dec_nat_hd: "hd (dec_nat n) \<noteq> CHR ''-''"
  using dec_nat_digits [of n] minus_no_digit by (metis dec_nat_nonempty list.set_sel(1))

lemma takeWhile_dec_nat: "takeWhile (is_digit 10) (dec_nat n) = dec_nat n"
  using dec_nat_digits by (simp add: takeWhile_eq_all_conv)

lemma from_chars_to_chars:
  assumes "lo \<le> i" and "i \<le> hi"
  shows "from_chars 10 lo hi (to_chars i) = Inr i"
  using assms dec_nat_hd [of "nat i"]
  by (auto simp: from_chars_def to_chars_def Let_def takeWhile_dec_nat dec_nat_value)

lemma to_chars_chars: "c \<in> set (to_chars i) \<Longrightarrow> is_digit 10 c \<or> c = CHR ''-''"
  using dec_nat_digits by (auto simp: to_chars_def split: if_splits)

lemma to_chars_no:
  assumes "\<not> is_digit 10 c" and "c \<noteq> CHR ''-''"
  shows "c \<notin> set (to_chars i)"
  using to_chars_chars assms by blast

end
