(* ===== verification/Interfaces.thy ===== *)
theory Interfaces
  imports Prelude
begin

text \<open>
  The interfaces between components that are not about byte streams: the keyed containers the
  proxy keeps its data in, and the state machines whose operations share an invariant.
\<close>

subsection \<open>Keyed stores\<close>

text \<open>
  A keyed store promises what a lookup returns after an update or a deletion, under an invariant
  that both keep. \<open>TextParse\<close> is interpreted as one; the laws below are what the web server and the
  packet classes rely on.
\<close>

locale keyed_store =
  fixes lookup :: "'m \<Rightarrow> 'k \<Rightarrow> 'v option"
    and update :: "'k \<Rightarrow> 'v \<Rightarrow> 'm \<Rightarrow> 'm"
    and delete :: "'k \<Rightarrow> 'm \<Rightarrow> 'm"
    and inv :: "'m \<Rightarrow> bool"
  assumes lookup_update: "lookup (update k v m) = (lookup m)(k \<mapsto> v)"
    and lookup_delete: "inv m \<Longrightarrow> lookup (delete k m) = (lookup m)(k := None)"
    and inv_update: "inv m \<Longrightarrow> inv (update k v m)"
    and inv_delete: "inv m \<Longrightarrow> inv (delete k m)"
begin

lemma lookup_same [simp]: "lookup (update k v m) k = Some v"
  by (simp add: lookup_update)

lemma lookup_other: "k' \<noteq> k \<Longrightarrow> lookup (update k v m) k' = lookup m k'"
  by (simp add: lookup_update)

lemma lookup_updates:
  "lookup (fold (\<lambda>(k, v). update k v) kvs m) = lookup m ++ map_of (rev kvs)"
proof (induction kvs arbitrary: m)
  case Nil
  show ?case by simp
next
  case (Cons p kvs)
  obtain k v where p: "p = (k, v)" by (cases p)
  show ?case
    using Cons.IH [of "update k v m"]
    by (simp add: p lookup_update map_add_upd_left map_of_append flip: map_add_assoc)
       (simp add: map_add_def fun_eq_iff split: option.split)
qed

lemma delete_absent: "inv m \<Longrightarrow> lookup (delete k m) k = None"
  by (simp add: lookup_delete)

lemma update_delete: "inv m \<Longrightarrow> lookup m k = None \<Longrightarrow> lookup (delete k (update k v m)) = lookup m"
  by (simp add: lookup_delete inv_update lookup_update fun_upd_idem)

end

subsection \<open>State machines\<close>

text \<open>
  A machine with an initial predicate and steps, and an invariant that holds at the start and that
  every step keeps: it holds in every state a run can reach.
\<close>

locale state_machine =
  fixes init :: "'s \<Rightarrow> bool" and step :: "'s \<Rightarrow> 'e \<Rightarrow> 's \<Rightarrow> bool" and inv :: "'s \<Rightarrow> bool"
  assumes inv_init: "init s \<Longrightarrow> inv s"
    and inv_step: "inv s \<Longrightarrow> step s e s' \<Longrightarrow> inv s'"
begin

inductive run :: "'s \<Rightarrow> 'e list \<Rightarrow> 's \<Rightarrow> bool" where
  run_nil: "run s [] s"
| run_cons: "step s e s' \<Longrightarrow> run s' es s'' \<Longrightarrow> run s (e # es) s''"

lemma run_inv: "run s es s' \<Longrightarrow> inv s \<Longrightarrow> inv s'"
  by (induction rule: run.induct) (auto intro: inv_step)

lemma run_from_init: "init s \<Longrightarrow> run s es s' \<Longrightarrow> inv s'"
  using run_inv inv_init by blast

lemma run_append: "run s es s' \<Longrightarrow> run s' fs s'' \<Longrightarrow> run s (es @ fs) s''"
  by (induction rule: run.induct) (auto intro: run.intros)

end

end
