(* ===== verification/TextParse.thy ===== *)
theory TextParse
  imports ByteStream CharConv Interfaces
begin

text \<open>
  \<open>utils::TextParse\<close> (\<open>src/utils/text_parse.hpp\<close>): the text messages of the protocol, lines of
  fields separated by a delimiter, kept as an ordered list of keys with their values. The first
  entry with a key is the one the accessors see.
\<close>

subsection \<open>Splitting\<close>

type_synonym text_data = "(string \<times> string list) list"

fun find_sub :: "string \<Rightarrow> string \<Rightarrow> nat option" where
  "find_sub pat [] = None"
| "find_sub pat (c # cs) =
     (if take (length pat) (c # cs) = pat then Some 0 else map_option Suc (find_sub pat cs))"

lemma find_sub_bound: "find_sub pat s = Some i \<Longrightarrow> i < length s"
  by (induction pat s arbitrary: i rule: find_sub.induct) (auto split: if_splits)

text \<open>\<open>std::views::split\<close>: an empty pattern cuts between all characters.\<close>

function split_view :: "string \<Rightarrow> string \<Rightarrow> string list" where
  "split_view pat s =
     (if pat = [] then map (\<lambda>c. [c]) s
      else case find_sub pat s of
        None \<Rightarrow> [s]
      | Some i \<Rightarrow> take i s # split_view pat (drop (i + length pat) s))"
  by pat_completeness auto
termination
proof (relation "measure (\<lambda>(pat, s). length s)")
  show "pat \<noteq> [] \<Longrightarrow> find_sub pat s = Some i \<Longrightarrow>
      ((pat, drop (i + length pat) s), pat, s) \<in> measure (\<lambda>(pat, s). length s)" for pat s i
    by (cases pat) (auto dest!: find_sub_bound)
qed simp

declare split_view.simps [simp del]

definition tokenize :: "string \<Rightarrow> string \<Rightarrow> bool \<Rightarrow> string list" where
  "tokenize str delim keep_empty =
     (if str = [] then []
      else foldl (\<lambda>tokens sv. if sv = [] \<and> (\<not> keep_empty \<or> tokens = []) then tokens else tokens @ [sv])
             [] (split_view delim str))"

abbreviation newline :: string where
  "newline \<equiv> [CHR 0x0A]"

abbreviation bar :: string where
  "bar \<equiv> ''|''"

subsection \<open>Operations\<close>

definition parse_line :: "string \<Rightarrow> string \<Rightarrow> text_data" where
  "parse_line delim line =
     (case tokenize line delim True of
        key # v # vs \<Rightarrow> [(key, v # vs)]
      | _ \<Rightarrow> [])"

text \<open>\<open>parse\<close> clears the object first, so the result does not depend on the old contents.\<close>

definition parse :: "string \<Rightarrow> string \<Rightarrow> text_data" where
  "parse str delim = concat (map (parse_line delim) (tokenize str newline True))"

definition get :: "text_data \<Rightarrow> string \<Rightarrow> int \<Rightarrow> string" where
  "get d key index =
     (case map_of d key of
        None \<Rightarrow> []
      | Some vec \<Rightarrow> if index < 0 \<or> index \<ge> int (length vec) then [] else vec ! nat index)"

text \<open>\<open>get<int32_t>\<close>: the value-initialised result is returned whenever the conversion fails.\<close>

definition get_i32 :: "text_data \<Rightarrow> string \<Rightarrow> int \<Rightarrow> int" where
  "get_i32 d key index =
     (let val = get d key index
      in if val = [] then 0 else case from_chars_i32 val of Inl _ \<Rightarrow> 0 | Inr v \<Rightarrow> v)"

definition contains :: "text_data \<Rightarrow> string \<Rightarrow> bool" where
  "contains d key = list_ex (\<lambda>p. fst p = key) d"

definition add :: "text_data \<Rightarrow> string \<Rightarrow> string list \<Rightarrow> text_data" where
  "add d key vals = d @ [(key, vals)]"

fun set_val :: "text_data \<Rightarrow> string \<Rightarrow> string list \<Rightarrow> text_data" where
  "set_val [] key vals = [(key, vals)]"
| "set_val ((k, v) # d) key vals = (if k = key then (k, vals) # d else (k, v) # set_val d key vals)"

fun remove_key :: "text_data \<Rightarrow> string \<Rightarrow> text_data" where
  "remove_key [] key = []"
| "remove_key ((k, v) # d) key = (if k = key then d else (k, v) # remove_key d key)"

text \<open>
  \<open>get_raw\<close>: an entry is followed by a line break only when there is a next entry and its key
  is not empty.
\<close>

fun get_raw :: "string \<Rightarrow> string \<Rightarrow> text_data \<Rightarrow> string" where
  "get_raw delim pre [] = []"
| "get_raw delim pre ((key, vals) # d) =
     pre @ key @ concat (map (\<lambda>t. delim @ t) vals) @
     (if d \<noteq> [] \<and> fst (hd d) \<noteq> [] then newline else []) @ get_raw delim pre d"

fun join :: "string \<Rightarrow> string list \<Rightarrow> string" where
  "join delim [] = []"
| "join delim [v] = v"
| "join delim (v # vs) = v @ delim @ join delim vs"

definition get_key_values :: "string \<Rightarrow> text_data \<Rightarrow> (string \<times> string) list" where
  "get_key_values delim d = map (\<lambda>(k, vs). (k, join delim vs)) d"

abbreviation raw :: "text_data \<Rightarrow> string" where
  "raw \<equiv> get_raw bar []"

subsection \<open>Splitting by one character\<close>

lemma find_sub_char_None: "c \<notin> set s \<Longrightarrow> find_sub [c] s = None"
  by (induction s) auto

lemma find_sub_char: "c \<notin> set x \<Longrightarrow> find_sub [c] (x @ c # y) = Some (length x)"
  by (induction x) auto

lemma split_view_char_None [simp]: "c \<notin> set s \<Longrightarrow> split_view [c] s = [s]"
  by (simp add: split_view.simps find_sub_char_None)

lemma split_view_char [simp]: "c \<notin> set x \<Longrightarrow> split_view [c] (x @ c # y) = x # split_view [c] y"
  by (simp add: split_view.simps [of _ "x @ c # y"] find_sub_char)

lemma split_view_join:
  "\<forall>v \<in> set vs. c \<notin> set v \<Longrightarrow> vs \<noteq> [] \<Longrightarrow> split_view [c] (join [c] vs) = vs"
proof (induction "[c]" vs rule: join.induct)
  case (3 v w vs)
  then show ?case by simp
qed simp_all

lemma tokenize_fold_nonempty:
  "toks \<noteq> [] \<Longrightarrow>
   foldl (\<lambda>tokens sv. if sv = [] \<and> (\<not> True \<or> tokens = []) then tokens else tokens @ [sv]) toks svs = toks @ svs"
  by (induction svs arbitrary: toks) auto

lemma tokenize_keep: "str \<noteq> [] \<Longrightarrow> tokenize str delim True = dropWhile (\<lambda>sv. sv = []) (split_view delim str)"
proof -
  have "foldl (\<lambda>tokens sv. if sv = [] \<and> (\<not> True \<or> tokens = []) then tokens else tokens @ [sv]) [] svs
      = dropWhile (\<lambda>sv. sv = []) svs" for svs :: "string list"
    by (induction svs) (auto simp: tokenize_fold_nonempty [simplified])
  then show "str \<noteq> [] \<Longrightarrow> ?thesis" by (simp add: tokenize_def)
qed

lemma tokenize_drop: "tokenize str delim False = filter (\<lambda>sv. sv \<noteq> []) (if str = [] then [] else split_view delim str)"
proof -
  have "foldl (\<lambda>tokens sv. if sv = [] \<and> (\<not> False \<or> tokens = []) then tokens else tokens @ [sv]) toks svs
      = toks @ filter (\<lambda>sv. sv \<noteq> []) svs" for toks svs :: "string list"
    by (induction svs arbitrary: toks) auto
  then show ?thesis by (simp add: tokenize_def)
qed

subsection \<open>Reading back what was printed\<close>

text \<open>
  An object prints unambiguously when its keys are not empty, every entry has a value, and no
  key or value holds the delimiter or a line break.
\<close>

definition field_ok :: "char \<Rightarrow> string \<Rightarrow> bool" where
  "field_ok c v \<longleftrightarrow> c \<notin> set v \<and> CHR 0x0A \<notin> set v"

definition text_ok :: "char \<Rightarrow> text_data \<Rightarrow> bool" where
  "text_ok c d \<longleftrightarrow> list_all (\<lambda>(k, vs). k \<noteq> [] \<and> field_ok c k \<and> vs \<noteq> [] \<and> list_all (field_ok c) vs) d"

definition line_of :: "char \<Rightarrow> string \<times> string list \<Rightarrow> string" where
  "line_of c p = join [c] (fst p # snd p)"

lemma join_Cons: "join d (k # vs) = k @ concat (map (\<lambda>t. d @ t) vs)"
  by (induction vs arbitrary: k) auto

lemma append_char: "(@) [c] = (#) c"
  by (rule ext) simp

lemma join_map_Cons:
  "join d (x # xs) = x @ (if xs = [] then [] else d @ join d xs)"
  by (cases xs) auto

lemma set_join: "set (join d vs) \<subseteq> (\<Union>v\<in>set vs. set v) \<union> set d"
  by (induction d vs rule: join.induct) auto

lemma raw_lines: "text_ok c d \<Longrightarrow> get_raw [c] [] d = join newline (map (line_of c) d)"
proof (induction "[c]" "[] :: string" d rule: get_raw.induct)
  case 1
  show ?case by simp
next
  case (2 key vals d)
  then show ?case
    by (cases d) (auto simp: text_ok_def line_of_def join_Cons join_map_Cons append_char)
qed

lemma parse_line_of:
  assumes "k \<noteq> []" "field_ok c k" "vs \<noteq> []" "list_all (field_ok c) vs"
  shows "parse_line [c] (line_of c (k, vs)) = [(k, vs)]"
proof -
  have "\<forall>v \<in> set (k # vs). c \<notin> set v" using assms by (auto simp: field_ok_def list_all_iff)
  then have "split_view [c] (line_of c (k, vs)) = k # vs"
    by (simp add: line_of_def split_view_join)
  moreover have "line_of c (k, vs) \<noteq> []" using assms by (simp add: line_of_def join_Cons)
  ultimately show ?thesis
    using assms by (cases vs) (auto simp: parse_line_def tokenize_keep)
qed

lemma line_of_no_newline:
  assumes "c \<noteq> CHR 0x0A" "field_ok c k" "list_all (field_ok c) vs"
  shows "CHR 0x0A \<notin> set (line_of c (k, vs))"
  using assms set_join [of "[c]" "k # vs"]
  by (auto simp: line_of_def field_ok_def list_all_iff)

theorem parse_get_raw:
  assumes "c \<noteq> CHR 0x0A" and ok: "text_ok c d"
  shows "parse (get_raw [c] [] d) [c] = d"
proof (cases d)
  case Nil
  then show ?thesis by (simp add: parse_def tokenize_def)
next
  case (Cons p ps)
  let ?ls = "map (line_of c) d"
  have nl: "\<forall>l \<in> set ?ls. CHR 0x0A \<notin> set l"
    using ok line_of_no_newline [OF assms(1)] by (fastforce simp: text_ok_def list_all_iff)
  have "hd ?ls \<noteq> []"
    using ok Cons by (auto simp: text_ok_def line_of_def join_Cons)
  then have "join newline ?ls \<noteq> []" and "dropWhile (\<lambda>sv. sv = []) ?ls = ?ls"
    using Cons by (auto simp: join_map_Cons)
  then have "tokenize (join newline ?ls) newline True = ?ls"
    using nl Cons by (simp add: tokenize_keep split_view_join del: list.map)
  moreover have "concat (map (parse_line [c]) ?ls) = d"
    using ok by (induction d) (auto simp: text_ok_def parse_line_of)
  ultimately show ?thesis
    using raw_lines [OF ok] by (simp add: parse_def)
qed

subsection \<open>A keyed store\<close>

definition distinct_keys :: "text_data \<Rightarrow> bool" where
  "distinct_keys d = distinct (map fst d)"

lemma map_of_set_val: "map_of (set_val d k v) = (map_of d)(k \<mapsto> v)"
  by (induction d) (auto simp: fun_eq_iff)

lemma map_of_remove_key: "distinct_keys d \<Longrightarrow> map_of (remove_key d k) = (map_of d)(k := None)"
  by (induction d) (auto simp: distinct_keys_def fun_eq_iff map_of_eq_None_iff image_iff dest: weak_map_of_SomeI)

lemma keys_set_val: "fst ` set (set_val d k v) = insert k (fst ` set d)"
  by (induction d k v rule: set_val.induct) (simp_all add: insert_commute)

lemma keys_remove_key: "fst ` set (remove_key d k) \<subseteq> fst ` set d"
proof (induction d k rule: remove_key.induct)
  case (2 k v d key)
  then show ?case by (simp add: subset_insertI2 subset_insertI)
qed simp

lemma distinct_set_val: "distinct_keys d \<Longrightarrow> distinct_keys (set_val d k v)"
proof (induction d k v rule: set_val.induct)
  case (2 k v d key vals)
  then show ?case using keys_set_val [of d key vals] by (auto simp: distinct_keys_def)
qed (simp add: distinct_keys_def)

lemma distinct_remove_key: "distinct_keys d \<Longrightarrow> distinct_keys (remove_key d k)"
proof (induction d k rule: remove_key.induct)
  case (2 k v d key)
  then show ?case using keys_remove_key [of d key] by (auto simp: distinct_keys_def)
qed simp

interpretation tp: keyed_store map_of "\<lambda>k v d. set_val d k v" "\<lambda>k d. remove_key d k" distinct_keys
  by unfold_locales
    (simp_all add: map_of_set_val map_of_remove_key distinct_set_val distinct_remove_key)

lemma contains_iff: "contains d k \<longleftrightarrow> map_of d k \<noteq> None"
  by (induction d) (auto simp: contains_def)

lemma map_of_add: "map_of (add d k vs) = [k \<mapsto> vs] ++ map_of d"
  by (simp add: add_def map_of_append)

subsection \<open>Properties\<close>

text \<open>A text object whose fields hold neither the delimiter nor a line break is recovered from
  its printed form.\<close>

theorem text_roundtrip:
  assumes "c \<noteq> CHR 0x0A" and "text_ok c d"
  shows "parse (get_raw [c] [] d) [c] = d"
  by (rule parse_get_raw [OF assms])

theorem text_roundtrip_witness:
  "parse (raw [(''action'', [''join_request'']), (''name'', [[]])]) bar =
    [(''action'', [''join_request'']), (''name'', [[]])]"
  by (rule text_roundtrip) (simp_all add: text_ok_def field_ok_def)

text \<open>\<open>set\<close> and \<open>remove\<close> act as an update and a deletion on what \<open>get\<close> and \<open>contains\<close> see, and
  keep the keys distinct.\<close>

theorem text_store:
  assumes "distinct_keys d"
  shows "get (set_val d k vs) k' i = (if k' = k then get [(k, vs)] k i else get d k' i) \<and>
    contains (set_val d k vs) k' = (k' = k \<or> contains d k') \<and>
    get (remove_key d k) k' i = (if k' = k then [] else get d k' i) \<and>
    contains (remove_key d k) k' = (k' \<noteq> k \<and> contains d k') \<and>
    distinct_keys (set_val d k vs) \<and> distinct_keys (remove_key d k)"
  using assms tp.inv_update tp.inv_delete
  by (simp add: get_def contains_iff tp.lookup_update tp.lookup_delete)

theorem text_store_witness:
  "get (set_val [(''a'', [''1'']), (''b'', [''2''])] ''b'' [''3'']) ''b'' 0 = ''3''"
  using text_store [of "[(''a'', [''1'']), (''b'', [''2''])]" "''b''" "[''3'']" "''b''" 0]
  by (simp add: distinct_keys_def get_def)

end
