(* ===== verification/Hash.thy ===== *)
theory Hash
  imports Prelude
begin

text \<open>
  \<open>utils::hash\<close> (\<open>src/utils/hash.hpp\<close>): the FNV-1a hash the string switches use and the
  \<open>proton\<close> hash of item files. \<open>char\<close> is signed on the targets, so FNV-1a sign-extends a
  character before mixing it in.
\<close>

definition fnv1a_32 :: "string \<Rightarrow> u32 \<Rightarrow> u32" where
  "fnv1a_32 str hash = foldl (\<lambda>h c. (h XOR scast (byte_of_char c)) * 0x01000193) hash str"

text \<open>One round of the loop of \<open>proton\<close>.\<close>

definition proton_round :: "u32 \<Rightarrow> byte \<Rightarrow> u32" where
  "proton_round hash b = drop_bit 27 hash + push_bit 5 hash + ucast b"

text \<open>\<open>std::strlen\<close>: \<open>None\<close> when the object holds no terminator, where the scan leaves it.\<close>

fun strlen :: "bytes \<Rightarrow> nat option" where
  "strlen [] = None"
| "strlen (b # bs) = (if b = 0 then Some 0 else map_option Suc (strlen bs))"

text \<open>
  \<open>proton\<close>: the null pointer is \<open>None\<close>, an object is its bytes. The length 0 is read as
  \<open>strlen\<close>, and a length beyond the object is a fault.
\<close>

definition proton :: "bytes option \<Rightarrow> nat \<Rightarrow> u32 option" where
  "proton data len =
     (case data of
        None \<Rightarrow> Some 0x55555555
      | Some d \<Rightarrow> do {
          n \<leftarrow> (if len = 0 then strlen d else Some len);
          if n \<le> length d then Some (foldl proton_round 0x55555555 (take n d)) else None
        })"

text \<open>
  \<open>proton_file\<close>: \<open>None\<close> for a file that does not open, whose hash is 0. The buffer of an empty
  file is an empty vector, whose \<open>data()\<close> is the null pointer or points at nothing; the
  first choice is that of the standard libraries the program is built with.
\<close>

definition proton_file :: "bytes option \<Rightarrow> u32 option" where
  "proton_file file =
     (case file of
        None \<Rightarrow> Some 0
      | Some bs \<Rightarrow> proton (if bs = [] then None else Some bs) (length bs))"

subsection \<open>The proton round is a rotation\<close>

lemma proton_round_rotl: "proton_round h b = word_rotl 5 h + ucast b"
proof -
  have "drop_bit 27 h + push_bit 5 h = drop_bit 27 h OR push_bit 5 h"
    by (rule disjunctive_add) (auto simp: bit_drop_bit_eq bit_push_bit_iff dest: bit_imp_le_length)
  also have "\<dots> = word_rotl 5 h"
  proof (rule bit_word_eqI)
    fix n assume n: "n < LENGTH(32)"
    show "bit (drop_bit 27 h OR push_bit 5 h) n = bit (word_rotl 5 h) n"
    proof (cases "n < 5")
      case True
      then show ?thesis
        by (simp add: bit_or_iff bit_drop_bit_eq bit_push_bit_iff bit_word_rotl_iff add.commute)
    next
      case False
      with n have "\<not> bit h (27 + n)" "(n + 27) mod 32 = n - 5"
        by (auto dest: bit_imp_le_length simp: mod_if)
      with False n show ?thesis
        by (simp add: bit_or_iff bit_drop_bit_eq bit_push_bit_iff bit_word_rotl_iff)
    qed
  qed
  finally show ?thesis by (simp add: proton_round_def)
qed

lemma proton_bytes:
  "d \<noteq> [] \<Longrightarrow> proton (Some d) (length d) = Some (foldl (\<lambda>h b. word_rotl 5 h + ucast b) 0x55555555 d)"
  by (simp add: proton_def proton_round_rotl [abs_def])

lemma strlen_terminated: "0 \<notin> set d \<Longrightarrow> strlen (d @ 0 # rest) = Some (length d)"
  by (induction d) auto

lemma strlen_bound: "strlen d = Some n \<Longrightarrow> n < length d"
  by (induction d arbitrary: n) (auto split: if_splits)

lemma fnv1a_append: "fnv1a_32 (s @ t) h = fnv1a_32 t (fnv1a_32 s h)"
  by (simp add: fnv1a_32_def)

subsection \<open>Properties\<close>

text \<open>The hash of a non-empty buffer is the fold of rotate-by-five-and-add over its bytes, and
  the length 0 means up to the terminator.\<close>

theorem proton_hash:
  assumes "d \<noteq> []" and "0 \<notin> set d"
  shows "proton (Some d) (length d) = Some (foldl (\<lambda>h b. word_rotl 5 h + ucast b) 0x55555555 d) \<and>
    proton (Some (d @ 0 # rest)) 0 = proton (Some d) (length d)"
  using assms by (simp add: proton_bytes) (simp add: proton_def strlen_terminated proton_round_rotl [abs_def])

theorem proton_hash_witness: "proton (Some [1, 0, 7]) 0 = proton (Some [1]) (length [1 :: byte])"
  using proton_hash [of "[1]" "[7]"] by simp

end
