(* ===== verification/TileExtra.thy ===== *)
theory TileExtra
  imports ByteStream
begin

text \<open>
  \<open>src/world/tile_extra.hpp\<close> and \<open>tile_extra.cpp\<close>: the extra data of a tile. The data of a type
  the code knows is read into its struct; of the others the bytes are skipped. Several structs are
  local variables without an initialiser: what they hold before the read is a parameter, a function
  of the cursor and the member's name.
\<close>

subsection \<open>Types and data\<close>

text \<open>\<open>enum class Type : std::uint8_t\<close>, as far as the code tests it.\<close>

abbreviation Type_Door :: u8 where "Type_Door \<equiv> 1"
abbreviation Type_Sign :: u8 where "Type_Sign \<equiv> 2"
abbreviation Type_Lock :: u8 where "Type_Lock \<equiv> 3"
abbreviation Type_Seed :: u8 where "Type_Seed \<equiv> 4"
abbreviation Type_Dice :: u8 where "Type_Dice \<equiv> 8"
abbreviation Type_Provider :: u8 where "Type_Provider \<equiv> 9"
abbreviation Type_Achievement :: u8 where "Type_Achievement \<equiv> 10"
abbreviation Type_HeartMonitor :: u8 where "Type_HeartMonitor \<equiv> 11"
abbreviation Type_BunnyEgg :: u8 where "Type_BunnyEgg \<equiv> 15"
abbreviation Type_GameGen :: u8 where "Type_GameGen \<equiv> 17"
abbreviation Type_Xenonite :: u8 where "Type_Xenonite \<equiv> 18"
abbreviation Type_Crystal :: u8 where "Type_Crystal \<equiv> 20"
abbreviation Type_Burglar :: u8 where "Type_Burglar \<equiv> 21"
abbreviation Type_DisplayBlock :: u8 where "Type_DisplayBlock \<equiv> 23"
abbreviation Type_Vending :: u8 where "Type_Vending \<equiv> 24"
abbreviation Type_Solar :: u8 where "Type_Solar \<equiv> 25"
abbreviation Type_Deco :: u8 where "Type_Deco \<equiv> 28"
abbreviation Type_SewingMachine :: u8 where "Type_SewingMachine \<equiv> 32"
abbreviation Type_CountryFlag :: u8 where "Type_CountryFlag \<equiv> 33"
abbreviation Type_BattleCage :: u8 where "Type_BattleCage \<equiv> 36"
abbreviation Type_WeatherSpecial :: u8 where "Type_WeatherSpecial \<equiv> 40"
abbreviation Type_VipEntrance :: u8 where "Type_VipEntrance \<equiv> 44"
abbreviation Type_GeigerCharger :: u8 where "Type_GeigerCharger \<equiv> 57"

text \<open>\<open>Variant\<close>: one constructor for each struct, with the members in their order.\<close>

datatype extra_data =
    Monostate
  | Door string u8
  | Sign string u32
  | Lock u8 u32 "u32 list"
  | Seed u32 u8
  | Dice u8
  | Provider u32 u32
  | Achievement u32 u8
  | HeartMonitor u32 string
  | BunnyEgg u32
  | GameGen u8
  | Xenonite u8 u32
  | Crystal string
  | Burglar string u32 u8
  | DisplayBlock u32
  | Vending u32 u32
  | Solar u8 u32 "u32 list"
  | Deco u8 u32 u8
  | SewingMachine u32
  | CountryFlag string
  | BattleCage string u32 u32 u32
  | WeatherSpecial u32
  | VipEntrance u8 u32 "u32 list"
  | GeigerCharger u32
  | Unknown bytes

record TileExtra =
  extra_type :: u8
  extra_value :: extra_data

definition new_TileExtra :: TileExtra where
  "new_TileExtra = \<lparr>extra_type = 0, extra_value = Monostate\<rparr>"

definition has_value :: "TileExtra \<Rightarrow> bool" where
  "has_value x \<longleftrightarrow> extra_value x \<noteq> Monostate"

subsection \<open>The readers\<close>

type_synonym junk = "u64 \<Rightarrow> string \<Rightarrow> u32"

text \<open>The value of an uninitialised member when its read begins.\<close>

definition junk_of :: "junk \<Rightarrow> string \<Rightarrow> bstream \<Rightarrow> 'a::len word" where
  "junk_of J n s = ucast (J (read_offset s) n)"

definition rd_raw :: "junk \<Rightarrow> string \<Rightarrow> bstream \<Rightarrow> ('a::len word \<times> bstream) option" where
  "rd_raw J n s = rd (junk_of J n s) s"

definition skips :: "u64 \<Rightarrow> bstream \<Rightarrow> (unit \<times> bstream) option" where
  "skips n s = Some ((), skip n s)"

text \<open>\<open>v.resize(n)\<close> and a read into each element.\<close>

definition rd_list :: "u32 \<Rightarrow> bstream \<Rightarrow> (u32 list \<times> bstream) option" where
  "rd_list n s = rd_seq (\<lambda>_. rd 0) (replicate (unat n) ()) s"

type_synonym extra_reader = "bstream \<Rightarrow> (extra_data \<times> bstream) option"

definition serialize_door :: extra_reader where
  "serialize_door s = do {
     (label, s) \<leftarrow> rd_str (0 :: u16) [] s;
     (unk, s) \<leftarrow> rd 0 s;
     Some (Door label unk, s)
   }"

definition serialize_sign :: extra_reader where
  "serialize_sign s = do {
     (label, s) \<leftarrow> rd_str (0 :: u16) [] s;
     (unk, s) \<leftarrow> rd 0 s;
     Some (Sign label unk, s)
   }"

definition serialize_lock :: "u16 \<Rightarrow> extra_reader" where
  "serialize_lock fg s = do {
     (unk, s) \<leftarrow> rd 0 s;
     (owner_id, s) \<leftarrow> rd 0 s;
     (access_size, s) \<leftarrow> rd 0 s;
     (accesses, s) \<leftarrow> rd_list access_size s;
     (_, s) \<leftarrow> skips 8 s;
     (_, s) \<leftarrow> (if fg = 5814 then skips 16 s else Some ((), s));
     Some (Lock unk owner_id accesses, s)
   }"

definition serialize_seed :: "junk \<Rightarrow> extra_reader" where
  "serialize_seed J s = do {
     (growth_time, s) \<leftarrow> rd_raw J ''growth_time'' s;
     (fruit_count, s) \<leftarrow> rd_raw J ''fruit_count'' s;
     Some (Seed growth_time fruit_count, s)
   }"

definition serialize_dice :: "junk \<Rightarrow> extra_reader" where
  "serialize_dice J s = do { (number, s) \<leftarrow> rd_raw J ''number'' s; Some (Dice number, s) }"

definition serialize_provider :: "junk \<Rightarrow> u16 \<Rightarrow> u16 \<Rightarrow> extra_reader" where
  "serialize_provider J fg version s = do {
     (unk, s) \<leftarrow> rd_raw J ''unk'' s;
     if fg \<noteq> 5318 \<and> (fg \<noteq> 10656 \<or> version < 17) then Some (Provider unk (junk_of J ''unk2'' s), s)
     else do {
       (unk2, s) \<leftarrow> rd_raw J ''unk2'' s;
       Some (Provider unk unk2, s)
     }
   }"

definition serialize_achievement :: "junk \<Rightarrow> extra_reader" where
  "serialize_achievement J s = do {
     (unk, s) \<leftarrow> rd_raw J ''unk'' s;
     (unk2, s) \<leftarrow> rd_raw J ''unk2'' s;
     Some (Achievement unk unk2, s)
   }"

definition serialize_heart_monitor :: "junk \<Rightarrow> extra_reader" where
  "serialize_heart_monitor J s = do {
     (unk, s) \<leftarrow> rd_raw J ''unk'' s;
     (label, s) \<leftarrow> rd_str (0 :: u16) [] s;
     Some (HeartMonitor unk label, s)
   }"

definition serialize_bunny_egg :: "junk \<Rightarrow> extra_reader" where
  "serialize_bunny_egg J s = do { (unk, s) \<leftarrow> rd_raw J ''unk'' s; Some (BunnyEgg unk, s) }"

definition serialize_game_gen :: "junk \<Rightarrow> extra_reader" where
  "serialize_game_gen J s = do { (unk, s) \<leftarrow> rd_raw J ''unk'' s; Some (GameGen unk, s) }"

definition serialize_xenonite :: "junk \<Rightarrow> extra_reader" where
  "serialize_xenonite J s = do {
     (unk, s) \<leftarrow> rd_raw J ''unk'' s;
     (unk2, s) \<leftarrow> rd_raw J ''unk2'' s;
     Some (Xenonite unk unk2, s)
   }"

definition serialize_crystal :: extra_reader where
  "serialize_crystal s = do { (unk, s) \<leftarrow> rd_str (0 :: u16) [] s; Some (Crystal unk, s) }"

definition serialize_burglar :: "junk \<Rightarrow> extra_reader" where
  "serialize_burglar J s = do {
     (unk, s) \<leftarrow> rd_str (0 :: u16) [] s;
     (unk2, s) \<leftarrow> rd_raw J ''unk2'' s;
     (unk3, s) \<leftarrow> rd_raw J ''unk3'' s;
     Some (Burglar unk unk2 unk3, s)
   }"

definition serialize_display_block :: "junk \<Rightarrow> extra_reader" where
  "serialize_display_block J s = do { (i, s) \<leftarrow> rd_raw J ''item_id'' s; Some (DisplayBlock i, s) }"

definition serialize_vending :: "junk \<Rightarrow> extra_reader" where
  "serialize_vending J s = do {
     (i, s) \<leftarrow> rd_raw J ''item_id'' s;
     (price, s) \<leftarrow> rd_raw J ''price'' s;
     Some (Vending i price, s)
   }"

definition serialize_solar :: "junk \<Rightarrow> extra_reader" where
  "serialize_solar J s = do {
     (unk, s) \<leftarrow> rd_raw J ''unk'' s;
     (unk2, s) \<leftarrow> rd_raw J ''unk2'' s;
     (unk3, s) \<leftarrow> rd_list unk2 s;
     Some (Solar unk unk2 unk3, s)
   }"

definition serialize_deco :: "junk \<Rightarrow> extra_reader" where
  "serialize_deco J s = do {
     (unk, s) \<leftarrow> rd_raw J ''unk'' s;
     (unk2, s) \<leftarrow> rd_raw J ''unk2'' s;
     (unk3, s) \<leftarrow> rd_raw J ''unk3'' s;
     Some (Deco unk unk2 unk3, s)
   }"

definition serialize_sewing_machine :: "junk \<Rightarrow> extra_reader" where
  "serialize_sewing_machine J s = do { (unk, s) \<leftarrow> rd_raw J ''unk'' s; Some (SewingMachine unk, s) }"

definition serialize_country_flag :: extra_reader where
  "serialize_country_flag s = do { (flag, s) \<leftarrow> rd_str (0 :: u16) [] s; Some (CountryFlag flag, s) }"

definition serialize_battle_cage :: "junk \<Rightarrow> extra_reader" where
  "serialize_battle_cage J s = do {
     (label, s) \<leftarrow> rd_str (0 :: u16) [] s;
     (pet1, s) \<leftarrow> rd_raw J ''pet1'' s;
     (pet2, s) \<leftarrow> rd_raw J ''pet2'' s;
     (pet3, s) \<leftarrow> rd_raw J ''pet3'' s;
     Some (BattleCage label pet1 pet2 pet3, s)
   }"

definition serialize_weather_special :: "junk \<Rightarrow> extra_reader" where
  "serialize_weather_special J s = do { (color, s) \<leftarrow> rd_raw J ''color'' s; Some (WeatherSpecial color, s) }"

definition serialize_vip_entrance :: "junk \<Rightarrow> extra_reader" where
  "serialize_vip_entrance J s = do {
     (unk, s) \<leftarrow> rd_raw J ''unk'' s;
     (owner_id, s) \<leftarrow> rd_raw J ''owner_id'' s;
     (access_size, s) \<leftarrow> rd 0 s;
     (accesses, s) \<leftarrow> rd_list access_size s;
     Some (VipEntrance unk owner_id accesses, s)
   }"

definition serialize_geiger_charger :: "junk \<Rightarrow> extra_reader" where
  "serialize_geiger_charger J s = do { (unk, s) \<leftarrow> rd_raw J ''unk'' s; Some (GeigerCharger unk, s) }"

text \<open>The string and the counted block that are read only to be skipped.\<close>

definition skip_string :: "bstream \<Rightarrow> (unit \<times> bstream) option" where
  "skip_string s = do { (_, s) \<leftarrow> rd_str (0 :: u16) [] s; Some ((), s) }"

definition skip_counted :: "junk \<Rightarrow> u32 \<Rightarrow> bstream \<Rightarrow> (unit \<times> bstream) option" where
  "skip_counted J sz s = do {
     (count, s) \<leftarrow> rd_raw J ''count'' s;
     skips (ucast (count * sz)) s
   }"

definition handle_unknown_type :: "junk \<Rightarrow> u8 \<Rightarrow> bstream \<Rightarrow> (unit \<times> bstream) option" where
  "handle_unknown_type J t s =
     (if t = 14 then do { (_, s) \<leftarrow> skip_string s; skips 23 s }
      else if t = 19 then skips 18 s
      else if t = 27 then skips 4 s
      else if t = 30 then skips 5 s
      else if t = 35 then do { (_, s) \<leftarrow> skips 4 s; skip_string s }
      else if t = 39 then skips 4 s
      else if t = 42 then skips 21 s
      else if t = 43 then skips 16 s
      else if t = 48 then do { (_, s) \<leftarrow> skip_string s; skips 26 s }
      else if t = 49 then skips 9 s
      else if t = 55 then do { (_, s) \<leftarrow> skip_counted J 4 s; skips 16 s }
      else if t = 56 then do { (_, s) \<leftarrow> skip_string s; skips 4 s }
      else if t = 58 then Some ((), s)
      else if t = 61 then skips 35 s
      else if t = 62 then skips 14 s
      else if t = 63 then do { (_, s) \<leftarrow> skip_counted J 15 s; skips 8 s }
      else if t = 65 then skips 17 s
      else if t = 66 then skips 1 s
      else if t = 69 then skips 16 s
      else if t = 71 then skips 44 s
      else if t = 72 then skips 12 s
      else if t = 73 then skips 4 s
      else if t = 74 then Some ((), s)
      else if t = 75 then do { (_, s) \<leftarrow> skips 104 s; (_, s) \<leftarrow> skips 104 s; skips 104 s }
      else if t = 77 then do { (_, s) \<leftarrow> skips 4 s; skip_counted J 4 s }
      else if t = 81 then skips 8 s
      else Some ((), s))"

text \<open>The cases of the switch with a struct.\<close>

definition extra_reader_of :: "junk \<Rightarrow> u16 \<Rightarrow> u16 \<Rightarrow> u8 \<Rightarrow> extra_reader option" where
  "extra_reader_of J version fg t =
     (if t = Type_Door then Some serialize_door
      else if t = Type_Sign then Some serialize_sign
      else if t = Type_Lock then Some (serialize_lock fg)
      else if t = Type_Seed then Some (serialize_seed J)
      else if t = Type_Dice then Some (serialize_dice J)
      else if t = Type_Provider then Some (serialize_provider J fg version)
      else if t = Type_Achievement then Some (serialize_achievement J)
      else if t = Type_HeartMonitor then Some (serialize_heart_monitor J)
      else if t = Type_BunnyEgg then Some (serialize_bunny_egg J)
      else if t = Type_GameGen then Some (serialize_game_gen J)
      else if t = Type_Xenonite then Some (serialize_xenonite J)
      else if t = Type_Crystal then Some serialize_crystal
      else if t = Type_Burglar then Some (serialize_burglar J)
      else if t = Type_DisplayBlock then Some (serialize_display_block J)
      else if t = Type_Vending then Some (serialize_vending J)
      else if t = Type_Solar then Some (serialize_solar J)
      else if t = Type_Deco then Some (serialize_deco J)
      else if t = Type_SewingMachine then Some (serialize_sewing_machine J)
      else if t = Type_CountryFlag then Some serialize_country_flag
      else if t = Type_BattleCage then Some (serialize_battle_cage J)
      else if t = Type_WeatherSpecial then Some (serialize_weather_special J)
      else if t = Type_VipEntrance then Some (serialize_vip_entrance J)
      else if t = Type_GeigerCharger then Some (serialize_geiger_charger J)
      else None)"

definition TileExtra_serialize ::
  "junk \<Rightarrow> u16 \<Rightarrow> u16 \<Rightarrow> u16 \<Rightarrow> TileExtra \<Rightarrow> bstream \<Rightarrow> (TileExtra \<times> bstream) option"
where
  "TileExtra_serialize J version fg bg x s = do {
     (ok, t, s) \<leftarrow> read_word 0 s;
     if \<not> ok then Some (x, s)
     else case extra_reader_of J version fg t of
       Some f \<Rightarrow> do { (d, s) \<leftarrow> f s; Some (x\<lparr>extra_type := t, extra_value := d\<rparr>, s) }
     | None \<Rightarrow> do { (_, s) \<leftarrow> handle_unknown_type J t s; Some (x\<lparr>extra_type := t\<rparr>, s) }
   }"

subsection \<open>The format\<close>

fun data_type :: "extra_data \<Rightarrow> u8" where
  "data_type Monostate = 0"
| "data_type (Door _ _) = Type_Door"
| "data_type (Sign _ _) = Type_Sign"
| "data_type (Lock _ _ _) = Type_Lock"
| "data_type (Seed _ _) = Type_Seed"
| "data_type (Dice _) = Type_Dice"
| "data_type (Provider _ _) = Type_Provider"
| "data_type (Achievement _ _) = Type_Achievement"
| "data_type (HeartMonitor _ _) = Type_HeartMonitor"
| "data_type (BunnyEgg _) = Type_BunnyEgg"
| "data_type (GameGen _) = Type_GameGen"
| "data_type (Xenonite _ _) = Type_Xenonite"
| "data_type (Crystal _) = Type_Crystal"
| "data_type (Burglar _ _ _) = Type_Burglar"
| "data_type (DisplayBlock _) = Type_DisplayBlock"
| "data_type (Vending _ _) = Type_Vending"
| "data_type (Solar _ _ _) = Type_Solar"
| "data_type (Deco _ _ _) = Type_Deco"
| "data_type (SewingMachine _) = Type_SewingMachine"
| "data_type (CountryFlag _) = Type_CountryFlag"
| "data_type (BattleCage _ _ _ _) = Type_BattleCage"
| "data_type (WeatherSpecial _) = Type_WeatherSpecial"
| "data_type (VipEntrance _ _ _) = Type_VipEntrance"
| "data_type (GeigerCharger _) = Type_GeigerCharger"
| "data_type (Unknown _) = 0"

definition enc_list :: "u32 list \<Rightarrow> bytes" where
  "enc_list ws = concat (map le_bytes ws)"

text \<open>The bytes behind the type, with zeros where the reader skips.\<close>

fun enc_data :: "u16 \<Rightarrow> extra_data \<Rightarrow> bytes" where
  "enc_data fg Monostate = []"
| "enc_data fg (Door l u) = enc_string TYPE(16) l @ le_bytes u"
| "enc_data fg (Sign l u) = enc_string TYPE(16) l @ le_bytes u"
| "enc_data fg (Lock u i a) = le_bytes u @ le_bytes i @ le_bytes (word_of_nat (length a) :: u32) @
     enc_list a @ replicate 8 0 @ (if fg = 5814 then replicate 16 0 else [])"
| "enc_data fg (Seed t n) = le_bytes t @ le_bytes n"
| "enc_data fg (Dice n) = le_bytes n"
| "enc_data fg (Provider u v) = le_bytes u @ le_bytes v"
| "enc_data fg (Achievement u v) = le_bytes u @ le_bytes v"
| "enc_data fg (HeartMonitor u l) = le_bytes u @ enc_string TYPE(16) l"
| "enc_data fg (BunnyEgg u) = le_bytes u"
| "enc_data fg (GameGen u) = le_bytes u"
| "enc_data fg (Xenonite u v) = le_bytes u @ le_bytes v"
| "enc_data fg (Crystal l) = enc_string TYPE(16) l"
| "enc_data fg (Burglar l u v) = enc_string TYPE(16) l @ le_bytes u @ le_bytes v"
| "enc_data fg (DisplayBlock i) = le_bytes i"
| "enc_data fg (Vending i p) = le_bytes i @ le_bytes p"
| "enc_data fg (Solar u v w) = le_bytes u @ le_bytes v @ enc_list w"
| "enc_data fg (Deco u v w) = le_bytes u @ le_bytes v @ le_bytes w"
| "enc_data fg (SewingMachine u) = le_bytes u"
| "enc_data fg (CountryFlag l) = enc_string TYPE(16) l"
| "enc_data fg (BattleCage l x y z) = enc_string TYPE(16) l @ le_bytes x @ le_bytes y @ le_bytes z"
| "enc_data fg (WeatherSpecial c) = le_bytes c"
| "enc_data fg (VipEntrance u i a) = le_bytes u @ le_bytes i @
     le_bytes (word_of_nat (length a) :: u32) @ enc_list a"
| "enc_data fg (GeigerCharger u) = le_bytes u"
| "enc_data fg (Unknown d) = []"

text \<open>
  Data a file can hold: strings and lists fit their length word, and the second member of a
  provider is there only for some foregrounds.
\<close>

fun data_ok :: "u16 \<Rightarrow> u16 \<Rightarrow> extra_data \<Rightarrow> bool" where
  "data_ok version fg (Door l _) = (length l < 65536)"
| "data_ok version fg (Sign l _) = (length l < 65536)"
| "data_ok version fg (Lock _ _ a) = (length a < 2 ^ 32)"
| "data_ok version fg (Provider _ _) = (fg = 5318 \<or> fg = 10656 \<and> version \<ge> 17)"
| "data_ok version fg (HeartMonitor _ l) = (length l < 65536)"
| "data_ok version fg (Crystal l) = (length l < 65536)"
| "data_ok version fg (Burglar l _ _) = (length l < 65536)"
| "data_ok version fg (Solar _ n a) = (unat n = length a)"
| "data_ok version fg (CountryFlag l) = (length l < 65536)"
| "data_ok version fg (BattleCage l _ _ _) = (length l < 65536)"
| "data_ok version fg (VipEntrance _ _ a) = (length a < 2 ^ 32)"
| "data_ok version fg (Unknown d) = False"
| "data_ok version fg _ = True"

lemma reads_bindI:
  assumes "reads (g x) y cs" and "reads f x bs" and "ds = bs @ cs"
  shows "reads (\<lambda>s. f s \<bind> (\<lambda>(x, s). g x s)) y ds"
  using reads_bind [of f x bs g y cs] assms by simp

lemma reads_raw:
  "8 dvd LENGTH('a) \<Longrightarrow> LENGTH('a) < 2 ^ 64 \<Longrightarrow> reads (rd_raw J n :: _ \<Rightarrow> ('a::len word \<times> _) option) w (le_bytes w)"
  unfolding reads_def rd_raw_def using reads_rd [unfolded reads_def] by blast

lemma reads_skips: "length pad = unat n \<Longrightarrow> reads (skips n) () pad"
  using reads_skip [of pad n] by (simp add: reads_def skips_def)

lemma reads_list: "unat n = length ws \<Longrightarrow> reads (rd_list n) ws (enc_list ws)"
proof -
  assume n: "unat n = length ws"
  have "list_all2 (\<lambda>w y. reads (rd 0) w (le_bytes w)) ws (replicate (unat n) ())"
    by (simp add: list_all2_conv_all_nth n reads_rd)
  from reads_seq [OF this] show ?thesis
    unfolding rd_list_def [abs_def] enc_list_def by (simp add: reads_def)
qed

lemma reads_guarded:
  "reads (if b then f else g) x (if b then bs else cs) \<Longrightarrow>
     reads (\<lambda>s. if b then f s else g s) x (if b then bs else cs)"
  by (cases b) (simp_all add: reads_def)

named_theorems extra_intros \<open>what the readers of extra data read\<close>

lemma reads_lock:
  assumes "length a < 2 ^ 32"
  shows "reads (serialize_lock fg) (Lock u i a) (enc_data fg (Lock u i a))"
proof -
  let ?n = "word_of_nat (length a) :: u32"
  have n: "unat ?n = length a"
    using assms by (simp add: unat_word_of_nat_lt)
  have pad: "reads (\<lambda>s. if fg = 5814 then skips 16 s else Some ((), s)) () (if fg = 5814 then replicate 16 0 else [])"
    using reads_skips [of "replicate 16 0" 16] by (simp add: reads_return)
  show ?thesis
    unfolding serialize_lock_def [abs_def]
    by (rule reads_bindI reads_return pad reads_skips [of "replicate 8 0"] reads_list [OF n] reads_rd refl | simp)+
qed

lemma reads_vip_entrance:
  assumes "length a < 2 ^ 32"
  shows "reads (serialize_vip_entrance J) (VipEntrance u i a) (enc_data fg (VipEntrance u i a))"
proof -
  let ?n = "word_of_nat (length a) :: u32"
  have n: "unat ?n = length a"
    using assms by (simp add: unat_word_of_nat_lt)
  show ?thesis
    unfolding serialize_vip_entrance_def [abs_def]
    by (rule reads_bindI reads_return reads_list [OF n] reads_raw reads_rd refl | simp)+
qed

text \<open>A chain of member reads reads its members.\<close>

lemmas reads_chain = reads_bindI reads_return reads_raw reads_rd reads_str reads_list refl

lemma reads_door [extra_intros]:
  "length l < 65536 \<Longrightarrow> reads serialize_door (Door l u) (enc_data fg (Door l u))"
  unfolding serialize_door_def [abs_def] by (rule reads_chain | simp)+

lemma reads_sign [extra_intros]:
  "length l < 65536 \<Longrightarrow> reads serialize_sign (Sign l u) (enc_data fg (Sign l u))"
  unfolding serialize_sign_def [abs_def] by (rule reads_chain | simp)+

lemma reads_seed [extra_intros]:
  "reads (serialize_seed J) (Seed t n) (enc_data fg (Seed t n))"
  unfolding serialize_seed_def [abs_def] by (rule reads_chain | simp)+

lemma reads_dice [extra_intros]:
  "reads (serialize_dice J) (Dice n) (enc_data fg (Dice n))"
  unfolding serialize_dice_def [abs_def] by (rule reads_chain | simp)+

lemma reads_achievement [extra_intros]:
  "reads (serialize_achievement J) (Achievement u v) (enc_data fg (Achievement u v))"
  unfolding serialize_achievement_def [abs_def] by (rule reads_chain | simp)+

lemma reads_heart_monitor [extra_intros]:
  "length l < 65536 \<Longrightarrow> reads (serialize_heart_monitor J) (HeartMonitor u l) (enc_data fg (HeartMonitor u l))"
  unfolding serialize_heart_monitor_def [abs_def] by (rule reads_chain | simp)+

lemma reads_bunny_egg [extra_intros]:
  "reads (serialize_bunny_egg J) (BunnyEgg u) (enc_data fg (BunnyEgg u))"
  unfolding serialize_bunny_egg_def [abs_def] by (rule reads_chain | simp)+

lemma reads_game_gen [extra_intros]:
  "reads (serialize_game_gen J) (GameGen u) (enc_data fg (GameGen u))"
  unfolding serialize_game_gen_def [abs_def] by (rule reads_chain | simp)+

lemma reads_xenonite [extra_intros]:
  "reads (serialize_xenonite J) (Xenonite u v) (enc_data fg (Xenonite u v))"
  unfolding serialize_xenonite_def [abs_def] by (rule reads_chain | simp)+

lemma reads_crystal [extra_intros]:
  "length l < 65536 \<Longrightarrow> reads serialize_crystal (Crystal l) (enc_data fg (Crystal l))"
  unfolding serialize_crystal_def [abs_def] by (rule reads_chain | simp)+

lemma reads_burglar [extra_intros]:
  "length l < 65536 \<Longrightarrow> reads (serialize_burglar J) (Burglar l u v) (enc_data fg (Burglar l u v))"
  unfolding serialize_burglar_def [abs_def] by (rule reads_chain | simp)+

lemma reads_display_block [extra_intros]:
  "reads (serialize_display_block J) (DisplayBlock i) (enc_data fg (DisplayBlock i))"
  unfolding serialize_display_block_def [abs_def] by (rule reads_chain | simp)+

lemma reads_vending [extra_intros]:
  "reads (serialize_vending J) (Vending i p) (enc_data fg (Vending i p))"
  unfolding serialize_vending_def [abs_def] by (rule reads_chain | simp)+

lemma reads_solar [extra_intros]:
  "unat n = length w \<Longrightarrow> reads (serialize_solar J) (Solar u n w) (enc_data fg (Solar u n w))"
  unfolding serialize_solar_def [abs_def] by (rule reads_chain | simp)+

lemma reads_deco [extra_intros]:
  "reads (serialize_deco J) (Deco u v w) (enc_data fg (Deco u v w))"
  unfolding serialize_deco_def [abs_def] by (rule reads_chain | simp)+

lemma reads_sewing_machine [extra_intros]:
  "reads (serialize_sewing_machine J) (SewingMachine u) (enc_data fg (SewingMachine u))"
  unfolding serialize_sewing_machine_def [abs_def] by (rule reads_chain | simp)+

lemma reads_country_flag [extra_intros]:
  "length l < 65536 \<Longrightarrow> reads serialize_country_flag (CountryFlag l) (enc_data fg (CountryFlag l))"
  unfolding serialize_country_flag_def [abs_def] by (rule reads_chain | simp)+

lemma reads_battle_cage [extra_intros]:
  "length l < 65536 \<Longrightarrow> reads (serialize_battle_cage J) (BattleCage l x y z) (enc_data fg (BattleCage l x y z))"
  unfolding serialize_battle_cage_def [abs_def] by (rule reads_chain | simp)+

lemma reads_weather_special [extra_intros]:
  "reads (serialize_weather_special J) (WeatherSpecial c) (enc_data fg (WeatherSpecial c))"
  unfolding serialize_weather_special_def [abs_def] by (rule reads_chain | simp)+

lemma reads_geiger_charger [extra_intros]:
  "reads (serialize_geiger_charger J) (GeigerCharger u) (enc_data fg (GeigerCharger u))"
  unfolding serialize_geiger_charger_def [abs_def] by (rule reads_chain | simp)+

lemma reads_provider [extra_intros]:
  assumes "fg = 5318 \<or> fg = 10656 \<and> version \<ge> 17"
  shows "reads (serialize_provider J fg version) (Provider u v) (enc_data fg (Provider u v))"
proof -
  have "(fg \<noteq> 5318 \<and> (fg \<noteq> 10656 \<or> version < 17)) = False" using assms by auto
  then show ?thesis
    unfolding serialize_provider_def [abs_def] by (simp only: if_False) (rule reads_chain | simp)+
qed

declare reads_lock [extra_intros] reads_vip_entrance [extra_intros]

lemma reads_extra:
  assumes "data_ok version fg d" and "d \<noteq> Monostate"
  shows "\<exists>f. extra_reader_of J version fg (data_type d) = Some f \<and> reads f d (enc_data fg d)"
  using assms by (cases d) (simp_all add: extra_reader_of_def extra_intros del: enc_data.simps)

text \<open>Types without a struct of which the reader skips nothing.\<close>

definition bare_type :: "u8 \<Rightarrow> bool" where
  "bare_type t \<longleftrightarrow> t \<notin> {1, 2, 3, 4, 8, 9, 10, 11, 15, 17, 18, 20, 21, 23, 24, 25, 28, 32, 33, 36, 40, 44, 57} \<and>
     t \<notin> {14, 19, 27, 30, 35, 39, 42, 43, 48, 49, 55, 56, 61, 62, 63, 65, 66, 69, 71, 72, 73, 75, 77, 81}"

lemma bare_reader: "bare_type t \<Longrightarrow> extra_reader_of J version fg t = None"
  by (simp add: bare_type_def extra_reader_of_def)

lemma bare_unknown: "bare_type t \<Longrightarrow> handle_unknown_type J t s = Some ((), s)"
  by (simp add: bare_type_def handle_unknown_type_def)

definition extra_ok :: "u16 \<Rightarrow> u16 \<Rightarrow> TileExtra \<Rightarrow> bool" where
  "extra_ok version fg x \<longleftrightarrow>
     (if extra_value x = Monostate then bare_type (extra_type x)
      else data_ok version fg (extra_value x) \<and> extra_type x = data_type (extra_value x))"

definition enc_extra :: "u16 \<Rightarrow> TileExtra \<Rightarrow> bytes" where
  "enc_extra fg x = extra_type x # enc_data fg (extra_value x)"

lemma reads_word: "reads (\<lambda>s. do { (ok, t, s) \<leftarrow> read_word (0 :: u8) s; if \<not> ok then g s else f t s }) x (t # bs)"
  if "reads (f t) x bs"
  unfolding reads_def
proof (intro allI impI)
  fix s rest assume s: "in_bounds s" and r: "remaining s = (t # bs) @ rest"
  from r have r': "remaining s = le_bytes t @ (bs @ rest)" by (simp add: le_bytes_u8)
  have "in_bounds (advance 1 s)" "remaining (advance 1 s) = bs @ rest"
    using u8_codec.after_enc [OF s r'] by simp_all
  from readsD [OF that this] rd_enc(1) [OF _ _ s r', of 0]
  show "do { (ok, t, s) \<leftarrow> read_word 0 s; if \<not> ok then g s else f t s } = Some (x, advance (length (t # bs)) s)"
    by (simp add: advance_advance)
qed

lemma reads_TileExtra:
  assumes "extra_ok version fg x" and "extra_value y = Monostate"
  shows "reads (TileExtra_serialize J version fg bg y) x (enc_extra fg x)"
  unfolding TileExtra_serialize_def [abs_def] enc_extra_def
proof (rule reads_word, cases "extra_value x = Monostate")
  case True
  then have b: "bare_type (extra_type x)" using assms(1) by (simp add: extra_ok_def)
  have "y\<lparr>extra_type := extra_type x\<rparr> = x" using True assms(2) by simp
  then show "reads (\<lambda>s. case extra_reader_of J version fg (extra_type x) of
        None \<Rightarrow> handle_unknown_type J (extra_type x) s \<bind> (\<lambda>(_, s). Some (y\<lparr>extra_type := extra_type x\<rparr>, s))
      | Some f \<Rightarrow> f s \<bind> (\<lambda>(d, s). Some (y\<lparr>extra_type := extra_type x, extra_value := d\<rparr>, s)))
      x (enc_data fg (extra_value x))"
    using True by (simp add: bare_reader [OF b] bare_unknown [OF b] reads_return)
next
  case False
  then have d: "data_ok version fg (extra_value x)" "extra_type x = data_type (extra_value x)"
    using assms(1) by (simp_all add: extra_ok_def)
  obtain f where f: "extra_reader_of J version fg (extra_type x) = Some f"
    and r: "reads f (extra_value x) (enc_data fg (extra_value x))"
    using reads_extra [OF d(1) False] d(2) by metis
  have eq: "y\<lparr>extra_type := extra_type x, extra_value := extra_value x\<rparr> = x" by simp
  then show "reads (\<lambda>s. case extra_reader_of J version fg (extra_type x) of
        None \<Rightarrow> handle_unknown_type J (extra_type x) s \<bind> (\<lambda>(_, s). Some (y\<lparr>extra_type := extra_type x\<rparr>, s))
      | Some f \<Rightarrow> f s \<bind> (\<lambda>(d, s). Some (y\<lparr>extra_type := extra_type x, extra_value := d\<rparr>, s)))
      x (enc_data fg (extra_value x))"
    using reads_bind_last [OF r, of "\<lambda>d. y\<lparr>extra_type := extra_type x, extra_value := d\<rparr>"]
    by (simp add: f eq)
qed

end
