(* ===== verification/ItemDatabase.thy ===== *)
theory ItemDatabase
  imports ByteStream
begin

text \<open>
  \<open>item::ItemDatabase\<close> (\<open>src/item/item_database.cpp\<close>, \<open>item_info.hpp\<close>): the parser of
  \<open>items.dat\<close>. \<open>ItemInfo\<close> has 75 members that are only ever read in order; an item is the list of
  its members with their values, and \<open>item_layout\<close> gives names and widths in the order of the
  code. A member starts out zero or empty (\<open>ItemInfo item{}\<close>) and keeps that when the data runs out.
\<close>

subsection \<open>Members\<close>

datatype field_type = F8 | F16 | F32 | FStr | FArr nat

datatype field_value = V8 u8 | V16 u16 | V32 u32 | VStr string | VArr bytes

type_synonym ItemInfo = "(string \<times> field_value) list"

definition item_layout :: "(string \<times> field_type) list" where
  "item_layout =
     [(''item_id'', F32), (''flags'', F16), (''item_type'', F8), (''material'', F8),
      (''item_name'', FStr),
      (''texture_file_path'', FStr), (''texture_file_hash'', F32),
      (''visual_effect'', F8), (''cooking_time'', F32),
      (''texture_coord_x'', F8), (''texture_coord_y'', F8), (''texture_type'', F8),
      (''is_stripey_wallpaper'', F8), (''collision_type'', F8),
      (''health'', F8), (''reset_time'', F32), (''clothing_type'', F8),
      (''rarity'', F16), (''max_amount'', F8),
      (''extra_file'', FStr), (''extra_file_hash'', F32), (''animation_time'', F32),
      (''pet_name'', FStr), (''pet_prefix'', FStr), (''pet_suffix'', FStr), (''pet_ability'', FStr),
      (''seed_base'', F8), (''seed_overlay'', F8), (''tree_base'', F8), (''tree_leaves'', F8),
      (''seed_color'', F32), (''seed_overlay_color'', F32), (''ingredient'', F32), (''grow_time'', F32),
      (''fx_flag'', F32),
      (''animating_coordinates'', FStr), (''animating_texture_file'', FStr),
      (''animating_coordinates_2'', FStr),
      (''__unk_1'', F32), (''__unk_2'', F32), (''flags_2'', F32), (''__unk_3'', FArr 60),
      (''tile_range'', F32), (''vault_capacity'', F32), (''punch_options'', FStr),
      (''__unk_4'', F32), (''body_part_list'', FArr 9), (''light_range'', F32), (''__unk_5'', F32),
      (''can_sit'', F8), (''player_offset_x'', F32), (''player_offset_y'', F32),
      (''chair_texture_x'', F32), (''chair_texture_y'', F32),
      (''chair_leg_offset_x'', F32), (''chair_leg_offset_y'', F32),
      (''chair_texture_file'', FStr), (''renderer_data_file'', FStr),
      (''__unk_6'', F32), (''renderer_data_file_hash'', F32),
      (''__unk_7'', FArr 9), (''__unk_8'', F16),
      (''info'', FStr), (''ingredients'', FArr 4)]"

definition field_u32 :: "ItemInfo \<Rightarrow> string \<Rightarrow> u32" where
  "field_u32 it n = (case map_of it n of Some (V32 w) \<Rightarrow> w | _ \<Rightarrow> 0)"

definition field_u8 :: "ItemInfo \<Rightarrow> string \<Rightarrow> u8" where
  "field_u8 it n = (case map_of it n of Some (V8 w) \<Rightarrow> w | _ \<Rightarrow> 0)"

abbreviation item_id :: "ItemInfo \<Rightarrow> u32" where "item_id it \<equiv> field_u32 it ''item_id''"
abbreviation item_type :: "ItemInfo \<Rightarrow> u8" where "item_type it \<equiv> field_u8 it ''item_type''"

abbreviation ItemType_Lock :: u8 where "ItemType_Lock \<equiv> 3"
abbreviation ItemType_Door :: u8 where "ItemType_Door \<equiv> 13"
abbreviation ItemType_DisplayBlock :: u8 where "ItemType_DisplayBlock \<equiv> 61"
abbreviation ItemType_Vending :: u8 where "ItemType_Vending \<equiv> 62"

subsection \<open>Parsing\<close>

definition DECRYPT_KEY :: bytes where
  "DECRYPT_KEY = bytes_of_string ''PBG892FXX982ABC*''"

definition decrypt_item_name :: "string \<Rightarrow> nat \<Rightarrow> string" where
  "decrypt_item_name encrypted i =
     map (\<lambda>(k, c). char_of_byte (byte_of_char c XOR DECRYPT_KEY ! ((k + i) mod length DECRYPT_KEY)))
       (enumerate 0 encrypted)"

fun rd_field :: "field_type \<Rightarrow> bstream \<Rightarrow> (field_value \<times> bstream) option" where
  "rd_field F8 s = do { (v, s) \<leftarrow> rd 0 s; Some (V8 v, s) }"
| "rd_field F16 s = do { (v, s) \<leftarrow> rd 0 s; Some (V16 v, s) }"
| "rd_field F32 s = do { (v, s) \<leftarrow> rd 0 s; Some (V32 v, s) }"
| "rd_field FStr s = do { (v, s) \<leftarrow> rd_str (0 :: u16) [] s; Some (VStr v, s) }"
| "rd_field (FArr n) s = do {
     (r, s) \<leftarrow> read_data (word_of_nat n) s;
     Some (VArr (case r of None \<Rightarrow> replicate n 0 | Some d \<Rightarrow> d), s)
   }"

definition rd_named :: "string \<times> field_type \<Rightarrow> bstream \<Rightarrow> ((string \<times> field_value) \<times> bstream) option" where
  "rd_named f s = do { (v, s) \<leftarrow> rd_field (snd f) s; Some ((fst f, v), s) }"

text \<open>The name is decrypted with the identifier as soon as it has been read.\<close>

definition decrypt_name :: "ItemInfo \<Rightarrow> ItemInfo" where
  "decrypt_name it =
     map (\<lambda>(n, v). (n, if n = ''item_name''
       then (case v of VStr s \<Rightarrow> VStr (decrypt_item_name s (unat (item_id it))) | _ \<Rightarrow> v) else v)) it"

definition parse_item :: "u16 \<Rightarrow> bstream \<Rightarrow> (ItemInfo \<times> bstream) option" where
  "parse_item version s = do {
     (it, s) \<leftarrow> rd_seq rd_named item_layout s;
     (unk_9, s) \<leftarrow> (if version \<ge> 24 then rd 0 s else Some (0, s));
     Some (decrypt_name it @ [(''__unk_9'', V8 unk_9)], s)
   }"

record ItemDatabase =
  db_version :: u16
  db_count :: u32
  db_items :: "ItemInfo list"

definition clear_database :: ItemDatabase where
  "clear_database = \<lparr>db_version = 0, db_count = 0, db_items = []\<rparr>"

text \<open>
  \<open>parse\<close>: the result with the database afterwards. The old contents are cleared, so they do not
  matter; \<open>parse_item\<close> never returns an empty optional.
\<close>

definition parse_database :: "bytes \<Rightarrow> (bool \<times> ItemDatabase) option" where
  "parse_database data = do {
     (ok, version, s) \<leftarrow> read_word (0 :: u16) (span_stream data);
     if \<not> ok then Some (False, clear_database)
     else do {
       (ok, count, s) \<leftarrow> read_word (0 :: u32) s;
       if \<not> ok then Some (False, clear_database\<lparr>db_version := version\<rparr>)
       else do {
         (items, s) \<leftarrow> rd_seq (\<lambda>_. parse_item version) (replicate (unat count) ()) s;
         Some (True, \<lparr>db_version = version, db_count = count, db_items = items\<rparr>)
       }
     }
   }"

definition load_from_file :: "bytes option \<Rightarrow> ItemDatabase \<Rightarrow> (bool \<times> ItemDatabase) option" where
  "load_from_file file db = (case file of None \<Rightarrow> Some (False, db) | Some data \<Rightarrow> parse_database data)"

definition get_item :: "ItemDatabase \<Rightarrow> u32 \<Rightarrow> ItemInfo option" where
  "get_item db i = (if unat i \<ge> length (db_items db) then None else Some (db_items db ! unat i))"

subsection \<open>Never outside the file\<close>

lemma safe_rd_field [safe_intros]: "safe_reader (rd_field t)"
  unfolding safe_reader_def
  by (cases t)
    (auto intro!: safe_run_bind safe_readerD [OF safe_rd] safe_readerD [OF safe_rd_str]
      safe_readerD [OF safe_read_data])

lemma safe_rd_named [safe_intros]: "safe_reader (rd_named f)"
  unfolding safe_reader_def rd_named_def
  by (auto intro!: safe_run_bind safe_readerD [OF safe_rd_field])

lemma safe_parse_item [safe_intros]: "safe_reader (parse_item version)"
  unfolding safe_reader_def parse_item_def
  by (auto intro!: safe_run_bind safe_readerD [OF safe_rd_seq [OF safe_rd_named]] safe_readerD [OF safe_rd])

interpretation item_reader: reader "parse_item version"
  by unfold_locales (rule safe_parse_item)

subsection \<open>The file format\<close>

fun enc_value_of :: "field_value \<Rightarrow> bytes" where
  "enc_value_of (V8 w) = le_bytes w"
| "enc_value_of (V16 w) = le_bytes w"
| "enc_value_of (V32 w) = le_bytes w"
| "enc_value_of (VStr s) = enc_string TYPE(16) s"
| "enc_value_of (VArr d) = d"

fun field_typed :: "field_type \<Rightarrow> field_value \<Rightarrow> bool" where
  "field_typed F8 (V8 _) = True"
| "field_typed F16 (V16 _) = True"
| "field_typed F32 (V32 _) = True"
| "field_typed FStr (VStr s) = (length s < 65536)"
| "field_typed (FArr n) (VArr d) = (length d = n \<and> n < 2 ^ 64)"
| "field_typed _ _ = False"

definition fields_typed :: "(string \<times> field_type) list \<Rightarrow> ItemInfo \<Rightarrow> bool" where
  "fields_typed = list_all2 (\<lambda>f v. fst v = fst f \<and> field_typed (snd f) (snd v))"

lemma reads_field: "field_typed t v \<Longrightarrow> reads (rd_field t) v (enc_value_of v)"
proof (cases "(t, v)" rule: field_typed.cases)
  case (5 n d)
  assume "field_typed t v"
  then have n: "n = length d" "length d < 2 ^ 64" using 5 by auto
  have "reads (rd_field (FArr (length d))) (VArr d) d"
    unfolding rd_field.simps
    using reads_bind_last [OF reads_data [OF n(2)],
        of "\<lambda>r. VArr (case r of None \<Rightarrow> replicate (length d) 0 | Some d \<Rightarrow> d)"]
    by simp
  then show ?thesis using 5 n by simp
qed (simp_all add: rd_field.simps [abs_def] reads_bind_last reads_rd reads_str)

lemma reads_named:
  "fst v = fst f \<Longrightarrow> field_typed (snd f) (snd v) \<Longrightarrow> reads (rd_named f) v (enc_value_of (snd v))"
  unfolding rd_named_def using reads_bind_last [OF reads_field, of "snd f" "snd v" "Pair (fst f)"]
  by (simp add: prod_eq_iff reads_def)

lemma reads_fields:
  assumes "fields_typed l it"
  shows "reads (rd_seq rd_named l) it (concat (map (enc_value_of \<circ> snd) it))"
proof (rule reads_seq)
  have "list_all2 (\<lambda>v f. fst v = fst f \<and> field_typed (snd f) (snd v)) it l"
    using assms by (simp add: fields_typed_def list_all2_conv_all_nth)
  then show "list_all2 (\<lambda>x y. reads (rd_named y) x ((enc_value_of \<circ> snd) x)) it l"
    by (rule list_all2_mono) (simp add: reads_named)
qed

lemma decrypt_item_name_length [simp]: "length (decrypt_item_name s i) = length s"
  by (simp add: decrypt_item_name_def)

lemma decrypt_item_name_twice: "decrypt_item_name (decrypt_item_name s i) i = s"
  by (rule nth_equalityI)
    (simp_all add: decrypt_item_name_def nth_enumerate_eq xor.assoc)

lemma map_of_decrypt_name:
  "n \<noteq> ''item_name'' \<Longrightarrow> map_of (decrypt_name it) n = map_of it n"
proof -
  have "map_of (map (\<lambda>(m, v). (m, g m v)) it) n = map_option (g n) (map_of it n)" for g :: "string \<Rightarrow> field_value \<Rightarrow> field_value"
    by (induction it) auto
  then show "n \<noteq> ''item_name'' \<Longrightarrow> ?thesis"
    by (simp add: decrypt_name_def option.map_ident)
qed

definition decrypt_entry :: "nat \<Rightarrow> string \<times> field_value \<Rightarrow> string \<times> field_value" where
  "decrypt_entry k e = (fst e, if fst e = ''item_name''
     then (case snd e of VStr s \<Rightarrow> VStr (decrypt_item_name s k) | _ \<Rightarrow> snd e) else snd e)"

lemma decrypt_name_alt: "decrypt_name it = map (decrypt_entry (unat (item_id it))) it"
  by (simp add: decrypt_name_def decrypt_entry_def split_beta)

lemma decrypt_entry_twice: "decrypt_entry k (decrypt_entry k e) = e"
  by (cases e) (simp add: decrypt_entry_def decrypt_item_name_twice split: field_value.split)

lemma decrypt_entry_fst [simp]: "fst (decrypt_entry k e) = fst e"
  by (simp add: decrypt_entry_def)

lemma decrypt_entry_typed: "field_typed t (snd (decrypt_entry k e)) = field_typed t (snd e)"
  by (cases t; cases "snd e") (simp_all add: decrypt_entry_def)

lemma item_id_decrypt_name: "item_id (decrypt_name it) = item_id it"
  by (simp add: field_u32_def map_of_decrypt_name)

lemma decrypt_name_twice: "decrypt_name (decrypt_name it) = it"
  by (subst decrypt_name_alt, simp only: item_id_decrypt_name)
    (simp add: decrypt_name_alt comp_def decrypt_entry_twice)

lemma fields_typed_decrypt: "fields_typed l it \<Longrightarrow> fields_typed l (decrypt_name it)"
  by (simp add: fields_typed_def decrypt_name_alt list_all2_conv_all_nth decrypt_entry_typed)

definition item_ok :: "u16 \<Rightarrow> ItemInfo \<Rightarrow> bool" where
  "item_ok version it \<longleftrightarrow> (\<exists>fs u. it = fs @ [(''__unk_9'', V8 u)] \<and> fields_typed item_layout fs \<and>
     (version < 24 \<longrightarrow> u = 0))"

definition enc_item :: "u16 \<Rightarrow> ItemInfo \<Rightarrow> bytes" where
  "enc_item version it = concat (map (enc_value_of \<circ> snd) (decrypt_name (butlast it))) @
     (if version \<ge> 24 then enc_value_of (snd (last it)) else [])"

definition enc_database :: "ItemDatabase \<Rightarrow> bytes" where
  "enc_database db = le_bytes (db_version db) @ le_bytes (db_count db) @
     concat (map (enc_item (db_version db)) (db_items db))"

lemma reads_item:
  assumes "item_ok version it"
  shows "reads (parse_item version) it (enc_item version it)"
proof -
  obtain fs u where it: "it = fs @ [(''__unk_9'', V8 u)]" and fs: "fields_typed item_layout fs"
    and u: "version < 24 \<longrightarrow> u = 0" using assms by (auto simp: item_ok_def)
  have r: "reads (rd_seq rd_named item_layout) (decrypt_name fs)
      (concat (map (enc_value_of \<circ> snd) (decrypt_name fs)))"
    by (rule reads_fields [OF fields_typed_decrypt [OF fs]])
  let ?t = "if version \<ge> 24 then le_bytes u else []"
  have "reads (\<lambda>s. (if version \<ge> 24 then rd (0 :: u8) s else Some (0, s))) u ?t"
    using u reads_rd [of 0 u] by (auto simp: reads_def not_le)
  from reads_bind [OF r reads_bind_last [OF this]]
  have "reads (parse_item version) (decrypt_name (decrypt_name fs) @ [(''__unk_9'', V8 u)])
      (concat (map (enc_value_of \<circ> snd) (decrypt_name fs)) @ ?t)"
    unfolding parse_item_def [abs_def] .
  then show ?thesis
    by (simp only: it enc_item_def decrypt_name_twice butlast_snoc last_snoc snd_conv enc_value_of.simps)
qed

subsection \<open>Properties\<close>

text \<open>Encrypting a name is decrypting it: applied twice it gives the name back.\<close>

theorem decrypt_involution: "decrypt_item_name (decrypt_item_name s i) i = s"
  by (rule decrypt_item_name_twice)

lemma parse_enc_database:
  assumes "unat (db_count db) = length (db_items db)"
    and "list_all (item_ok (db_version db)) (db_items db)" and "length (enc_database db) < 2 ^ 64"
  shows "parse_database (enc_database db) = Some (True, db)"
proof -
  let ?d = "enc_database db" and ?v = "db_version db"
  let ?items = "concat (map (enc_item ?v) (db_items db))"
  have s: "in_bounds (span_stream ?d)" using assms(3) by simp
  have r: "remaining (span_stream ?d) = le_bytes ?v @ (le_bytes (db_count db) @ ?items)"
    by (simp add: enc_database_def)
  note s1 = u16_codec.after_enc [OF s r]
  note s2 = u32_codec.after_enc [OF s1]
  have v: "read_word 0 (span_stream ?d) = Some (True, ?v, advance 2 (span_stream ?d))"
    using rd_enc(1) [OF _ _ s r, of 0] by simp
  have c: "read_word 0 (advance 2 (span_stream ?d)) =
      Some (True, db_count db, advance 4 (advance 2 (span_stream ?d)))"
    using rd_enc(1) [OF _ _ s1, of 0] by simp
  have "reads (rd_seq (\<lambda>_. parse_item ?v) (replicate (length (db_items db)) ())) (db_items db) ?items"
    using assms(2) by (intro reads_seq) (auto simp: list_all2_conv_all_nth list_all_length reads_item)
  from readsD [OF this, of "advance 4 (advance 2 (span_stream ?d))" "[]"] s2
  show ?thesis
    by (simp add: parse_database_def v c assms(1))
qed


text \<open>An item file with a header is always accepted, however short the rest is: the parser never
  leaves the file, and the database has as many items as the header says.\<close>

theorem truncated_file_accepted:
  assumes "6 \<le> length data" and "length data < 2 ^ 64"
  shows "\<exists>db. parse_database data = Some (True, db) \<and> length (db_items db) = unat (db_count db)"
proof -
  have s: "in_bounds (span_stream data)" using assms(2) by simp
  have len: "length (remaining (span_stream data)) = length data" by simp
  define v where "v = (of_le (take 2 data) :: u16)"
  have v: "read_word (0 :: u16) (span_stream data) = Some (True, v, advance 2 (span_stream data))"
    using assms(1) by (simp add: read_word_in_bounds [OF s] v_def)
  have s1: "in_bounds (advance 2 (span_stream data))"
    "length (remaining (advance 2 (span_stream data))) = length data - 2"
    using assms(1) s by (simp_all add: in_bounds_advance remaining_advance)
  define c where "c = (of_le (take 4 (drop 2 data)) :: u32)"
  have c: "read_word (0 :: u32) (advance 2 (span_stream data)) =
      Some (True, c, advance 4 (advance 2 (span_stream data)))"
    using assms(1) s1(2) by (simp add: read_word_in_bounds [OF s1(1)] c_def remaining_advance [OF s])
  have s2: "in_bounds (advance 4 (advance 2 (span_stream data)))"
    using assms(1) s1(2) by (auto intro: in_bounds_advance [OF s1(1)])
  obtain items s3 where "rd_seq (\<lambda>_. parse_item v) (replicate (unat c) ()) (advance 4 (advance 2 (span_stream data))) =
      Some (items, s3)" and "length items = unat c"
    using item_reader.dec_list_total [OF s2, of v "replicate (unat c) ()"] by auto
  then show ?thesis by (simp add: parse_database_def v c)
qed

subsection \<open>What the parser makes\<close>

lemma rd_str_length:
  assumes "in_bounds s" and "rd_str (0 :: u16) old s = Some (v, s')" and "length old < 65536"
  shows "length v < 65536"
proof -
  have "unat l < 65536" for l :: u16
    using unsigned_less [of l] by simp
  then show ?thesis
    using assms by (auto simp: rd_str_def read_string_def bind_eq_Some_conv read_word_in_bounds
        read_data_in_bounds in_bounds_advance unat_ucast_up min_less_iff_disj split: if_splits)
qed

lemma rd_field_typed:
  assumes "in_bounds s" and "rd_field t s = Some (v, s')" and "\<And>n. t = FArr n \<Longrightarrow> n < 2 ^ 64"
  shows "field_typed t v"
  using assms by (cases t) (auto simp: bind_eq_Some_conv read_data_in_bounds unat_word_of_nat_lt
      split: if_splits dest: rd_str_length)

lemma rd_seq_typed:
  assumes "in_bounds s" and "rd_seq rd_named l s = Some (it, s')" and "\<And>x n. (x, FArr n) \<in> set l \<Longrightarrow> n < 2 ^ 64"
  shows "fields_typed l it"
  using assms
proof (induction l arbitrary: s it)
  case Nil
  then show ?case by (simp add: fields_typed_def)
next
  case (Cons f l)
  obtain e s1 vs where e: "rd_named f s = Some (e, s1)" and vs: "rd_seq rd_named l s1 = Some (vs, s')"
    and "it = e # vs" using Cons.prems(2) by (auto simp: bind_eq_Some_conv)
  moreover obtain v where v: "rd_field (snd f) s = Some (v, s1)" and "e = (fst f, v)"
    using e by (auto simp: rd_named_def bind_eq_Some_conv)
  ultimately have it: "it = (fst f, v) # vs" by simp
  have "in_bounds s1" using safe_readerD [OF safe_rd_field Cons.prems(1), of "snd f"] v by (simp add: safe_run_def)
  with Cons.IH [OF _ vs] Cons.prems(3) have "fields_typed l vs" by auto
  moreover have "field_typed (snd f) v"
    using rd_field_typed [OF Cons.prems(1) v] Cons.prems(3) by (cases f) auto
  ultimately show ?case by (simp add: it fields_typed_def)
qed

lemma parse_item_ok:
  assumes "in_bounds s" and "parse_item version s = Some (it, s')"
  shows "item_ok version it"
proof -
  obtain raw s1 u where raw: "rd_seq rd_named item_layout s = Some (raw, s1)"
    and u: "(if version \<ge> 24 then rd (0 :: u8) s1 else Some (0, s1)) = Some (u, s')"
    and it: "it = decrypt_name raw @ [(''__unk_9'', V8 u)]"
    using assms(2) by (auto simp: parse_item_def bind_eq_Some_conv split: if_splits)
  have "fields_typed item_layout raw"
    by (rule rd_seq_typed [OF assms(1) raw]) (auto simp: item_layout_def)
  then show ?thesis
    using u unfolding item_ok_def it
    by (intro exI [of _ "decrypt_name raw"] exI [of _ u] conjI refl) (auto intro: fields_typed_decrypt split: if_splits)
qed

lemma parse_items_ok:
  assumes "in_bounds s" and "rd_seq (\<lambda>_. parse_item version) xs s = Some (its, s')"
  shows "list_all (item_ok version) its"
  using assms
proof (induction xs arbitrary: s its)
  case (Cons x xs)
  obtain it s1 its' where it: "parse_item version s = Some (it, s1)"
    and rest: "rd_seq (\<lambda>_. parse_item version) xs s1 = Some (its', s')" and its: "its = it # its'"
    using Cons.prems(2) by (auto simp: bind_eq_Some_conv)
  have "in_bounds s1" using safe_readerD [OF safe_parse_item Cons.prems(1), of version] it by (simp add: safe_run_def)
  with Cons.IH rest parse_item_ok [OF Cons.prems(1) it] show ?case by (simp add: its)
qed simp

lemma read_word_returns:
  assumes "in_bounds s" and "LENGTH('a) div 8 < 2 ^ 64"
  obtains ok v s' where "read_word (old :: 'a::len word) s = Some (ok, v, s')" and "in_bounds s'"
  using assms that by (cases "LENGTH('a) div 8 \<le> length (remaining s)")
    (auto simp: read_word_in_bounds in_bounds_advance)

lemma parse_database_typed:
  assumes "length data < 2 ^ 64" and "parse_database data = Some (ok, db)"
  shows "list_all (item_ok (db_version db)) (db_items db)"
proof -
  have s: "in_bounds (span_stream data)" using assms(1) by simp
  obtain ok1 v s1 where 1: "read_word (0 :: u16) (span_stream data) = Some (ok1, v, s1)" and s1: "in_bounds s1"
    by (rule read_word_returns [OF s, of "0 :: u16"]) simp_all
  obtain ok2 c s2 where 2: "read_word (0 :: u32) s1 = Some (ok2, c, s2)" and s2: "in_bounds s2"
    by (rule read_word_returns [OF s1, of "0 :: u32"]) simp_all
  have "db_items db = [] \<or> (\<exists>s'. rd_seq (\<lambda>_. parse_item (db_version db)) (replicate (unat c) ()) s2 = Some (db_items db, s'))"
    using assms(2) by (auto simp: parse_database_def 1 2 bind_eq_Some_conv clear_database_def split: if_splits)
  then show ?thesis using parse_items_ok [OF s2] by auto
qed


text \<open>A version-23 database with one lock, every other member zero or empty.\<close>

definition zero_value :: "field_type \<Rightarrow> field_value" where
  "zero_value t = (case t of F8 \<Rightarrow> V8 0 | F16 \<Rightarrow> V16 0 | F32 \<Rightarrow> V32 0 | FStr \<Rightarrow> VStr []
     | FArr n \<Rightarrow> VArr (replicate n 0))"

definition sample_item :: ItemInfo where
  "sample_item = map (\<lambda>(n, t). (n, if n = ''item_id'' then V32 242
       else if n = ''item_name'' then VStr ''World Lock'' else zero_value t)) item_layout @
     [(''__unk_9'', V8 0)]"

definition sample_database :: ItemDatabase where
  "sample_database = \<lparr>db_version = 23, db_count = 1, db_items = [sample_item]\<rparr>"

lemma sample_item_ok: "item_ok 23 sample_item"
proof -
  have "fields_typed item_layout (butlast sample_item)"
    by (simp add: fields_typed_def sample_item_def item_layout_def zero_value_def)
  moreover have "sample_item = butlast sample_item @ [(''__unk_9'', V8 0)]"
    by (simp add: sample_item_def)
  ultimately show ?thesis unfolding item_ok_def by blast
qed

lemma enc_value_decrypt_length: "length (enc_value_of (snd (decrypt_entry k e))) = length (enc_value_of (snd e))"
  by (cases "snd e") (simp_all add: decrypt_entry_def enc_string_def)

lemma enc_item_length:
  "length (enc_item version it) = (\<Sum>e\<leftarrow>butlast it. length (enc_value_of (snd e))) +
     (if version \<ge> 24 then length (enc_value_of (snd (last it))) else 0)"
  by (simp add: enc_item_def decrypt_name_alt length_concat comp_def enc_value_decrypt_length)

lemma sample_database_short: "length (enc_database sample_database) < 2 ^ 64"
  by (simp add: enc_database_def sample_database_def enc_item_length)
    (simp add: sample_item_def item_layout_def zero_value_def enc_string_def)


theorem truncated_file_accepted_witness:
  "\<exists>db. parse_database [11, 0, 2, 0, 0, 0] = Some (True, db) \<and> length (db_items db) = unat (db_count db)"
  by (rule truncated_file_accepted) simp_all


end
