(* ===== verification/TileMap.thy ===== *)
theory TileMap
  imports TileExtra ItemDatabase
begin

text \<open>
  \<open>src/world/tile.hpp\<close>, \<open>tile_map.hpp\<close>, \<open>object.hpp\<close> and \<open>object_map.hpp\<close>: the tiles and the dropped
  objects of a world, and how they are read from map data. Coordinates of type \<open>glm::ivec2\<close> are
  pairs of words; the item database the tiles ask is an argument.
\<close>

subsection \<open>Tiles\<close>

abbreviation TileFlag_Extra :: u16 where "TileFlag_Extra \<equiv> 1"
abbreviation TileFlag_Locked :: u16 where "TileFlag_Locked \<equiv> 2"

definition tile_flags :: "(u16 \<times> string) list" where
  "tile_flags =
     [(push_bit 0 1, ''Extra''), (push_bit 1 1, ''Locked''), (push_bit 4 1, ''Seed''),
      (push_bit 5 1, ''Flipped''), (push_bit 6 1, ''Open''), (push_bit 7 1, ''Public''),
      (push_bit 9 1, ''Silenced''), (push_bit 10 1, ''Water''), (push_bit 11 1, ''Glue''),
      (push_bit 12 1, ''Fire''), (push_bit 13 1, ''Red''), (push_bit 14 1, ''Green''),
      (push_bit 15 1, ''Blue'')]"

definition has_flag :: "u16 \<Rightarrow> u16 \<Rightarrow> bool" where
  "has_flag fl f \<longleftrightarrow> fl AND f = f"

record Tile =
  foreground :: u16
  background :: u16
  parent_tile :: u16
  tile_flag :: u16
  lock_parent_tile :: u16
  tile_extra :: TileExtra

definition new_Tile :: Tile where
  "new_Tile = \<lparr>foreground = 0, background = 0, parent_tile = 0, tile_flag = 0, lock_parent_tile = 0,
     tile_extra = new_TileExtra\<rparr>"

text \<open>\<open>idiot_growtopia_dev\<close> dereferences what the database returns: an unknown item is a fault.\<close>

definition idiot_growtopia_dev :: "ItemDatabase \<Rightarrow> u16 \<Rightarrow> u16 \<Rightarrow> bool option" where
  "idiot_growtopia_dev db fg bg = do {
     it \<leftarrow> get_item db (ucast fg);
     Some (item_type it = ItemType_Lock \<or> item_type it = ItemType_Door \<or>
       item_type it = ItemType_Vending \<or> item_type it = ItemType_DisplayBlock)
   }"

definition reads_extra_data :: "ItemDatabase \<Rightarrow> u16 \<Rightarrow> u16 \<Rightarrow> u16 \<Rightarrow> bool option" where
  "reads_extra_data db fl fg bg =
     (if has_flag fl TileFlag_Extra then Some True else idiot_growtopia_dev db fg bg)"

definition Tile_serialize ::
  "ItemDatabase \<Rightarrow> junk \<Rightarrow> u16 \<Rightarrow> Tile \<Rightarrow> bstream \<Rightarrow> (Tile \<times> bstream) option"
where
  "Tile_serialize db J version t s = do {
     (fg, s) \<leftarrow> rd (foreground t) s;
     (bg, s) \<leftarrow> rd (background t) s;
     (parent, s) \<leftarrow> rd (parent_tile t) s;
     (fl, s) \<leftarrow> rd 0 s;
     (lock, s) \<leftarrow> (if has_flag fl TileFlag_Locked then rd (lock_parent_tile t) s
       else Some (lock_parent_tile t, s));
     has_extra \<leftarrow> reads_extra_data db fl fg bg;
     (x, s) \<leftarrow> (if has_extra then TileExtra_serialize J version fg bg (tile_extra t) s
       else Some (tile_extra t, s));
     Some (\<lparr>foreground = fg, background = bg, parent_tile = parent, tile_flag = fl,
       lock_parent_tile = lock, tile_extra = x\<rparr>, s)
   }"

definition flag_to_string :: "Tile \<Rightarrow> string" where
  "flag_to_string t =
     (if tile_flag t = 0 then ''None''
      else butlast (concat (map (\<lambda>(f, n). if has_flag (tile_flag t) f then n @ ''|'' else []) tile_flags)))"

subsection \<open>The tile map\<close>

text \<open>\<open>v.resize(n)\<close> keeps the elements there are and appends default ones.\<close>

definition resize_with :: "'a \<Rightarrow> nat \<Rightarrow> 'a list \<Rightarrow> 'a list" where
  "resize_with d n xs = take n xs @ replicate (n - length xs) d"

record WorldTileMap =
  map_size :: "u32 \<times> u32"
  tiles :: "Tile list"

definition new_WorldTileMap :: WorldTileMap where
  "new_WorldTileMap = \<lparr>map_size = (0, 0), tiles = []\<rparr>"

definition TileMap_serialize ::
  "ItemDatabase \<Rightarrow> junk \<Rightarrow> u16 \<Rightarrow> WorldTileMap \<Rightarrow> bstream \<Rightarrow> (WorldTileMap \<times> bstream) option"
where
  "TileMap_serialize db J version m s = do {
     (x, s) \<leftarrow> rd (fst (map_size m)) s;
     (y, s) \<leftarrow> rd (snd (map_size m)) s;
     (count, s) \<leftarrow> rd (0 :: u32) s;
     (_, s) \<leftarrow> skips 5 s;
     (ts, s) \<leftarrow> rd_seq (Tile_serialize db J version) (resize_with new_Tile (unat count) (tiles m)) s;
     Some (\<lparr>map_size = (x, y), tiles = ts\<rparr>, s)
   }"

subsection \<open>Objects\<close>

record Object =
  obj_item_id :: u16
  obj_pos :: "u32 \<times> u32"
  obj_amount :: u8
  obj_flags :: u8
  obj_id :: u32

definition new_Object :: Object where
  "new_Object = \<lparr>obj_item_id = 0, obj_pos = (0, 0), obj_amount = 0, obj_flags = 0, obj_id = 0\<rparr>"

definition Object_serialize :: "Object \<Rightarrow> bstream \<Rightarrow> (Object \<times> bstream) option" where
  "Object_serialize ob s = do {
     (i, s) \<leftarrow> rd (obj_item_id ob) s;
     (x, s) \<leftarrow> rd (fst (obj_pos ob)) s;
     (y, s) \<leftarrow> rd (snd (obj_pos ob)) s;
     (amount, s) \<leftarrow> rd (obj_amount ob) s;
     (fl, s) \<leftarrow> rd (obj_flags ob) s;
     (ident, s) \<leftarrow> rd (obj_id ob) s;
     Some (\<lparr>obj_item_id = i, obj_pos = (x, y), obj_amount = amount, obj_flags = fl, obj_id = ident\<rparr>, s)
   }"

record WorldObjectMap =
  drop_id :: u32
  objects :: "Object list"

definition new_WorldObjectMap :: WorldObjectMap where
  "new_WorldObjectMap = \<lparr>drop_id = 0, objects = []\<rparr>"

definition ObjectMap_serialize :: "WorldObjectMap \<Rightarrow> bstream \<Rightarrow> (WorldObjectMap \<times> bstream) option" where
  "ObjectMap_serialize m s = do {
     (_, s) \<leftarrow> skips 12 s;
     (count, s) \<leftarrow> rd (0 :: u32) s;
     (ident, s) \<leftarrow> rd (drop_id m) s;
     (obs, s) \<leftarrow> rd_seq Object_serialize (resize_with new_Object (unat count) (objects m)) s;
     Some (\<lparr>drop_id = ident, objects = obs\<rparr>, s)
   }"

definition increment_drop_id :: "WorldObjectMap \<Rightarrow> WorldObjectMap" where
  "increment_drop_id m = m\<lparr>drop_id := drop_id m + 1\<rparr>"

subsection \<open>The format\<close>

text \<open>
  A tile the format can hold: its foreground is known or it is flagged, members that are not read
  have their first value.
\<close>

definition tile_ok :: "ItemDatabase \<Rightarrow> u16 \<Rightarrow> Tile \<Rightarrow> bool" where
  "tile_ok db version t \<longleftrightarrow>
     (\<not> has_flag (tile_flag t) TileFlag_Locked \<longrightarrow> lock_parent_tile t = 0) \<and>
     (case reads_extra_data db (tile_flag t) (foreground t) (background t) of
        None \<Rightarrow> False
      | Some b \<Rightarrow> if b then extra_ok version (foreground t) (tile_extra t)
          else tile_extra t = new_TileExtra)"

definition enc_tile :: "ItemDatabase \<Rightarrow> Tile \<Rightarrow> bytes" where
  "enc_tile db t = le_bytes (foreground t) @ le_bytes (background t) @ le_bytes (parent_tile t) @
     le_bytes (tile_flag t) @
     (if has_flag (tile_flag t) TileFlag_Locked then le_bytes (lock_parent_tile t) else []) @
     (if reads_extra_data db (tile_flag t) (foreground t) (background t) = Some True
      then enc_extra (foreground t) (tile_extra t) else [])"

definition enc_tile_map :: "ItemDatabase \<Rightarrow> WorldTileMap \<Rightarrow> bytes" where
  "enc_tile_map db m = le_bytes (fst (map_size m)) @ le_bytes (snd (map_size m)) @
     le_bytes (word_of_nat (length (tiles m)) :: u32) @ replicate 5 0 @
     concat (map (enc_tile db) (tiles m))"

definition enc_object :: "Object \<Rightarrow> bytes" where
  "enc_object ob = le_bytes (obj_item_id ob) @ le_bytes (fst (obj_pos ob)) @ le_bytes (snd (obj_pos ob)) @
     le_bytes (obj_amount ob) @ le_bytes (obj_flags ob) @ le_bytes (obj_id ob)"

definition enc_object_map :: "WorldObjectMap \<Rightarrow> bytes" where
  "enc_object_map m = replicate 12 0 @ le_bytes (word_of_nat (length (objects m)) :: u32) @
     le_bytes (drop_id m) @ concat (map enc_object (objects m))"

lemma reads_tile:
  assumes "tile_ok db version t"
  shows "reads (Tile_serialize db J version new_Tile) t (enc_tile db t)"
proof (cases t)
  case t: (fields fg bg parent fl lock x)
  obtain b where b: "reads_extra_data db fl fg bg = Some b"
    and x: "if b then extra_ok version fg x else x = new_TileExtra"
    using assms by (auto simp: tile_ok_def t split: option.splits if_splits)
  have lk: "reads (\<lambda>s. if has_flag fl TileFlag_Locked then rd (lock_parent_tile new_Tile) s
      else Some (lock_parent_tile new_Tile, s)) lock
      (if has_flag fl TileFlag_Locked then le_bytes lock else [])"
    using assms by (simp add: tile_ok_def t reads_rd reads_return new_Tile_def)
  have ext: "reads (\<lambda>s. if b then TileExtra_serialize J version fg bg (tile_extra new_Tile) s
      else Some (tile_extra new_Tile, s)) x (if b then enc_extra fg x else [])"
    using x by (simp add: reads_return new_Tile_def new_TileExtra_def reads_TileExtra)
  have "reads (\<lambda>s. reads_extra_data db fl fg bg \<bind> (\<lambda>b.
      (if b then TileExtra_serialize J version fg bg (tile_extra new_Tile) s
       else Some (tile_extra new_Tile, s)) \<bind> (\<lambda>(x, s).
      Some (\<lparr>foreground = fg, background = bg, parent_tile = parent, tile_flag = fl,
        lock_parent_tile = lock, tile_extra = x\<rparr>, s)))) t (if b then enc_extra fg x else [])"
    using reads_bind_last [OF ext, of "\<lambda>x. \<lparr>foreground = fg, background = bg, parent_tile = parent,
        tile_flag = fl, lock_parent_tile = lock, tile_extra = x\<rparr>"] by (simp add: b t)
  note last = this
  show ?thesis
    unfolding Tile_serialize_def [abs_def] enc_tile_def
    by (rule reads_bindI [where x = fg], rule reads_bindI [where x = bg],
        rule reads_bindI [where x = parent], rule reads_bindI [where x = fl],
        rule reads_bindI [where x = lock], rule last, rule lk, rule refl)
      (rule reads_rd refl | simp add: t b)+
qed

lemma list_all2_const: "list_all P xs \<Longrightarrow> list_all2 (\<lambda>x _. P x) xs (replicate (length xs) d)"
  by (simp add: list_all2_conv_all_nth list_all_length)

lemma resize_empty [simp]: "resize_with d n [] = replicate n d"
  by (simp add: resize_with_def)

text \<open>Elements of a resized empty vector are read one after the other.\<close>

lemma reads_resized:
  assumes "\<And>x. P x \<Longrightarrow> reads (f d) x (e x)" and "list_all P xs" and "unat n = length xs"
  shows "reads (rd_seq f (resize_with d (unat n) [])) xs (concat (map e xs))"
proof -
  have "list_all2 (\<lambda>x y. reads (f y) x (e x)) xs (replicate (unat n) d)"
    using assms by (simp add: list_all2_conv_all_nth list_all_length)
  from reads_seq [OF this] show ?thesis by simp
qed

definition tile_map_ok :: "ItemDatabase \<Rightarrow> u16 \<Rightarrow> WorldTileMap \<Rightarrow> bool" where
  "tile_map_ok db version m \<longleftrightarrow> length (tiles m) < 2 ^ 32 \<and> list_all (tile_ok db version) (tiles m)"

lemma reads_tile_map:
  assumes "tile_map_ok db version m" and "tiles m0 = []"
  shows "reads (TileMap_serialize db J version m0) m (enc_tile_map db m)"
proof (cases m)
  case m: (fields xy ts)
  obtain x y where xy: "xy = (x, y)" by (cases xy)
  let ?n = "word_of_nat (length ts) :: u32"
  have n: "unat ?n = length ts" and ok: "list_all (tile_ok db version) ts"
    using assms(1) by (simp_all add: tile_map_ok_def m unat_word_of_nat_lt)
  have "reads (rd_seq (Tile_serialize db J version) (resize_with new_Tile (unat ?n) (tiles m0))) ts
      (concat (map (enc_tile db) ts))"
    using reads_resized [OF _ ok n, of "Tile_serialize db J version" new_Tile] reads_tile assms(2) by simp
  note last = reads_bind_last [OF this, of "\<lambda>ts. \<lparr>map_size = (x, y), tiles = ts\<rparr>"]
  show ?thesis
    unfolding TileMap_serialize_def [abs_def] enc_tile_map_def m xy
    by (rule reads_bindI [where x = x], rule reads_bindI [where x = y],
        rule reads_bindI [where x = ?n], rule reads_bindI [where x = "()"], rule last)
      (rule reads_skips [of "replicate 5 0"] reads_rd refl | simp)+
qed

lemma reads_object: "reads (Object_serialize ob0) ob (enc_object ob)"
proof (cases ob)
  case ob: (fields i xy a f k)
  obtain x y where xy: "xy = (x, y)" by (cases xy)
  show ?thesis
    unfolding Object_serialize_def [abs_def] enc_object_def ob xy
    by (rule reads_bindI reads_return reads_rd refl | simp)+
qed

lemma reads_object_map:
  assumes "length (objects m) < 2 ^ 32" and "objects m0 = []"
  shows "reads (ObjectMap_serialize m0) m (enc_object_map m)"
proof (cases m)
  case m: (fields k obs)
  let ?n = "word_of_nat (length obs) :: u32"
  have n: "unat ?n = length obs" using assms(1) by (simp add: m unat_word_of_nat_lt)
  have "list_all (\<lambda>_. True) obs" by (simp add: list_all_iff)
  then have "reads (rd_seq Object_serialize (resize_with new_Object (unat ?n) (objects m0))) obs
      (concat (map enc_object obs))"
    using reads_resized [OF _ _ n, of "\<lambda>_. True" Object_serialize new_Object] reads_object assms(2) by simp
  note last = reads_bind_last [OF this, of "\<lambda>obs. \<lparr>drop_id = k, objects = obs\<rparr>"]
  show ?thesis
    unfolding ObjectMap_serialize_def [abs_def] enc_object_map_def m
    by (rule reads_bindI [where x = "()"], rule reads_bindI [where x = ?n],
        rule reads_bindI [where x = k], rule last)
      (rule reads_skips [of "replicate 12 0"] reads_rd refl | simp)+
qed

end
