(* ===== verification/PacketTypes.thy ===== *)
theory PacketTypes
  imports ByteStream
begin

text \<open>
  \<open>src/packet/packet_types.hpp\<close>: the message and packet types of the protocol and the packed
  56-byte header \<open>GameUpdatePacket\<close> that goes over the wire by \<open>memcpy\<close>. Enumerations with a
  fixed underlying type are kept as words, since any value of the width can arrive. The members
  of a union share one field; the names of the other members are read-only views of it.
\<close>

subsection \<open>Message and packet types\<close>

type_synonym NetMessageType = u32
type_synonym PacketType = u8

abbreviation NET_MESSAGE_UNKNOWN :: NetMessageType where "NET_MESSAGE_UNKNOWN \<equiv> 0"
abbreviation NET_MESSAGE_SERVER_HELLO :: NetMessageType where "NET_MESSAGE_SERVER_HELLO \<equiv> 1"
abbreviation NET_MESSAGE_GENERIC_TEXT :: NetMessageType where "NET_MESSAGE_GENERIC_TEXT \<equiv> 2"
abbreviation NET_MESSAGE_GAME_MESSAGE :: NetMessageType where "NET_MESSAGE_GAME_MESSAGE \<equiv> 3"
abbreviation NET_MESSAGE_GAME_PACKET :: NetMessageType where "NET_MESSAGE_GAME_PACKET \<equiv> 4"

abbreviation PACKET_STATE :: PacketType where "PACKET_STATE \<equiv> 0"
abbreviation PACKET_CALL_FUNCTION :: PacketType where "PACKET_CALL_FUNCTION \<equiv> 1"
abbreviation PACKET_TILE_CHANGE_REQUEST :: PacketType where "PACKET_TILE_CHANGE_REQUEST \<equiv> 3"
abbreviation PACKET_SEND_MAP_DATA :: PacketType where "PACKET_SEND_MAP_DATA \<equiv> 4"
abbreviation PACKET_SEND_TILE_UPDATE_DATA :: PacketType where "PACKET_SEND_TILE_UPDATE_DATA \<equiv> 5"
abbreviation PACKET_SEND_INVENTORY_STATE :: PacketType where "PACKET_SEND_INVENTORY_STATE \<equiv> 9"
abbreviation PACKET_MODIFY_ITEM_INVENTORY :: PacketType where "PACKET_MODIFY_ITEM_INVENTORY \<equiv> 13"
abbreviation PACKET_ITEM_CHANGE_OBJECT :: PacketType where "PACKET_ITEM_CHANGE_OBJECT \<equiv> 14"
abbreviation PACKET_SEND_ITEM_DATABASE_DATA :: PacketType where "PACKET_SEND_ITEM_DATABASE_DATA \<equiv> 16"
abbreviation PACKET_DISCONNECT :: PacketType where "PACKET_DISCONNECT \<equiv> 26"

subsection \<open>The packed header\<close>

record GameUpdatePacket =
  pkt_type :: PacketType
  pad :: "24 word"
  net_id :: u32
  item_net_id :: u32
  flags :: u32
  float_var :: u32
  int_data :: u32
  pos_x :: u32
  pos_y :: u32
  pos_x2 :: u32
  pos_y2 :: u32
  pad_5 :: u32
  int_x :: u32
  int_y :: u32
  data_size :: u32

text \<open>The unions: \<open>net_id\<close> with \<open>object_change_type\<close>, \<open>int_data\<close> with three other names.\<close>

abbreviation object_change_type :: "GameUpdatePacket \<Rightarrow> u32" where "object_change_type \<equiv> net_id"
abbreviation decompressed_data_size :: "GameUpdatePacket \<Rightarrow> u32" where "decompressed_data_size \<equiv> int_data"
abbreviation object_id :: "GameUpdatePacket \<Rightarrow> u32" where "object_id \<equiv> int_data"
abbreviation union_item_id :: "GameUpdatePacket \<Rightarrow> u32" where "union_item_id \<equiv> int_data"

text \<open>Value initialisation, \<open>GameUpdatePacket{}\<close>.\<close>

definition zero_packet :: GameUpdatePacket where
  "zero_packet = \<lparr>pkt_type = 0, pad = 0, net_id = 0, item_net_id = 0, flags = 0, float_var = 0,
     int_data = 0, pos_x = 0, pos_y = 0, pos_x2 = 0, pos_y2 = 0, pad_5 = 0, int_x = 0, int_y = 0,
     data_size = 0\<rparr>"

text \<open>The bit fields of \<open>flags\<close> are allocated from the lowest bit.\<close>

definition flag_extended :: "GameUpdatePacket \<Rightarrow> bool" where
  "flag_extended p = bit (flags p) 3"

definition set_extended :: "GameUpdatePacket \<Rightarrow> GameUpdatePacket" where
  "set_extended p = p\<lparr>flags := flags p OR push_bit 3 1\<rparr>"

text \<open>The object representation, as \<open>memcpy\<close> sees it.\<close>

definition encode_packet :: "GameUpdatePacket \<Rightarrow> bytes" where
  "encode_packet p =
     le_bytes (pkt_type p) @ le_bytes (pad p) @ le_bytes (net_id p) @ le_bytes (item_net_id p) @
     le_bytes (flags p) @ le_bytes (float_var p) @ le_bytes (int_data p) @ le_bytes (pos_x p) @
     le_bytes (pos_y p) @ le_bytes (pos_x2 p) @ le_bytes (pos_y2 p) @ le_bytes (pad_5 p) @
     le_bytes (int_x p) @ le_bytes (int_y p) @ le_bytes (data_size p)"

definition u32_at :: "nat \<Rightarrow> bytes \<Rightarrow> u32" where
  "u32_at i bs = of_le (take 4 (drop i bs))"

definition decode_packet :: "bytes \<Rightarrow> GameUpdatePacket" where
  "decode_packet bs = \<lparr>pkt_type = of_le (take 1 bs), pad = of_le (take 3 (drop 1 bs)),
     net_id = u32_at 4 bs, item_net_id = u32_at 8 bs, flags = u32_at 12 bs,
     float_var = u32_at 16 bs, int_data = u32_at 20 bs, pos_x = u32_at 24 bs,
     pos_y = u32_at 28 bs, pos_x2 = u32_at 32 bs, pos_y2 = u32_at 36 bs, pad_5 = u32_at 40 bs,
     int_x = u32_at 44 bs, int_y = u32_at 48 bs, data_size = u32_at 52 bs\<rparr>"

text \<open>\<open>stream.write(header)\<close> and \<open>stream.read(header)\<close> copy all 56 bytes at once.\<close>

definition write_packet :: "GameUpdatePacket \<Rightarrow> bstream \<Rightarrow> bstream" where
  "write_packet p s = write_data (encode_packet p) s"

definition rd_packet :: "GameUpdatePacket \<Rightarrow> bstream \<Rightarrow> (GameUpdatePacket \<times> bstream) option" where
  "rd_packet old s = do {
     (r, s) \<leftarrow> read_data 56 s;
     Some (case r of None \<Rightarrow> (old, s) | Some d \<Rightarrow> (decode_packet d, s))
   }"

subsection \<open>The layout is a bijection\<close>

lemma length_encode_packet [simp]: "length (encode_packet p) = 56"
  by (simp add: encode_packet_def)

lemma u32_at_skip: "length xs \<le> i \<Longrightarrow> u32_at i (xs @ ys) = u32_at (i - length xs) ys"
  by (simp add: u32_at_def)

lemma u32_at_here: "u32_at 0 (le_bytes w @ ys) = w" "u32_at 0 (le_bytes w) = w"
  by (simp_all add: u32_at_def)

lemma decode_encode_packet [simp]: "decode_packet (encode_packet p) = p"
  by (simp add: decode_packet_def encode_packet_def u32_at_skip u32_at_here)

lemma le_bytes_u32_at: "i + 4 \<le> length bs \<Longrightarrow> le_bytes (u32_at i bs) = take 4 (drop i bs)"
  by (simp add: u32_at_def le_bytes_of_le)

lemma take_drop_step: "take n (drop i bs) @ take m (drop (i + n) bs) = take (n + m) (drop i bs)"
  by (metis take_add drop_drop add.commute)

lemma encode_decode_packet:
  assumes "length bs = 56"
  shows "encode_packet (decode_packet bs) = bs"
proof -
  have "encode_packet (decode_packet bs) =
    take 1 (drop 0 bs) @ take 3 (drop 1 bs) @ take 4 (drop 4 bs) @ take 4 (drop 8 bs) @
    take 4 (drop 12 bs) @ take 4 (drop 16 bs) @ take 4 (drop 20 bs) @ take 4 (drop 24 bs) @
    take 4 (drop 28 bs) @ take 4 (drop 32 bs) @ take 4 (drop 36 bs) @ take 4 (drop 40 bs) @
    take 4 (drop 44 bs) @ take 4 (drop 48 bs) @ take 4 (drop 52 bs)"
    using assms
    by (simp add: encode_packet_def decode_packet_def le_bytes_u32_at le_bytes_of_le)
  also have "\<dots> = take 56 (drop 0 bs)"
    using take_drop_step [of 4 48 bs 4] take_drop_step [of 4 44 bs 8] take_drop_step [of 4 40 bs 12]
      take_drop_step [of 4 36 bs 16] take_drop_step [of 4 32 bs 20] take_drop_step [of 4 28 bs 24]
      take_drop_step [of 4 24 bs 28] take_drop_step [of 4 20 bs 32] take_drop_step [of 4 16 bs 36]
      take_drop_step [of 4 12 bs 40] take_drop_step [of 4 8 bs 44] take_drop_step [of 4 4 bs 48]
      take_drop_step [of 3 1 bs 52] take_drop_step [of 1 0 bs 55]
    by simp
  finally show ?thesis using assms by simp
qed

lemma safe_rd_packet [safe_intros]: "safe_reader (rd_packet old)"
  unfolding safe_reader_def rd_packet_def
  by (auto intro!: safe_run_bind safe_readerD [OF safe_read_data] split: option.split)

lemma rd_packet_enc:
  assumes s: "in_bounds s" and r: "remaining s = encode_packet p @ rest"
  shows "rd_packet old s = Some (p, advance 56 s)"
  by (simp add: rd_packet_def read_data_in_bounds [OF s] r)

lemma rd_packet_short:
  assumes "in_bounds s" and "length (remaining s) < 56"
  shows "rd_packet old s = Some (old, s)"
  using assms by (simp add: rd_packet_def read_data_in_bounds)

interpretation packet_codec: codec "rd_packet old" encode_packet "\<lambda>_. True"
  by unfold_locales (auto simp: safe_rd_packet rd_packet_enc)

lemma extended_set [simp]: "flag_extended (set_extended p)"
  by (simp add: flag_extended_def set_extended_def bit_or_iff bit_push_bit_iff)

lemma set_extended_idem: "flag_extended p \<Longrightarrow> set_extended p = p"
proof -
  assume "flag_extended p"
  then have "flags p OR push_bit 3 1 = flags p"
    unfolding flag_extended_def set_bit_eq_or [symmetric]
    by (intro bit_word_eqI) (auto simp: bit_set_bit_iff)
  then show ?thesis by (simp add: set_extended_def)
qed

lemma set_extended_select [simp]:
  "pkt_type (set_extended p) = pkt_type p" "net_id (set_extended p) = net_id p"
  "int_data (set_extended p) = int_data p" "item_net_id (set_extended p) = item_net_id p"
  "int_x (set_extended p) = int_x p" "int_y (set_extended p) = int_y p"
  "data_size (set_extended p) = data_size p"
  by (simp_all add: set_extended_def)

end
