(* ===== verification/PacketVariant.thy ===== *)
theory PacketVariant
  imports ByteStream
begin

text \<open>
  \<open>packet::PacketVariant\<close> (\<open>src/packet/packet_variant.hpp\<close>): the argument list of a remote
  call, and its wire format: a one-byte count, then for every argument its index, its type and
  its value. A \<open>float\<close> is its bit pattern.
\<close>

subsection \<open>Values\<close>

datatype variant =
    VFloat u32
  | VString string
  | VVec2 u32 u32
  | VVec3 u32 u32 u32
  | VUnsigned u32
  | VSigned u32

type_synonym variants = "variant list"

abbreviation VT_FLOAT :: u8 where "VT_FLOAT \<equiv> 1"
abbreviation VT_STRING :: u8 where "VT_STRING \<equiv> 2"
abbreviation VT_VEC2 :: u8 where "VT_VEC2 \<equiv> 3"
abbreviation VT_VEC3 :: u8 where "VT_VEC3 \<equiv> 4"
abbreviation VT_UNSIGNED :: u8 where "VT_UNSIGNED \<equiv> 5"
abbreviation VT_SIGNED :: u8 where "VT_SIGNED \<equiv> 9"

fun get_type :: "variant \<Rightarrow> u8" where
  "get_type (VFloat _) = VT_FLOAT"
| "get_type (VString _) = VT_STRING"
| "get_type (VVec2 _ _) = VT_VEC2"
| "get_type (VVec3 _ _ _) = VT_VEC3"
| "get_type (VUnsigned _) = VT_UNSIGNED"
| "get_type (VSigned _) = VT_SIGNED"

subsection \<open>Access\<close>

text \<open>
  \<open>get<T>\<close> returns the value-initialised \<open>T\<close> out of range and on a type mismatch; \<open>set\<close> out of
  range does nothing.
\<close>

definition get_string :: "variants \<Rightarrow> nat \<Rightarrow> string" where
  "get_string vs i = (if i \<ge> length vs then [] else case vs ! i of VString s \<Rightarrow> s | _ \<Rightarrow> [])"

definition get_signed :: "variants \<Rightarrow> nat \<Rightarrow> u32" where
  "get_signed vs i = (if i \<ge> length vs then 0 else case vs ! i of VSigned w \<Rightarrow> w | _ \<Rightarrow> 0)"

definition get_unsigned :: "variants \<Rightarrow> nat \<Rightarrow> u32" where
  "get_unsigned vs i = (if i \<ge> length vs then 0 else case vs ! i of VUnsigned w \<Rightarrow> w | _ \<Rightarrow> 0)"

definition set_variant :: "variants \<Rightarrow> nat \<Rightarrow> variant \<Rightarrow> variants" where
  "set_variant vs i v = (if i \<ge> length vs then vs else vs[i := v])"

definition add_variant :: "variants \<Rightarrow> variant \<Rightarrow> variants" where
  "add_variant vs v = vs @ [v]"

subsection \<open>Writing\<close>

fun write_value :: "variant \<Rightarrow> bstream \<Rightarrow> bstream" where
  "write_value (VFloat f) s = write_word f s"
| "write_value (VString str) s = write_string TYPE(32) str True s"
| "write_value (VVec2 x y) s = write_word y (write_word x s)"
| "write_value (VVec3 x y z) s = write_word z (write_word y (write_word x s))"
| "write_value (VUnsigned w) s = write_word w s"
| "write_value (VSigned w) s = write_word w s"

text \<open>The loop of \<open>serialize\<close> from index \<open>i\<close> on; the index is narrowed to one byte.\<close>

fun write_entries :: "nat \<Rightarrow> variants \<Rightarrow> bstream \<Rightarrow> bstream" where
  "write_entries i [] s = s"
| "write_entries i (v # vs) s =
     write_entries (Suc i) vs
       (write_value v (write_word (get_type v) (write_word (word_of_nat i :: u8) s)))"

definition serialize :: "variants \<Rightarrow> bytes" where
  "serialize vs = fst (take_data (write_entries 0 vs
     (write_word (word_of_nat (length vs) :: u8) empty_stream)))"

subsection \<open>Reading\<close>

text \<open>
  The body of the loop of \<open>deserialize\<close>: the index is read and ignored, an unknown type adds
  nothing and consumes nothing, and a read that runs out of data leaves the zero value.
\<close>

definition read_value :: "u8 \<Rightarrow> bstream \<Rightarrow> (variant option \<times> bstream) option" where
  "read_value type s =
     (if type = VT_FLOAT then do { (v, s) \<leftarrow> rd 0 s; Some (Some (VFloat v), s) }
      else if type = VT_STRING then do { (v, s) \<leftarrow> rd_str (0 :: u32) [] s; Some (Some (VString v), s) }
      else if type = VT_VEC2 then do { (x, s) \<leftarrow> rd 0 s; (y, s) \<leftarrow> rd 0 s; Some (Some (VVec2 x y), s) }
      else if type = VT_VEC3 then do {
        (x, s) \<leftarrow> rd 0 s; (y, s) \<leftarrow> rd 0 s; (z, s) \<leftarrow> rd 0 s; Some (Some (VVec3 x y z), s) }
      else if type = VT_UNSIGNED then do { (v, s) \<leftarrow> rd 0 s; Some (Some (VUnsigned v), s) }
      else if type = VT_SIGNED then do { (v, s) \<leftarrow> rd 0 s; Some (Some (VSigned v), s) }
      else Some (None, s))"

definition read_entry :: "bstream \<Rightarrow> ((u8 \<times> variant option) \<times> bstream) option" where
  "read_entry s = do {
     (index, s) \<leftarrow> rd 0 s;
     (type, s) \<leftarrow> rd 0 s;
     (v, s) \<leftarrow> read_value type s;
     Some ((index, v), s)
   }"

fun read_entries :: "nat \<Rightarrow> variants \<Rightarrow> bstream \<Rightarrow> (variants \<times> bstream) option" where
  "read_entries 0 vs s = Some (vs, s)"
| "read_entries (Suc n) vs s = do {
     ((_, v), s) \<leftarrow> read_entry s;
     read_entries n (case v of None \<Rightarrow> vs | Some v \<Rightarrow> vs @ [v]) s
   }"

text \<open>\<open>deserialize\<close> appends to the object's arguments; the boolean is its result.\<close>

definition deserialize :: "variants \<Rightarrow> bytes \<Rightarrow> (bool \<times> variants) option" where
  "deserialize old data = do {
     (size, s) \<leftarrow> rd (0 :: u8) (span_stream data);
     if size = 0 then Some (False, old)
     else do { (vs, _) \<leftarrow> read_entries (unat size) old s; Some (True, vs) }
   }"

subsection \<open>The wire format\<close>

fun enc_value :: "variant \<Rightarrow> bytes" where
  "enc_value (VFloat f) = le_bytes f"
| "enc_value (VString str) = enc_string TYPE(32) str"
| "enc_value (VVec2 x y) = le_bytes x @ le_bytes y"
| "enc_value (VVec3 x y z) = le_bytes x @ le_bytes y @ le_bytes z"
| "enc_value (VUnsigned w) = le_bytes w"
| "enc_value (VSigned w) = le_bytes w"

fun enc_entry :: "u8 \<times> variant option \<Rightarrow> bytes" where
  "enc_entry (i, Some v) = le_bytes i @ le_bytes (get_type v) @ enc_value v"
| "enc_entry (i, None) = le_bytes i @ le_bytes (0 :: u8)"

fun value_ok :: "variant \<Rightarrow> bool" where
  "value_ok (VString s) = (length s < 2 ^ 32)"
| "value_ok _ = True"

definition entry_ok :: "u8 \<times> variant option \<Rightarrow> bool" where
  "entry_ok e = (case snd e of None \<Rightarrow> True | Some v \<Rightarrow> value_ok v)"

lemma write_value_alt: "write_value v s = write_data (enc_value v) s"
  by (cases v) (simp_all add: write_word_def write_string_def write_data_def enc_string_def)

lemma write_entries_alt:
  "write_entries i vs s =
     write_data (concat (map enc_entry (map (\<lambda>(i, v). (word_of_nat i, Some v)) (enumerate i vs)))) s"
  by (induction i vs s rule: write_entries.induct)
    (simp_all add: write_value_alt write_word_def write_data_def)

lemma serialize_alt:
  "serialize vs = le_bytes (word_of_nat (length vs) :: u8) @
     concat (map enc_entry (map (\<lambda>(i, v). (word_of_nat i, Some v)) (enumerate 0 vs)))"
  by (simp add: serialize_def write_entries_alt write_word_def write_data_def empty_stream_def
      take_data_def le_bytes_u8)

lemma safe_read_value [safe_intros]: "safe_reader (read_value type)"
  unfolding safe_reader_def read_value_def
  by (auto intro!: safe_run_bind safe_readerD [OF safe_rd] safe_readerD [OF safe_rd_str])

lemma safe_read_entry [safe_intros]: "safe_reader read_entry"
  unfolding safe_reader_def read_entry_def
  by (auto intro!: safe_run_bind safe_readerD [OF safe_rd] safe_readerD [OF safe_read_value])

lemma safe_read_entries [safe_intros]: "safe_reader (read_entries n vs)"
proof (induction n arbitrary: vs)
  case 0
  show ?case by (simp add: safe_reader_def)
next
  case (Suc n)
  show ?case
    unfolding safe_reader_def read_entries.simps
    by (auto intro!: safe_run_bind safe_readerD [OF safe_read_entry] safe_readerD [OF Suc])
qed

lemma read_value_enc:
  assumes s: "in_bounds s" and r: "remaining s = enc_value v @ rest" and ok: "value_ok v"
  shows "read_value (get_type v) s = Some (Some v, advance (length (enc_value v)) s)"
proof (cases v)
  case (VVec2 x y)
  then have "remaining s = le_bytes x @ le_bytes y @ rest" using r by simp
  from u32_codec.dec_enc [OF s this] u32_codec.after_enc [OF s this] show ?thesis
    using VVec2 by (simp add: read_value_def u32_codec.dec_enc advance_advance)
next
  case (VVec3 x y z)
  then have x: "remaining s = le_bytes x @ le_bytes y @ le_bytes z @ rest" using r by simp
  note s1 = u32_codec.after_enc [OF s x]
  note s2 = u32_codec.after_enc [OF s1]
  show ?thesis
    using VVec3 u32_codec.dec_enc [OF s x] u32_codec.dec_enc [OF s1] u32_codec.dec_enc [OF s2]
    by (simp add: read_value_def advance_advance)
qed (use r ok s in \<open>auto simp: read_value_def u32_codec.dec_enc str32_codec.dec_enc\<close>)

lemma read_entry_enc:
  assumes s: "in_bounds s" and r: "remaining s = enc_entry e @ rest" and ok: "entry_ok e"
  shows "read_entry s = Some (e, advance (length (enc_entry e)) s)"
proof -
  obtain i ov where e: "e = (i, ov)" by (cases e)
  let ?t = "case ov of None \<Rightarrow> 0 | Some v \<Rightarrow> get_type v"
  let ?b = "case ov of None \<Rightarrow> [] | Some v \<Rightarrow> enc_value v"
  have enc: "enc_entry e = le_bytes i @ le_bytes ?t @ ?b" by (cases ov) (simp_all add: e)
  then have i: "remaining s = le_bytes i @ le_bytes ?t @ ?b @ rest" using r by simp
  note s1 = u8_codec.after_enc [OF s i]
  note s2 = u8_codec.after_enc [OF s1]
  let ?s2 = "advance (length (le_bytes ?t)) (advance (length (le_bytes i)) s)"
  have "read_value ?t ?s2 = Some (ov, advance (length ?b) ?s2)"
  proof (cases ov)
    case None
    then show ?thesis by (simp add: read_value_def)
  next
    case (Some v)
    then have v: "?t = get_type v" "?b = enc_value v" by simp_all
    have "value_ok v" using ok Some e by (simp add: entry_ok_def)
    with read_value_enc [OF s2(1) s2(2) [unfolded v(2)]] show ?thesis
      by (simp only: v) (simp add: Some)
  qed
  then show ?thesis
    using u8_codec.dec_enc [OF s i] u8_codec.dec_enc [OF s1]
    by (simp add: read_entry_def e enc [unfolded e] advance_advance)
qed

interpretation entry_codec: codec read_entry enc_entry entry_ok
  by unfold_locales (auto simp: safe_read_entry read_entry_enc)

lemma read_entries_seq:
  "rd_seq (\<lambda>_. read_entry) ys s = Some (es, s') \<Longrightarrow>
   read_entries (length ys) vs s = Some (vs @ List.map_filter snd es, s')"
proof (induction ys arbitrary: s es vs)
  case Nil
  then show ?case by (simp add: List.map_filter_def)
next
  case (Cons y ys)
  from Cons.prems obtain i v s1 es' where 1: "read_entry s = Some ((i, v), s1)"
    and 2: "rd_seq (\<lambda>_. read_entry) ys s1 = Some (es', s')" and es: "es = (i, v) # es'"
    by (auto split: bind_splits)
  show ?case
    using 1 Cons.IH [OF 2] by (cases v) (simp_all add: es List.map_filter_def)
qed

lemma map_filter_entries:
  "List.map_filter snd (map (\<lambda>(i, v). (word_of_nat i :: u8, Some v)) (enumerate k vs)) = vs"
  by (induction vs arbitrary: k) (simp_all add: List.map_filter_def)

text \<open>
  What \<open>deserialize\<close> makes of a serialized argument list, whatever follows it in the buffer:
  the arguments, appended to what was there.
\<close>

lemma deserialize_append:
  assumes n: "0 < length vs" "length vs < 256" and ok: "list_all value_ok vs"
    and len: "length (serialize vs @ rest) < 2 ^ 64"
  shows "deserialize old (serialize vs @ rest) = Some (True, old @ vs)"
proof -
  let ?es = "map (\<lambda>(i, v). (word_of_nat i :: u8, Some v)) (enumerate 0 vs)"
  let ?n = "word_of_nat (length vs) :: u8"
  let ?s = "span_stream (serialize vs @ rest)"
  have s: "in_bounds ?s" using len by simp
  have r: "remaining ?s = le_bytes ?n @ (concat (map enc_entry ?es) @ rest)"
    by (simp add: serialize_alt)
  have un: "unat ?n = length vs" using n by (simp add: unat_word_of_nat_lt)
  then have n0: "?n \<noteq> 0" using n by auto
  note s1 = u8_codec.after_enc [OF s r]
  have oks: "list_all entry_ok ?es"
    using ok by (auto simp: list_all_iff entry_ok_def in_set_enumerate_eq)
  let ?s1 = "advance (length (le_bytes ?n)) ?s"
  have "rd_seq (\<lambda>_. read_entry) ?es ?s1 =
      Some (?es, advance (length (concat (map enc_entry ?es))) ?s1)"
    using s1 oks by (intro entry_codec.dec_list) auto
  from read_entries_seq [OF this, of old] show ?thesis
    using u8_codec.dec_enc [OF s r, of 0] n0
    by (simp add: deserialize_def un map_filter_entries)
qed

lemma deserialize_count_0:
  assumes "unat (word_of_nat (length vs) :: u8) = 0" and "length (serialize vs @ rest) < 2 ^ 64"
  shows "deserialize old (serialize vs @ rest) = Some (False, old)"
proof -
  let ?s = "span_stream (serialize vs @ rest)"
  have n: "word_of_nat (length vs) = (0 :: u8)" using assms(1) by (metis unat_eq_zero)
  have "in_bounds ?s" using assms(2) by simp
  moreover have "remaining ?s = le_bytes (0 :: u8) @ (concat (map enc_entry
      (map (\<lambda>(i, v). (word_of_nat i, Some v)) (enumerate 0 vs))) @ rest)"
    by (simp add: serialize_alt n)
  ultimately have "rd 0 ?s = Some (0 :: u8, advance 1 ?s)"
    using u8_codec.dec_enc by simp
  then show ?thesis by (simp add: deserialize_def)
qed

lemma deserialize_total_aux:
  assumes "length data < 2 ^ 64"
  shows "\<exists>ok vs. deserialize old data = Some (ok, vs)"
proof -
  have s: "in_bounds (span_stream data)" using assms by simp
  obtain n s1 where 1: "rd (0 :: u8) (span_stream data) = Some (n, s1)" and s1: "in_bounds s1"
    using u8_codec.dec_total [OF s] by blast
  obtain vs s2 where "read_entries (unat n) old s1 = Some (vs, s2)"
    using safe_readerD [OF safe_read_entries [of "unat n" old] s1] by (rule safe_run_obtain) blast
  then show ?thesis using 1 by (auto simp: deserialize_def)
qed

lemma read_entries_bound:
  "read_entries n vs s = Some (vs', s') \<Longrightarrow> length vs' \<le> length vs + n"
proof (induction n arbitrary: vs s)
  case (Suc n)
  from Suc.prems obtain i v s1 where "read_entries n (case v of None \<Rightarrow> vs | Some v \<Rightarrow> vs @ [v]) s1 = Some (vs', s')"
    by (auto split: bind_splits)
  from Suc.IH [OF this] show ?case by (auto split: option.splits)
qed simp

subsection \<open>Properties\<close>

text \<open>C27: one to 255 arguments come back from their serialized form as they were.\<close>

theorem variant_roundtrip:
  assumes "0 < length vs" and "length vs < 256" and "list_all value_ok vs"
    and "length (serialize vs) < 2 ^ 64"
  shows "deserialize [] (serialize vs) = Some (True, vs)"
  using deserialize_append [of vs "[]" "[]"] assms by simp

theorem variant_roundtrip_witness:
  "deserialize [] (serialize [VString ''OnRemove'', VSigned 7, VVec2 1 2]) =
    Some (True, [VString ''OnRemove'', VSigned 7, VVec2 1 2])"
  by (rule variant_roundtrip) (simp_all add: serialize_alt enc_string_def)

text \<open>The count is one byte wide: a multiple of 256 arguments serializes to a count of zero,
  which the reader refuses.\<close>

theorem variant_count_wraps:
  assumes "length vs mod 256 = 0" and "length (serialize vs) < 2 ^ 64"
  shows "deserialize old (serialize vs) = Some (False, old)"
  using deserialize_count_0 [of vs "[]"] assms by (simp add: unat_of_nat take_bit_eq_mod)

theorem variant_count_wraps_witness:
  "deserialize [] (serialize (replicate 256 (VSigned 1))) = Some (False, [])"
proof (rule variant_count_wraps)
  have "length (concat (map enc_entry (map (\<lambda>(i, v). (word_of_nat i, Some v)) (enumerate k (replicate n (VSigned 1)))))) = 6 * n"
    for k n by (induction n arbitrary: k) simp_all
  then show "length (serialize (replicate 256 (VSigned 1))) < 2 ^ 64"
    by (simp only: serialize_alt length_append) simp
qed simp

text \<open>Reading arguments from any bytes at all comes to a result, never leaves the buffer, and
  adds at most 255 arguments.\<close>

theorem deserialize_total:
  assumes "length data < 2 ^ 64"
  shows "\<exists>ok vs. deserialize old data = Some (ok, vs) \<and> length vs \<le> length old + 255"
proof -
  obtain ok vs where 1: "deserialize old data = Some (ok, vs)"
    using deserialize_total_aux [OF assms] by blast
  then obtain n :: u8 and s where "rd 0 (span_stream data) = Some (n, s)"
    and "n = 0 \<and> vs = old \<or> (\<exists>s'. read_entries (unat n) old s = Some (vs, s'))"
    by (auto simp: deserialize_def bind_eq_Some_conv split: if_splits)
  moreover have "unat n \<le> 255" for n :: u8
    using unsigned_less [of n, where ?'a = nat] by simp
  ultimately have "length vs \<le> length old + 255"
    by (metis add_left_mono le_add1 le_trans read_entries_bound)
  with 1 show ?thesis by blast
qed

theorem deserialize_total_witness:
  "\<exists>ok vs. deserialize [] [3, 0, 2, 255] = Some (ok, vs) \<and> length vs \<le> length ([] :: variants) + 255"
  by (rule deserialize_total) simp

end
