(* ===== verification/Payload.thy ===== *)
theory Payload
  imports TextParse PacketTypes PacketVariant
begin

text \<open>
  \<open>src/packet/payload.hpp\<close> and \<open>src/packet/packet_id.hpp\<close>: the decoded forms of a message and
  the identifier that selects the packet class for each.
\<close>

subsection \<open>Payloads\<close>

datatype Payload =
    TextPayload (message_type: NetMessageType) (text_data: text_data) (text_bytes: bytes)
  | GamePayload (game_header: GameUpdatePacket) (game_extra: bytes) (game_bytes: bytes)
  | VariantPayload (call_header: GameUpdatePacket) (call_args: variants) (call_bytes: bytes)
  | RawPayload bytes

text \<open>
  \<open>Payload{}\<close> and \<open>return {}\<close> make the first alternative with its default argument, an empty
  game message.
\<close>

definition default_payload :: Payload where
  "default_payload = TextPayload NET_MESSAGE_GAME_MESSAGE [] []"

text \<open>\<open>explicit VariantPayload(PacketVariant)\<close>: the header's \<open>net_id\<close> and data size are -1.\<close>

definition variant_payload :: "variants \<Rightarrow> Payload" where
  "variant_payload vs = VariantPayload (zero_packet\<lparr>net_id := - 1, int_data := - 1\<rparr>) vs []"

fun get_payload_type :: "Payload \<Rightarrow> u8" where
  "get_payload_type (TextPayload _ _ _) = 0"
| "get_payload_type (GamePayload _ _ _) = 1"
| "get_payload_type (VariantPayload _ _ _) = 2"
| "get_payload_type (RawPayload _) = 3"

definition function_name :: "variants \<Rightarrow> string" where
  "function_name vs = get_string vs 0"

subsection \<open>Packet identifiers\<close>

type_synonym PacketId = u32

abbreviation Id_ServerHello :: PacketId where "Id_ServerHello \<equiv> 0"
abbreviation Id_Quit :: PacketId where "Id_Quit \<equiv> 0x1001"
abbreviation Id_QuitToExit :: PacketId where "Id_QuitToExit \<equiv> 0x1002"
abbreviation Id_JoinRequest :: PacketId where "Id_JoinRequest \<equiv> 0x1003"
abbreviation Id_ValidateWorld :: PacketId where "Id_ValidateWorld \<equiv> 0x1004"
abbreviation Id_Input :: PacketId where "Id_Input \<equiv> 0x1005"
abbreviation Id_Log :: PacketId where "Id_Log \<equiv> 0x1006"
abbreviation Id_OnNameChanged :: PacketId where "Id_OnNameChanged \<equiv> 0x1007"
abbreviation Id_OnChangeSkin :: PacketId where "Id_OnChangeSkin \<equiv> 0x1008"
abbreviation Id_Disconnect :: PacketId where "Id_Disconnect \<equiv> 0x2001"
abbreviation Id_TileChangeRequest :: PacketId where "Id_TileChangeRequest \<equiv> 0x2002"
abbreviation Id_SendMapData :: PacketId where "Id_SendMapData \<equiv> 0x2003"
abbreviation Id_SendTileUpdateData :: PacketId where "Id_SendTileUpdateData \<equiv> 0x2004"
abbreviation Id_SendItemDatabaseData :: PacketId where "Id_SendItemDatabaseData \<equiv> 0x2005"
abbreviation Id_SendInventoryState :: PacketId where "Id_SendInventoryState \<equiv> 0x2006"
abbreviation Id_ModifyItemInventory :: PacketId where "Id_ModifyItemInventory \<equiv> 0x2007"
abbreviation Id_ItemChangeObject :: PacketId where "Id_ItemChangeObject \<equiv> 0x2008"
abbreviation Id_OnSendToServer :: PacketId where "Id_OnSendToServer \<equiv> 0x3001"
abbreviation Id_OnSpawn :: PacketId where "Id_OnSpawn \<equiv> 0x3002"
abbreviation Id_OnRemove :: PacketId where "Id_OnRemove \<equiv> 0x3003"
abbreviation Id_OnSuperMain :: PacketId where "Id_OnSuperMain \<equiv> 0x3004"
abbreviation Id_Unknown :: PacketId where "Id_Unknown \<equiv> 0xFFFFFFFF"

definition VARIANT_FUNCTION_MAP :: "(string \<times> PacketId) list" where
  "VARIANT_FUNCTION_MAP =
     [(''OnSendToServer'', Id_OnSendToServer),
      (''OnSpawn'', Id_OnSpawn),
      (''OnRemove'', Id_OnRemove),
      (''OnNameChanged'', Id_OnNameChanged),
      (''OnChangeSkin'', Id_OnChangeSkin),
      (''OnSuperMainStartAcceptLogonHrdxs47254722215a'', Id_OnSuperMain)]"

definition GAME_PACKET_MAP :: "(PacketType \<times> PacketId) list" where
  "GAME_PACKET_MAP =
     [(PACKET_DISCONNECT, Id_Disconnect),
      (PACKET_TILE_CHANGE_REQUEST, Id_TileChangeRequest),
      (PACKET_SEND_MAP_DATA, Id_SendMapData),
      (PACKET_SEND_TILE_UPDATE_DATA, Id_SendTileUpdateData),
      (PACKET_SEND_ITEM_DATABASE_DATA, Id_SendItemDatabaseData),
      (PACKET_SEND_INVENTORY_STATE, Id_SendInventoryState),
      (PACKET_MODIFY_ITEM_INVENTORY, Id_ModifyItemInventory),
      (PACKET_ITEM_CHANGE_OBJECT, Id_ItemChangeObject)]"

subsection \<open>Text patterns\<close>

text \<open>
  The regular expressions of the code have the form \<open>^literal\<close> or \<open>^literal$\<close>. Whether the
  anchors also match at line breaks is the choice of the standard library (\<open>multiline\<close>): the
  C++ standard's default is that they do not, the Microsoft library's that they do.
\<close>

definition text_regex_patterns :: "(string \<times> bool \<times> PacketId) list" where
  "text_regex_patterns =
     [(''action|quit'', True, Id_Quit),
      (''action|quit_to_exit'', True, Id_QuitToExit),
      (''action|join_request'', True, Id_JoinRequest),
      (''action|validate_world'', True, Id_ValidateWorld),
      (''action|input'', False, Id_Input),
      (''action|log'', True, Id_Log)]"

definition line_terminator :: "char \<Rightarrow> bool" where
  "line_terminator c \<longleftrightarrow> c = CHR 0x0A \<or> c = CHR 0x0D"

definition match_at :: "bool \<Rightarrow> string \<Rightarrow> bool \<Rightarrow> string \<Rightarrow> bool" where
  "match_at multiline lit eol s =
     (take (length lit) s = lit \<and>
      (eol \<longrightarrow> (case drop (length lit) s of [] \<Rightarrow> True | c # _ \<Rightarrow> multiline \<and> line_terminator c)))"

fun match_lines :: "string \<Rightarrow> bool \<Rightarrow> string \<Rightarrow> bool" where
  "match_lines lit eol [] = False"
| "match_lines lit eol (c # s) = ((line_terminator c \<and> match_at True lit eol s) \<or> match_lines lit eol s)"

definition regex_search :: "bool \<Rightarrow> string \<Rightarrow> bool \<Rightarrow> string \<Rightarrow> bool" where
  "regex_search multiline lit eol s = (match_at multiline lit eol s \<or> (multiline \<and> match_lines lit eol s))"

subsection \<open>Deriving the identifier\<close>

definition derive_text_id :: "bool \<Rightarrow> NetMessageType \<Rightarrow> text_data \<Rightarrow> PacketId" where
  "derive_text_id multiline type d =
     (if type = NET_MESSAGE_SERVER_HELLO then Id_ServerHello
      else case find (\<lambda>(lit, eol, _). regex_search multiline lit eol (raw d)) text_regex_patterns of
        Some (_, _, i) \<Rightarrow> i
      | None \<Rightarrow> Id_Unknown)"

definition derive_game_id :: "GameUpdatePacket \<Rightarrow> PacketId" where
  "derive_game_id p = (case map_of GAME_PACKET_MAP (pkt_type p) of Some i \<Rightarrow> i | None \<Rightarrow> Id_Unknown)"

definition derive_variant_id :: "variants \<Rightarrow> PacketId" where
  "derive_variant_id vs =
     (case map_of VARIANT_FUNCTION_MAP (function_name vs) of Some i \<Rightarrow> i | None \<Rightarrow> Id_Unknown)"

text \<open>
  The visitor calls \<open>derive_packet_id\<close> on the alternative it finds. There is no overload for
  \<open>RawPayload\<close>, which converts back to \<open>Payload\<close> and calls the visitor again.
\<close>

partial_function (option) derive_packet_id :: "bool \<Rightarrow> Payload \<Rightarrow> PacketId option" where
  "derive_packet_id multiline p =
     (case p of
        TextPayload type d _ \<Rightarrow> Some (derive_text_id multiline type d)
      | GamePayload pkt _ _ \<Rightarrow> Some (derive_game_id pkt)
      | VariantPayload _ vs _ \<Rightarrow> Some (derive_variant_id vs)
      | RawPayload d \<Rightarrow> derive_packet_id multiline (RawPayload d))"

lemmas derive_packet_id_simps [simp] =
  derive_packet_id.simps [of _ "TextPayload _ _ _", simplified]
  derive_packet_id.simps [of _ "GamePayload _ _ _", simplified]
  derive_packet_id.simps [of _ "VariantPayload _ _ _", simplified]

lemma derive_raw_never: "derive_packet_id multiline p = Some i \<Longrightarrow> \<forall>d. p \<noteq> RawPayload d"
  by (rule derive_packet_id.raw_induct [of "\<lambda>_ p _. \<forall>d. p \<noteq> RawPayload d"])
    (auto split: Payload.splits)

text \<open>With the anchors of the standard, the whole text has to be one of the literals.\<close>

lemma single_line_search:
  "regex_search False lit eol s = (if eol then s = lit else take (length lit) s = lit)"
  by (auto simp: regex_search_def match_at_def split: list.splits)

lemma derive_text_single_line:
  "derive_text_id False type d =
     (if type = NET_MESSAGE_SERVER_HELLO then Id_ServerHello
      else if raw d = ''action|quit'' then Id_Quit
      else if raw d = ''action|quit_to_exit'' then Id_QuitToExit
      else if raw d = ''action|join_request'' then Id_JoinRequest
      else if raw d = ''action|validate_world'' then Id_ValidateWorld
      else if take (length ''action|input'') (raw d) = ''action|input'' then Id_Input
      else if raw d = ''action|log'' then Id_Log
      else Id_Unknown)"
  by (simp add: derive_text_id_def text_regex_patterns_def single_line_search)

end
