(* ===== verification/Zlib.thy ===== *)
theory Zlib
  imports ByteStream
begin

text \<open>
  \<open>src/utils/zlib.hpp\<close>: the wrappers around zlib. The library itself is a parameter, a record of
  the calls the code makes: \<open>inflateInit\<close> on the input, \<open>inflate\<close> into a buffer of a given size
  (result code, bytes produced, next stream state), \<open>compressBound\<close>, \<open>deflateInit\<close> and a
  finishing \<open>deflate\<close> into a buffer of a given size.
\<close>

abbreviation Z_OK :: int where "Z_OK \<equiv> 0"
abbreviation Z_STREAM_END :: int where "Z_STREAM_END \<equiv> 1"
abbreviation Z_STREAM_ERROR :: int where "Z_STREAM_ERROR \<equiv> - 2"
abbreviation Z_DEFAULT_COMPRESSION :: int where "Z_DEFAULT_COMPRESSION \<equiv> - 1"

record 'z zlib =
  inflateInit :: "bytes \<Rightarrow> 'z option"
  inflate :: "'z \<Rightarrow> nat \<Rightarrow> int \<times> bytes \<times> 'z"
  compressBound :: "nat \<Rightarrow> nat"
  deflateInit :: "int \<Rightarrow> bool"
  deflate :: "int \<Rightarrow> bytes \<Rightarrow> nat \<Rightarrow> int \<times> bytes"

text \<open>\<open>avail_in\<close> is a 32-bit count.\<close>

definition avail_in :: "bytes \<Rightarrow> bytes" where
  "avail_in d = take (length d mod 2 ^ 32) d"

definition resize :: "bytes \<Rightarrow> nat \<Rightarrow> bytes" where
  "resize d n = take n d @ replicate (n - length d) 0"

text \<open>
  The \<open>do ... while (stream.avail_out == 0)\<close> loop, with the output vector as accumulator. It
  need not end for an arbitrary library, which is \<open>None\<close>; \<open>Inl\<close> is the stream error, \<open>Inr\<close>
  the last result code.
\<close>

partial_function (option) inflate_loop :: "'z zlib \<Rightarrow> 'z \<Rightarrow> bytes \<Rightarrow> (bytes + int \<times> bytes) option" where
  "inflate_loop lib z out =
     (let (ret, have, z') = inflate lib z 8192
      in if ret = Z_STREAM_ERROR then Some (Inl out)
         else if length have = 8192 then inflate_loop lib z' (out @ have)
         else Some (Inr (ret, out @ have)))"

text \<open>The result and the output vector afterwards.\<close>

definition decompress_zlib :: "'z zlib \<Rightarrow> bytes \<Rightarrow> bytes \<Rightarrow> u32 \<Rightarrow> (bool \<times> bytes) option" where
  "decompress_zlib lib compressed old expected =
     (if compressed = [] then Some (False, old)
      else case inflateInit lib (avail_in compressed) of
        None \<Rightarrow> Some (False, old)
      | Some z \<Rightarrow> do {
          r \<leftarrow> inflate_loop lib z (if expected > 0 then resize old (unat expected) else []);
          Some (case r of
              Inl out \<Rightarrow> (False, out)
            | Inr (ret, out) \<Rightarrow>
                (ret = Z_STREAM_END \<and> \<not> (expected > 0 \<and> length out \<noteq> unat expected), out))
        })"

definition compress_zlib :: "'z zlib \<Rightarrow> bytes \<Rightarrow> bytes \<Rightarrow> int \<Rightarrow> bool \<times> bytes" where
  "compress_zlib lib d old level =
     (if d = [] then (False, old)
      else let bound = compressBound lib (length d)
        in if \<not> deflateInit lib level then (False, resize old bound)
           else let (ret, out) = deflate lib level (avail_in d) (bound mod 2 ^ 32)
             in if ret \<noteq> Z_STREAM_END then (False, out @ drop (length out) (resize old bound))
                else (True, resize (out @ drop (length out) (resize old bound)) (length out)))"

subsection \<open>What the loop collects\<close>

text \<open>
  \<open>delivers lib z out\<close>: from the state \<open>z\<close> the library hands out \<open>out\<close> in full buffers and then a
  last short one with \<open>Z_STREAM_END\<close>, as zlib does on a complete stream.
\<close>

inductive delivers :: "'z zlib \<Rightarrow> 'z \<Rightarrow> bytes \<Rightarrow> bool" for lib where
  last: "inflate lib z 8192 = (Z_STREAM_END, out, z') \<Longrightarrow> length out < 8192 \<Longrightarrow> delivers lib z out"
| full: "inflate lib z 8192 = (ret, chunk, z') \<Longrightarrow> ret \<noteq> Z_STREAM_ERROR \<Longrightarrow> length chunk = 8192 \<Longrightarrow>
    delivers lib z' out \<Longrightarrow> delivers lib z (chunk @ out)"

lemma inflate_loop_delivers:
  "delivers lib z out \<Longrightarrow> inflate_loop lib z acc = Some (Inr (Z_STREAM_END, acc @ out))"
proof (induction arbitrary: acc rule: delivers.induct)
  case (last z out z')
  then show ?case by (simp add: inflate_loop.simps [of lib z])
next
  case (full z ret chunk z' out)
  then show ?case by (simp add: inflate_loop.simps [of lib z])
qed

lemma inflate_loop_extends:
  fixes lib :: "'z zlib"
  assumes "inflate_loop lib z acc = Some (Inr (ret, d))"
  shows "\<exists>out. d = acc @ out"
proof -
  let ?P = "\<lambda>(lib :: 'z zlib) (z :: 'z) acc (r :: bytes + int \<times> bytes).
      \<forall>ret d. r = Inr (ret, d) \<longrightarrow> (\<exists>out. d = acc @ out)"
  have "?P lib z acc (Inr (ret, d))"
  proof (rule inflate_loop.raw_induct [of ?P, OF _ assms], intro allI impI)
    fix loop lib z acc ret d and r :: "bytes + int \<times> bytes"
    assume IH: "\<And>(lib :: 'z zlib) z acc r. loop lib z acc = Some r \<Longrightarrow> ?P lib z acc r"
      and r: "r = Inr (ret, d)"
    assume step: "(let (ret, have, z') = inflate lib z 8192
      in if ret = Z_STREAM_ERROR then Some (Inl acc)
         else if length have = 8192 then loop lib z' (acc @ have)
         else Some (Inr (ret, acc @ have))) = Some r"
    obtain c h z' where i: "inflate lib z 8192 = (c, h, z')" by (metis prod_cases3)
    show "\<exists>out. d = acc @ out"
    proof (cases "length h = 8192 \<and> c \<noteq> Z_STREAM_ERROR")
      case True
      then have "loop lib z' (acc @ h) = Some (Inr (ret, d))" using step i r by simp
      from IH [OF this] show ?thesis by auto
    next
      case False
      then show ?thesis using step i r by (auto split: if_splits)
    qed
  qed
  then show ?thesis by simp
qed

lemma length_resize [simp]: "length (resize d n) = n"
  by (simp add: resize_def)

lemma decompress_sized_true:
  assumes "decompress_zlib lib c old n = Some (True, d)" and "n \<noteq> 0"
  shows "d = resize old (unat n)"
proof -
  have n: "n > 0" using assms(2) by (simp add: word_neq_0_conv)
  obtain z r where "inflate_loop lib z (resize old (unat n)) = Some r"
    and r: "(case r of Inl out \<Rightarrow> (False, out) | Inr (ret, out) \<Rightarrow>
        (ret = Z_STREAM_END \<and> \<not> (n > 0 \<and> length out \<noteq> unat n), out)) = (True, d)"
    using assms(1) n
    by (auto simp: decompress_zlib_def bind_eq_Some_conv split: if_splits option.splits)
  then obtain ret where ret: "inflate_loop lib z (resize old (unat n)) = Some (Inr (ret, d))"
    and "length d = unat n"
    using n by (auto split: sum.splits prod.splits)
  with inflate_loop_extends [OF ret] show ?thesis by auto
qed

text \<open>A stream that is used up by every full buffer comes to an end.\<close>

lemma inflate_loop_returns:
  assumes "\<And>z ret have z'. inflate lib z 8192 = (ret, have, z') \<Longrightarrow> ret \<noteq> Z_STREAM_ERROR \<Longrightarrow>
      length have = 8192 \<Longrightarrow> rest z' < (rest z :: nat)"
  shows "\<exists>r. inflate_loop lib z acc = Some r"
proof (induction "rest z" arbitrary: z acc rule: less_induct)
  case less
  obtain ret got z' where i: "inflate lib z 8192 = (ret, got, z')" by (metis prod_cases3)
  show ?case
  proof (cases "ret \<noteq> Z_STREAM_ERROR \<and> length got = 8192")
    case True
    with less assms i show ?thesis by (simp add: inflate_loop.simps [of lib z])
  next
    case False
    with i show ?thesis by (auto simp: inflate_loop.simps [of lib z])
  qed
qed

subsection \<open>Properties\<close>

text \<open>C28: a complete stream is decompressed to its contents when no size is announced, and refused
  when its size is announced, however correct the announcement.\<close>

theorem decompress_announced_size:
  assumes "c \<noteq> []" and "inflateInit lib (avail_in c) = Some z" and "delivers lib z out" and "out \<noteq> []"
    and "n \<noteq> 0"
  shows "decompress_zlib lib c old 0 = Some (True, out) \<and>
    decompress_zlib lib c old n = Some (False, resize old (unat n) @ out)"
  using assms
  by (simp add: decompress_zlib_def inflate_loop_delivers [OF assms(3)] word_neq_0_conv)

text \<open>A zlib that stores: the data is its own compressed form.\<close>

definition stored_zlib :: "bytes zlib" where
  "stored_zlib = \<lparr>inflateInit = Some,
     inflate = (\<lambda>z n. if length z < n then (Z_STREAM_END, z, []) else (Z_OK, take n z, drop n z)),
     compressBound = (\<lambda>n. n), deflateInit = (\<lambda>_. True), deflate = (\<lambda>_ d n. (Z_STREAM_END, d))\<rparr>"

lemma stored_delivers: "delivers stored_zlib z z"
proof (induction "length z" arbitrary: z rule: less_induct)
  case less
  show ?case
  proof (cases "length z < 8192")
    case True
    then show ?thesis by (intro delivers.last) (simp_all add: stored_zlib_def)
  next
    case False
    have "delivers stored_zlib z (take 8192 z @ drop 8192 z)"
      by (rule delivers.full [of _ _ Z_OK _ "drop 8192 z"])
        (use False less in \<open>auto simp: stored_zlib_def\<close>)
    then show ?thesis by simp
  qed
qed

theorem decompress_announced_size_witness:
  "decompress_zlib stored_zlib [7] [] 1 = Some (False, [0, 7])"
proof -
  have "inflateInit stored_zlib (avail_in [7]) = Some [7]"
    by (simp add: stored_zlib_def avail_in_def)
  from decompress_announced_size [OF _ this stored_delivers, of 1 "[]"] show ?thesis
    by (simp add: resize_def)
qed

text \<open>C29: decompression always returns when the library has less left to hand out after every full
  buffer, whatever the input, the old contents and the announced size.\<close>

theorem decompress_terminates:
  assumes "\<And>z ret have z'. inflate lib z 8192 = (ret, have, z') \<Longrightarrow> ret \<noteq> Z_STREAM_ERROR \<Longrightarrow>
      length have = 8192 \<Longrightarrow> rest z' < (rest z :: nat)"
  shows "\<exists>ok out. decompress_zlib lib c old n = Some (ok, out)"
proof (cases "inflateInit lib (avail_in c)")
  case None
  then show ?thesis by (auto simp: decompress_zlib_def)
next
  case (Some z)
  have "\<exists>r. inflate_loop lib z (if n > 0 then resize old (unat n) else []) = Some r"
    by (rule inflate_loop_returns [of lib rest]) (rule assms)
  then obtain r where "inflate_loop lib z (if n > 0 then resize old (unat n) else []) = Some r" ..
  with Some show ?thesis by (cases r) (auto simp: decompress_zlib_def)
qed

theorem decompress_terminates_witness:
  "\<exists>ok out. decompress_zlib stored_zlib (replicate 20000 7) [] 0 = Some (ok, out)"
  by (rule decompress_terminates [where rest = length])
    (auto simp: stored_zlib_def split: if_splits)

end
