(* ===== verification/Packets.thy ===== *)
theory Packets
  imports Payload Zlib
begin

text \<open>
  The packet classes: \<open>src/packet/packet_helper.hpp\<close> (the base classes), \<open>generic_packets.hpp\<close>,
  \<open>message/*.hpp\<close> and \<open>game/*.hpp\<close>. A class is a record that extends the record of its base;
  \<open>read\<close> returns its boolean with the object afterwards, \<open>write\<close> the payload. Signed members are
  kept as words. Objects come from \<open>std::make_shared<T>()\<close> or \<open>T{}\<close>, which zero the members that
  no constructor sets.
\<close>

subsection \<open>Base classes\<close>

record IPacketBase =
  raw_data :: bytes

record TextPacket = IPacketBase +
  text_parse :: text_data

record GamePacket = IPacketBase +
  game_packet :: GameUpdatePacket
  extra :: bytes

record VariantPacket = IPacketBase +
  variant :: variants
  call_packet :: GameUpdatePacket

definition new_text :: TextPacket where
  "new_text = \<lparr>raw_data = [], text_parse = []\<rparr>"

definition new_game :: GamePacket where
  "new_game = \<lparr>raw_data = [], game_packet = zero_packet, extra = []\<rparr>"

definition new_variant :: VariantPacket where
  "new_variant = \<lparr>raw_data = [], variant = [], call_packet = zero_packet\<rparr>"

text \<open>\<open>get_payload_if<T>\<close>: the alternative, or a null pointer.\<close>

definition text_payload_if :: "Payload \<Rightarrow> (NetMessageType \<times> text_data \<times> bytes) option" where
  "text_payload_if p = (case p of TextPayload t d r \<Rightarrow> Some (t, d, r) | _ \<Rightarrow> None)"

definition game_payload_if :: "Payload \<Rightarrow> (GameUpdatePacket \<times> bytes \<times> bytes) option" where
  "game_payload_if p = (case p of GamePayload h e r \<Rightarrow> Some (h, e, r) | _ \<Rightarrow> None)"

definition variant_payload_if :: "Payload \<Rightarrow> (GameUpdatePacket \<times> variants \<times> bytes) option" where
  "variant_payload_if p = (case p of VariantPayload h v r \<Rightarrow> Some (h, v, r) | _ \<Rightarrow> None)"

lemma payload_if_simps [simp]:
  "text_payload_if (TextPayload t d r) = Some (t, d, r)"
  "text_payload_if (GamePayload h e r) = None" "text_payload_if (VariantPayload h v r) = None"
  "game_payload_if (GamePayload h e r) = Some (h, e, r)"
  "game_payload_if (TextPayload t d r) = None" "game_payload_if (VariantPayload h v r) = None"
  "variant_payload_if (VariantPayload h v r) = Some (h, v, r)"
  "variant_payload_if (TextPayload t d r) = None" "variant_payload_if (GamePayload h e r) = None"
  by (simp_all add: text_payload_if_def game_payload_if_def variant_payload_if_def)

subsection \<open>Generic packets\<close>

record GenericTextPacket = TextPacket +
  generic_message_type :: NetMessageType

definition new_generic_text :: GenericTextPacket where
  "new_generic_text = \<lparr>raw_data = [], text_parse = [], generic_message_type = NET_MESSAGE_GAME_MESSAGE\<rparr>"

definition GenericTextPacket_read :: "Payload \<Rightarrow> GenericTextPacket \<Rightarrow> bool \<times> GenericTextPacket" where
  "GenericTextPacket_read payload p =
     (case text_payload_if payload of
        None \<Rightarrow> (False, p)
      | Some (t, d, r) \<Rightarrow> (True, p\<lparr>text_parse := d, generic_message_type := t, raw_data := r\<rparr>))"

definition GenericTextPacket_write :: "GenericTextPacket \<Rightarrow> Payload" where
  "GenericTextPacket_write p = TextPayload (generic_message_type p) (text_parse p) []"

definition GenericVariantPacket_read :: "Payload \<Rightarrow> VariantPacket \<Rightarrow> bool \<times> VariantPacket" where
  "GenericVariantPacket_read payload p =
     (case variant_payload_if payload of
        None \<Rightarrow> (False, p)
      | Some (h, v, r) \<Rightarrow> (True, p\<lparr>variant := v, call_packet := h, raw_data := r\<rparr>))"

definition GenericVariantPacket_write :: "VariantPacket \<Rightarrow> Payload" where
  "GenericVariantPacket_write p = VariantPayload (call_packet p) (variant p) []"

definition GenericGamePacket_read :: "Payload \<Rightarrow> GamePacket \<Rightarrow> bool \<times> GamePacket" where
  "GenericGamePacket_read payload p =
     (case game_payload_if payload of
        None \<Rightarrow> (False, p)
      | Some (h, e, r) \<Rightarrow> (True, p\<lparr>game_packet := h, extra := e, raw_data := r\<rparr>))"

definition GenericGamePacket_write :: "GamePacket \<Rightarrow> Payload" where
  "GenericGamePacket_write p = GamePayload (game_packet p) (extra p) []"

subsection \<open>Text messages\<close>

text \<open>\<open>ServerHello\<close>, \<open>Quit\<close> and \<open>QuitToExit\<close> add no member and read alike.\<close>

definition ServerHello_read :: "Payload \<Rightarrow> TextPacket \<Rightarrow> bool \<times> TextPacket" where
  "ServerHello_read payload p =
     (case text_payload_if payload of None \<Rightarrow> (False, p) | Some (_, d, _) \<Rightarrow> (True, p\<lparr>text_parse := d\<rparr>))"

definition ServerHello_write :: "TextPacket \<Rightarrow> Payload" where
  "ServerHello_write p = TextPayload NET_MESSAGE_SERVER_HELLO [] []"

definition Quit_read :: "Payload \<Rightarrow> TextPacket \<Rightarrow> bool \<times> TextPacket" where
  "Quit_read payload p =
     (case text_payload_if payload of None \<Rightarrow> (False, p) | Some (_, d, _) \<Rightarrow> (True, p\<lparr>text_parse := d\<rparr>))"

definition Quit_write :: "TextPacket \<Rightarrow> Payload" where
  "Quit_write p = TextPayload NET_MESSAGE_GAME_MESSAGE (add [] ''action'' [''quit'']) []"

definition QuitToExit_read :: "Payload \<Rightarrow> TextPacket \<Rightarrow> bool \<times> TextPacket" where
  "QuitToExit_read payload p =
     (case text_payload_if payload of None \<Rightarrow> (False, p) | Some (_, d, _) \<Rightarrow> (True, p\<lparr>text_parse := d\<rparr>))"

definition QuitToExit_write :: "TextPacket \<Rightarrow> Payload" where
  "QuitToExit_write p = TextPayload NET_MESSAGE_GAME_MESSAGE (add [] ''action'' [''quit_to_exit'']) []"

record JoinRequest = TextPacket +
  join_world_name :: string
  invited_world :: bool

definition new_JoinRequest :: JoinRequest where
  "new_JoinRequest = \<lparr>raw_data = [], text_parse = [], join_world_name = [], invited_world = False\<rparr>"

definition JoinRequest_read :: "Payload \<Rightarrow> JoinRequest \<Rightarrow> bool \<times> JoinRequest" where
  "JoinRequest_read payload p =
     (case text_payload_if payload of
        None \<Rightarrow> (False, p)
      | Some (_, d, _) \<Rightarrow>
          (True, p\<lparr>text_parse := d, join_world_name := get d ''name'' 0,
             invited_world := (get d ''invitedWorld'' 0 = ''1'')\<rparr>))"

definition JoinRequest_write :: "JoinRequest \<Rightarrow> Payload" where
  "JoinRequest_write p =
     (let d = add [] ''action'' [''join_request''];
          d = add d ''name'' [join_world_name p];
          d = add d ''invitedWorld'' [if invited_world p then ''1'' else ''0'']
      in TextPayload NET_MESSAGE_GAME_MESSAGE d [])"

record ValidateWorld = TextPacket +
  validate_world_name :: string

definition new_ValidateWorld :: ValidateWorld where
  "new_ValidateWorld = \<lparr>raw_data = [], text_parse = [], validate_world_name = []\<rparr>"

definition ValidateWorld_read :: "Payload \<Rightarrow> ValidateWorld \<Rightarrow> bool \<times> ValidateWorld" where
  "ValidateWorld_read payload p =
     (case text_payload_if payload of
        None \<Rightarrow> (False, p)
      | Some (_, d, _) \<Rightarrow> (True, p\<lparr>text_parse := d, validate_world_name := get d ''name'' 1\<rparr>))"

definition ValidateWorld_write :: "ValidateWorld \<Rightarrow> Payload" where
  "ValidateWorld_write p =
     TextPayload NET_MESSAGE_GAME_MESSAGE
       (add (add [] ''action'' [''validate_world'']) ''name'' [validate_world_name p]) []"

record Input = TextPacket +
  input_text :: string

definition new_Input :: Input where
  "new_Input = \<lparr>raw_data = [], text_parse = [], input_text = []\<rparr>"

definition Input_read :: "Payload \<Rightarrow> Input \<Rightarrow> bool \<times> Input" where
  "Input_read payload p =
     (case text_payload_if payload of
        None \<Rightarrow> (False, p)
      | Some (_, d, _) \<Rightarrow> (True, p\<lparr>text_parse := d, input_text := get d ''text'' 0\<rparr>))"

definition Input_write :: "Input \<Rightarrow> Payload" where
  "Input_write p =
     TextPayload NET_MESSAGE_GENERIC_TEXT
       (add (add [] ''action'' [''input'']) '''' [''text'', input_text p]) []"

record Log = TextPacket +
  msg :: string

definition new_Log :: Log where
  "new_Log = \<lparr>raw_data = [], text_parse = [], msg = []\<rparr>"

definition Log_read :: "Payload \<Rightarrow> Log \<Rightarrow> bool \<times> Log" where
  "Log_read payload p =
     (case text_payload_if payload of
        None \<Rightarrow> (False, p)
      | Some (_, d, _) \<Rightarrow> (True, p\<lparr>text_parse := d, msg := get d ''msg'' 1\<rparr>))"

definition Log_write :: "Log \<Rightarrow> Payload" where
  "Log_write p =
     TextPayload NET_MESSAGE_GAME_MESSAGE
       (add (add [] ''action'' [''log'']) ''msg'' [msg p]) []"

end
