(* ===== verification/GamePackets.thy ===== *)
theory GamePackets
  imports Packets
begin

text \<open>
  The classes of \<open>src/packet/game/*.hpp\<close>: packets whose content is the binary header and its
  extra data, and remote calls whose content is a variant list.
\<close>

subsection \<open>Header packets\<close>

definition Disconnect_read :: "Payload \<Rightarrow> GamePacket \<Rightarrow> bool \<times> GamePacket" where
  "Disconnect_read payload p = (game_payload_if payload \<noteq> None, p)"

definition Disconnect_write :: "GamePacket \<Rightarrow> Payload" where
  "Disconnect_write p = GamePayload (zero_packet\<lparr>pkt_type := PACKET_DISCONNECT, net_id := - 1\<rparr>) [] []"

definition SendMapData_read :: "Payload \<Rightarrow> GamePacket \<Rightarrow> bool \<times> GamePacket" where
  "SendMapData_read payload p =
     (case game_payload_if payload of None \<Rightarrow> (False, p) | Some (_, e, _) \<Rightarrow> (True, p\<lparr>extra := e\<rparr>))"

definition SendMapData_write :: "GamePacket \<Rightarrow> Payload" where
  "SendMapData_write p =
     (if extra p = [] then default_payload
      else GamePayload (zero_packet\<lparr>pkt_type := PACKET_SEND_MAP_DATA, net_id := - 1\<rparr>) (extra p) [])"

definition SendTileUpdateData_read :: "Payload \<Rightarrow> GamePacket \<Rightarrow> bool \<times> GamePacket" where
  "SendTileUpdateData_read payload p =
     (case game_payload_if payload of None \<Rightarrow> (False, p) | Some (_, e, _) \<Rightarrow> (True, p\<lparr>extra := e\<rparr>))"

definition SendTileUpdateData_write :: "GamePacket \<Rightarrow> Payload" where
  "SendTileUpdateData_write p =
     (if extra p = [] then default_payload
      else GamePayload (zero_packet\<lparr>pkt_type := PACKET_SEND_TILE_UPDATE_DATA, net_id := - 1\<rparr>) (extra p) [])"

text \<open>\<open>SendInventoryState\<close> hides the \<open>extra\<close> of its base behind one of its own.\<close>

record SendInventoryState = GamePacket +
  inventory_extra :: bytes

definition new_SendInventoryState :: SendInventoryState where
  "new_SendInventoryState =
     \<lparr>raw_data = [], game_packet = zero_packet, extra = [], inventory_extra = []\<rparr>"

definition SendInventoryState_read :: "Payload \<Rightarrow> SendInventoryState \<Rightarrow> bool \<times> SendInventoryState" where
  "SendInventoryState_read payload p =
     (case game_payload_if payload of
        None \<Rightarrow> (False, p)
      | Some (_, e, _) \<Rightarrow> (True, p\<lparr>inventory_extra := e\<rparr>))"

definition SendInventoryState_write :: "SendInventoryState \<Rightarrow> Payload" where
  "SendInventoryState_write p =
     (if inventory_extra p = [] then default_payload
      else GamePayload (zero_packet\<lparr>pkt_type := PACKET_SEND_INVENTORY_STATE, net_id := - 1\<rparr>)
             (inventory_extra p) [])"

record ModifyItemInventory = GamePacket +
  modify_item_id :: u32
  modify_amount :: u32
  modify_net_id :: u32

definition new_ModifyItemInventory :: ModifyItemInventory where
  "new_ModifyItemInventory =
     \<lparr>raw_data = [], game_packet = zero_packet, extra = [], modify_item_id = 0, modify_amount = 0,
      modify_net_id = - 1\<rparr>"

definition ModifyItemInventory_read :: "Payload \<Rightarrow> ModifyItemInventory \<Rightarrow> bool \<times> ModifyItemInventory" where
  "ModifyItemInventory_read payload p =
     (case game_payload_if payload of
        None \<Rightarrow> (False, p)
      | Some (h, _, _) \<Rightarrow>
          (True, p\<lparr>game_packet := h, modify_item_id := union_item_id h,
             modify_amount := int_data h, modify_net_id := net_id h\<rparr>))"

text \<open>The second assignment to the union overwrites the first.\<close>

definition ModifyItemInventory_write :: "ModifyItemInventory \<Rightarrow> Payload" where
  "ModifyItemInventory_write p =
     (if modify_item_id p = 0 then default_payload
      else let h = zero_packet\<lparr>pkt_type := PACKET_MODIFY_ITEM_INVENTORY\<rparr>;
               h = h\<lparr>int_data := modify_item_id p\<rparr>;
               h = h\<lparr>int_data := modify_amount p\<rparr>;
               h = h\<lparr>net_id := modify_net_id p\<rparr>
           in GamePayload h [] [])"

record SendItemDatabaseData = GamePacket +
  items_dat :: bytes

definition new_SendItemDatabaseData :: SendItemDatabaseData where
  "new_SendItemDatabaseData =
     \<lparr>raw_data = [], game_packet = zero_packet, extra = [], items_dat = []\<rparr>"

definition SendItemDatabaseData_read ::
  "'z zlib \<Rightarrow> Payload \<Rightarrow> SendItemDatabaseData \<Rightarrow> (bool \<times> SendItemDatabaseData) option"
where
  "SendItemDatabaseData_read lib payload p =
     (case game_payload_if payload of
        None \<Rightarrow> Some (False, p)
      | Some (h, e, _) \<Rightarrow>
          if e = [] then Some (False, p)
          else if decompressed_data_size h = 0 then Some (False, p)
          else do {
            (ok, d) \<leftarrow> decompress_zlib lib e (items_dat p) (decompressed_data_size h);
            Some (ok, p\<lparr>items_dat := d\<rparr>)
          })"

definition SendItemDatabaseData_write :: "'z zlib \<Rightarrow> SendItemDatabaseData \<Rightarrow> Payload" where
  "SendItemDatabaseData_write lib p =
     (if items_dat p = [] then default_payload
      else let h = zero_packet\<lparr>pkt_type := PACKET_SEND_ITEM_DATABASE_DATA, net_id := - 1\<rparr>;
               (ok, c) = compress_zlib lib (items_dat p) [] Z_DEFAULT_COMPRESSION
           in if \<not> ok then default_payload
              else GamePayload (h\<lparr>int_data := word_of_nat (length (items_dat p))\<rparr>) c [])"

record TileChangeRequest = GamePacket +
  tile_int_x :: u32
  tile_int_y :: u32
  tile_item_id :: u32

definition new_TileChangeRequest :: TileChangeRequest where
  "new_TileChangeRequest =
     \<lparr>raw_data = [], game_packet = zero_packet, extra = [], tile_int_x = 0, tile_int_y = 0,
      tile_item_id = 0\<rparr>"

definition TileChangeRequest_read :: "Payload \<Rightarrow> TileChangeRequest \<Rightarrow> bool \<times> TileChangeRequest" where
  "TileChangeRequest_read payload p =
     (case game_payload_if payload of
        None \<Rightarrow> (False, p)
      | Some (h, _, _) \<Rightarrow>
          (True, p\<lparr>game_packet := h, tile_int_x := int_x h, tile_int_y := int_y h,
             tile_item_id := item_net_id h\<rparr>))"

definition TileChangeRequest_write :: "TileChangeRequest \<Rightarrow> Payload" where
  "TileChangeRequest_write p =
     (if tile_item_id p = 0 then default_payload
      else GamePayload (zero_packet\<lparr>int_x := tile_int_x p, int_y := tile_int_y p,
             item_net_id := tile_item_id p\<rparr>) [] [])"

record ItemChangeObject = GamePacket +
  ico_pos_x :: u16
  ico_pos_y :: u16
  ico_item_id :: u16
  ico_amount :: u16
  ico_object_change_type :: u8
  ico_item_net_id :: u16

definition new_ItemChangeObject :: ItemChangeObject where
  "new_ItemChangeObject =
     \<lparr>raw_data = [], game_packet = zero_packet, extra = [], ico_pos_x = 0, ico_pos_y = 0,
      ico_item_id = 0, ico_amount = 0, ico_object_change_type = 0, ico_item_net_id = 0\<rparr>"

definition ItemChangeObject_read :: "Payload \<Rightarrow> ItemChangeObject \<Rightarrow> bool \<times> ItemChangeObject" where
  "ItemChangeObject_read payload p =
     (case game_payload_if payload of
        None \<Rightarrow> (False, p)
      | Some (h, _, _) \<Rightarrow>
          (True, p\<lparr>game_packet := h, ico_pos_x := ucast (int_x h), ico_pos_y := ucast (int_y h),
             ico_object_change_type := ucast (object_change_type h),
             ico_item_net_id := ucast (item_net_id h), ico_amount := ucast (int_data h),
             ico_item_id := ucast (union_item_id h)\<rparr>))"

definition ItemChangeObject_write :: "ItemChangeObject \<Rightarrow> Payload" where
  "ItemChangeObject_write p =
     (if ico_item_id p = 0 then default_payload
      else let h = zero_packet\<lparr>int_x := ucast (ico_pos_x p), int_y := ucast (ico_pos_y p)\<rparr>;
               h = h\<lparr>net_id := ucast (ico_object_change_type p)\<rparr>;
               h = h\<lparr>item_net_id := ucast (ico_item_net_id p)\<rparr>;
               h = h\<lparr>int_data := ucast (ico_amount p)\<rparr>;
               h = h\<lparr>int_data := ucast (ico_item_id p)\<rparr>
           in GamePayload h [] [])"

subsection \<open>Remote calls\<close>

record OnSendToServer = VariantPacket +
  server_port :: u16
  server_token :: u32
  server_user :: u32
  server_address :: string
  server_door_id :: string
  server_uuid_token :: string
  server_login_mode :: u8
  server_username :: string

definition new_OnSendToServer :: OnSendToServer where
  "new_OnSendToServer =
     \<lparr>raw_data = [], variant = [], call_packet = zero_packet, server_port = 0, server_token = 0, server_user = 0,
      server_address = [], server_door_id = [], server_uuid_token = [], server_login_mode = 0, server_username = []\<rparr>"

definition OnSendToServer_read :: "Payload \<Rightarrow> OnSendToServer \<Rightarrow> bool \<times> OnSendToServer" where
  "OnSendToServer_read payload p =
     (case variant_payload_if payload of
        None \<Rightarrow> (False, p)
      | Some (h, vs, _) \<Rightarrow>
          let p = p\<lparr>variant := vs, call_packet := h\<rparr>
          in if length vs < 5 then (False, p)
             else let text = get_string vs 4;
                      key = takeWhile (\<lambda>c. c \<noteq> CHR ''|'') text;
                      d = parse text bar
                  in (True, p\<lparr>server_port := ucast (get_signed vs 1), server_token := get_signed vs 2,
                        server_user := get_signed vs 3, server_address := key, server_door_id := get d key 0,
                        server_uuid_token := get d key 1, server_login_mode := ucast (get_unsigned vs 5),
                        server_username := get_string vs 6\<rparr>))"

definition OnSendToServer_write :: "OnSendToServer \<Rightarrow> Payload" where
  "OnSendToServer_write p =
     VariantPayload (call_packet p)
       [VString ''OnSendToServer'', VSigned (ucast (server_port p)), VSigned (server_token p), VSigned (server_user p),
        VString (raw (add [] (server_address p) [server_door_id p, server_uuid_token p])),
        VUnsigned (ucast (server_login_mode p)), VString (server_username p)] []"

record OnSuperMain = VariantPacket +
  item_hash :: u32
  super_u :: string
  super_uu :: string
  super_uuu :: string
  player_tribute_hash :: u32

definition new_OnSuperMain :: OnSuperMain where
  "new_OnSuperMain =
     \<lparr>raw_data = [], variant = [], call_packet = zero_packet, item_hash = 0, super_u = [], super_uu = [], super_uuu = [],
      player_tribute_hash = 0\<rparr>"

definition OnSuperMain_read :: "Payload \<Rightarrow> OnSuperMain \<Rightarrow> bool \<times> OnSuperMain" where
  "OnSuperMain_read payload p =
     (case variant_payload_if payload of
        None \<Rightarrow> (False, p)
      | Some (h, vs, _) \<Rightarrow>
          let p = p\<lparr>variant := vs, call_packet := h\<rparr>
          in if length vs < 4 then (False, p)
             else (True, p\<lparr>item_hash := get_signed vs 1, super_u := get_string vs 2, super_uu := get_string vs 3,
                    super_uuu := get_string vs 4, player_tribute_hash := get_unsigned vs 5\<rparr>))"

definition OnSuperMain_write :: "OnSuperMain \<Rightarrow> Payload" where
  "OnSuperMain_write p =
     VariantPayload (call_packet p)
       [VString ''OnSuperMainStartAcceptLogonHrdxs47254722215a'', VSigned (item_hash p),
        VString (super_u p), VString (super_uu p), VString (super_uuu p), VUnsigned (player_tribute_hash p)] []"

record OnNameChanged = VariantPacket +
  name_net_id :: u32
  new_name :: string

definition new_OnNameChanged :: OnNameChanged where
  "new_OnNameChanged =
     \<lparr>raw_data = [], variant = [], call_packet = zero_packet, name_net_id = - 1, new_name = []\<rparr>"

definition OnNameChanged_read :: "Payload \<Rightarrow> OnNameChanged \<Rightarrow> bool \<times> OnNameChanged" where
  "OnNameChanged_read payload p =
     (case variant_payload_if payload of
        None \<Rightarrow> (False, p)
      | Some (h, vs, _) \<Rightarrow>
          let p = p\<lparr>variant := vs, call_packet := h\<rparr>
          in if length vs < 2 then (False, p) else (True, p\<lparr>new_name := get_string vs 1\<rparr>))"

text \<open>\<open>write\<close> of these two stores the target in the object's header.\<close>

definition OnNameChanged_write :: "OnNameChanged \<Rightarrow> Payload \<times> OnNameChanged" where
  "OnNameChanged_write p =
     (let h = (call_packet p)\<lparr>net_id := name_net_id p\<rparr>
      in (VariantPayload h [VString ''OnNameChanged'', VString (new_name p)] [], p\<lparr>call_packet := h\<rparr>))"

record OnChangeSkin = VariantPacket +
  skin_net_id :: u32
  skin_code :: u32

definition new_OnChangeSkin :: OnChangeSkin where
  "new_OnChangeSkin =
     \<lparr>raw_data = [], variant = [], call_packet = zero_packet, skin_net_id = - 1, skin_code = 0\<rparr>"

definition OnChangeSkin_read :: "Payload \<Rightarrow> OnChangeSkin \<Rightarrow> bool \<times> OnChangeSkin" where
  "OnChangeSkin_read payload p =
     (case variant_payload_if payload of
        None \<Rightarrow> (False, p)
      | Some (h, vs, _) \<Rightarrow>
          let p = p\<lparr>variant := vs, call_packet := h\<rparr>
          in if length vs < 2 then (False, p) else (True, p\<lparr>skin_code := get_unsigned vs 1\<rparr>))"

definition OnChangeSkin_write :: "OnChangeSkin \<Rightarrow> Payload \<times> OnChangeSkin" where
  "OnChangeSkin_write p =
     (let h = (call_packet p)\<lparr>net_id := skin_net_id p\<rparr>
      in (VariantPayload h [VString ''OnChangeSkin'', VUnsigned (skin_code p)] [], p\<lparr>call_packet := h\<rparr>))"

record OnSpawn = VariantPacket +
  spawn :: string
  spawn_net_id :: u32
  spawn_user_id :: u32
  country_code :: string
  spawn_name :: string
  spawn_position :: "u32 \<times> u32"
  spawn_collision :: "u32 \<times> u32 \<times> u32 \<times> u32"
  invisible :: u32
  mod_state :: u32
  supermod_state :: u32
  online_id :: u32
  spawn_type :: string
  title_icon :: string

definition new_OnSpawn :: OnSpawn where
  "new_OnSpawn =
     \<lparr>raw_data = [], variant = [], call_packet = zero_packet, spawn = [], spawn_net_id = - 1,
      spawn_user_id = 0, country_code = [], spawn_name = [], spawn_position = (0, 0),
      spawn_collision = (0, 0, 0, 0), invisible = 0, mod_state = 0, supermod_state = 0,
      online_id = 0, spawn_type = [], title_icon = []\<rparr>"

text \<open>\<open>parser.get<int32_t>(key, index)\<close> and \<open>parser.add(key, int)\<close>.\<close>

definition get_int32 :: "text_data \<Rightarrow> string \<Rightarrow> int \<Rightarrow> u32" where
  "get_int32 d key index = word_of_int (get_i32 d key index)"

definition int32_chars :: "u32 \<Rightarrow> string" where
  "int32_chars w = to_chars (sint w)"

definition OnSpawn_parse :: "text_data \<Rightarrow> OnSpawn \<Rightarrow> OnSpawn" where
  "OnSpawn_parse d p = p
     \<lparr>spawn := get d ''spawn'' 0, spawn_net_id := get_int32 d ''netID'' 0,
      spawn_user_id := get_int32 d ''userID'' 0, country_code := get d ''country'' 0,
      spawn_name := get d ''name'' 0,
      spawn_position := (get_int32 d ''posXY'' 0, get_int32 d ''posXY'' 1),
      spawn_collision := (get_int32 d ''colrect'' 0, get_int32 d ''colrect'' 1,
        get_int32 d ''colrect'' 2, get_int32 d ''colrect'' 3),
      invisible := get_int32 d ''invis'' 0, mod_state := get_int32 d ''mstate'' 0,
      supermod_state := get_int32 d ''smstate'' 0, online_id := get_int32 d ''onlineID'' 0,
      spawn_type := get d ''type'' 0, title_icon := get d ''titleIcon'' 0\<rparr>"

definition OnSpawn_read :: "Payload \<Rightarrow> OnSpawn \<Rightarrow> bool \<times> OnSpawn" where
  "OnSpawn_read payload p =
     (case variant_payload_if payload of
        None \<Rightarrow> (False, p)
      | Some (h, vs, _) \<Rightarrow>
          let p = p\<lparr>variant := vs, call_packet := h\<rparr>
          in if length vs < 2 then (False, p)
             else (True, OnSpawn_parse (parse (get_string vs 1) bar) p))"

definition OnSpawn_text :: "OnSpawn \<Rightarrow> text_data" where
  "OnSpawn_text p =
     (let d = add [] ''spawn'' [spawn p];
          d = add d ''netID'' [int32_chars (spawn_net_id p)];
          d = add d ''userID'' [int32_chars (spawn_user_id p)];
          d = add d ''name'' [spawn_name p];
          d = add d ''titleIcon'' [title_icon p];
          d = add d ''country'' [country_code p];
          d = add d ''posXY'' [int32_chars (fst (spawn_position p)), int32_chars (snd (spawn_position p))];
          d = add d ''colrect'' (case spawn_collision p of (x, y, z, w) \<Rightarrow>
                [int32_chars x, int32_chars y, int32_chars z, int32_chars w]);
          d = add d ''invis'' [int32_chars (invisible p)];
          d = add d ''mstate'' [int32_chars (mod_state p)];
          d = add d ''smstate'' [int32_chars (supermod_state p)];
          d = add d ''onlineID'' [[]];
          d = add d ''type'' [spawn_type p]
      in d)"

definition OnSpawn_write :: "OnSpawn \<Rightarrow> Payload" where
  "OnSpawn_write p =
     VariantPayload (call_packet p) [VString ''OnSpawn'', VString (raw (OnSpawn_text p))] []"

record OnRemove = VariantPacket +
  remove_net_id :: u32
  player_id :: u32

definition new_OnRemove :: OnRemove where
  "new_OnRemove =
     \<lparr>raw_data = [], variant = [], call_packet = zero_packet, remove_net_id = - 1, player_id = 0\<rparr>"

definition OnRemove_read :: "Payload \<Rightarrow> OnRemove \<Rightarrow> bool \<times> OnRemove" where
  "OnRemove_read payload p =
     (case variant_payload_if payload of
        None \<Rightarrow> (False, p)
      | Some (h, vs, _) \<Rightarrow>
          let p = p\<lparr>variant := vs, call_packet := h\<rparr>
          in if length vs < 3 then (False, p)
             else let d = parse (get_string vs 1) bar;
                      p = (if contains d ''netID'' then p\<lparr>remove_net_id := get_int32 d ''netID'' 0\<rparr> else p);
                      d = parse (get_string vs 2) bar;
                      p = (if contains d ''pId'' then p\<lparr>player_id := get_int32 d ''pId'' 0\<rparr> else p)
                  in (True, p))"

definition OnRemove_write :: "OnRemove \<Rightarrow> Payload" where
  "OnRemove_write p =
     VariantPayload (call_packet p)
       [VString ''OnRemove'', VString (''netID|'' @ int32_chars (remove_net_id p)),
        VString (''pId|'' @ int32_chars (player_id p))] []"

end
