(* ===== verification/World.thy ===== *)
theory World
  imports TileMap GamePackets
begin

text \<open>
  \<open>world::World\<close> (\<open>src/world/world.hpp\<close>) and \<open>player::Player\<close> (\<open>src/player/player.hpp\<close>): the world
  the proxy believes the client is in, its players, and the parser of map data. The table of
  players maps net identifiers to players; a \<open>weak_ptr\<close> to one of them is the player or nothing.
\<close>

subsection \<open>Players\<close>

text \<open>
  \<open>Player\<close> gets its coordinates through \<open>glm::vec2\<close>: an \<open>int32_t\<close> is rounded to the nearest
  \<open>float\<close>, ties to even, and converted back. The result can be \<open>2 ^ 31\<close>, whose conversion to
  \<open>int\<close> is undefined.
\<close>

fun bit_length :: "nat \<Rightarrow> nat" where
  "bit_length n = (if n = 0 then 0 else Suc (bit_length (n div 2)))"

declare bit_length.simps [simp del]

definition round_nat :: "nat \<Rightarrow> nat" where
  "round_nat n =
     (let k = bit_length n - 24; q = n div 2 ^ k; r = n mod 2 ^ k; h = 2 ^ k div 2
      in if k = 0 then n
         else (if r > h \<or> r = h \<and> odd q then q + 1 else q) * 2 ^ k)"

definition float_round :: "u32 \<Rightarrow> u32 option" where
  "float_round w =
     (let x = sint w; y = (if x < 0 then - int (round_nat (nat (- x))) else int (round_nat (nat x)))
      in if y < 2 ^ 31 then Some (word_of_int y) else None)"

record Player =
  player_net_id :: u32
  player_user_id :: u32
  player_name :: string
  player_country :: string
  player_position :: "u32 \<times> u32"
  player_collision :: "u32 \<times> u32 \<times> u32 \<times> u32"
  player_invisible :: u32
  player_mod_state :: u32
  player_supermod_state :: u32
  is_local :: bool

definition from_on_spawn :: "OnSpawn \<Rightarrow> Player option" where
  "from_on_spawn p = do {
     x \<leftarrow> float_round (fst (spawn_position p));
     y \<leftarrow> float_round (snd (spawn_position p));
     let (a, b, c, d) = spawn_collision p;
     a \<leftarrow> float_round a;
     b \<leftarrow> float_round b;
     c \<leftarrow> float_round c;
     d \<leftarrow> float_round d;
     Some \<lparr>player_net_id = spawn_net_id p, player_user_id = spawn_user_id p,
       player_name = spawn_name p, player_country = country_code p, player_position = (x, y),
       player_collision = (a, b, c, d), player_invisible = invisible p,
       player_mod_state = mod_state p, player_supermod_state = supermod_state p,
       is_local = (spawn_type p = ''local'')\<rparr>
   }"

subsection \<open>The world\<close>

record World =
  players :: "u32 \<Rightarrow> Player option"
  local_net_id :: u32
  world_version :: u16
  world_name :: string
  tile_map :: WorldTileMap
  object_map :: WorldObjectMap

definition new_World :: World where
  "new_World = \<lparr>players = (\<lambda>_. None), local_net_id = - 1, world_version = 0, world_name = [],
     tile_map = new_WorldTileMap, object_map = new_WorldObjectMap\<rparr>"

definition add_player :: "Player \<Rightarrow> World \<Rightarrow> World" where
  "add_player p w =
     (let w = (if is_local p then w\<lparr>local_net_id := player_net_id p\<rparr> else w)
      in w\<lparr>players := (players w)(player_net_id p \<mapsto> p)\<rparr>)"

definition remove_player :: "u32 \<Rightarrow> World \<Rightarrow> World" where
  "remove_player i w =
     (if i \<noteq> local_net_id w then w\<lparr>players := (players w)(i := None)\<rparr> else w)"

definition clear_world :: "World \<Rightarrow> World" where
  "clear_world w = w\<lparr>players := (\<lambda>_. None), local_net_id := - 1, tile_map := new_WorldTileMap,
     object_map := new_WorldObjectMap\<rparr>"

definition get_player :: "World \<Rightarrow> u32 \<Rightarrow> Player option" where
  "get_player w i = players w i"

definition get_local_player :: "World \<Rightarrow> Player option" where
  "get_local_player w = (if sint (local_net_id w) < 0 then None else get_player w (local_net_id w))"

text \<open>The extended data may be a null pointer.\<close>

definition World_serialize :: "ItemDatabase \<Rightarrow> junk \<Rightarrow> bytes option \<Rightarrow> World \<Rightarrow> World option" where
  "World_serialize db J extended_data w =
     (case extended_data of
        None \<Rightarrow> Some w
      | Some data \<Rightarrow> do {
          (version, s) \<leftarrow> rd (world_version w) (span_stream data);
          (_, s) \<leftarrow> skips 4 s;
          (name, s) \<leftarrow> rd_str (0 :: u16) (world_name w) s;
          (tm, s) \<leftarrow> TileMap_serialize db J version (tile_map w) s;
          (om, s) \<leftarrow> ObjectMap_serialize (object_map w) s;
          Some (w\<lparr>world_version := version, world_name := name, tile_map := tm, object_map := om\<rparr>)
        })"

subsection \<open>The format of map data\<close>

definition enc_world :: "ItemDatabase \<Rightarrow> World \<Rightarrow> bytes" where
  "enc_world db w = le_bytes (world_version w) @ replicate 4 0 @ enc_string TYPE(16) (world_name w) @
     enc_tile_map db (tile_map w) @ enc_object_map (object_map w)"

definition world_ok :: "ItemDatabase \<Rightarrow> World \<Rightarrow> bool" where
  "world_ok db w \<longleftrightarrow> length (world_name w) < 65536 \<and> tile_map_ok db (world_version w) (tile_map w) \<and>
     length (objects (object_map w)) < 2 ^ 32"

lemma reads_world:
  assumes "world_ok db w" and "tiles (tile_map w0) = []" and "objects (object_map w0) = []"
  shows "reads (\<lambda>s. do {
      (version, s) \<leftarrow> rd (world_version w0) s;
      (_, s) \<leftarrow> skips 4 s;
      (name, s) \<leftarrow> rd_str (0 :: u16) (world_name w0) s;
      (tm, s) \<leftarrow> TileMap_serialize db J version (tile_map w0) s;
      (om, s) \<leftarrow> ObjectMap_serialize (object_map w0) s;
      Some (w0\<lparr>world_version := version, world_name := name, tile_map := tm, object_map := om\<rparr>, s)
    }) (w0\<lparr>world_version := world_version w, world_name := world_name w, tile_map := tile_map w,
        object_map := object_map w\<rparr>) (enc_world db w)"
proof -
  have ok: "length (world_name w) < 65536" "tile_map_ok db (world_version w) (tile_map w)"
    "length (objects (object_map w)) < 2 ^ 32" using assms(1) by (simp_all add: world_ok_def)
  note last = reads_bind_last [OF reads_object_map [OF ok(3) assms(3)],
    of "\<lambda>om. w0\<lparr>world_version := world_version w, world_name := world_name w, tile_map := tile_map w, object_map := om\<rparr>"]
  show ?thesis
    unfolding enc_world_def
    by (rule reads_bindI [where x = "world_version w"], rule reads_bindI [where x = "()"],
        rule reads_bindI [where x = "world_name w"], rule reads_bindI [where x = "tile_map w"], rule last)
      (rule reads_tile_map [OF ok(2) assms(2)] reads_skips [of "replicate 4 0"] reads_rd reads_str refl ok(1) | simp)+
qed

subsection \<open>Coordinates\<close>

lemma bit_length_le: "n < 2 ^ k \<Longrightarrow> bit_length n \<le> k"
proof (induction n arbitrary: k rule: bit_length.induct)
  case (1 n)
  show ?case
  proof (cases "n = 0")
    case False
    with 1(2) obtain j where j: "k = Suc j" by (cases k) auto
    then have "n div 2 < 2 ^ j" using 1(2) by auto
    from 1(1) [OF False this] False j show ?thesis by (simp add: bit_length.simps [of n])
  qed (simp add: bit_length.simps)
qed

lemma bit_length_pow: "bit_length (2 ^ k) = Suc k"
  by (induction k) (simp_all add: bit_length.simps [of "2 ^ _"] bit_length.simps [of "2 * _"] bit_length.simps [of "Suc 0"]
      bit_length.simps [of 0])

lemma round_nat_small: "n \<le> 2 ^ 24 \<Longrightarrow> round_nat n = n"
proof (cases "n < 2 ^ 24")
  case True
  then show ?thesis using bit_length_le [of n 24] by (simp add: round_nat_def)
next
  case False
  assume "n \<le> 2 ^ 24"
  with False have n: "n = 2 ^ 24" by simp
  show ?thesis unfolding n by (simp only: round_nat_def bit_length_pow Let_def) simp
qed

lemma float_round_small:
  assumes "\<bar>sint w\<bar> \<le> 2 ^ 24"
  shows "float_round w = Some w"
proof -
  let ?x = "sint w"
  have "(if ?x < 0 then - int (round_nat (nat (- ?x))) else int (round_nat (nat ?x))) = ?x"
    using assms by (auto simp: round_nat_small)
  moreover have "?x < 2 ^ 31" using assms by simp
  ultimately show ?thesis by (simp add: float_round_def Let_def)
qed

subsection \<open>Histories of players\<close>

datatype player_event = Joined Player | Left u32

fun player_step :: "player_event \<Rightarrow> World \<Rightarrow> World" where
  "player_step (Joined p) w = add_player p w"
| "player_step (Left i) w = remove_player i w"

text \<open>An event that brings neither another local player nor someone else under the identifier.\<close>

fun leaves_alone :: "u32 \<Rightarrow> player_event \<Rightarrow> bool" where
  "leaves_alone i (Joined q) \<longleftrightarrow> \<not> is_local q \<and> player_net_id q \<noteq> i"
| "leaves_alone i (Left _) \<longleftrightarrow> True"

lemma player_steps_keep:
  assumes "list_all (leaves_alone i) es" and "local_net_id w = i"
  shows "local_net_id (fold player_step es w) = i \<and> players (fold player_step es w) i = players w i"
  using assms
proof (induction es arbitrary: w)
  case (Cons e es)
  have "local_net_id (player_step e w) = i \<and> players (player_step e w) i = players w i"
    using Cons.prems by (cases e) (auto simp: add_player_def remove_player_def)
  then show ?case using Cons.IH [of "player_step e w"] Cons.prems by simp
qed simp

subsection \<open>Reading over the end\<close>

lemma bind_none: "m \<bind> (\<lambda>(x, s). None) = None"
  by (cases m) auto

lemma read_over_end:
  assumes "length (get_raw_ptr s) < unat (read_offset s)" and "unat (read_offset s) < 2 ^ 63"
    and "0 < unat n" and "unat n < 2 ^ 63"
  shows "read_data n s = None"
proof -
  have "unat (get_size s) = length (get_raw_ptr s)"
    using assms(1,2) by (simp add: get_size_alt unat_word_of_nat_lt)
  then have "unat (get_size s - read_offset s) = 2 ^ 64 + length (get_raw_ptr s) - unat (read_offset s)"
    using assms(1) by (simp add: unat_sub_if_size word_size)
  then have "\<not> get_size s - read_offset s < n"
    using assms by (simp add: word_less_nat_alt)
  then show ?thesis using assms(1) by (simp add: read_data_def)
qed

lemma short_map_read:
  assumes "length data < 6"
  shows "rd_str (0 :: u16) old (skip 4 (skip (of_bool (2 \<le> length data) * 2) (span_stream data))) = None"
    (is "rd_str _ _ ?s = None")
proof -
  have off: "read_offset ?s = 4 + of_bool (2 \<le> length data) * 2"
    by (simp add: skip_def span_stream_def)
  have "length (get_raw_ptr ?s) < unat (read_offset ?s)"
    unfolding off get_raw_ptr_skip using assms by (auto simp: span_stream_def get_raw_ptr_def)
  moreover have "unat (read_offset ?s) < 2 ^ 63" unfolding off by auto
  ultimately have "read_data 2 ?s = None" by (intro read_over_end) simp_all
  then show ?thesis by (simp add: rd_str_def read_string_def read_word_def)
qed

subsection \<open>Properties\<close>


text \<open>A world of two tiles, a locked door with its data and a plain one, and one object; in the database
  no item has a type of its own.\<close>

definition demo_db :: ItemDatabase where
  "demo_db = \<lparr>db_version = 23, db_count = 2, db_items = [[], []]\<rparr>"

definition demo_world :: World where
  "demo_world = new_World\<lparr>world_version := 20, world_name := ''START'',
     tile_map := \<lparr>map_size = (2, 1), tiles =
       [new_Tile\<lparr>foreground := 1, tile_flag := 3, lock_parent_tile := 7,
          tile_extra := \<lparr>extra_type = 1, extra_value = Door ''EXIT'' 0\<rparr>\<rparr>,
        new_Tile\<lparr>background := 14\<rparr>]\<rparr>,
     object_map := \<lparr>drop_id = 5, objects = [new_Object\<lparr>obj_item_id := 112, obj_amount := 3, obj_id := 5\<rparr>]\<rparr>\<rparr>"

lemma demo_world_ok: "world_ok demo_db demo_world"
  by (simp add: world_ok_def demo_world_def demo_db_def tile_map_ok_def tile_ok_def reads_extra_data_def
      idiot_growtopia_dev_def get_item_def new_Tile_def has_flag_def extra_ok_def new_World_def field_u8_def
      new_TileExtra_def)

lemma demo_world_short: "length (enc_world demo_db demo_world @ []) < 2 ^ 64"
  by (simp add: enc_world_def demo_world_def demo_db_def enc_tile_map_def enc_tile_def enc_object_map_def
      enc_object_def new_World_def new_Tile_def enc_string_def enc_extra_def reads_extra_data_def
      idiot_growtopia_dev_def get_item_def has_flag_def field_u8_def)


text \<open>Map data of fewer than six bytes is read beyond its end, whatever the proxy knew before: the
  cursor is moved over the four unknown bytes without looking and the name is read from there.\<close>

theorem short_map_data_faults:
  assumes "length data < 6"
  shows "World_serialize db J (Some data) w = None"
proof -
  have s: "in_bounds (span_stream data)" using assms by simp
  have "rd (world_version w) (span_stream data) =
      Some (if 2 \<le> length data then of_le (take 2 data) else world_version w,
        skip (of_bool (2 \<le> length data) * 2) (span_stream data))"
    by (simp add: rd_def read_word_in_bounds [OF s] advance_def skip_def)
  then show ?thesis
    by (simp add: World_serialize_def skips_def short_map_read [OF assms])
qed

theorem short_map_data_faults_witness: "World_serialize demo_db (\<lambda>_ _. 0) (Some [20, 0, 0, 0, 0]) new_World = None"
  by (rule short_map_data_faults) simp

text \<open>A tile that is not flagged as having extra data and whose foreground the item database does not
  know is a null pointer dereference, whatever comes behind it; with an empty database, any tile is.\<close>

theorem unknown_item_faults:
  fixes fg bg parent fl :: u16
  assumes "length (db_items db) \<le> unat fg" and "\<not> has_flag fl TileFlag_Extra"
    and "length rest < 2 ^ 63"
  shows "Tile_serialize db J version t
      (span_stream (le_bytes fg @ le_bytes bg @ le_bytes parent @ le_bytes fl @ rest)) = None"
    (is "Tile_serialize _ _ _ _ (span_stream ?d) = None")
proof -
  have s0: "in_bounds (span_stream ?d)" using assms(3) by (intro in_bounds_span) simp
  have r0: "remaining (span_stream ?d) = ?d" by simp
  note s1 = u16_codec.after_enc [OF s0 r0] and d1 = u16_codec.dec_enc [OF s0 r0]
  note s2 = u16_codec.after_enc [OF s1] and d2 = u16_codec.dec_enc [OF s1]
  note s3 = u16_codec.after_enc [OF s2] and d3 = u16_codec.dec_enc [OF s2]
  note s4 = u16_codec.after_enc [OF s3] and d4 = u16_codec.dec_enc [OF s3]
  have "get_item db (ucast fg) = None"
    using assms(1) by (simp add: get_item_def unat_ucast_up)
  then have "reads_extra_data db fl fg bg = None"
    using assms(2) by (simp add: reads_extra_data_def idiot_growtopia_dev_def)
  then show ?thesis
    using d1 d2 d3 d4 by (simp add: Tile_serialize_def bind_none)
qed

theorem unknown_item_faults_witness:
  "Tile_serialize clear_database (\<lambda>_ _. 0) 20 new_Tile
     (span_stream (le_bytes (0 :: u16) @ le_bytes (0 :: u16) @ le_bytes (0 :: u16) @ le_bytes (0 :: u16) @ [])) = None"
  by (rule unknown_item_faults) (simp_all add: clear_database_def has_flag_def)

text \<open>A tile that is read over an older one keeps the older extra data and lock position when its
  own flags say it has none: after new map data without a clear, a tile without a door still shows
  the door of the world before.\<close>

theorem tile_keeps_old_extra:
  fixes fg bg parent fl :: u16
  assumes "reads_extra_data db fl fg bg = Some False" and "\<not> has_flag fl TileFlag_Locked"
    and "length rest < 2 ^ 63"
  shows "\<exists>s. Tile_serialize db J version t
      (span_stream (le_bytes fg @ le_bytes bg @ le_bytes parent @ le_bytes fl @ rest)) =
    Some (t\<lparr>foreground := fg, background := bg, parent_tile := parent, tile_flag := fl\<rparr>, s)"
    (is "\<exists>s. Tile_serialize _ _ _ _ (span_stream ?d) = _")
proof -
  have s0: "in_bounds (span_stream ?d)" using assms(3) by (intro in_bounds_span) simp
  have r0: "remaining (span_stream ?d) = ?d" by simp
  note s1 = u16_codec.after_enc [OF s0 r0] and d1 = u16_codec.dec_enc [OF s0 r0]
  note s2 = u16_codec.after_enc [OF s1] and d2 = u16_codec.dec_enc [OF s1]
  note s3 = u16_codec.after_enc [OF s2] and d3 = u16_codec.dec_enc [OF s2]
  note d4 = u16_codec.dec_enc [OF s3]
  show ?thesis
    using d1 d2 d3 d4 assms(1,2) by (simp add: Tile_serialize_def)
qed

theorem tile_keeps_old_extra_witness:
  "\<exists>s. Tile_serialize demo_db (\<lambda>_ _. 0) 20
      (new_Tile\<lparr>lock_parent_tile := 7, tile_extra := \<lparr>extra_type = 1, extra_value = Door ''EXIT'' 0\<rparr>\<rparr>)
      (span_stream (le_bytes (1 :: u16) @ le_bytes (0 :: u16) @ le_bytes (0 :: u16) @ le_bytes (0 :: u16) @ [])) =
    Some ((new_Tile\<lparr>lock_parent_tile := 7, tile_extra := \<lparr>extra_type = 1, extra_value = Door ''EXIT'' 0\<rparr>\<rparr>)
      \<lparr>foreground := 1, background := 0, parent_tile := 0, tile_flag := 0\<rparr>, s)"
  by (rule tile_keeps_old_extra)
    (simp_all add: reads_extra_data_def idiot_growtopia_dev_def get_item_def demo_db_def has_flag_def field_u8_def)

text \<open>Once the local player has joined, he is the local player until someone else joins as one or
  under his identifier: no removal takes him out of the table.\<close>

theorem local_player_kept:
  assumes "is_local p" and "0 \<le> sint (player_net_id p)" and "list_all (leaves_alone (player_net_id p)) es"
  shows "get_local_player (fold player_step es (add_player p w)) = Some p"
proof -
  have "local_net_id (add_player p w) = player_net_id p" "players (add_player p w) (player_net_id p) = Some p"
    using assms(1) by (simp_all add: add_player_def)
  with player_steps_keep [OF assms(3), of "add_player p w"] assms(2) show ?thesis
    by (simp add: get_local_player_def get_player_def not_less)
qed

definition demo_player :: Player where
  "demo_player = \<lparr>player_net_id = 3, player_user_id = 1, player_name = ''Zia'', player_country = ''id'',
     player_position = (0, 0), player_collision = (0, 0, 0, 0), player_invisible = 0,
     player_mod_state = 0, player_supermod_state = 0, is_local = True\<rparr>"

theorem local_player_kept_witness:
  "get_local_player (fold player_step
      [Joined (demo_player\<lparr>player_net_id := 4, is_local := False\<rparr>), Left 3, Left 4] (add_player demo_player new_World)) =
    Some demo_player"
  by (rule local_player_kept) (simp_all add: demo_player_def)

text \<open>The detour through float keeps every coordinate up to sixteen million.\<close>

theorem spawn_coordinates_exact:
  assumes "\<bar>sint (fst (spawn_position p))\<bar> \<le> 2 ^ 24" and "\<bar>sint (snd (spawn_position p))\<bar> \<le> 2 ^ 24"
    and "spawn_collision p = (a, b, c, d)"
    and "\<bar>sint a\<bar> \<le> 2 ^ 24" and "\<bar>sint b\<bar> \<le> 2 ^ 24" and "\<bar>sint c\<bar> \<le> 2 ^ 24" and "\<bar>sint d\<bar> \<le> 2 ^ 24"
  shows "\<exists>q. from_on_spawn p = Some q \<and> player_position q = spawn_position p \<and>
    player_collision q = spawn_collision p"
  using assms by (simp add: from_on_spawn_def float_round_small)

theorem spawn_coordinates_exact_witness:
  "\<exists>q. from_on_spawn (new_OnSpawn\<lparr>spawn_position := (3200, 1824), spawn_collision := (0, 0, 20, 30)\<rparr>) = Some q \<and>
    player_position q = (3200, 1824) \<and> player_collision q = (0, 0, 20, 30)"
  using spawn_coordinates_exact [of "new_OnSpawn\<lparr>spawn_position := (3200, 1824), spawn_collision := (0, 0, 20, 30)\<rparr>"
      0 0 20 30] by (simp add: new_OnSpawn_def)

end
