(* ===== verification/PacketRegistry.thy ===== *)
theory PacketRegistry
  imports GamePackets
begin

text \<open>
  From bytes to packet objects and back: \<open>PacketHelper\<close> (\<open>src/packet/packet_helper.hpp\<close>),
  \<open>PacketRegistry\<close> (\<open>packet_registry.hpp\<close>, \<open>register_packets.hpp\<close>) and \<open>PacketDecoder\<close>
  (\<open>packet_decoder.cpp\<close>).
\<close>

subsection \<open>Packet objects\<close>

text \<open>A \<open>std::shared_ptr<IPacket>\<close> that is not null: the dynamic class and its object.\<close>

datatype IPacket =
    P_ServerHello TextPacket
  | P_Quit TextPacket
  | P_QuitToExit TextPacket
  | P_JoinRequest JoinRequest
  | P_ValidateWorld ValidateWorld
  | P_Input Input
  | P_Log Log
  | P_Disconnect GamePacket
  | P_SendMapData GamePacket
  | P_SendTileUpdateData GamePacket
  | P_SendItemDatabaseData SendItemDatabaseData
  | P_SendInventoryState SendInventoryState
  | P_ModifyItemInventory ModifyItemInventory
  | P_TileChangeRequest TileChangeRequest
  | P_ItemChangeObject ItemChangeObject
  | P_OnSendToServer OnSendToServer
  | P_OnSuperMain OnSuperMain
  | P_OnSpawn OnSpawn
  | P_OnRemove OnRemove
  | P_OnNameChanged OnNameChanged
  | P_OnChangeSkin OnChangeSkin
  | P_GenericText GenericTextPacket
  | P_GenericVariant VariantPacket
  | P_GenericGame GamePacket

fun packet_id :: "IPacket \<Rightarrow> PacketId" where
  "packet_id (P_ServerHello _) = Id_ServerHello"
| "packet_id (P_Quit _) = Id_Quit"
| "packet_id (P_QuitToExit _) = Id_QuitToExit"
| "packet_id (P_JoinRequest _) = Id_JoinRequest"
| "packet_id (P_ValidateWorld _) = Id_ValidateWorld"
| "packet_id (P_Input _) = Id_Input"
| "packet_id (P_Log _) = Id_Log"
| "packet_id (P_Disconnect _) = Id_Disconnect"
| "packet_id (P_SendMapData _) = Id_SendMapData"
| "packet_id (P_SendTileUpdateData _) = Id_SendTileUpdateData"
| "packet_id (P_SendItemDatabaseData _) = Id_SendItemDatabaseData"
| "packet_id (P_SendInventoryState _) = Id_SendInventoryState"
| "packet_id (P_ModifyItemInventory _) = Id_ModifyItemInventory"
| "packet_id (P_TileChangeRequest _) = Id_TileChangeRequest"
| "packet_id (P_ItemChangeObject _) = Id_ItemChangeObject"
| "packet_id (P_OnSendToServer _) = Id_OnSendToServer"
| "packet_id (P_OnSuperMain _) = Id_OnSuperMain"
| "packet_id (P_OnSpawn _) = Id_OnSpawn"
| "packet_id (P_OnRemove _) = Id_OnRemove"
| "packet_id (P_OnNameChanged _) = Id_OnNameChanged"
| "packet_id (P_OnChangeSkin _) = Id_OnChangeSkin"
| "packet_id (P_GenericText _) = Id_Unknown"
| "packet_id (P_GenericVariant _) = Id_Unknown"
| "packet_id (P_GenericGame _) = Id_Unknown"

fun packet_raw_data :: "IPacket \<Rightarrow> bytes" where
  "packet_raw_data (P_ServerHello p) = raw_data p"
| "packet_raw_data (P_Quit p) = raw_data p"
| "packet_raw_data (P_QuitToExit p) = raw_data p"
| "packet_raw_data (P_JoinRequest p) = raw_data p"
| "packet_raw_data (P_ValidateWorld p) = raw_data p"
| "packet_raw_data (P_Input p) = raw_data p"
| "packet_raw_data (P_Log p) = raw_data p"
| "packet_raw_data (P_Disconnect p) = raw_data p"
| "packet_raw_data (P_SendMapData p) = raw_data p"
| "packet_raw_data (P_SendTileUpdateData p) = raw_data p"
| "packet_raw_data (P_SendItemDatabaseData p) = raw_data p"
| "packet_raw_data (P_SendInventoryState p) = raw_data p"
| "packet_raw_data (P_ModifyItemInventory p) = raw_data p"
| "packet_raw_data (P_TileChangeRequest p) = raw_data p"
| "packet_raw_data (P_ItemChangeObject p) = raw_data p"
| "packet_raw_data (P_OnSendToServer p) = raw_data p"
| "packet_raw_data (P_OnSuperMain p) = raw_data p"
| "packet_raw_data (P_OnSpawn p) = raw_data p"
| "packet_raw_data (P_OnRemove p) = raw_data p"
| "packet_raw_data (P_OnNameChanged p) = raw_data p"
| "packet_raw_data (P_OnChangeSkin p) = raw_data p"
| "packet_raw_data (P_GenericText p) = raw_data p"
| "packet_raw_data (P_GenericVariant p) = raw_data p"
| "packet_raw_data (P_GenericGame p) = raw_data p"

text \<open>The virtual calls \<open>packet->read(payload)\<close> and \<open>packet->write()\<close>.\<close>

fun packet_read :: "'z zlib \<Rightarrow> Payload \<Rightarrow> IPacket \<Rightarrow> (bool \<times> IPacket) option" where
  "packet_read lib pl (P_ServerHello p) = Some (map_prod id P_ServerHello (ServerHello_read pl p))"
| "packet_read lib pl (P_Quit p) = Some (map_prod id P_Quit (Quit_read pl p))"
| "packet_read lib pl (P_QuitToExit p) = Some (map_prod id P_QuitToExit (QuitToExit_read pl p))"
| "packet_read lib pl (P_JoinRequest p) = Some (map_prod id P_JoinRequest (JoinRequest_read pl p))"
| "packet_read lib pl (P_ValidateWorld p) = Some (map_prod id P_ValidateWorld (ValidateWorld_read pl p))"
| "packet_read lib pl (P_Input p) = Some (map_prod id P_Input (Input_read pl p))"
| "packet_read lib pl (P_Log p) = Some (map_prod id P_Log (Log_read pl p))"
| "packet_read lib pl (P_Disconnect p) = Some (map_prod id P_Disconnect (Disconnect_read pl p))"
| "packet_read lib pl (P_SendMapData p) = Some (map_prod id P_SendMapData (SendMapData_read pl p))"
| "packet_read lib pl (P_SendTileUpdateData p) =
     Some (map_prod id P_SendTileUpdateData (SendTileUpdateData_read pl p))"
| "packet_read lib pl (P_SendItemDatabaseData p) =
     map_option (map_prod id P_SendItemDatabaseData) (SendItemDatabaseData_read lib pl p)"
| "packet_read lib pl (P_SendInventoryState p) =
     Some (map_prod id P_SendInventoryState (SendInventoryState_read pl p))"
| "packet_read lib pl (P_ModifyItemInventory p) =
     Some (map_prod id P_ModifyItemInventory (ModifyItemInventory_read pl p))"
| "packet_read lib pl (P_TileChangeRequest p) =
     Some (map_prod id P_TileChangeRequest (TileChangeRequest_read pl p))"
| "packet_read lib pl (P_ItemChangeObject p) =
     Some (map_prod id P_ItemChangeObject (ItemChangeObject_read pl p))"
| "packet_read lib pl (P_OnSendToServer p) = Some (map_prod id P_OnSendToServer (OnSendToServer_read pl p))"
| "packet_read lib pl (P_OnSuperMain p) = Some (map_prod id P_OnSuperMain (OnSuperMain_read pl p))"
| "packet_read lib pl (P_OnSpawn p) = Some (map_prod id P_OnSpawn (OnSpawn_read pl p))"
| "packet_read lib pl (P_OnRemove p) = Some (map_prod id P_OnRemove (OnRemove_read pl p))"
| "packet_read lib pl (P_OnNameChanged p) = Some (map_prod id P_OnNameChanged (OnNameChanged_read pl p))"
| "packet_read lib pl (P_OnChangeSkin p) = Some (map_prod id P_OnChangeSkin (OnChangeSkin_read pl p))"
| "packet_read lib pl (P_GenericText p) = Some (map_prod id P_GenericText (GenericTextPacket_read pl p))"
| "packet_read lib pl (P_GenericVariant p) =
     Some (map_prod id P_GenericVariant (GenericVariantPacket_read pl p))"
| "packet_read lib pl (P_GenericGame p) = Some (map_prod id P_GenericGame (GenericGamePacket_read pl p))"

fun packet_write :: "'z zlib \<Rightarrow> IPacket \<Rightarrow> Payload \<times> IPacket" where
  "packet_write lib (P_ServerHello p) = (ServerHello_write p, P_ServerHello p)"
| "packet_write lib (P_Quit p) = (Quit_write p, P_Quit p)"
| "packet_write lib (P_QuitToExit p) = (QuitToExit_write p, P_QuitToExit p)"
| "packet_write lib (P_JoinRequest p) = (JoinRequest_write p, P_JoinRequest p)"
| "packet_write lib (P_ValidateWorld p) = (ValidateWorld_write p, P_ValidateWorld p)"
| "packet_write lib (P_Input p) = (Input_write p, P_Input p)"
| "packet_write lib (P_Log p) = (Log_write p, P_Log p)"
| "packet_write lib (P_Disconnect p) = (Disconnect_write p, P_Disconnect p)"
| "packet_write lib (P_SendMapData p) = (SendMapData_write p, P_SendMapData p)"
| "packet_write lib (P_SendTileUpdateData p) = (SendTileUpdateData_write p, P_SendTileUpdateData p)"
| "packet_write lib (P_SendItemDatabaseData p) =
     (SendItemDatabaseData_write lib p, P_SendItemDatabaseData p)"
| "packet_write lib (P_SendInventoryState p) = (SendInventoryState_write p, P_SendInventoryState p)"
| "packet_write lib (P_ModifyItemInventory p) = (ModifyItemInventory_write p, P_ModifyItemInventory p)"
| "packet_write lib (P_TileChangeRequest p) = (TileChangeRequest_write p, P_TileChangeRequest p)"
| "packet_write lib (P_ItemChangeObject p) = (ItemChangeObject_write p, P_ItemChangeObject p)"
| "packet_write lib (P_OnSendToServer p) = (OnSendToServer_write p, P_OnSendToServer p)"
| "packet_write lib (P_OnSuperMain p) = (OnSuperMain_write p, P_OnSuperMain p)"
| "packet_write lib (P_OnSpawn p) = (OnSpawn_write p, P_OnSpawn p)"
| "packet_write lib (P_OnRemove p) = (OnRemove_write p, P_OnRemove p)"
| "packet_write lib (P_OnNameChanged p) = map_prod id P_OnNameChanged (OnNameChanged_write p)"
| "packet_write lib (P_OnChangeSkin p) = map_prod id P_OnChangeSkin (OnChangeSkin_write p)"
| "packet_write lib (P_GenericText p) = (GenericTextPacket_write p, P_GenericText p)"
| "packet_write lib (P_GenericVariant p) = (GenericVariantPacket_write p, P_GenericVariant p)"
| "packet_write lib (P_GenericGame p) = (GenericGamePacket_write p, P_GenericGame p)"

subsection \<open>PacketHelper\<close>

definition serialize_payload :: "Payload \<Rightarrow> bytes" where
  "serialize_payload payload =
     (case payload of
        RawPayload d \<Rightarrow> d
      | TextPayload type d _ \<Rightarrow>
          fst (take_data (write_string TYPE(16) (raw d) False (write_word type empty_stream)))
      | GamePayload pkt ext _ \<Rightarrow>
          let s = write_word NET_MESSAGE_GAME_PACKET empty_stream;
              header = (if ext \<noteq> []
                then (set_extended pkt)\<lparr>data_size := word_of_nat (length ext)\<rparr> else pkt)
          in fst (take_data (write_data ext (write_packet header s)))
      | VariantPayload pkt vs _ \<Rightarrow>
          let s = write_word NET_MESSAGE_GAME_PACKET empty_stream;
              ext = serialize vs;
              header = (set_extended (pkt\<lparr>pkt_type := PACKET_CALL_FUNCTION\<rparr>))
                \<lparr>data_size := word_of_nat (length ext)\<rparr>
          in fst (take_data (write_data ext (write_packet header s))))"

definition serialize_packet :: "'z zlib \<Rightarrow> IPacket \<Rightarrow> bytes \<times> IPacket" where
  "serialize_packet lib p =
     (if packet_raw_data p \<noteq> [] then (packet_raw_data p, p)
      else let (payload, p) = packet_write lib p in (serialize_payload payload, p))"

text \<open>
  \<open>PacketHelper::write\<close>: what is handed to \<open>sender.write\<close>, on channel 0 for every class;
  nothing when there is no data.
\<close>

definition helper_write :: "'z zlib \<Rightarrow> IPacket \<Rightarrow> bytes option \<times> IPacket" where
  "helper_write lib p =
     (let (d, p) = serialize_packet lib p
      in (if d = [] then None else Some (d @ [0]), p))"

subsection \<open>PacketRegistry\<close>

text \<open>The factories make value-initialised objects; the registry holds the object they make.\<close>

type_synonym registry = "PacketId \<Rightarrow> IPacket option"

definition register_packet :: "IPacket \<Rightarrow> registry \<Rightarrow> registry" where
  "register_packet fresh reg = reg(packet_id fresh \<mapsto> fresh)"

definition registered_classes :: "IPacket list" where
  "registered_classes =
     [P_ServerHello new_text,
      P_Quit new_text, P_QuitToExit new_text, P_JoinRequest new_JoinRequest,
      P_ValidateWorld new_ValidateWorld, P_Input new_Input, P_Log new_Log,
      P_Disconnect new_game, P_SendMapData new_game, P_SendTileUpdateData new_game,
      P_SendItemDatabaseData new_SendItemDatabaseData, P_SendInventoryState new_SendInventoryState,
      P_ModifyItemInventory new_ModifyItemInventory, P_TileChangeRequest new_TileChangeRequest,
      P_ItemChangeObject new_ItemChangeObject,
      P_OnSendToServer new_OnSendToServer, P_OnSuperMain new_OnSuperMain,
      P_OnSpawn new_OnSpawn, P_OnRemove new_OnRemove]"

text \<open>\<open>register_all_packets\<close> with its static flag.\<close>

definition register_all_packets :: "bool \<Rightarrow> registry \<Rightarrow> bool \<times> bool \<times> registry" where
  "register_all_packets registered reg =
     (if registered then (False, registered, reg)
      else (True, True, fold register_packet registered_classes reg))"

definition create_id :: "registry \<Rightarrow> PacketId \<Rightarrow> IPacket option" where
  "create_id reg i = reg i"

definition is_registered :: "registry \<Rightarrow> PacketId \<Rightarrow> bool" where
  "is_registered reg i = (reg i \<noteq> None)"

definition create_generic :: "Payload \<Rightarrow> IPacket option" where
  "create_generic payload =
     (case payload of
        TextPayload _ _ _ \<Rightarrow>
          (case GenericTextPacket_read payload new_generic_text of
             (ok, p) \<Rightarrow> if ok then Some (P_GenericText p) else None)
      | VariantPayload _ _ _ \<Rightarrow>
          (case GenericVariantPacket_read payload new_variant of
             (ok, p) \<Rightarrow> if ok then Some (P_GenericVariant p) else None)
      | GamePayload _ _ _ \<Rightarrow>
          (case GenericGamePacket_read payload new_game of
             (ok, p) \<Rightarrow> if ok then Some (P_GenericGame p) else None)
      | RawPayload _ \<Rightarrow> None)"

text \<open>\<open>Some None\<close> is the null pointer; \<open>None\<close> is a call that does not return.\<close>

definition create :: "'z zlib \<Rightarrow> bool \<Rightarrow> registry \<Rightarrow> Payload \<Rightarrow> IPacket option option" where
  "create lib multiline reg payload = do {
     i \<leftarrow> derive_packet_id multiline payload;
     case (if i \<noteq> Id_Unknown then create_id reg i else None) of
       Some fresh \<Rightarrow> do {
         (ok, p) \<leftarrow> packet_read lib payload fresh;
         Some (if ok then Some p else None)
       }
     | None \<Rightarrow> Some (create_generic payload)
   }"

subsection \<open>PacketDecoder\<close>

record LogConfig =
  print_message :: bool
  print_game_update_packet :: bool
  print_variant :: bool
  print_extra :: bool

text \<open>
  The result is the \<open>std::optional<std::shared_ptr<IPacket>>\<close>: \<open>Some None\<close> is \<open>std::nullopt\<close>,
  \<open>Some (Some None)\<close> an engaged optional with a null pointer. With \<open>print_game_update_packet\<close>
  the 56 bytes behind the message type are printed, whether the message has them or not: a
  shorter message is read beyond its end.
\<close>

definition decode_text :: "bytes \<Rightarrow> text_data option" where
  "decode_text data = do {
     (_, s) \<leftarrow> rd (0 :: u32) (span_stream data);
     (message, s) \<leftarrow> rd_str (ucast (get_size s - 4 - 1) :: u16) [] s;
     Some (parse message bar)
   }"

definition decode_game :: "bytes \<Rightarrow> (GameUpdatePacket \<times> bytes) option" where
  "decode_game data = do {
     (_, s) \<leftarrow> rd (0 :: u32) (span_stream data);
     (pkt, s) \<leftarrow> rd_packet zero_packet s;
     Some (pkt, drop (unat (read_offset s)) data)
   }"

definition decode ::
  "'z zlib \<Rightarrow> bool \<Rightarrow> registry \<Rightarrow> LogConfig \<Rightarrow> bytes \<Rightarrow> IPacket option option option"
where
  "decode lib multiline reg cfg data = do {
     (ok, msg_type, s) \<leftarrow> read_word (0 :: u32) (span_stream data);
     if \<not> ok then Some None
     else if msg_type = NET_MESSAGE_SERVER_HELLO then do {
       p \<leftarrow> create lib multiline reg (TextPayload NET_MESSAGE_SERVER_HELLO [] data);
       Some (Some p)
     }
     else if msg_type = NET_MESSAGE_GENERIC_TEXT \<or> msg_type = NET_MESSAGE_GAME_MESSAGE then do {
       d \<leftarrow> decode_text data;
       p \<leftarrow> create lib multiline reg (TextPayload msg_type d data);
       Some (if p = None then None else Some p)
     }
     else if msg_type = NET_MESSAGE_GAME_PACKET then do {
       (pkt, ext) \<leftarrow> decode_game data;
       if print_game_update_packet cfg \<and> length data < 60 then None
       else if pkt_type pkt = PACKET_CALL_FUNCTION then do {
         (ok, vs) \<leftarrow> deserialize [] ext;
         if \<not> ok then Some None
         else do {
           p \<leftarrow> create lib multiline reg (VariantPayload pkt vs data);
           Some (if p = None then None else Some p)
         }
       }
       else do {
         p \<leftarrow> create lib multiline reg (GamePayload pkt ext data);
         Some (if p = None then None else Some p)
       }
     }
     else Some None
   }"

end
