(* ===== verification/EventDispatch.thy ===== *)
theory EventDispatch
  imports PacketRegistry "HOL-Library.Multiset"
begin

text \<open>
  \<open>src/event/event.hpp\<close>, \<open>src/packet/packet_event_registry.hpp\<close> and \<open>register_packet_events.hpp\<close>:
  events, listeners in priority order, and the events the registry emits for packets. The
  dispatcher underneath is eventpp's; it is a parameter, a record of the calls the code makes, and
  what eventpp documents about them is the predicate \<open>eventpp_ok\<close>.
\<close>

subsection \<open>Event types\<close>

type_synonym event_type = u32

abbreviation Type_ClientConnect :: event_type where "Type_ClientConnect \<equiv> 0"
abbreviation Type_ServerConnect :: event_type where "Type_ServerConnect \<equiv> 1"
abbreviation Type_ClientDisconnect :: event_type where "Type_ClientDisconnect \<equiv> 2"
abbreviation Type_ServerDisconnect :: event_type where "Type_ServerDisconnect \<equiv> 3"
abbreviation Type_ClientBoundPacket :: event_type where "Type_ClientBoundPacket \<equiv> 4"
abbreviation Type_ServerBoundPacket :: event_type where "Type_ServerBoundPacket \<equiv> 5"

datatype Direction = ClientBound | ServerBound

text \<open>What an event carries besides its type and its flag: \<open>ConnectionEvent\<close>, \<open>RawPacketEvent\<close> and
  \<open>TypedPacketEvent\<close>.\<close>

datatype event_data = ConnectionEvent | RawPacketEvent bytes | TypedPacketEvent Direction IPacket

text \<open>\<open>dynamic_cast<const TypedPacketEvent<I>*>\<close> and \<open>evt->get<T>()\<close> for the class with identifier \<open>I\<close>:
  the builder of \<open>I\<close> is the only one to make such an event.\<close>

definition typed_packet :: "PacketId \<Rightarrow> event_data \<Rightarrow> (Direction \<times> IPacket) option" where
  "typed_packet i e =
     (case e of TypedPacketEvent d p \<Rightarrow> if packet_id p = i then Some (d, p) else None | _ \<Rightarrow> None)"

definition raw_packet :: "event_data \<Rightarrow> bytes option" where
  "raw_packet e = (case e of RawPacketEvent d \<Rightarrow> Some d | _ \<Rightarrow> None)"

definition packet_event_offset :: u32 where
  "packet_event_offset = 0x1000"

definition is_packet_event :: "event_type \<Rightarrow> bool" where
  "is_packet_event t = (t \<ge> packet_event_offset)"

definition packet_event_type :: "PacketId \<Rightarrow> event_type" where
  "packet_event_type i = packet_event_offset + i"

definition packet_id_from_type :: "event_type \<Rightarrow> PacketId" where
  "packet_id_from_type t = t - packet_event_offset"

definition Priority_Highest :: int where "Priority_Highest = - 128"
definition Priority_FairlyHigh :: int where "Priority_FairlyHigh = - 64"
definition Priority_Normal :: int where "Priority_Normal = 0"
definition Priority_FairlyLow :: int where "Priority_FairlyLow = 63"
definition Priority_Lowest :: int where "Priority_Lowest = 127"

subsection \<open>The listener list underneath\<close>

text \<open>
  \<open>'d\<close> is the state of the eventpp dispatcher, \<open>'h\<close> its handles. \<open>listeners\<close> is the list an event
  type is dispatched to.
\<close>

record ('d, 'h, 'cb) base_dispatcher =
  base_append :: "event_type \<Rightarrow> 'cb \<Rightarrow> 'd \<Rightarrow> 'h \<times> 'd"
  base_insert :: "event_type \<Rightarrow> 'cb \<Rightarrow> 'h \<Rightarrow> 'd \<Rightarrow> 'h \<times> 'd"
  base_remove :: "event_type \<Rightarrow> 'h \<Rightarrow> 'd \<Rightarrow> bool \<times> 'd"
  listeners :: "'d \<Rightarrow> event_type \<Rightarrow> ('h \<times> 'cb) list"

text \<open>Put an element before the first one with a property, or at the end.\<close>

fun insert_before :: "('a \<Rightarrow> bool) \<Rightarrow> 'a \<Rightarrow> 'a list \<Rightarrow> 'a list" where
  "insert_before P x [] = [x]"
| "insert_before P x (y # ys) = (if P y then x # y # ys else y # insert_before P x ys)"

definition eventpp_ok :: "('d, 'h, 'cb) base_dispatcher \<Rightarrow> bool" where
  "eventpp_ok B \<longleftrightarrow>
     (\<forall>t c d. let (h, d') = base_append B t c d in
        h \<notin> fst ` set (listeners B d t) \<and>
        listeners B d' = (listeners B d)(t := listeners B d t @ [(h, c)])) \<and>
     (\<forall>t c b d. let (h, d') = base_insert B t c b d in
        h \<notin> fst ` set (listeners B d t) \<and>
        listeners B d' = (listeners B d)(t := insert_before (\<lambda>p. fst p = b) (h, c) (listeners B d t))) \<and>
     (\<forall>t b d. let (ok, d') = base_remove B t b d in
        ok = (b \<in> fst ` set (listeners B d t)) \<and>
        listeners B d' = (listeners B d)(t := filter (\<lambda>p. fst p \<noteq> b) (listeners B d t)))"

lemma eventpp_append:
  assumes "eventpp_ok B" and "base_append B t c d = (h, d')"
  shows "h \<notin> fst ` set (listeners B d t)"
    and "listeners B d' = (listeners B d)(t := listeners B d t @ [(h, c)])"
  using assms(1) [unfolded eventpp_ok_def, THEN conjunct1, THEN spec, THEN spec, THEN spec, of t c d]
    assms(2) by simp_all

lemma eventpp_insert:
  assumes "eventpp_ok B" and "base_insert B t c b d = (h, d')"
  shows "h \<notin> fst ` set (listeners B d t)"
    and "listeners B d' = (listeners B d)(t := insert_before (\<lambda>p. fst p = b) (h, c) (listeners B d t))"
  using assms(1) [unfolded eventpp_ok_def, THEN conjunct2, THEN conjunct1, THEN spec, THEN spec,
      THEN spec, THEN spec, of t c b d] assms(2) by simp_all

lemma eventpp_remove:
  assumes "eventpp_ok B" and "base_remove B t b d = (ok, d')"
  shows "ok = (b \<in> fst ` set (listeners B d t))"
    and "listeners B d' = (listeners B d)(t := filter (\<lambda>p. fst p \<noteq> b) (listeners B d t))"
  using assms(1) [unfolded eventpp_ok_def, THEN conjunct2, THEN conjunct2, THEN spec, THEN spec,
      THEN spec, of t b d] assms(2) by simp_all

subsection \<open>PriorityEventDispatcher\<close>

record ('d, 'h) PriorityEventDispatcher =
  dispatcher :: 'd
  handles :: "event_type \<Rightarrow> (int \<times> 'h) list"

text \<open>The loop over the entries: the handle of the first one with a larger priority value.\<close>

fun first_greater :: "int \<Rightarrow> (int \<times> 'h) list \<Rightarrow> 'h option" where
  "first_greater p [] = None"
| "first_greater p ((q, h) # es) = (if q > p then Some h else first_greater p es)"

definition appendListener ::
  "('d, 'h, 'cb) base_dispatcher \<Rightarrow> event_type \<Rightarrow> 'cb \<Rightarrow> int \<Rightarrow> ('d, 'h) PriorityEventDispatcher \<Rightarrow>
     'h \<times> ('d, 'h) PriorityEventDispatcher"
where
  "appendListener B t cb p s =
     (let entries = handles s t
      in case first_greater p entries of
           Some before \<Rightarrow>
             let (h, d) = base_insert B t cb before (dispatcher s)
             in (h, s\<lparr>dispatcher := d,
                   handles := (handles s)(t := insert_before (\<lambda>e. fst e > p) (p, h) entries)\<rparr>)
         | None \<Rightarrow>
             let (h, d) = base_append B t cb (dispatcher s)
             in (h, s\<lparr>dispatcher := d, handles := (handles s)(t := entries @ [(p, h)])\<rparr>))"

definition prependListener ::
  "('d, 'h, 'cb) base_dispatcher \<Rightarrow> event_type \<Rightarrow> 'cb \<Rightarrow> ('d, 'h) PriorityEventDispatcher \<Rightarrow>
     'h \<times> ('d, 'h) PriorityEventDispatcher"
where
  "prependListener B t cb s = appendListener B t cb Priority_Highest s"

definition removeListener ::
  "('d, 'h, 'cb) base_dispatcher \<Rightarrow> event_type \<Rightarrow> 'h \<Rightarrow> ('d, 'h) PriorityEventDispatcher \<Rightarrow>
     bool \<times> ('d, 'h) PriorityEventDispatcher"
where
  "removeListener B t h s =
     (let s = s\<lparr>handles := (handles s)(t := filter (\<lambda>e. snd e \<noteq> h) (handles s t))\<rparr>;
          (ok, d) = base_remove B t h (dispatcher s)
      in (ok, s\<lparr>dispatcher := d\<rparr>))"

text \<open>
  Dispatching: the listeners run in list order, and the policy \<open>canContinueInvoking\<close> stops after
  the first one that leaves the event canceled. A listener maps the event, the state of the
  program and the \<open>canceled\<close> flag to the new state and flag.
\<close>

type_synonym 'st listener = "event_data \<Rightarrow> 'st \<Rightarrow> bool \<Rightarrow> 'st \<times> bool"

fun invoke :: "'st listener list \<Rightarrow> event_data \<Rightarrow> 'st \<Rightarrow> bool \<Rightarrow> 'st \<times> bool" where
  "invoke [] e st canceled = (st, canceled)"
| "invoke (c # cs) e st canceled =
     (let (st, canceled) = c e st canceled in if canceled then (st, canceled) else invoke cs e st canceled)"

definition dispatch ::
  "('d, 'h, 'st listener) base_dispatcher \<Rightarrow> ('d, 'h) PriorityEventDispatcher \<Rightarrow> event_type \<Rightarrow>
     event_data \<Rightarrow> 'st \<Rightarrow> bool \<Rightarrow> 'st \<times> bool"
where
  "dispatch B s t e st canceled = invoke (map snd (listeners B (dispatcher s) t)) e st canceled"

subsection \<open>Scoped handles\<close>

text \<open>\<open>ScopedHandle\<close>: the dispatcher pointer is present or null; \<open>reset\<close> removes the listener once.\<close>

type_synonym 'h scoped_handle = "(event_type \<times> 'h) option"

definition reset ::
  "('d, 'h, 'cb) base_dispatcher \<Rightarrow> 'h scoped_handle \<Rightarrow> ('d, 'h) PriorityEventDispatcher \<Rightarrow>
     'h scoped_handle \<times> ('d, 'h) PriorityEventDispatcher"
where
  "reset B sh s = (case sh of None \<Rightarrow> (None, s) | Some (t, h) \<Rightarrow> (None, snd (removeListener B t h s)))"

text \<open>Move assignment; moving onto itself is the first argument.\<close>

definition move_assign ::
  "bool \<Rightarrow> ('d, 'h, 'cb) base_dispatcher \<Rightarrow> 'h scoped_handle \<Rightarrow> 'h scoped_handle \<Rightarrow>
     ('d, 'h) PriorityEventDispatcher \<Rightarrow>
     ('h scoped_handle \<times> 'h scoped_handle) \<times> ('d, 'h) PriorityEventDispatcher"
where
  "move_assign same B this other s =
     (if same then ((this, other), s)
      else let (this, s) = reset B this s in ((other, None), s))"

subsection \<open>Packet events\<close>

definition registered_events :: "PacketId list" where
  "registered_events =
     [Id_ServerHello, Id_Quit, Id_QuitToExit, Id_JoinRequest, Id_ValidateWorld, Id_Input, Id_Log,
      Id_Disconnect, Id_SendMapData, Id_SendTileUpdateData, Id_TileChangeRequest,
      Id_ItemChangeObject, Id_OnSendToServer, Id_OnSuperMain, Id_OnSpawn, Id_OnRemove,
      Id_SendItemDatabaseData, Id_SendInventoryState, Id_ModifyItemInventory]"

definition has_event :: "PacketId list \<Rightarrow> PacketId \<Rightarrow> bool" where
  "has_event builders i = (i \<in> set builders)"

text \<open>
  \<open>emit\<close>: a packet with a builder is dispatched under the event type of its identifier, starting
  not canceled; the result is the event's final flag, or nothing when there is no builder.
\<close>

definition emit ::
  "('d, 'h, 'st listener) base_dispatcher \<Rightarrow> PacketId list \<Rightarrow> ('d, 'h) PriorityEventDispatcher \<Rightarrow>
     Direction \<Rightarrow> IPacket \<Rightarrow> 'st \<Rightarrow> 'st \<times> bool option"
where
  "emit B builders s dir p st =
     (if has_event builders (packet_id p)
      then let (st, canceled) = dispatch B s (packet_event_type (packet_id p)) (TypedPacketEvent dir p) st False
           in (st, Some canceled)
      else (st, None))"

subsection \<open>Priority order\<close>

text \<open>
  The two lists agree: the entries are the listeners in the same order, sorted by priority.
\<close>

definition dispatcher_inv :: "('d, 'h, 'cb) base_dispatcher \<Rightarrow> ('d, 'h) PriorityEventDispatcher \<Rightarrow> bool" where
  "dispatcher_inv B s \<longleftrightarrow> (\<forall>t. map snd (handles s t) = map fst (listeners B (dispatcher s) t) \<and>
     distinct (map snd (handles s t)) \<and> sorted (map fst (handles s t)))"

lemma insert_before_split: "insert_before P x ys = takeWhile (\<lambda>y. \<not> P y) ys @ x # dropWhile (\<lambda>y. \<not> P y) ys"
  by (induction ys) auto

lemma first_greater_None: "first_greater p es = None \<longleftrightarrow> (\<forall>e \<in> set es. fst e \<le> p)"
  by (induction p es rule: first_greater.induct) (auto split: if_splits)

lemma insert_before_none: "\<forall>y \<in> set ys. \<not> P y \<Longrightarrow> insert_before P x ys = ys @ [x]"
  by (induction ys) auto

text \<open>Inserting before the handle of the first larger entry is inserting at the same place.\<close>

lemma insert_same_place:
  assumes "map snd es = map fst ls" and "distinct (map snd es)" and "first_greater p es = Some b"
  shows "map snd (insert_before (\<lambda>e. fst e > p) (p, h) es) =
      map fst (insert_before (\<lambda>l. fst l = b) (h, c) ls)"
  using assms
proof (induction es arbitrary: ls)
  case (Cons e es)
  then obtain l ls' where ls: "ls = l # ls'" by (cases ls) auto
  obtain q g where e: "e = (q, g)" by (cases e)
  have b: "q \<le> p \<Longrightarrow> b \<in> set (map snd es)"
    using Cons.prems(3) e by (induction es) (auto split: if_splits)
  show ?case
  proof (cases "q > p")
    case True
    then show ?thesis using Cons.prems ls e by simp
  next
    case False
    then have "fst l \<noteq> b" using Cons.prems ls e b by auto
    then show ?thesis using False Cons ls e by simp
  qed
qed simp

lemma sorted_insert_before:
  assumes "sorted (map fst es)"
  shows "sorted (map fst (insert_before (\<lambda>e. fst e > p) (p :: int, h) es))"
  using assms
proof (induction es)
  case (Cons e es)
  have "fst ` set (insert_before (\<lambda>e. fst e > p) (p, h) es) = insert p (fst ` set es)"
    by (induction es) auto
  then show ?case using Cons by auto
qed simp

lemma set_insert_before: "set (insert_before P x ys) = insert x (set ys)"
  by (induction ys) auto

lemma distinct_insert_before: "distinct ys \<Longrightarrow> x \<notin> set ys \<Longrightarrow> distinct (insert_before P x ys)"
  by (induction ys) (auto simp: set_insert_before)

lemma map_insert_before: "map f (insert_before (P \<circ> f) x ys) = insert_before P (f x) (map f ys)"
  by (induction ys) auto

text \<open>What is registered for an event type: priorities and callbacks in the order they run.\<close>

definition registered ::
  "('d, 'h, 'cb) base_dispatcher \<Rightarrow> ('d, 'h) PriorityEventDispatcher \<Rightarrow> event_type \<Rightarrow> (int \<times> 'cb) list"
where
  "registered B s t = zip (map fst (handles s t)) (map snd (listeners B (dispatcher s) t))"

lemma insert_same_pairs:
  assumes "map snd es = map fst ls" and "distinct (map snd es)" and "first_greater p es = Some b"
  shows "zip (map fst (insert_before (\<lambda>e. fst e > p) (p, h) es))
      (map snd (insert_before (\<lambda>l. fst l = b) (h, c) ls)) =
    insert_before (\<lambda>e. fst e > p) (p, c) (zip (map fst es) (map snd ls))"
  using assms
proof (induction es arbitrary: ls)
  case (Cons e es)
  then obtain l ls' where ls: "ls = l # ls'" by (cases ls) auto
  obtain q g where e: "e = (q, g)" by (cases e)
  have b: "q \<le> p \<Longrightarrow> b \<in> set (map snd es)"
    using Cons.prems(3) e by (induction es) (auto split: if_splits)
  show ?case
  proof (cases "q > p")
    case True
    then show ?thesis using Cons.prems ls e by simp
  next
    case False
    then have "fst l \<noteq> b" using Cons.prems ls e b by auto
    then show ?thesis using False Cons ls e by simp
  qed
qed simp

lemma dispatcher_inv_listeners:
  "dispatcher_inv B s \<Longrightarrow> distinct (map fst (listeners B (dispatcher s) t))"
  unfolding dispatcher_inv_def by metis

lemma append_listener_step:
  assumes B: "eventpp_ok B" and inv: "dispatcher_inv B s" and a: "appendListener B t c p s = (h, s')"
  shows "dispatcher_inv B s' \<and>
    registered B s' t = insert_before (\<lambda>e. fst e > p) (p, c) (registered B s t) \<and>
    (\<forall>t'. t' \<noteq> t \<longrightarrow> registered B s' t' = registered B s t')"
proof -
  let ?es = "handles s t" and ?ls = "listeners B (dispatcher s) t"
  have i: "map snd ?es = map fst ?ls" "distinct (map snd ?es)" "sorted (map fst ?es)"
    using inv unfolding dispatcher_inv_def by blast+
  have len: "length ?es = length ?ls" using i(1) by (metis length_map)
  show ?thesis
  proof (cases "first_greater p ?es")
    case None
    then obtain d where d: "base_append B t c (dispatcher s) = (h, d)"
      and s': "s' = s\<lparr>dispatcher := d, handles := (handles s)(t := ?es @ [(p, h)])\<rparr>"
      using a by (auto simp: appendListener_def split: prod.splits)
    note l = eventpp_append [OF B d]
    have le: "\<forall>e \<in> set ?es. fst e \<le> p" using None by (simp add: first_greater_None)
    have "h \<notin> snd ` set ?es" using l(1) i(1) by (metis set_map)
    then have "dispatcher_inv B s'"
      using inv i le l(1) dispatcher_inv_listeners [OF inv]
      by (auto simp: dispatcher_inv_def s' l(2) sorted_append)
    moreover have "\<forall>e \<in> set (registered B s t). \<not> fst e > p"
      using le by (fastforce simp: registered_def dest!: set_zip_leftD)
    then have "registered B s' t = insert_before (\<lambda>e. fst e > p) (p, c) (registered B s t)"
      using len by (simp add: registered_def s' l(2) insert_before_none)
    ultimately show ?thesis by (simp add: registered_def s' l(2))
  next
    case (Some b)
    then obtain d where d: "base_insert B t c b (dispatcher s) = (h, d)"
      and s': "s' = s\<lparr>dispatcher := d, handles := (handles s)(t := insert_before (\<lambda>e. fst e > p) (p, h) ?es)\<rparr>"
      using a by (auto simp: appendListener_def split: prod.splits)
    note l = eventpp_insert [OF B d]
    have hs: "map snd (insert_before (\<lambda>e. fst e > p) (p, h) ?es) =
        map fst (insert_before (\<lambda>l. fst l = b) (h, c) ?ls)"
      by (rule insert_same_place [OF i(1,2) Some])
    have "distinct (map fst (insert_before (\<lambda>l. fst l = b) (h, c) ?ls))"
      using map_insert_before [of fst "\<lambda>x. x = b" "(h, c)" ?ls] i(1,2) l(1)
      by (simp add: comp_def distinct_insert_before)
    then have "dispatcher_inv B s'"
      using inv i hs sorted_insert_before [OF i(3), of p h] dispatcher_inv_listeners [OF inv]
      by (simp add: dispatcher_inv_def s' l(2))
    then show ?thesis
      using insert_same_pairs [OF i(1,2) Some, of h c] by (simp add: registered_def s' l(2))
  qed
qed

lemma remove_listener_step:
  assumes B: "eventpp_ok B" and inv: "dispatcher_inv B s" and r: "removeListener B t h s = (ok, s')"
  shows "dispatcher_inv B s' \<and> ok = (h \<in> snd ` set (handles s t)) \<and> h \<notin> snd ` set (handles s' t)"
proof -
  let ?es = "handles s t" and ?ls = "listeners B (dispatcher s) t"
  obtain d where d: "base_remove B t h (dispatcher s) = (ok, d)"
    and s': "s' = s\<lparr>handles := (handles s)(t := filter (\<lambda>e. snd e \<noteq> h) ?es), dispatcher := d\<rparr>"
    using r by (auto simp: removeListener_def Let_def split: prod.splits)
  note l = eventpp_remove [OF B d]
  have i: "map snd ?es = map fst ?ls" "distinct (map snd ?es)" "sorted (map fst ?es)"
    using inv unfolding dispatcher_inv_def by blast+
  have "map snd (filter (\<lambda>e. snd e \<noteq> h) ?es) = filter (\<lambda>x. x \<noteq> h) (map snd ?es)"
    by (simp add: filter_map comp_def)
  also have "\<dots> = map fst (filter (\<lambda>p. fst p \<noteq> h) ?ls)"
    unfolding i(1) by (simp add: filter_map comp_def)
  finally have "dispatcher_inv B s'"
    using inv i dispatcher_inv_listeners [OF inv]
    by (simp add: dispatcher_inv_def s' l(2) distinct_map_filter sorted_filter)
  moreover have "ok = (h \<in> snd ` set ?es)" using l(1) i(1) by (metis set_map)
  ultimately show ?thesis by (auto simp: s')
qed

subsection \<open>A stable sort\<close>

lemma filter_insert_before:
  "sorted (map fst xs) \<Longrightarrow>
   filter (\<lambda>e. fst e = k) (insert_before (\<lambda>e. fst e > p) (p :: int, c) xs) =
   filter (\<lambda>e. fst e = k) xs @ (if p = k then [(p, c)] else [])"
proof (induction xs)
  case (Cons x xs)
  show ?case
  proof (cases "fst x > p")
    case True
    then have "p = k \<Longrightarrow> filter (\<lambda>e. fst e = k) (x # xs) = []"
      using Cons.prems by (auto simp: filter_empty_conv)
    with True show ?thesis by auto
  next
    case False
    with Cons show ?thesis by auto
  qed
qed simp

lemma mset_insert_before: "mset (insert_before P x ys) = add_mset x (mset ys)"
  by (induction ys) auto

lemma fold_insert_sorted:
  fixes xs acc :: "(int \<times> 'a) list"
  assumes "sorted (map fst acc)"
  shows "sorted (map fst (fold (\<lambda>(p, c). insert_before (\<lambda>e. fst e > p) (p, c)) xs acc)) \<and>
    mset (fold (\<lambda>(p, c). insert_before (\<lambda>e. fst e > p) (p, c)) xs acc) = mset acc + mset xs \<and>
    (\<forall>k. filter (\<lambda>e. fst e = k) (fold (\<lambda>(p, c). insert_before (\<lambda>e. fst e > p) (p, c)) xs acc) =
       filter (\<lambda>e. fst e = k) acc @ filter (\<lambda>e. fst e = k) xs)"
  using assms
proof (induction xs arbitrary: acc)
  case (Cons x xs)
  obtain p c where x: "x = (p, c)" by (cases x)
  show ?case
    using Cons.IH [of "insert_before (\<lambda>e. fst e > p) (p, c) acc"] Cons.prems
      sorted_insert_before [of acc p c] filter_insert_before [of acc _ p c]
    by (simp add: x mset_insert_before)
qed simp

lemma fold_insert_sort_key:
  fixes xs :: "(int \<times> 'a) list"
  shows "fold (\<lambda>(p, c). insert_before (\<lambda>e. fst e > p) (p, c)) xs [] = sort_key fst xs"
proof (rule properties_for_sort_key [symmetric])
  note r = fold_insert_sorted [of "[]" xs, simplified]
  show "mset (fold (\<lambda>(p, c). insert_before (\<lambda>e. fst e > p) (p, c)) xs []) = mset xs"
    "sorted (map fst (fold (\<lambda>(p, c). insert_before (\<lambda>e. fst e > p) (p, c)) xs []))"
    using r by auto
  show "filter (\<lambda>x. fst k = fst x) (fold (\<lambda>(p, c). insert_before (\<lambda>e. fst e > p) (p, c)) xs []) =
      filter (\<lambda>x. fst k = fst x) xs" for k
    using r by (simp add: eq_commute [of "fst k"])
qed

subsection \<open>Properties\<close>

text \<open>Registering listeners one after the other, each with its event type, priority and callback.\<close>

definition append_all ::
  "('d, 'h, 'cb) base_dispatcher \<Rightarrow> (event_type \<times> int \<times> 'cb) list \<Rightarrow>
     ('d, 'h) PriorityEventDispatcher \<Rightarrow> ('d, 'h) PriorityEventDispatcher"
where
  "append_all B rs s = fold (\<lambda>(t, p, c) s. snd (appendListener B t c p s)) rs s"

definition registrations :: "event_type \<Rightarrow> (event_type \<times> int \<times> 'cb) list \<Rightarrow> (int \<times> 'cb) list" where
  "registrations t rs = map snd (filter (\<lambda>r. fst r = t) rs)"

lemma append_all_registered:
  "eventpp_ok B \<Longrightarrow> dispatcher_inv B s \<Longrightarrow>
   dispatcher_inv B (append_all B rs s) \<and>
   registered B (append_all B rs s) t =
     fold (\<lambda>(p, c). insert_before (\<lambda>e. fst e > p) (p, c)) (registrations t rs) (registered B s t)"
proof (induction rs arbitrary: s)
  case (Cons r rs)
  obtain t' p c where r: "r = (t', p, c)" by (cases r)
  obtain h s' where a: "appendListener B t' c p s = (h, s')" by (cases "appendListener B t' c p s")
  note step = append_listener_step [OF Cons.prems a]
  then have IH: "dispatcher_inv B (append_all B rs s') \<and> registered B (append_all B rs s') t =
      fold (\<lambda>(p, c). insert_before (\<lambda>e. fst e > p) (p, c)) (registrations t rs) (registered B s' t)"
    using Cons.IH [OF Cons.prems(1), of s'] by blast
  have reg: "registered B s' t = (if t' = t then insert_before (\<lambda>e. fst e > p) (p, c) (registered B s t)
      else registered B s t)" using step by auto
  show ?case using IH by (simp add: append_all_def registrations_def r a reg)
qed (simp add: append_all_def registrations_def)

lemma registered_listeners:
  "dispatcher_inv B s \<Longrightarrow> map snd (listeners B (dispatcher s) t) = map snd (registered B s t)"
proof -
  assume "dispatcher_inv B s"
  then have "length (handles s t) = length (listeners B (dispatcher s) t)"
    unfolding dispatcher_inv_def by (metis length_map)
  then show ?thesis by (simp add: registered_def)
qed

lemma dispatch_append_all:
  assumes "eventpp_ok B" and "dispatcher_inv B s" and "handles s t = []"
  shows "dispatch B (append_all B rs s) t e st canceled =
    invoke (map snd (sort_key fst (registrations t rs))) e st canceled"
proof -
  have "registered B s t = []" using assms(3) by (simp add: registered_def)
  then show ?thesis
    using append_all_registered [OF assms(1,2), of rs t]
    by (simp add: dispatch_def registered_listeners fold_insert_sort_key)
qed

text \<open>A dispatcher that keeps its listeners in lists; a new handle is larger than all of its type.\<close>

definition list_dispatcher :: "(event_type \<Rightarrow> (nat \<times> 'cb) list, nat, 'cb) base_dispatcher" where
  "list_dispatcher =
     \<lparr>base_append = (\<lambda>t c d. let h = Suc (sum_list (map fst (d t))) in (h, d(t := d t @ [(h, c)]))),
      base_insert = (\<lambda>t c b d. let h = Suc (sum_list (map fst (d t)))
        in (h, d(t := insert_before (\<lambda>p. fst p = b) (h, c) (d t)))),
      base_remove = (\<lambda>t b d. (b \<in> fst ` set (d t), d(t := filter (\<lambda>p. fst p \<noteq> b) (d t)))),
      listeners = (\<lambda>d. d)\<rparr>"

lemma list_dispatcher_ok: "eventpp_ok list_dispatcher"
proof -
  have le: "x \<le> sum_list (map fst ls)" if "(x, c) \<in> set ls" for x c and ls :: "(nat \<times> 'a) list"
    using that member_le_sum_list [of x "map fst ls"] by force
  then have "Suc (sum_list (map fst ls)) \<notin> fst ` set ls" for ls :: "(nat \<times> 'a) list"
    by (auto dest!: le)
  then show ?thesis by (simp add: eventpp_ok_def list_dispatcher_def Let_def)
qed

definition no_listeners :: "(event_type \<Rightarrow> (nat \<times> 'cb) list, nat) PriorityEventDispatcher" where
  "no_listeners = \<lparr>dispatcher = \<lambda>_. [], handles = \<lambda>_. []\<rparr>"

lemma no_listeners_inv: "dispatcher_inv list_dispatcher no_listeners"
  by (simp add: dispatcher_inv_def no_listeners_def list_dispatcher_def)

text \<open>C25: listeners run in the order of their priorities, lowest value first, and those of equal
  priority in the order they were registered: dispatching runs the stable sort of the
  registrations.\<close>

theorem listeners_run_by_priority:
  assumes "eventpp_ok B" and "dispatcher_inv B s" and "handles s t = []"
  shows "dispatch B (append_all B rs s) t e st canceled =
    invoke (map snd (sort_key fst (registrations t rs))) e st canceled"
  by (rule dispatch_append_all [OF assms])

theorem listeners_run_by_priority_witness:
  "dispatch list_dispatcher
     (append_all list_dispatcher
        [(7, 0, \<lambda>e st c. (st @ [1 :: int], c)), (7, - 64, \<lambda>e st c. (st @ [2], c)), (8, - 128, \<lambda>e st c. (st, True)),
         (7, 0, \<lambda>e st c. (st @ [3], c))]
       no_listeners) 7 ConnectionEvent [] False = ([2, 1, 3], False)"
  by (subst listeners_run_by_priority [OF list_dispatcher_ok no_listeners_inv])
    (simp_all add: no_listeners_def registrations_def)

text \<open>Removing a listener tells whether it was there, takes it out, and keeps the order of the
  others; resetting a scoped handle twice removes it once.\<close>

theorem remove_listener:
  assumes "eventpp_ok B" and "dispatcher_inv B s" and "removeListener B t h s = (ok, s')"
  shows "dispatcher_inv B s' \<and> ok = (h \<in> snd ` set (handles s t)) \<and>
    handles s' = (handles s)(t := filter (\<lambda>e. snd e \<noteq> h) (handles s t)) \<and>
    reset B (Some (t, h)) s = (None, s') \<and> reset B None s' = (None, s')"
  using remove_listener_step [OF assms] assms(3)
  by (auto simp: removeListener_def Let_def reset_def split: prod.splits)

theorem remove_listener_witness:
  "fst (removeListener list_dispatcher 7 1
     (append_all list_dispatcher [(7, 0, \<lambda>(e :: event_data) (st :: int) (c :: bool). (st, c))] no_listeners))"
proof -
  let ?s = "append_all list_dispatcher [(7, 0, \<lambda>(e :: event_data) (st :: int) (c :: bool). (st, c))] no_listeners"
  have h: "handles ?s 7 = [(0, 1)]"
    by (simp add: append_all_def appendListener_def no_listeners_def list_dispatcher_def)
  obtain ok s' where r: "removeListener list_dispatcher 7 1 ?s = (ok, s')" by fastforce
  have "dispatcher_inv list_dispatcher ?s"
    using append_all_registered [OF list_dispatcher_ok no_listeners_inv] by blast
  from remove_listener [OF list_dispatcher_ok this r] h r show ?thesis by simp
qed

text \<open>The event type of a packet identifier leads back to it, and is a packet event unless the sum
  comes around.\<close>

theorem packet_event_types:
  "packet_id_from_type (packet_event_type i) = i \<and>
   (is_packet_event (packet_event_type i) \<longleftrightarrow> i < 0xFFFFF000)"
proof -
  have "unat i < 2 ^ 32" using unsigned_less [of i, where ?'a = nat] by simp
  then show ?thesis
    by (auto simp: packet_id_from_type_def packet_event_type_def packet_event_offset_def
        is_packet_event_def word_le_nat_alt word_less_nat_alt unat_word_ariths mod_if)
qed

text \<open>Exactly the classes of the packet registry have an event: every packet of a registered class
  is dispatched under its own event type.\<close>

theorem registered_classes_have_events:
  "set registered_events = packet_id ` set registered_classes \<and>
   snd (emit B registered_events s dir p st) =
     (if packet_id p \<in> packet_id ` set registered_classes
      then Some (snd (dispatch B s (packet_event_type (packet_id p)) (TypedPacketEvent dir p) st False)) else None)"
proof -
  have eq: "set registered_events = packet_id ` set registered_classes"
    by (simp add: registered_events_def registered_classes_def insert_commute)
  then show ?thesis
    by (simp add: emit_def has_event_def split: prod.split)
qed

end
