(* ===== verification/Scheduler.thy ===== *)
theory Scheduler
  imports Interfaces
begin

text \<open>
  \<open>core::Scheduler\<close> (\<open>src/core/scheduler.hpp\<close>, \<open>scheduler.cpp\<close>): a timer thread that moves due
  tasks from a priority queue to a ready queue and a pool of workers that run them. Every critical
  section under \<open>mutex_\<close> is one operation; the callbacks run between \<open>worker_take\<close> and
  \<open>worker_finish\<close>, and what they call is another label of the run. Task identifiers are natural
  numbers: the 64-bit counter does not come around.
\<close>

subsection \<open>State\<close>

record ('c, 'f) Task =
  tid :: nat
  tag :: string
  priority :: int
  execute_at :: int
  interval :: int
  callback :: 'c
  should_continue :: "'f option"

record TaskOptions =
  opt_tag :: string
  opt_priority :: int
  opt_delay :: int
  opt_interval :: int

text \<open>\<open>operator>\<close>: later first, then by the larger priority value.\<close>

definition task_greater :: "('c, 'f) Task \<Rightarrow> ('c, 'f) Task \<Rightarrow> bool" where
  "task_greater a b = (if execute_at a \<noteq> execute_at b then execute_at a > execute_at b
     else priority a > priority b)"

text \<open>Where the timer thread stands: at the head of its loop, in one of its three waits, or ended.\<close>

datatype timer = T_Run | T_WaitTask | T_WaitResume | T_Sleep int | T_Done

text \<open>
  \<open>held\<close> are the tasks in the workers' local variables, \<open>idle_workers\<close> the workers waiting for
  one, \<open>blocked\<close> the callers waiting in \<open>wait_all\<close>. The priority queue is a list in insertion
  order; which of several least elements \<open>top\<close> returns is up to the library.
\<close>

record ('c, 'f) Scheduler =
  task_queue :: "('c, 'f) Task list"
  cancelled_tasks :: "nat set"
  pending_tasks :: "nat set"
  running_tasks :: "nat set"
  tasks_by_tag :: "string \<Rightarrow> nat set option"
  ready_queue :: "('c, 'f) Task list"
  held :: "('c, 'f) Task list"
  running :: bool
  paused :: bool
  next_id :: nat
  active_tasks :: nat
  timer :: timer
  idle_workers :: nat
  blocked :: nat

definition new_scheduler :: "nat \<Rightarrow> ('c, 'f) Scheduler" where
  "new_scheduler num_threads =
     \<lparr>task_queue = [], cancelled_tasks = {}, pending_tasks = {}, running_tasks = {},
      tasks_by_tag = (\<lambda>_. None), ready_queue = [], held = [], running = True, paused = False,
      next_id = 1, active_tasks = 0, timer = T_Run,
      idle_workers = (if num_threads = 0 then 1 else num_threads), blocked = 0\<rparr>"

subsection \<open>Scheduling\<close>

definition insert_tag :: "string \<Rightarrow> nat \<Rightarrow> (string \<Rightarrow> nat set option) \<Rightarrow> string \<Rightarrow> nat set option" where
  "insert_tag t i m = (if t = [] then m
     else m(t \<mapsto> insert i (case m t of None \<Rightarrow> {} | Some S \<Rightarrow> S)))"

definition erase_tag :: "string \<Rightarrow> nat \<Rightarrow> (string \<Rightarrow> nat set option) \<Rightarrow> string \<Rightarrow> nat set option" where
  "erase_tag t i m = (if t = [] then m
     else case m t of None \<Rightarrow> m
       | Some S \<Rightarrow> if S - {i} = {} then m(t := None) else m(t \<mapsto> S - {i}))"

text \<open>The critical section both \<open>schedule\<close> functions end with.\<close>

definition enqueue :: "('c, 'f) Task \<Rightarrow> ('c, 'f) Scheduler \<Rightarrow> ('c, 'f) Scheduler" where
  "enqueue t s = s\<lparr>pending_tasks := insert (tid t) (pending_tasks s),
     tasks_by_tag := insert_tag (tag t) (tid t) (tasks_by_tag s),
     task_queue := task_queue s @ [t]\<rparr>"

definition generate_id :: "('c, 'f) Scheduler \<Rightarrow> nat \<times> ('c, 'f) Scheduler" where
  "generate_id s = (next_id s, s\<lparr>next_id := next_id s + 1\<rparr>)"

definition schedule ::
  "'c option \<Rightarrow> TaskOptions \<Rightarrow> int \<Rightarrow> ('c, 'f) Scheduler \<Rightarrow> nat \<times> ('c, 'f) Scheduler"
where
  "schedule cb opts now s =
     (case cb of
        None \<Rightarrow> (0, s)
      | Some c \<Rightarrow>
          let (i, s) = generate_id s
          in if \<not> running s then (0, s)
             else (i, enqueue \<lparr>tid = i, tag = opt_tag opts, priority = opt_priority opts,
               execute_at = now + opt_delay opts, interval = opt_interval opts, callback = c,
               should_continue = None\<rparr> s))"

definition schedule_delayed ::
  "'c option \<Rightarrow> int \<Rightarrow> string \<Rightarrow> int \<Rightarrow> int \<Rightarrow> ('c, 'f) Scheduler \<Rightarrow> nat \<times> ('c, 'f) Scheduler"
where
  "schedule_delayed cb delay tg prio now s =
     schedule cb \<lparr>opt_tag = tg, opt_priority = prio, opt_delay = delay, opt_interval = 0\<rparr> now s"

definition schedule_periodic ::
  "'c option \<Rightarrow> int \<Rightarrow> string \<Rightarrow> int \<Rightarrow> int \<Rightarrow> 'f option \<Rightarrow> int \<Rightarrow> ('c, 'f) Scheduler \<Rightarrow>
     nat \<times> ('c, 'f) Scheduler"
where
  "schedule_periodic cb ivl tg prio initial_delay cont now s =
     (case cb of
        None \<Rightarrow> (0, s)
      | Some c \<Rightarrow>
          let (i, s) = generate_id s
          in if \<not> running s then (0, s)
             else (i, enqueue \<lparr>tid = i, tag = tg, priority = prio, execute_at = now + initial_delay,
               interval = ivl, callback = c, should_continue = cont\<rparr> s))"

definition schedule_immediate ::
  "'c option \<Rightarrow> string \<Rightarrow> int \<Rightarrow> int \<Rightarrow> ('c, 'f) Scheduler \<Rightarrow> nat \<times> ('c, 'f) Scheduler"
where
  "schedule_immediate cb tg prio now s =
     schedule cb \<lparr>opt_tag = tg, opt_priority = prio, opt_delay = 0, opt_interval = 0\<rparr> now s"

subsection \<open>Cancelling and asking\<close>

definition cancel :: "nat \<Rightarrow> ('c, 'f) Scheduler \<Rightarrow> bool \<times> ('c, 'f) Scheduler" where
  "cancel i s =
     (if i = 0 then (False, s)
      else if i \<notin> pending_tasks s then (False, s)
      else (True, s\<lparr>cancelled_tasks := insert i (cancelled_tasks s)\<rparr>))"

definition cancel_by_tag :: "string \<Rightarrow> ('c, 'f) Scheduler \<Rightarrow> nat \<times> ('c, 'f) Scheduler" where
  "cancel_by_tag tg s =
     (if tg = [] then (0, s)
      else case tasks_by_tag s tg of
        None \<Rightarrow> (0, s)
      | Some S \<Rightarrow> (card (S \<inter> pending_tasks s),
                   s\<lparr>cancelled_tasks := cancelled_tasks s \<union> (S \<inter> pending_tasks s)\<rparr>))"

definition cancel_all :: "('c, 'f) Scheduler \<Rightarrow> ('c, 'f) Scheduler" where
  "cancel_all s = s\<lparr>cancelled_tasks := cancelled_tasks s \<union> pending_tasks s\<rparr>"

definition is_pending :: "nat \<Rightarrow> ('c, 'f) Scheduler \<Rightarrow> bool" where
  "is_pending i s \<longleftrightarrow> i \<in> pending_tasks s \<and> i \<notin> cancelled_tasks s"

definition is_running :: "nat \<Rightarrow> ('c, 'f) Scheduler \<Rightarrow> bool" where
  "is_running i s \<longleftrightarrow> i \<in> running_tasks s"

definition pending_count :: "('c, 'f) Scheduler \<Rightarrow> nat" where
  "pending_count s = card (pending_tasks s - cancelled_tasks s)"

definition pending_count_by_tag :: "string \<Rightarrow> ('c, 'f) Scheduler \<Rightarrow> nat" where
  "pending_count_by_tag tg s =
     (if tg = [] then 0
      else case tasks_by_tag s tg of None \<Rightarrow> 0
        | Some S \<Rightarrow> card ((S \<inter> pending_tasks s) - cancelled_tasks s))"

definition pause :: "('c, 'f) Scheduler \<Rightarrow> ('c, 'f) Scheduler" where
  "pause s = s\<lparr>paused := True\<rparr>"

definition resume :: "('c, 'f) Scheduler \<Rightarrow> ('c, 'f) Scheduler" where
  "resume s = s\<lparr>paused := False\<rparr>"

definition stop :: "('c, 'f) Scheduler \<Rightarrow> ('c, 'f) Scheduler" where
  "stop s = s\<lparr>running := False\<rparr>"

definition idle :: "('c, 'f) Scheduler \<Rightarrow> bool" where
  "idle s \<longleftrightarrow> pending_tasks s = {} \<and> running_tasks s = {}"

definition wait_all :: "('c, 'f) Scheduler \<Rightarrow> ('c, 'f) Scheduler" where
  "wait_all s = (if idle s then s else s\<lparr>blocked := blocked s + 1\<rparr>)"

subsection \<open>The timer thread\<close>

definition remove_nth :: "nat \<Rightarrow> 'a list \<Rightarrow> 'a list" where
  "remove_nth k xs = take k xs @ drop (Suc k) xs"

text \<open>\<open>is_top k q\<close>: \<open>task_queue_.top()\<close> may be the element inserted \<open>k\<close>-th.\<close>

definition is_top :: "nat \<Rightarrow> ('c, 'f) Task list \<Rightarrow> bool" where
  "is_top k q \<longleftrightarrow> k < length q \<and> list_all (\<lambda>t. \<not> task_greater (q ! k) t) q"

text \<open>The end of the loop body: the top task is due, or the thread sleeps until it is.\<close>

definition timer_top :: "nat \<Rightarrow> int \<Rightarrow> ('c, 'f) Scheduler \<Rightarrow> ('c, 'f) Scheduler" where
  "timer_top k now s =
     (let t = task_queue s ! k
      in if execute_at t \<le> now then
           let s = s\<lparr>timer := T_Run, task_queue := remove_nth k (task_queue s)\<rparr>
           in if tid t \<in> cancelled_tasks s then
                s\<lparr>pending_tasks := pending_tasks s - {tid t},
                  cancelled_tasks := cancelled_tasks s - {tid t},
                  tasks_by_tag := erase_tag (tag t) (tid t) (tasks_by_tag s)\<rparr>
              else s\<lparr>ready_queue := ready_queue s @ [t]\<rparr>
         else s\<lparr>timer := T_Sleep (execute_at t)\<rparr>)"

definition timer_body :: "nat \<Rightarrow> int \<Rightarrow> ('c, 'f) Scheduler \<Rightarrow> ('c, 'f) Scheduler" where
  "timer_body k now s =
     (if paused s then s\<lparr>timer := T_WaitResume\<rparr>
      else if task_queue s = [] then s\<lparr>timer := T_Run\<rparr>
      else timer_top k now s)"

text \<open>
  One go of the timer thread, from one release of the lock to the next. The sleep until the top
  task is due wakes up early only when the scheduler stops or pauses: a task that becomes the top
  in the meantime is not looked at.
\<close>

definition timer_step :: "nat \<Rightarrow> int \<Rightarrow> ('c, 'f) Scheduler \<Rightarrow> ('c, 'f) Scheduler" where
  "timer_step k now s =
     (case timer s of
        T_Run \<Rightarrow> if \<not> running s then s\<lparr>timer := T_Done\<rparr>
          else if task_queue s = [] then s\<lparr>timer := T_WaitTask\<rparr> else timer_body k now s
      | T_WaitTask \<Rightarrow> if \<not> running s then s\<lparr>timer := T_Done\<rparr>
          else if task_queue s = [] then s else timer_body k now s
      | T_WaitResume \<Rightarrow> if \<not> running s then s\<lparr>timer := T_Done\<rparr>
          else if paused s then s else s\<lparr>timer := T_Run\<rparr>
      | T_Sleep u \<Rightarrow> if now \<ge> u \<or> \<not> running s \<or> paused s then s\<lparr>timer := T_Run\<rparr> else s
      | T_Done \<Rightarrow> s)"

subsection \<open>The workers\<close>

definition worker_take :: "('c, 'f) Scheduler \<Rightarrow> ('c, 'f) Scheduler option" where
  "worker_take s =
     (case ready_queue s of
        [] \<Rightarrow> None
      | t # ts \<Rightarrow>
          if idle_workers s = 0 then None
          else Some (s\<lparr>ready_queue := ts, held := held s @ [t], idle_workers := idle_workers s - 1,
            pending_tasks := pending_tasks s - {tid t},
            running_tasks := insert (tid t) (running_tasks s),
            active_tasks := active_tasks s + 1\<rparr>))"

definition should_reschedule :: "('f \<Rightarrow> bool) \<Rightarrow> ('c, 'f) Task \<Rightarrow> ('c, 'f) Scheduler \<Rightarrow> bool" where
  "should_reschedule flag t s \<longleftrightarrow> interval t > 0 \<and> tid t \<notin> cancelled_tasks s \<and>
     (case should_continue t of None \<Rightarrow> True | Some f \<Rightarrow> flag f)"

text \<open>
  The worker with the \<open>k\<close>-th held task comes back from the callback: it gives the task up, queues
  the next round of a periodic task under a new identifier, forgets the cancellation and wakes
  \<open>wait_all\<close> when nothing is left.
\<close>

definition release :: "nat \<Rightarrow> ('c, 'f) Scheduler \<Rightarrow> ('c, 'f) Scheduler" where
  "release k s =
     (let t = held s ! k
      in s\<lparr>held := remove_nth k (held s), running_tasks := running_tasks s - {tid t},
           active_tasks := active_tasks s - 1,
           tasks_by_tag := erase_tag (tag t) (tid t) (tasks_by_tag s)\<rparr>)"

definition requeue ::
  "int \<Rightarrow> ('f \<Rightarrow> bool) \<Rightarrow> ('c, 'f) Task \<Rightarrow> ('c, 'f) Scheduler \<Rightarrow> ('c, 'f) Scheduler"
where
  "requeue now flag t s =
     (if should_reschedule flag t s then
        let (i, s) = generate_id s in enqueue (t\<lparr>tid := i, execute_at := now + interval t\<rparr>) s
      else s)"

definition settle :: "('c, 'f) Task \<Rightarrow> ('c, 'f) Scheduler \<Rightarrow> ('c, 'f) Scheduler" where
  "settle t s =
     (let s = s\<lparr>cancelled_tasks := cancelled_tasks s - {tid t}\<rparr>;
          s = (if idle s then s\<lparr>blocked := 0\<rparr> else s)
      in s\<lparr>idle_workers := idle_workers s + (if running s then 1 else 0)\<rparr>)"

definition worker_finish ::
  "nat \<Rightarrow> int \<Rightarrow> ('f \<Rightarrow> bool) \<Rightarrow> ('c, 'f) Scheduler \<Rightarrow> ('c, 'f) Scheduler option"
where
  "worker_finish k now flag s =
     (if k \<ge> length (held s) then None
      else let t = held s ! k in Some (settle t (requeue now flag t (release k s))))"

subsection \<open>Steps\<close>

datatype ('c, 'f) label =
    L_Schedule "'c option" TaskOptions int
  | L_Periodic "'c option" int string int int "'f option" int
  | L_Cancel nat
  | L_CancelTag string
  | L_CancelAll
  | L_Pause
  | L_Resume
  | L_Stop
  | L_WaitAll
  | L_Timer nat int
  | L_Take
  | L_Finish nat int "'f \<Rightarrow> bool"

inductive sched_step :: "('c, 'f) Scheduler \<Rightarrow> ('c, 'f) label \<Rightarrow> ('c, 'f) Scheduler \<Rightarrow> bool" where
  "sched_step s (L_Schedule cb opts now) (snd (schedule cb opts now s))"
| "sched_step s (L_Periodic cb ivl tg prio dly cont now) (snd (schedule_periodic cb ivl tg prio dly cont now s))"
| "sched_step s (L_Cancel i) (snd (cancel i s))"
| "sched_step s (L_CancelTag tg) (snd (cancel_by_tag tg s))"
| "sched_step s L_CancelAll (cancel_all s)"
| "sched_step s L_Pause (pause s)"
| "sched_step s L_Resume (resume s)"
| "sched_step s L_Stop (stop s)"
| "sched_step s L_WaitAll (wait_all s)"
| "task_queue s = [] \<or> is_top k (task_queue s) \<Longrightarrow> sched_step s (L_Timer k now) (timer_step k now s)"
| "worker_take s = Some s' \<Longrightarrow> sched_step s L_Take s'"
| "worker_finish k now flag s = Some s' \<Longrightarrow> sched_step s (L_Finish k now flag) s'"

inductive_cases sched_stepE: "sched_step s e s'"

subsection \<open>The invariant\<close>

definition live :: "('c, 'f) Scheduler \<Rightarrow> ('c, 'f) Task list" where
  "live s = task_queue s @ ready_queue s @ held s"

text \<open>The tag index a set of tasks should have.\<close>

definition tag_index :: "('c, 'f) Task set \<Rightarrow> string \<Rightarrow> nat set option" where
  "tag_index T tg = (let S = tid ` {t \<in> T. tag t = tg} in if tg = [] \<or> S = {} then None else Some S)"

definition tids :: "('c, 'f) Task list \<Rightarrow> nat list" where
  "tids ts = map tid ts"

lemma tids_simps [simp]:
  "tids [] = []" "tids (t # ts) = tid t # tids ts" "tids (ts @ us) = tids ts @ tids us"
  by (simp_all add: tids_def)

lemma tids_set: "t \<in> set ts \<Longrightarrow> tid t \<in> set (tids ts)"
  by (simp add: tids_def)

lemma tids_inj: "distinct (tids ts) \<Longrightarrow> inj_on tid (set ts)"
  by (simp add: tids_def distinct_map)

definition sched_inv :: "('c, 'f) Scheduler \<Rightarrow> bool" where
  "sched_inv s \<longleftrightarrow>
     distinct (tids (live s)) \<and>
     pending_tasks s = set (tids (task_queue s @ ready_queue s)) \<and>
     running_tasks s = set (tids (held s)) \<and>
     cancelled_tasks s \<subseteq> pending_tasks s \<union> running_tasks s \<and>
     (\<forall>i \<in> set (tids (live s)). 0 < i \<and> i < next_id s) \<and> 0 < next_id s \<and>
     tasks_by_tag s = tag_index (set (live s)) \<and>
     active_tasks s = length (held s)"

lemma sched_invI:
  assumes "distinct (tids (live s))" and "pending_tasks s = set (tids (task_queue s @ ready_queue s))"
    and "running_tasks s = set (tids (held s))"
    and "cancelled_tasks s \<subseteq> pending_tasks s \<union> running_tasks s"
    and "\<And>i. i \<in> set (tids (live s)) \<Longrightarrow> 0 < i \<and> i < next_id s" and "0 < next_id s"
    and "tasks_by_tag s = tag_index (set (live s))" and "active_tasks s = length (held s)"
  shows "sched_inv s"
  using assms by (simp add: sched_inv_def)

lemma sched_invD:
  assumes "sched_inv s"
  shows "distinct (tids (live s))" and "pending_tasks s = set (tids (task_queue s @ ready_queue s))"
    and "running_tasks s = set (tids (held s))"
    and "cancelled_tasks s \<subseteq> pending_tasks s \<union> running_tasks s"
    and "i \<in> set (tids (live s)) \<Longrightarrow> 0 < i \<and> i < next_id s" and "0 < next_id s"
    and "tasks_by_tag s = tag_index (set (live s))" and "active_tasks s = length (held s)"
  using assms unfolding sched_inv_def by blast+

lemma tag_index_insert:
  "insert_tag (tag t) (tid t) (tag_index T) = tag_index (insert t T)"
proof
  fix tg
  have "{u. (u = t \<or> u \<in> T) \<and> tag u = tg} = (if tag t = tg then insert t {u \<in> T. tag u = tg} else {u \<in> T. tag u = tg})"
    by auto
  then show "insert_tag (tag t) (tid t) (tag_index T) tg = tag_index (insert t T) tg"
    by (auto simp: insert_tag_def tag_index_def Let_def)
qed

lemma tag_index_erase:
  assumes "t \<in> T" and "inj_on tid T"
  shows "erase_tag (tag t) (tid t) (tag_index T) = tag_index (T - {t})"
proof
  fix tg
  let ?S = "\<lambda>T. tid ` {u \<in> T. tag u = tg}"
  show "erase_tag (tag t) (tid t) (tag_index T) tg = tag_index (T - {t}) tg"
  proof (cases "tag t = tg")
    case True
    have "?S (T - {t}) = ?S T - {tid t}" using assms by (auto dest: inj_onD)
    moreover have "?S T \<noteq> {}" using assms(1) True by blast
    ultimately show ?thesis
      using True by (simp add: erase_tag_def tag_index_def Let_def del: image_is_empty Diff_eq_empty_iff)
  next
    case False
    then have "?S (T - {t}) = ?S T" by auto
    moreover have "erase_tag (tag t) i m tg = m tg" for i m
      using False by (simp add: erase_tag_def split: option.split)
    ultimately show ?thesis by (simp add: tag_index_def)
  qed
qed

lemma remove_nth_split:
  assumes "k < length xs"
  obtains ys zs where "xs = ys @ xs ! k # zs" and "remove_nth k xs = ys @ zs"
  using assms that [of "take k xs" "drop (Suc k) xs"]
  by (simp add: remove_nth_def id_take_nth_drop)

lemma inv_new: "sched_inv (new_scheduler n)"
  by (simp add: sched_inv_def new_scheduler_def live_def tag_index_def fun_eq_iff)

lemma inv_enqueue:
  assumes inv: "sched_inv s" and t: "tid t = next_id s"
  shows "sched_inv (enqueue t (s\<lparr>next_id := Suc (next_id s)\<rparr>))"
proof (rule sched_invI)
  note d = sched_invD [OF inv]
  have fresh: "tid t \<notin> set (tids (live s))" using d(5) t by auto
  then show "distinct (tids (live (enqueue t (s\<lparr>next_id := Suc (next_id s)\<rparr>))))"
    using d(1) by (auto simp: enqueue_def live_def)
  show "tasks_by_tag (enqueue t (s\<lparr>next_id := Suc (next_id s)\<rparr>)) =
      tag_index (set (live (enqueue t (s\<lparr>next_id := Suc (next_id s)\<rparr>))))"
    using tag_index_insert [of t "set (live s)"] d(7)
    by (simp add: enqueue_def live_def)
  show "0 < i \<and> i < next_id (enqueue t (s\<lparr>next_id := Suc (next_id s)\<rparr>))"
    if "i \<in> set (tids (live (enqueue t (s\<lparr>next_id := Suc (next_id s)\<rparr>))))" for i
    using that d(5) [of i] d(6) t by (auto simp: enqueue_def live_def)
qed (use sched_invD [OF inv] in \<open>auto simp: enqueue_def\<close>)

lemma inv_generate:
  assumes "sched_inv s"
  shows "sched_inv (s\<lparr>next_id := Suc (next_id s)\<rparr>)"
  by (rule sched_invI) (use sched_invD [OF assms] in \<open>auto simp: live_def intro: less_SucI\<close>)

lemma inv_schedule: "sched_inv s \<Longrightarrow> sched_inv (snd (schedule cb opts now s))"
  by (simp add: schedule_def generate_id_def Let_def inv_generate inv_enqueue split: option.split)

lemma inv_periodic: "sched_inv s \<Longrightarrow> sched_inv (snd (schedule_periodic cb ivl tg prio dly cont now s))"
  by (simp add: schedule_periodic_def generate_id_def Let_def inv_generate inv_enqueue split: option.split)

lemma inv_cancelled:
  assumes "sched_inv s" and "I \<subseteq> pending_tasks s"
  shows "sched_inv (s\<lparr>cancelled_tasks := cancelled_tasks s \<union> I\<rparr>)"
  using sched_invD [OF assms(1)] assms(2) by (intro sched_invI) (auto simp: live_def)

lemma inv_cancel: "sched_inv s \<Longrightarrow> sched_inv (snd (cancel i s))"
  using inv_cancelled [of s "{i}"] by (simp add: cancel_def)

lemma inv_cancel_by_tag: "sched_inv s \<Longrightarrow> sched_inv (snd (cancel_by_tag tg s))"
  by (simp add: cancel_by_tag_def inv_cancelled split: option.split)

lemma inv_cancel_all: "sched_inv s \<Longrightarrow> sched_inv (cancel_all s)"
  using inv_cancelled [of s "pending_tasks s"] by (simp add: cancel_all_def)

lemma inv_other [simp]:
  "sched_inv (s\<lparr>paused := b\<rparr>) = sched_inv s" "sched_inv (s\<lparr>running := b\<rparr>) = sched_inv s"
  "sched_inv (s\<lparr>blocked := n\<rparr>) = sched_inv s" "sched_inv (s\<lparr>timer := x\<rparr>) = sched_inv s"
  "sched_inv (s\<lparr>idle_workers := n\<rparr>) = sched_inv s"
  by (simp_all add: sched_inv_def live_def)

lemma inv_flags [simp]:
  "sched_inv (pause s) = sched_inv s" "sched_inv (resume s) = sched_inv s"
  "sched_inv (stop s) = sched_inv s" "sched_inv (wait_all s) = sched_inv s"
  by (simp_all add: pause_def resume_def stop_def wait_all_def)

text \<open>A cancelled task leaves the timer queue.\<close>

lemma inv_drop_queued:
  assumes inv: "sched_inv s" and q: "task_queue s = ys @ t # zs"
  defines "s' \<equiv> s\<lparr>task_queue := ys @ zs, pending_tasks := pending_tasks s - {tid t},
    cancelled_tasks := cancelled_tasks s - {tid t},
    tasks_by_tag := erase_tag (tag t) (tid t) (tasks_by_tag s)\<rparr>"
  shows "sched_inv s'"
proof (rule sched_invI)
  note d = sched_invD [OF inv]
  have "set (live s) - {t} = set (live s')"
    using d(1) tids_set [of t] by (auto simp: live_def s'_def q)
  then show "tasks_by_tag s' = tag_index (set (live s'))"
    using tag_index_erase [OF _ tids_inj [OF d(1)], of t] d(7) by (simp add: s'_def q live_def)
  show "0 < i \<and> i < next_id s'" if "i \<in> set (tids (live s'))" for i
    using that d(5) [of i] by (auto simp: s'_def q live_def)
qed (use sched_invD [OF inv] in \<open>auto simp: s'_def q live_def\<close>)

lemma inv_ready_queued:
  assumes inv: "sched_inv s" and q: "task_queue s = ys @ t # zs"
  defines "s' \<equiv> s\<lparr>task_queue := ys @ zs, ready_queue := ready_queue s @ [t]\<rparr>"
  shows "sched_inv s'"
proof (rule sched_invI)
  note d = sched_invD [OF inv]
  have "set (live s') = set (live s)" by (auto simp: live_def s'_def q)
  then show "tasks_by_tag s' = tag_index (set (live s'))"
    using d(7) by (simp add: s'_def)
  show "0 < i \<and> i < next_id s'" if "i \<in> set (tids (live s'))" for i
    using that d(5) [of i] by (auto simp: s'_def q live_def)
qed (use sched_invD [OF inv] in \<open>auto simp: s'_def q live_def\<close>)

lemma inv_take:
  assumes inv: "sched_inv s" and take: "worker_take s = Some s'"
  shows "sched_inv s'"
proof -
  obtain t ts where r: "ready_queue s = t # ts"
    and s': "s' = s\<lparr>ready_queue := ts, held := held s @ [t], idle_workers := idle_workers s - 1,
            pending_tasks := pending_tasks s - {tid t},
            running_tasks := insert (tid t) (running_tasks s),
            active_tasks := active_tasks s + 1\<rparr>"
    using take by (auto simp: worker_take_def split: list.splits if_splits)
  show ?thesis
  proof (rule sched_invI)
    note d = sched_invD [OF inv]
    have "set (live s') = set (live s)" by (auto simp: live_def s' r)
    then show "tasks_by_tag s' = tag_index (set (live s'))"
      using d(7) by (simp add: s')
    show "0 < i \<and> i < next_id s'" if "i \<in> set (tids (live s'))" for i
      using that d(5) [of i] by (auto simp: s' r live_def)
  qed (use sched_invD [OF inv] in \<open>auto simp: s' r live_def\<close>)
qed

lemma inv_release:
  assumes inv: "sched_inv s" and h: "held s = ys @ t # zs"
  defines "s' \<equiv> s\<lparr>held := ys @ zs, running_tasks := running_tasks s - {tid t},
    active_tasks := active_tasks s - 1, tasks_by_tag := erase_tag (tag t) (tid t) (tasks_by_tag s),
    cancelled_tasks := cancelled_tasks s - {tid t}\<rparr>"
  shows "sched_inv s'"
proof (rule sched_invI)
  note d = sched_invD [OF inv]
  have "set (live s) - {t} = set (live s')"
    using d(1) tids_set [of t] by (auto simp: live_def s'_def h)
  then show "tasks_by_tag s' = tag_index (set (live s'))"
    using tag_index_erase [OF _ tids_inj [OF d(1)], of t] d(7) by (simp add: s'_def h live_def)
  show "0 < i \<and> i < next_id s'" if "i \<in> set (tids (live s'))" for i
    using that d(5) [of i] by (auto simp: s'_def h live_def)
qed (use sched_invD [OF inv] in \<open>auto simp: s'_def h live_def\<close>)

lemma inv_timer_step:
  assumes inv: "sched_inv s" and top: "task_queue s = [] \<or> is_top k (task_queue s)"
  shows "sched_inv (timer_step k now s)"
proof -
  have "sched_inv (timer_top k now s)" if ne: "task_queue s \<noteq> []"
  proof -
    have "k < length (task_queue s)" using top ne by (simp add: is_top_def)
    then obtain ys zs where q: "task_queue s = ys @ task_queue s ! k # zs"
      and r: "remove_nth k (task_queue s) = ys @ zs" by (rule remove_nth_split)
    have inv': "sched_inv (s\<lparr>timer := T_Run\<rparr>)" using inv by simp
    have q': "task_queue (s\<lparr>timer := T_Run\<rparr>) = ys @ task_queue s ! k # zs" using q by simp
    show ?thesis
      using inv_drop_queued [OF inv' q'] inv_ready_queued [OF inv' q'] inv
      by (simp add: timer_top_def Let_def r)
  qed
  then show ?thesis
    using inv by (simp add: timer_step_def timer_body_def split: timer.split)
qed

lemma inv_settle:
  "sched_inv (settle t s) = sched_inv (s\<lparr>cancelled_tasks := cancelled_tasks s - {tid t}\<rparr>)"
  by (simp add: settle_def Let_def)

text \<open>
  \<open>worker_finish\<close> forgets the cancellation after the new task has been queued; since the new
  task has a new identifier it makes no difference to forget it before.
\<close>

lemma inv_finish:
  assumes inv: "sched_inv s" and fin: "worker_finish k now flag s = Some s'"
  shows "sched_inv s'"
proof -
  have k: "k < length (held s)" using fin by (simp add: worker_finish_def split: if_splits)
  then obtain ys zs where h: "held s = ys @ held s ! k # zs"
    and r: "remove_nth k (held s) = ys @ zs" by (rule remove_nth_split)
  let ?t = "held s ! k"
  let ?s1 = "(release k s)\<lparr>cancelled_tasks := cancelled_tasks s - {tid ?t}\<rparr>"
  let ?u = "?t\<lparr>tid := next_id s, execute_at := now + interval ?t\<rparr>"
  have 1: "sched_inv ?s1" using inv_release [OF inv h] by (simp add: release_def Let_def r)
  have 2: "sched_inv (enqueue ?u (?s1\<lparr>next_id := Suc (next_id s)\<rparr>))"
    using inv_enqueue [OF 1, of ?u] by (simp add: release_def Let_def)
  have 3: "(requeue now flag ?t (release k s))\<lparr>cancelled_tasks := cancelled_tasks s - {tid ?t}\<rparr> =
      (if should_reschedule flag ?t (release k s)
       then enqueue ?u (?s1\<lparr>next_id := Suc (next_id s)\<rparr>) else ?s1)"
    by (simp add: requeue_def generate_id_def enqueue_def release_def Let_def)
  have "cancelled_tasks (requeue now flag ?t (release k s)) = cancelled_tasks s"
    by (simp add: requeue_def generate_id_def enqueue_def release_def Let_def)
  then have "sched_inv (settle ?t (requeue now flag ?t (release k s)))"
    using 1 2 3 by (simp add: inv_settle)
  then show ?thesis using fin k by (simp add: worker_finish_def Let_def)
qed

interpretation sched: state_machine "\<lambda>s. \<exists>n. s = new_scheduler n" sched_step sched_inv
proof unfold_locales
  show "sched_inv s'" if "sched_inv s" and "sched_step s e s'"
    for s :: "('c, 'f) Scheduler" and e s'
    using that(2,1)
    by (induction rule: sched_step.induct)
      (auto simp: inv_schedule inv_periodic inv_cancel inv_cancel_by_tag inv_cancel_all
        intro: inv_timer_step inv_take inv_finish)
qed (auto simp: inv_new)

subsection \<open>Cancelled tasks\<close>

text \<open>A task that has left the timer queue only in cancelled form: no worker has it or gets it.\<close>

definition never_runs :: "nat \<Rightarrow> ('c, 'f) Scheduler \<Rightarrow> bool" where
  "never_runs i s \<longleftrightarrow> sched_inv s \<and> i < next_id s \<and> i \<notin> set (tids (ready_queue s @ held s)) \<and>
     (i \<in> set (tids (task_queue s)) \<longrightarrow> i \<in> cancelled_tasks s)"

lemma never_enqueue:
  "tid t \<noteq> i \<Longrightarrow> i \<notin> set (tids (ready_queue s @ held s)) \<Longrightarrow>
   (i \<in> set (tids (task_queue s)) \<longrightarrow> i \<in> cancelled_tasks s) \<Longrightarrow>
   i \<notin> set (tids (ready_queue (enqueue t s) @ held (enqueue t s))) \<and>
   (i \<in> set (tids (task_queue (enqueue t s))) \<longrightarrow> i \<in> cancelled_tasks (enqueue t s)) \<and>
   next_id (enqueue t s) = next_id s"
  by (auto simp: enqueue_def)

lemma never_schedule: "never_runs i s \<Longrightarrow> never_runs i (snd (schedule cb opts now s))"
  using inv_schedule [of s cb opts now]
  by (auto simp: never_runs_def schedule_def generate_id_def Let_def enqueue_def split: option.splits)

lemma never_periodic: "never_runs i s \<Longrightarrow> never_runs i (snd (schedule_periodic cb ivl tg prio dly cont now s))"
  using inv_periodic [of s cb ivl tg prio dly cont now]
  by (auto simp: never_runs_def schedule_periodic_def generate_id_def Let_def enqueue_def split: option.splits)

lemma never_cancel:
  "never_runs i s \<Longrightarrow> never_runs i (snd (cancel j s))"
  "never_runs i s \<Longrightarrow> never_runs i (snd (cancel_by_tag tg s))"
  "never_runs i s \<Longrightarrow> never_runs i (cancel_all s)"
  using inv_cancel [of s j] inv_cancel_by_tag [of s tg] inv_cancel_all [of s]
  by (auto simp: never_runs_def cancel_def cancel_by_tag_def cancel_all_def split: option.splits)

lemma never_flags [simp]:
  "never_runs i (pause s) = never_runs i s" "never_runs i (resume s) = never_runs i s"
  "never_runs i (stop s) = never_runs i s" "never_runs i (wait_all s) = never_runs i s"
  "never_runs i (s\<lparr>timer := x\<rparr>) = never_runs i s"
  by (simp_all add: never_runs_def pause_def resume_def stop_def wait_all_def)

lemma never_timer:
  assumes nr: "never_runs i s" and top: "task_queue s = [] \<or> is_top k (task_queue s)"
  shows "never_runs i (timer_step k now s)"
proof -
  have "never_runs i (timer_top k now s)" if ne: "task_queue s \<noteq> []" and tr: "sched_inv (timer_top k now s)"
  proof -
    have "k < length (task_queue s)" using top ne by (simp add: is_top_def)
    then obtain ys zs where q: "task_queue s = ys @ task_queue s ! k # zs"
      and r: "remove_nth k (task_queue s) = ys @ zs" by (rule remove_nth_split)
    let ?t = "task_queue s ! k"
    have "distinct (tids (task_queue s))" using nr by (simp add: never_runs_def sched_inv_def live_def)
    then have "tid ?t \<notin> set (tids (ys @ zs))" by (subst (asm) q) auto
    moreover have "set (tids (task_queue s)) = insert (tid ?t) (set (tids (ys @ zs)))"
      by (subst q) auto
    ultimately show ?thesis
      using nr tr by (auto simp: never_runs_def timer_top_def Let_def r)
  qed
  moreover have "sched_inv s" using nr by (simp add: never_runs_def)
  ultimately show ?thesis
    using nr inv_timer_step [OF _ top, of now]
    by (auto simp: timer_step_def timer_body_def split: timer.splits if_splits)
qed

lemma never_take: "never_runs i s \<Longrightarrow> worker_take s = Some s' \<Longrightarrow> never_runs i s'"
  using inv_take [of s s']
  by (auto simp: never_runs_def worker_take_def split: list.splits if_splits)

lemma never_finish:
  assumes nr: "never_runs i s" and fin: "worker_finish k now flag s = Some s'"
  shows "never_runs i s'"
proof -
  have k: "k < length (held s)" and s': "s' = settle (held s ! k) (requeue now flag (held s ! k) (release k s))"
    using fin by (auto simp: worker_finish_def Let_def split: if_splits)
  obtain ys zs where h: "held s = ys @ held s ! k # zs"
    and r: "remove_nth k (held s) = ys @ zs" using k by (rule remove_nth_split)
  have "tid (held s ! k) \<in> set (tids (held s))" using k by (simp add: tids_def)
  then have ne: "tid (held s ! k) \<noteq> i" using nr by (auto simp: never_runs_def)
  have "set (tids (ys @ zs)) \<subseteq> set (tids (held s))" by (subst h) auto
  then have "i \<notin> set (tids (ys @ zs))" using nr by (auto simp: never_runs_def)
  then show ?thesis
    using nr ne inv_finish [OF _ fin]
    by (auto simp: never_runs_def s' settle_def requeue_def release_def generate_id_def enqueue_def
        Let_def r)
qed

lemma never_step: "sched_step s e s' \<Longrightarrow> never_runs i s \<Longrightarrow> never_runs i s'"
  by (induction rule: sched_step.induct)
    (auto simp: never_schedule never_periodic never_cancel intro: never_timer never_take never_finish)

lemma never_run: "sched.run s es s' \<Longrightarrow> never_runs i s \<Longrightarrow> never_runs i s'"
  by (induction rule: sched.run.induct) (auto intro: never_step)

subsection \<open>The sleeping timer\<close>

lemma sleeping_step:
  assumes "sched_step s e s'" and "timer s = T_Sleep u" and "running s" and "\<not> paused s"
    and "e \<noteq> L_Pause" and "e \<noteq> L_Stop" and "\<And>k now. e = L_Timer k now \<Longrightarrow> now < u"
  shows "timer s' = T_Sleep u \<and> running s' \<and> \<not> paused s' \<and> set (ready_queue s') \<subseteq> set (ready_queue s)"
  using assms
proof (induction rule: sched_step.induct)
  case (11 s s')
  then show ?case by (auto simp: worker_take_def split: list.splits if_splits)
next
  case (12 k now flag s s')
  then show ?case
    by (auto simp: worker_finish_def settle_def requeue_def release_def generate_id_def enqueue_def
        Let_def split: if_splits)
qed (auto simp: schedule_def schedule_periodic_def generate_id_def enqueue_def Let_def cancel_def
    cancel_by_tag_def cancel_all_def pause_def resume_def stop_def wait_all_def timer_step_def
    split: option.splits)

subsection \<open>Properties\<close>

text \<open>A small run the concrete instances below use: one periodic task, due at once.\<close>

definition demo_task :: "(unit, unit) Task" where
  "demo_task = \<lparr>tid = 1, tag = ''t'', priority = 0, execute_at = 0, interval = 5, callback = (),
     should_continue = None\<rparr>"

definition demo_queued :: "(unit, unit) Scheduler" where
  "demo_queued = snd (schedule_periodic (Some ()) 5 ''t'' 0 0 None 0 (new_scheduler 1))"

definition demo_ready :: "(unit, unit) Scheduler" where
  "demo_ready = timer_step 0 0 demo_queued"

definition demo_held :: "(unit, unit) Scheduler" where
  "demo_held = the (worker_take demo_ready)"

lemma demo_queued: "task_queue demo_queued = [demo_task]" "running demo_queued" "idle_workers demo_queued = 1"
  "cancelled_tasks demo_queued = {}" "timer demo_queued = T_Run" "\<not> paused demo_queued"
  "ready_queue demo_queued = []" "sched_inv demo_queued"
  using inv_periodic [OF inv_new, of "Some ()" 5 "''t''" 0 0 None 0 1]
  by (simp_all add: demo_queued_def schedule_periodic_def generate_id_def enqueue_def new_scheduler_def
      demo_task_def)

lemma demo_ready: "ready_queue demo_ready = [demo_task]" "idle_workers demo_ready = 1" "sched_inv demo_ready"
  "cancelled_tasks demo_ready = {}"
proof -
  have "is_top 0 (task_queue demo_queued)" by (simp add: demo_queued is_top_def task_greater_def)
  then show "sched_inv demo_ready"
    unfolding demo_ready_def using inv_timer_step [OF demo_queued(8)] by blast
qed (simp_all add: demo_ready_def timer_step_def timer_body_def timer_top_def demo_queued remove_nth_def
    demo_task_def Let_def)

lemma demo_held: "held demo_held = held demo_ready @ [demo_task]" "sched_inv demo_held"
  "cancelled_tasks demo_held = {}"
proof -
  have "worker_take demo_ready = Some demo_held"
    by (simp add: demo_held_def worker_take_def demo_ready)
  then show "sched_inv demo_held" by (rule inv_take [OF demo_ready(3)])
qed (simp_all add: demo_held_def worker_take_def demo_ready)

text \<open>C23: in every state the scheduler can get into, pending, running and cancelled identifiers and
  the tag index are what the queued, ready and running tasks say; no task is in two places, and no
  identifier is used twice.\<close>

theorem scheduler_invariant:
  assumes "sched.run (new_scheduler n) es s"
  shows "sched_inv s \<and> pending_tasks s \<inter> running_tasks s = {} \<and>
    pending_count s \<le> length (task_queue s) + length (ready_queue s)"
proof -
  have inv: "sched_inv s" using sched.run_from_init [OF _ assms] by blast
  have "card (pending_tasks s - cancelled_tasks s) \<le> card (pending_tasks s)"
    by (rule card_mono) (simp_all add: sched_invD(2) [OF inv] Diff_subset)
  also have "\<dots> \<le> length (tids (task_queue s @ ready_queue s))"
    unfolding sched_invD(2) [OF inv] by (rule card_length)
  finally have "pending_count s \<le> length (task_queue s) + length (ready_queue s)"
    by (simp add: pending_count_def tids_def)
  moreover have "pending_tasks s \<inter> running_tasks s = {}"
    using sched_invD(1-3) [OF inv] by (auto simp: live_def)
  ultimately show ?thesis using inv by simp
qed

theorem scheduler_invariant_witness:
  "sched_inv (snd (schedule_periodic (Some ()) 5 ''t'' 0 0 None 0 (new_scheduler 1)) :: (unit, unit) Scheduler)"
proof -
  have "sched.run (new_scheduler 1) [L_Periodic (Some ()) 5 ''t'' 0 0 (None :: unit option) 0]
      (snd (schedule_periodic (Some ()) 5 ''t'' 0 0 None 0 (new_scheduler 1)))"
    by (blast intro: sched.run.intros sched_step.intros)
  from scheduler_invariant [OF this] show ?thesis by blast
qed

text \<open>C24: a task that is cancelled while it waits for its time is never run, whatever happens
  afterwards.\<close>

theorem cancelled_task_never_runs:
  assumes "sched_inv s" and "t \<in> set (task_queue s)" and "sched.run (snd (cancel (tid t) s)) es s'"
  shows "fst (cancel (tid t) s) \<and> \<not> is_running (tid t) s' \<and> \<not> is_pending (tid t) s'"
proof -
  note d = sched_invD [OF assms(1)]
  have p: "tid t \<in> pending_tasks s" using d(2) tids_set [OF assms(2)] by simp
  have nz: "0 < tid t \<and> tid t < next_id s"
    using d(5) tids_set [of t "live s"] assms(2) by (simp add: live_def)
  have "tid t \<notin> set (tids (ready_queue s @ held s))"
    using d(1) tids_set [OF assms(2)] by (auto simp: live_def)
  then have "never_runs (tid t) (snd (cancel (tid t) s))"
    using p nz inv_cancel [OF assms(1), of "tid t"] by (simp add: never_runs_def cancel_def)
  from never_run [OF assms(3) this] have "never_runs (tid t) s'" .
  then show ?thesis
    using p nz by (auto simp: cancel_def never_runs_def is_running_def is_pending_def sched_inv_def)
qed

theorem cancelled_task_never_runs_witness:
  "\<not> is_running 1 (timer_step 0 0 (snd (cancel 1 demo_queued)))"
proof -
  let ?s = "snd (cancel 1 demo_queued)"
  have "task_queue ?s = [demo_task]" by (simp add: cancel_def demo_queued)
  then have "is_top 0 (task_queue ?s)" by (simp add: is_top_def task_greater_def)
  then have "sched.run ?s [L_Timer 0 0] (timer_step 0 0 ?s)"
    by (blast intro: sched.run.intros sched_step.intros)
  then show ?thesis
    using cancelled_task_never_runs [OF demo_queued(8), of demo_task] by (simp add: demo_queued demo_task_def)
qed

text \<open>Once its time has come and it stands in the ready queue, cancelling a task still reports
  success, and the next free worker runs it all the same.\<close>

theorem cancel_ready_task_runs:
  assumes "sched_inv s" and "ready_queue s = t # ts" and "idle_workers s > 0"
  shows "fst (cancel (tid t) s) \<and> \<not> is_pending (tid t) (snd (cancel (tid t) s)) \<and>
    (\<exists>s'. worker_take (snd (cancel (tid t) s)) = Some s' \<and> is_running (tid t) s')"
proof -
  note d = sched_invD [OF assms(1)]
  have "tid t \<in> pending_tasks s \<and> 0 < tid t"
    using d(2,5) assms(2) by (auto simp: live_def)
  then show ?thesis
    using assms(2,3) by (simp add: cancel_def is_pending_def worker_take_def is_running_def)
qed

theorem cancel_ready_task_runs_witness:
  "fst (cancel 1 demo_ready) \<and> (\<exists>s'. worker_take (snd (cancel 1 demo_ready)) = Some s' \<and> is_running 1 s')"
  using cancel_ready_task_runs [OF demo_ready(3,1)] by (simp add: demo_ready demo_task_def)

text \<open>A periodic task comes back under a new identifier: after its first round, the identifier
  that \<open>schedule_periodic\<close> returned no longer cancels it.\<close>

theorem periodic_id_expires:
  assumes "sched_inv s" and "k < length (held s)" and "t = held s ! k" and "interval t > 0"
    and "tid t \<notin> cancelled_tasks s" and "should_continue t = None"
    and "worker_finish k now flag s = Some s'"
  shows "is_pending (next_id s) s' \<and> cancel (tid t) s' = (False, s')"
proof -
  note d = sched_invD [OF assms(1)]
  have h: "tid t \<in> set (tids (held s))" using assms(2,3) by (simp add: tids_def)
  then have np: "tid t \<notin> pending_tasks s" using d(1,2) by (auto simp: live_def)
  have lt: "tid t < next_id s" using d(5) h by (simp add: live_def)
  have "next_id s \<notin> cancelled_tasks s"
  proof
    assume "next_id s \<in> cancelled_tasks s"
    then have "next_id s \<in> set (tids (live s))" using d(2-4) by (auto simp: live_def)
    then show False using d(5) by blast
  qed
  moreover have "s' = settle t (enqueue (t\<lparr>tid := next_id s, execute_at := now + interval t\<rparr>)
      ((release k s)\<lparr>next_id := Suc (next_id s)\<rparr>))"
    using assms(2-7) by (simp add: worker_finish_def Let_def requeue_def should_reschedule_def
        release_def generate_id_def)
  ultimately show ?thesis
    using np lt by (simp add: is_pending_def cancel_def settle_def Let_def enqueue_def release_def)
qed

theorem periodic_id_expires_witness:
  "cancel 1 (the (worker_finish 0 0 (\<lambda>_. True) demo_held)) =
    (False, the (worker_finish 0 0 (\<lambda>_. True) demo_held))"
proof -
  have h: "held demo_held = [demo_task]"
    by (simp add: demo_held) (simp add: demo_ready_def demo_queued_def schedule_periodic_def generate_id_def
      enqueue_def new_scheduler_def timer_step_def timer_body_def timer_top_def remove_nth_def Let_def)
  obtain s' where s': "worker_finish 0 0 (\<lambda>_. True) demo_held = Some s'"
    by (simp add: worker_finish_def h Let_def)
  show ?thesis
    using periodic_id_expires [OF demo_held(2), of 0 demo_task] s'
    by (simp add: h demo_held) (simp add: demo_task_def)
qed

text \<open>While the timer sleeps until the time \<open>u\<close> of the task it saw first, nothing becomes ready
  before \<open>u\<close>, however early the tasks are due that are scheduled in the meantime.\<close>

theorem sleeping_timer_delays:
  assumes "sched.run s es s'" and "timer s = T_Sleep u" and "running s" and "\<not> paused s"
    and "\<forall>e \<in> set es. e \<noteq> L_Pause \<and> e \<noteq> L_Stop \<and> (\<forall>k now. e = L_Timer k now \<longrightarrow> now < u)"
  shows "set (ready_queue s') \<subseteq> set (ready_queue s)"
  using assms
proof (induction rule: sched.run.induct)
  case (run_cons s e s' es s'')
  have "timer s' = T_Sleep u \<and> running s' \<and> \<not> paused s' \<and> set (ready_queue s') \<subseteq> set (ready_queue s)"
    by (rule sleeping_step [OF run_cons.hyps(1)]) (use run_cons.prems in auto)
  then show ?case using run_cons.IH run_cons.prems by auto
qed simp

theorem sleeping_timer_delays_witness:
  "set (ready_queue (snd (schedule (Some ()) \<lparr>opt_tag = [], opt_priority = - 128, opt_delay = 0,
     opt_interval = 0\<rparr> 1 (demo_queued\<lparr>timer := T_Sleep 100\<rparr>)))) \<subseteq> {}"
proof -
  let ?o = "\<lparr>opt_tag = [], opt_priority = - 128, opt_delay = 0, opt_interval = 0\<rparr>"
  let ?s = "demo_queued\<lparr>timer := T_Sleep 100\<rparr>"
  have "sched.run ?s [L_Schedule (Some ()) ?o 1] (snd (schedule (Some ()) ?o 1 ?s))"
    by (blast intro: sched.run.intros sched_step.intros)
  from sleeping_timer_delays [OF this, of 100] show ?thesis by (simp add: demo_queued)
qed

text \<open>\<open>wait_all\<close> can wait for ever: after a cancelled task has been the last one to leave, nothing
  is pending or running, and yet the caller is still blocked.\<close>

theorem wait_all_not_woken:
  "\<exists>es s. sched.run (new_scheduler 1) es s \<and> idle s \<and> blocked s = 1"
proof -
  let ?opts = "\<lparr>opt_tag = [], opt_priority = 0, opt_delay = 10, opt_interval = 0\<rparr>"
  obtain c :: 'a where True by simp
  let ?s0 = "new_scheduler 1 :: ('a, 'b) Scheduler"
  let ?s1 = "snd (schedule (Some c) ?opts 0 ?s0)"
  let ?s2 = "snd (cancel 1 (wait_all ?s1))"
  let ?s3 = "timer_step 0 10 ?s2"
  have top: "task_queue ?s2 = [] \<or> is_top 0 (task_queue ?s2)"
    by (simp add: schedule_def generate_id_def enqueue_def new_scheduler_def wait_all_def cancel_def
        is_top_def task_greater_def Let_def idle_def)
  have "sched.run ?s0 [L_Schedule (Some c) ?opts 0, L_WaitAll, L_Cancel 1, L_Timer 0 10] ?s3"
    using top by (blast intro: sched.run.intros sched_step.intros)
  moreover have "idle ?s3 \<and> blocked ?s3 = 1"
    by (simp add: schedule_def generate_id_def enqueue_def new_scheduler_def wait_all_def cancel_def
        timer_step_def timer_body_def timer_top_def remove_nth_def Let_def idle_def)
  ultimately show ?thesis by blast
qed

text \<open>Scheduling makes exactly one more task pending, and cancelling it takes it out again.\<close>

theorem schedule_cancel:
  assumes "sched_inv s" and "running s" and "schedule (Some c) opts now s = (i, s1)"
  shows "is_pending i s1 \<and> pending_count s1 = pending_count s + 1 \<and>
    fst (cancel i s1) \<and> \<not> is_pending i (snd (cancel i s1)) \<and>
    pending_count (snd (cancel i s1)) = pending_count s"
proof -
  note d = sched_invD [OF assms(1)]
  have i: "i = next_id s" and p1: "pending_tasks s1 = insert i (pending_tasks s)"
    and c1: "cancelled_tasks s1 = cancelled_tasks s"
    using assms(2,3) by (auto simp: schedule_def generate_id_def enqueue_def Let_def)
  have "i \<notin> set (tids (live s))" using d(5) i by blast
  then have np: "i \<notin> pending_tasks s" "i \<notin> cancelled_tasks s"
    using d(2-4) by (auto simp: live_def)
  have "finite (pending_tasks s)" using d(2) by simp
  moreover have "insert i (pending_tasks s) - cancelled_tasks s = insert i (pending_tasks s - cancelled_tasks s)"
    "insert i (pending_tasks s) - insert i (cancelled_tasks s) = pending_tasks s - cancelled_tasks s"
    using np by auto
  ultimately show ?thesis
    using np i d(6) p1 c1 by (simp add: is_pending_def pending_count_def cancel_def)
qed

theorem schedule_cancel_witness:
  "is_pending 2 (snd (schedule (Some ()) \<lparr>opt_tag = [], opt_priority = 0, opt_delay = 7, opt_interval = 0\<rparr> 0
     demo_queued))"
proof -
  have "next_id demo_queued = 2"
    by (simp add: demo_queued_def schedule_periodic_def generate_id_def enqueue_def new_scheduler_def)
  then have "schedule (Some ()) o' 0 demo_queued = (2, snd (schedule (Some ()) o' 0 demo_queued))" for o'
    by (simp add: schedule_def generate_id_def Let_def demo_queued)
  from schedule_cancel [OF demo_queued(8,2) this] show ?thesis by blast
qed

end
