(* ===== verification/Proxy.thy ===== *)
theory Proxy
  imports World EventDispatch Scheduler Hash
begin

text \<open>
  The state of the running proxy (\<open>src/core/core.hpp\<close> and the objects \<open>Core\<close> owns) and its two
  connections: \<open>network::Client\<close> (\<open>client.cpp\<close>) to the Growtopia server and \<open>network::Server\<close>
  (\<open>server.cpp\<close>) to the game. ENet is a parameter; everything the proxy asks of it and everything
  it reports is written to a trace, and what ENet answers is a function of that trace.
\<close>

subsection \<open>State\<close>

text \<open>
  The calls into ENet on the hosts \<open>Client\<close> and \<open>Server\<close>, with the number of the peer, and the
  events of \<open>enet_host_service\<close>.
\<close>

datatype host = ClientHost | ServerHost

datatype net_action =
    Connect string u16
  | Send host nat bytes
  | Disconnects host nat
  | Disconnects_now host nat
  | Connected host nat
  | Received host nat bytes
  | Disconnected host nat

text \<open>What a scheduled task does: the delayed join of \<open>/warp\<close>.\<close>

datatype task_action = JoinWorld string

text \<open>The libraries, the configuration and the file system around the proxy.\<close>

record 'z Env =
  zlib_lib :: "'z zlib"
  regex_multiline :: bool
  packet_registry :: registry
  log_config :: LogConfig
  server_port_config :: int
  enet_connect :: "net_action list \<Rightarrow> string \<Rightarrow> u16 \<Rightarrow> nat option"
  enet_connected :: "net_action list \<Rightarrow> host \<Rightarrow> nat \<Rightarrow> bool"
  enet_send :: "net_action list \<Rightarrow> host \<Rightarrow> nat \<Rightarrow> bytes \<Rightarrow> bool"
  uninitialised :: junk
  cache_writable :: bool
  https_bound :: bool
  clock :: "net_action list \<Rightarrow> int"

record Proxy =
  client_peer :: "nat option"
  server_peer :: "nat option"
  trace :: "net_action list"
  pending_address :: string
  pending_port :: u16
  web_address :: string
  web_port :: u16
  items :: ItemDatabase
  items_file :: "bytes option"
  world :: World
  scheduler :: "(task_action, unit) Scheduler"

text \<open>The port of a redirect that has been used up, or that never came.\<close>

abbreviation no_port :: u16 where "no_port \<equiv> 65535"

definition act :: "net_action \<Rightarrow> Proxy \<Rightarrow> Proxy" where
  "act a px = px\<lparr>trace := trace px @ [a]\<rparr>"

subsection \<open>Client\<close>

definition client_connected :: "'z Env \<Rightarrow> Proxy \<Rightarrow> bool" where
  "client_connected env px =
     (case client_peer px of None \<Rightarrow> False | Some p \<Rightarrow> enet_connected env (trace px) ClientHost p)"

definition client_connect :: "'z Env \<Rightarrow> string \<Rightarrow> u16 \<Rightarrow> Proxy \<Rightarrow> bool \<times> Proxy" where
  "client_connect env address port px =
     (let peer = enet_connect env (trace px) address port
      in (peer \<noteq> None, (act (Connect address port) px)\<lparr>client_peer := peer\<rparr>))"

definition client_write :: "'z Env \<Rightarrow> bytes \<Rightarrow> Proxy \<Rightarrow> bool \<times> Proxy" where
  "client_write env d px =
     (if \<not> client_connected env px then (False, px)
      else let p = the (client_peer px)
           in (enet_send env (trace px) ClientHost p d, act (Send ClientHost p d) px))"

definition client_disconnect :: "Proxy \<Rightarrow> Proxy" where
  "client_disconnect px =
     (case client_peer px of None \<Rightarrow> px | Some p \<Rightarrow> act (Disconnects ClientHost p) px)"

definition client_disconnect_now :: "Proxy \<Rightarrow> Proxy" where
  "client_disconnect_now px =
     (case client_peer px of None \<Rightarrow> px
      | Some p \<Rightarrow> (act (Disconnects_now ClientHost p) px)\<lparr>client_peer := None\<rparr>)"

subsection \<open>Server\<close>

definition server_connected :: "'z Env \<Rightarrow> Proxy \<Rightarrow> bool" where
  "server_connected env px =
     (case server_peer px of None \<Rightarrow> False | Some p \<Rightarrow> enet_connected env (trace px) ServerHost p)"

definition server_write :: "'z Env \<Rightarrow> bytes \<Rightarrow> Proxy \<Rightarrow> bool \<times> Proxy" where
  "server_write env d px =
     (if \<not> server_connected env px then (False, px)
      else let p = the (server_peer px)
           in (enet_send env (trace px) ServerHost p d, act (Send ServerHost p d) px))"

definition server_disconnect :: "Proxy \<Rightarrow> Proxy" where
  "server_disconnect px =
     (case server_peer px of None \<Rightarrow> px | Some p \<Rightarrow> act (Disconnects ServerHost p) px)"

definition server_disconnect_now :: "Proxy \<Rightarrow> Proxy" where
  "server_disconnect_now px =
     (case server_peer px of None \<Rightarrow> px
      | Some p \<Rightarrow> (act (Disconnects_now ServerHost p) px)\<lparr>server_peer := None\<rparr>)"

subsection \<open>PacketHelper::write on a connection\<close>

definition write_server :: "'z Env \<Rightarrow> IPacket \<Rightarrow> Proxy \<Rightarrow> bool \<times> Proxy" where
  "write_server env p px =
     (case fst (helper_write (zlib_lib env) p) of None \<Rightarrow> (False, px) | Some d \<Rightarrow> server_write env d px)"

definition write_client :: "'z Env \<Rightarrow> IPacket \<Rightarrow> Proxy \<Rightarrow> bool \<times> Proxy" where
  "write_client env p px =
     (case fst (helper_write (zlib_lib env) p) of None \<Rightarrow> (False, px) | Some d \<Rightarrow> client_write env d px)"

end
