(* ===== verification/Handlers.thy ===== *)
theory Handlers
  imports Proxy
begin

text \<open>
  The built-in listeners: \<open>WebServer\<close>'s two (\<open>src/core/web_server.cpp\<close>), \<open>ConnectionHandler\<close>,
  \<open>ForwardingHandler\<close> and \<open>WorldHandler\<close> (\<open>src/core/handlers/\<close>). A handler maps the event and
  the proxy to the proxy afterwards and whether it cancelled the event; \<open>None\<close> is a fault.
\<close>

type_synonym handler = "event_data \<Rightarrow> Proxy \<Rightarrow> (Proxy \<times> bool) option"

definition go :: "Proxy \<Rightarrow> (Proxy \<times> bool) option" where
  "go px = Some (px, False)"

subsection \<open>WebServer\<close>

definition web_on_client_connect :: "'z Env \<Rightarrow> handler" where
  "web_on_client_connect env e px =
     (if web_port px = no_port then go px
      else let px = snd (client_connect env (web_address px) (web_port px) px)
           in go (px\<lparr>web_address := [], web_port := no_port\<rparr>))"

definition web_on_client_disconnect :: handler where
  "web_on_client_disconnect e px = go (px\<lparr>web_address := [], web_port := no_port\<rparr>)"

subsection \<open>ConnectionHandler\<close>

definition conn_client_connect :: "'z Env \<Rightarrow> handler" where
  "conn_client_connect env e px =
     (if pending_port px = no_port then go px
      else let px = snd (client_connect env (pending_address px) (pending_port px) px)
           in go (px\<lparr>pending_address := [], pending_port := no_port\<rparr>))"

definition conn_client_disconnect :: "'z Env \<Rightarrow> handler" where
  "conn_client_disconnect env e px = go (if client_connected env px then client_disconnect px else px)"

definition conn_server_disconnect :: "'z Env \<Rightarrow> handler" where
  "conn_server_disconnect env e px = go (if server_connected env px then server_disconnect px else px)"

text \<open>The packet is copied, so what is written is the event's packet but for address and port.\<close>

definition redirect_packet :: "'z Env \<Rightarrow> OnSendToServer \<Rightarrow> OnSendToServer" where
  "redirect_packet env p =
     p\<lparr>server_address := ''127.0.0.1'', server_port := word_of_int (server_port_config env)\<rparr>"

definition conn_on_send_to_server :: "'z Env \<Rightarrow> handler" where
  "conn_on_send_to_server env e px =
     (case typed_packet Id_OnSendToServer e of
        Some (_, P_OnSendToServer p) \<Rightarrow>
          let px = px\<lparr>pending_address := server_address p, pending_port := server_port p\<rparr>;
              px = snd (write_server env (P_OnSendToServer (redirect_packet env p)) px)
          in Some (px, True)
      | _ \<Rightarrow> go px)"

definition conn_quit :: handler where
  "conn_quit e px =
     (case typed_packet Id_Quit e of
        Some (ServerBound, _) \<Rightarrow> go (client_disconnect_now (server_disconnect px))
      | _ \<Rightarrow> go px)"

definition conn_disconnect :: handler where
  "conn_disconnect e px =
     (case typed_packet Id_Disconnect e of
        Some (ServerBound, _) \<Rightarrow> go (client_disconnect_now (server_disconnect_now px))
      | _ \<Rightarrow> go px)"

text \<open>A parsed item file is saved, when the file opens for writing.\<close>

definition conn_send_item_database :: "'z Env \<Rightarrow> handler" where
  "conn_send_item_database env e px =
     (case typed_packet Id_SendItemDatabaseData e of
        Some (ClientBound, P_SendItemDatabaseData p) \<Rightarrow>
          if items_dat p = [] then go px
          else do {
            (parsed, db) \<leftarrow> parse_database (items_dat p);
            let px = px\<lparr>items := db\<rparr>;
            go (if parsed \<and> cache_writable env then px\<lparr>items_file := Some (items_dat p)\<rparr> else px)
          }
      | _ \<Rightarrow> go px)"

definition conn_on_super_main :: handler where
  "conn_on_super_main e px =
     (case typed_packet Id_OnSuperMain e of
        Some (_, P_OnSuperMain p) \<Rightarrow> do {
          cached_hash \<leftarrow> proton_file (items_file px);
          if item_hash p \<noteq> cached_hash then go px
          else do {
            (loaded, db) \<leftarrow> load_from_file (items_file px) (items px);
            go (px\<lparr>items := db\<rparr>)
          }
        }
      | _ \<Rightarrow> go px)"

subsection \<open>ForwardingHandler\<close>

definition forward_client_bound :: "'z Env \<Rightarrow> handler" where
  "forward_client_bound env e px =
     (case raw_packet e of None \<Rightarrow> go px | Some d \<Rightarrow> go (snd (server_write env d px)))"

definition forward_server_bound :: "'z Env \<Rightarrow> handler" where
  "forward_server_bound env e px =
     (case raw_packet e of None \<Rightarrow> go px | Some d \<Rightarrow> go (snd (client_write env d px)))"

subsection \<open>WorldHandler\<close>

definition on_world :: "(World \<Rightarrow> World) \<Rightarrow> Proxy \<Rightarrow> Proxy" where
  "on_world f px = px\<lparr>world := f (world px)\<rparr>"

definition world_join_request :: handler where
  "world_join_request e px =
     (case typed_packet Id_JoinRequest e of
        Some (ServerBound, _) \<Rightarrow> go (on_world clear_world px)
      | _ \<Rightarrow> go px)"

definition world_on_spawn :: handler where
  "world_on_spawn e px =
     (case typed_packet Id_OnSpawn e of
        Some (ClientBound, P_OnSpawn p) \<Rightarrow> do {
          player \<leftarrow> from_on_spawn p;
          go (on_world (add_player player) px)
        }
      | _ \<Rightarrow> go px)"

definition world_on_remove :: handler where
  "world_on_remove e px =
     (case typed_packet Id_OnRemove e of
        Some (ClientBound, P_OnRemove p) \<Rightarrow> go (on_world (remove_player (remove_net_id p)) px)
      | _ \<Rightarrow> go px)"

definition world_send_map_data :: "'z Env \<Rightarrow> handler" where
  "world_send_map_data env e px =
     (case typed_packet Id_SendMapData e of
        Some (ClientBound, P_SendMapData p) \<Rightarrow>
          if extra p = [] then go px
          else do {
            w \<leftarrow> World_serialize (items px) (uninitialised env) (Some (extra p)) (world px);
            go (px\<lparr>world := w\<rparr>)
          }
      | _ \<Rightarrow> go px)"

text \<open>The tile is parsed and dropped.\<close>

definition world_send_tile_update :: "'z Env \<Rightarrow> handler" where
  "world_send_tile_update env e px =
     (case typed_packet Id_SendTileUpdateData e of
        Some (ClientBound, P_SendTileUpdateData p) \<Rightarrow>
          if extra p = [] then go px
          else do {
            (_, _) \<leftarrow> Tile_serialize (items px) (uninitialised env) (world_version (world px)) new_Tile
              (span_stream (extra p));
            go px
          }
      | _ \<Rightarrow> go px)"

text \<open>
  The index is computed in \<open>int\<close>, where an overflow is undefined, and converted; fist (item 18)
  breaks the foreground, then the background.
\<close>

definition int32_range :: "int \<Rightarrow> bool" where
  "int32_range i \<longleftrightarrow> - (2 ^ 31) \<le> i \<and> i < 2 ^ 31"

definition tile_index :: "u32 \<Rightarrow> u32 \<Rightarrow> u32 \<Rightarrow> u32 option" where
  "tile_index x y width =
     (let m = sint y * sint width; i = sint x + m
      in if int32_range m \<and> int32_range i then Some (word_of_int i) else None)"

definition punch :: "Tile \<Rightarrow> Tile" where
  "punch t = (if foreground t \<noteq> 0 then t\<lparr>foreground := 0\<rparr> else t\<lparr>background := 0\<rparr>)"

definition tile_change :: "TileChangeRequest \<Rightarrow> World \<Rightarrow> World option" where
  "tile_change p w = do {
     let m = tile_map w;
     index \<leftarrow> tile_index (tile_int_x p) (tile_int_y p) (fst (map_size m));
     let i = unat index;
     Some (if i \<ge> length (tiles m) then w
       else if tile_item_id p = 18 then w\<lparr>tile_map := m\<lparr>tiles := (tiles m)[i := punch (tiles m ! i)]\<rparr>\<rparr>
       else w)
   }"

definition world_tile_change :: handler where
  "world_tile_change e px =
     (case typed_packet Id_TileChangeRequest e of
        Some (_, P_TileChangeRequest p) \<Rightarrow> do {
          w \<leftarrow> tile_change p (world px);
          go (px\<lparr>world := w\<rparr>)
        }
      | _ \<Rightarrow> go px)"

text \<open>
  \<open>object_change_type\<close> is a \<open>std::uint8_t\<close>; the comparison with the negative constants is made in
  \<open>int\<close>. The detour of a \<open>std::uint16_t\<close> coordinate through \<open>float\<close> is exact.
\<close>

fun update_first :: "(Object \<Rightarrow> bool) \<Rightarrow> (Object \<Rightarrow> Object) \<Rightarrow> Object list \<Rightarrow> Object list" where
  "update_first P f [] = []"
| "update_first P f (ob # obs) = (if P ob then f ob # obs else ob # update_first P f obs)"

definition object_change :: "ItemChangeObject \<Rightarrow> WorldObjectMap \<Rightarrow> WorldObjectMap" where
  "object_change p m =
     (let pos = (ucast (ico_pos_x p), ucast (ico_pos_y p));
          fill = (\<lambda>ob. ob\<lparr>obj_pos := pos, obj_item_id := ico_item_id p, obj_amount := ucast (ico_amount p)\<rparr>)
      in if uint (ico_object_change_type p) = - 1 then
           let m = increment_drop_id m;
               ob = (fill new_Object)\<lparr>obj_id := drop_id m\<rparr>
           in m\<lparr>objects := objects m @ [ob]\<rparr>
         else if uint (ico_object_change_type p) = - 3 then
           m\<lparr>objects := update_first (\<lambda>ob. obj_id ob = ucast (ico_item_net_id p)) fill (objects m)\<rparr>
         else
           m\<lparr>objects := filter (\<lambda>ob. obj_id ob \<noteq> ucast (ico_item_net_id p)) (objects m)\<rparr>)"

definition world_item_change :: handler where
  "world_item_change e px =
     (case typed_packet Id_ItemChangeObject e of
        Some (ClientBound, P_ItemChangeObject p) \<Rightarrow>
          go (on_world (\<lambda>w. w\<lparr>object_map := object_change p (object_map w)\<rparr>) px)
      | _ \<Rightarrow> go px)"

end
