(* ===== verification/Commands.thy ===== *)
theory Commands
  imports Proxy
begin

text \<open>
  The chat commands: \<open>CommandRegistry\<close> (\<open>src/command/command_registry.cpp\<close>), \<open>CommandHandler\<close>
  (\<open>command_handler.cpp\<close>) and the seven commands of \<open>src/command/commands/\<close>. The commands that scripts
  add are in \<open>LuaCommands\<close>. The iteration order of an \<open>unordered_map\<close> is a parameter.
\<close>

subsection \<open>The registry\<close>

datatype command = ProxyCommand | WarpCommand | ExitCommand | NickCommand | SkinCommand | HelpCommand | DebugCommand

datatype Result = Success | InvalidArguments | Failed

fun command_name :: "command \<Rightarrow> string" where
  "command_name ProxyCommand = ''proxy''"
| "command_name WarpCommand = ''warp''"
| "command_name ExitCommand = ''exit''"
| "command_name NickCommand = ''nick''"
| "command_name SkinCommand = ''skin''"
| "command_name HelpCommand = ''proxyhelp''"
| "command_name DebugCommand = ''debug''"

fun description :: "command \<Rightarrow> string" where
  "description ProxyCommand = ''A simple command to test the proxy.''"
| "description WarpCommand = ''Warp to a world.''"
| "description ExitCommand = ''Exit the current world.''"
| "description NickCommand = ''Change your display name''"
| "description SkinCommand = ''Change your skin code''"
| "description HelpCommand = ''List all commands or show command usage''"
| "description DebugCommand = ''Show debug information about player, world, tile, or object''"

record CommandRegistry =
  prefix :: char
  commands :: "string \<Rightarrow> command option"

record orders =
  command_order :: "(string \<Rightarrow> command option) \<Rightarrow> (string \<times> command) list"
  player_order :: "(u32 \<Rightarrow> Player option) \<Rightarrow> (u32 \<times> Player) list"

definition new_registry :: CommandRegistry where
  "new_registry = \<lparr>prefix = CHR ''/'', commands = (\<lambda>_. None)\<rparr>"

definition set_prefix :: "char \<Rightarrow> CommandRegistry \<Rightarrow> CommandRegistry" where
  "set_prefix c reg = reg\<lparr>prefix := c\<rparr>"

definition add_command :: "command \<Rightarrow> CommandRegistry \<Rightarrow> CommandRegistry" where
  "add_command c reg = reg\<lparr>commands := (commands reg)(command_name c \<mapsto> c)\<rparr>"

definition get_command :: "CommandRegistry \<Rightarrow> string \<Rightarrow> command option" where
  "get_command reg name = commands reg name"

definition get_all_commands :: "orders \<Rightarrow> CommandRegistry \<Rightarrow> (string \<times> string) list" where
  "get_all_commands ord reg = map (\<lambda>(n, c). (n, description c)) (command_order ord (commands reg))"

definition register_default_commands :: "CommandRegistry \<Rightarrow> CommandRegistry" where
  "register_default_commands reg =
     fold add_command [ProxyCommand, WarpCommand, ExitCommand, NickCommand, SkinCommand, HelpCommand, DebugCommand] reg"

text \<open>Formatted extraction from a string stream: the words between white space.\<close>

definition is_space :: "char \<Rightarrow> bool" where
  "is_space c \<longleftrightarrow> (let n = of_char c :: nat in n = 32 \<or> 9 \<le> n \<and> n \<le> 13)"

function words :: "string \<Rightarrow> string list" where
  "words s =
     (let s = dropWhile is_space s
      in if s = [] then [] else takeWhile (\<lambda>c. \<not> is_space c) s # words (dropWhile (\<lambda>c. \<not> is_space c) s))"
  by pat_completeness auto
termination
proof (relation "measure length")
  fix s x :: string
  assume x: "x = dropWhile is_space s" "x \<noteq> []"
  then have "\<not> is_space (hd x)" using hd_dropWhile [of is_space s] by simp
  with x(2) have "length (dropWhile (\<lambda>c. \<not> is_space c) x) < length x"
    by (cases x) (simp_all add: le_imp_less_Suc length_dropWhile_le)
  also have "length x \<le> length s" by (simp add: x(1) length_dropWhile_le)
  finally show "(dropWhile (\<lambda>c. \<not> is_space c) x, s) \<in> measure length" by simp
qed simp

declare words.simps [simp del]

definition is_command :: "CommandRegistry \<Rightarrow> string \<Rightarrow> bool" where
  "is_command reg input \<longleftrightarrow> input \<noteq> [] \<and> hd input = prefix reg"

text \<open>The empty pair is the value-initialised result.\<close>

definition parse_command :: "CommandRegistry \<Rightarrow> string \<Rightarrow> string \<times> string list" where
  "parse_command reg input =
     (if input = [] \<or> hd input \<noteq> prefix reg then ([], [])
      else case words (tl input) of [] \<Rightarrow> ([], []) | name # args \<Rightarrow> (name, args))"

subsection \<open>The commands\<close>

definition log_packet :: "string \<Rightarrow> IPacket" where
  "log_packet m = P_Log (new_Log\<lparr>msg := m\<rparr>)"

definition send_log :: "'z Env \<Rightarrow> string \<Rightarrow> Proxy \<Rightarrow> Proxy" where
  "send_log env m px = snd (write_server env (log_packet m) px)"

abbreviation chars :: "nat \<Rightarrow> string" where
  "chars n \<equiv> to_chars (int n)"

definition execute_proxy :: "'z Env \<Rightarrow> Proxy \<Rightarrow> Result \<times> Proxy" where
  "execute_proxy env px = (Success, send_log env ''Proxy command executed successfully!'' px)"

definition execute_exit :: "'z Env \<Rightarrow> Proxy \<Rightarrow> Result \<times> Proxy" where
  "execute_exit env px = (Success, snd (write_client env (P_QuitToExit new_text) px))"

definition execute_nick :: "'z Env \<Rightarrow> CommandRegistry \<Rightarrow> string list \<Rightarrow> Proxy \<Rightarrow> Result \<times> Proxy" where
  "execute_nick env reg args px =
     (if args = [] then
        (InvalidArguments, send_log env (''`4Usage: ``'' @ [prefix reg] @ ''nick <nickname>'') px)
      else
        let name = join '' '' args;
            pkt = new_OnNameChanged\<lparr>name_net_id := local_net_id (world px), new_name := name\<rparr>;
            px = snd (write_server env (P_OnNameChanged pkt) px)
        in (Success, send_log env (''Display name changed to '' @ name) px))"

text \<open>\<open>tolower\<close> and \<open>isxdigit\<close> in the classic locale; bytes above 127 are left alone.\<close>

definition to_lower :: "char \<Rightarrow> char" where
  "to_lower c = (let n = of_char c :: nat in if 65 \<le> n \<and> n \<le> 90 then char_of (n + 32) else c)"

definition execute_skin :: "'z Env \<Rightarrow> CommandRegistry \<Rightarrow> string list \<Rightarrow> Proxy \<Rightarrow> Result \<times> Proxy" where
  "execute_skin env reg args px =
     (if args = [] then
        (InvalidArguments, send_log env (''`4Usage: ``'' @ [prefix reg] @ ''skin [hex] <code>'') px)
      else
        let lowercase = map to_lower (args ! 0);
            is_hex_code = (lowercase = ''hex'' \<and> length args > 1 \<and> list_all (is_digit 16) (args ! 1));
            code = (if is_hex_code then args ! 1 else args ! 0)
        in case from_chars_u32 (if is_hex_code then 16 else 10) code of
             Inl _ \<Rightarrow> (Failed, send_log env (''`4Oops: ``Invalid skin code: '' @ code) px)
           | Inr v \<Rightarrow>
               let pkt = new_OnChangeSkin\<lparr>skin_net_id := local_net_id (world px), skin_code := word_of_int v\<rparr>;
                   px = snd (write_server env (P_OnChangeSkin pkt) px)
               in (Success, send_log env (''Skin changed to '' @ code) px))"

definition execute_help :: "'z Env \<Rightarrow> orders \<Rightarrow> CommandRegistry \<Rightarrow> string list \<Rightarrow> Proxy \<Rightarrow> Result \<times> Proxy" where
  "execute_help env ord reg args px =
     (if args = [] then
        let cs = get_all_commands ord reg;
            px = send_log env (''Available commands: '' @ chars (length cs)) px
        in (Success,
            fold (\<lambda>(name, desc). send_log env (''``'' @ [prefix reg] @ name @ '': '' @ desc)) cs px)
      else case get_command reg (args ! 0) of
        Some c \<Rightarrow> (Success, send_log env (''``'' @ [prefix reg] @ args ! 0 @ '': '' @ description c) px)
      | None \<Rightarrow> (Failed, send_log env (''`4Error: ``Command '' @ [CHR 0x27] @ args ! 0 @ [CHR 0x27] @ '' not found'') px))"

definition int_chars :: "u32 \<Rightarrow> string" where
  "int_chars w = to_chars (sint w)"

definition player_line :: "u32 \<times> Player \<Rightarrow> string" where
  "player_line ip = (case ip of (i, p) \<Rightarrow> ''['' @ int_chars i @ ''] '' @ player_name p @ '' ('' @
     int_chars (fst (player_position p)) @ '', '' @ int_chars (snd (player_position p)) @ '')'')"

definition player_info :: "u32 \<Rightarrow> Player \<Rightarrow> string list" where
  "player_info i p =
     [''Player Info (NetID: '' @ int_chars i @ ''):'',
      ''Name: '' @ player_name p @ '' (User: '' @ int_chars (player_user_id p) @ '')'',
      ''Pos: '' @ int_chars (fst (player_position p)) @ '', '' @ int_chars (snd (player_position p)),
      ''Country: '' @ player_country p,
      ''Mod: '' @ int_chars (player_mod_state p) @ '', SuperMod: '' @ int_chars (player_supermod_state p)]"

definition world_info :: "orders \<Rightarrow> World \<Rightarrow> string list" where
  "world_info ord w =
     [''World Info:'',
      ''Version: '' @ chars (unat (world_version w)),
      ''Size: '' @ int_chars (fst (map_size (tile_map w))) @ ''x'' @ int_chars (snd (map_size (tile_map w))),
      ''Tiles: '' @ chars (length (tiles (tile_map w))),
      ''Objects: '' @ chars (length (objects (object_map w))),
      ''Player Count: '' @ chars (length (player_order ord (players w)))]"

definition execute_debug :: "'z Env \<Rightarrow> orders \<Rightarrow> string list \<Rightarrow> Proxy \<Rightarrow> Result \<times> Proxy" where
  "execute_debug env ord args px =
     (if args = [] then (Failed, send_log env ''Usage: /debug <player|world|tile|object>'' px)
      else if args ! 0 = ''player'' then
        if length args < 2 then
          let ps = player_order ord (players (world px))
          in (Success, fold (send_log env) ((''Total Players: '' @ chars (length ps)) # map player_line ps) px)
        else case from_chars_i32 (args ! 1) of
          Inl _ \<Rightarrow> (Failed, send_log env ''Invalid NetID format.'' px)
        | Inr v \<Rightarrow>
            let i = word_of_int v
            in case get_player (world px) i of
                 Some p \<Rightarrow> (Success, fold (send_log env) (player_info i p) px)
               | None \<Rightarrow> (Failed, send_log env (''Player with NetID '' @ to_chars v @ '' not found.'') px)
      else if args ! 0 = ''world'' then (Success, fold (send_log env) (world_info ord (world px)) px)
      else (Failed, send_log env (''Unknown debug target: '' @ args ! 0) px))"

text \<open>
  \<open>/warp\<close> leaves the world and schedules the join. The callback holds a reference to the local
  \<open>world_name\<close>, which is gone when it runs.
\<close>

definition execute_warp :: "'z Env \<Rightarrow> CommandRegistry \<Rightarrow> string list \<Rightarrow> Proxy \<Rightarrow> Result \<times> Proxy" where
  "execute_warp env reg args px =
     (if args = [] then
        (InvalidArguments, send_log env (''`4Usage: ``'' @ [prefix reg] @ ''warp <world name>'') px)
      else
        let world_name = args ! 0
        in if world_name = ''exit'' then
             (InvalidArguments, send_log env ''`4Oops: ``You cannot warp to the exit world.'' px)
           else if length world_name > 23 then
             (InvalidArguments, send_log env ''`4Error: ``World name cannot exceed 23 characters.'' px)
           else
             let px = px\<lparr>scheduler := snd (cancel_by_tag ''warp'' (scheduler px))\<rparr>;
                 px = snd (write_client env (P_QuitToExit new_text) px);
                 px = send_log env (''Warping to '' @ world_name @ ''...'') px
             in (Success, px\<lparr>scheduler :=
                  snd (schedule_delayed (Some (JoinWorld world_name)) 1750 ''warp'' 0 (clock env (trace px)) (scheduler px))\<rparr>))"

definition run_task :: "'z Env \<Rightarrow> task_action \<Rightarrow> Proxy \<Rightarrow> Proxy option" where
  "run_task env a px = (case a of JoinWorld _ \<Rightarrow> if \<not> client_connected env px then Some px else None)"

definition execute_command ::
  "'z Env \<Rightarrow> orders \<Rightarrow> CommandRegistry \<Rightarrow> command \<Rightarrow> string list \<Rightarrow> Proxy \<Rightarrow> Result \<times> Proxy"
where
  "execute_command env ord reg c args px =
     (case c of
        ProxyCommand \<Rightarrow> execute_proxy env px
      | WarpCommand \<Rightarrow> execute_warp env reg args px
      | ExitCommand \<Rightarrow> execute_exit env px
      | NickCommand \<Rightarrow> execute_nick env reg args px
      | SkinCommand \<Rightarrow> execute_skin env reg args px
      | HelpCommand \<Rightarrow> execute_help env ord reg args px
      | DebugCommand \<Rightarrow> execute_debug env ord args px)"

text \<open>\<open>CommandRegistry::execute\<close>: whether the text was a command, whatever became of it.\<close>

definition execute ::
  "'z Env \<Rightarrow> orders \<Rightarrow> CommandRegistry \<Rightarrow> string \<Rightarrow> Proxy \<Rightarrow> bool \<times> Proxy"
where
  "execute env ord reg input px =
     (if \<not> is_command reg input then (False, px)
      else case parse_command reg input of (name, args) \<Rightarrow>
        if name = [] then (False, px)
        else case get_command reg name of
          None \<Rightarrow> (False, px)
        | Some c \<Rightarrow> (True, snd (execute_command env ord reg c args px)))"

text \<open>\<open>CommandHandler::on_text_packet\<close>; the direction of the event is not looked at.\<close>

definition on_text_packet ::
  "'z Env \<Rightarrow> orders \<Rightarrow> CommandRegistry \<Rightarrow> event_data \<Rightarrow> Proxy \<Rightarrow> (Proxy \<times> bool) option"
where
  "on_text_packet env ord reg e px =
     (case typed_packet Id_Input e of
        Some (_, P_Input p) \<Rightarrow> (case execute env ord reg (input_text p) px of (ok, px) \<Rightarrow> Some (px, ok))
      | _ \<Rightarrow> Some (px, False))"

end
