(* ===== verification/Core.thy ===== *)
theory Core
  imports Handlers Commands
begin

text \<open>
  The proxy as a whole: what \<open>Core\<close> (\<open>src/core/core.cpp\<close>) registers, and what \<open>Client\<close> and
  \<open>Server\<close> do with the events of their hosts (\<open>src/network/\<close>). \<open>B\<close> is the eventpp dispatcher and
  \<open>d\<close> the program's dispatcher after start-up.
\<close>

subsection \<open>Listeners\<close>

text \<open>A handler as a listener; after a fault nothing runs.\<close>

definition listen :: "(event_data \<Rightarrow> 'p \<Rightarrow> ('p \<times> bool) option) \<Rightarrow> 'p option listener" where
  "listen h e st canceled =
     (case st of
        None \<Rightarrow> (None, True)
      | Some px \<Rightarrow> (case h e px of
          None \<Rightarrow> (None, True)
        | Some (px, c) \<Rightarrow> (Some px, canceled \<or> c)))"

definition web_listeners :: "'z Env \<Rightarrow> (event_type \<times> int \<times> handler) list" where
  "web_listeners env =
     (if https_bound env then
        [(Type_ClientConnect, Priority_Normal, web_on_client_connect env),
         (Type_ClientDisconnect, Priority_Normal, web_on_client_disconnect)]
      else [])"

definition connection_listeners :: "'z Env \<Rightarrow> (event_type \<times> int \<times> handler) list" where
  "connection_listeners env =
     [(Type_ClientConnect, Priority_Normal, conn_client_connect env),
      (Type_ClientDisconnect, Priority_Normal, conn_client_disconnect env),
      (Type_ServerDisconnect, Priority_Normal, conn_server_disconnect env),
      (packet_event_type Id_OnSendToServer, Priority_Normal, conn_on_send_to_server env),
      (packet_event_type Id_Quit, Priority_Normal, conn_quit),
      (packet_event_type Id_Disconnect, Priority_Normal, conn_disconnect),
      (packet_event_type Id_SendItemDatabaseData, Priority_Normal, conn_send_item_database env),
      (packet_event_type Id_OnSuperMain, Priority_Normal, conn_on_super_main)]"

definition forwarding_listeners :: "'z Env \<Rightarrow> (event_type \<times> int \<times> handler) list" where
  "forwarding_listeners env =
     [(Type_ClientBoundPacket, Priority_Normal, forward_client_bound env),
      (Type_ServerBoundPacket, Priority_Normal, forward_server_bound env)]"

definition world_listeners :: "'z Env \<Rightarrow> (event_type \<times> int \<times> handler) list" where
  "world_listeners env =
     [(packet_event_type Id_JoinRequest, Priority_Normal, world_join_request),
      (packet_event_type Id_OnSpawn, Priority_Normal, world_on_spawn),
      (packet_event_type Id_OnRemove, Priority_Normal, world_on_remove),
      (packet_event_type Id_SendMapData, Priority_Normal, world_send_map_data env),
      (packet_event_type Id_SendTileUpdateData, Priority_Normal, world_send_tile_update env),
      (packet_event_type Id_TileChangeRequest, Priority_Normal, world_tile_change),
      (packet_event_type Id_ItemChangeObject, Priority_Normal, world_item_change)]"

text \<open>The order of \<open>Core\<close>'s constructor; the command handler prepends its listener.\<close>

definition core_handlers ::
  "'z Env \<Rightarrow> orders \<Rightarrow> CommandRegistry \<Rightarrow> (event_type \<times> int \<times> handler) list"
where
  "core_handlers env ord reg =
     web_listeners env @ connection_listeners env @ forwarding_listeners env @ world_listeners env @
     [(packet_event_type Id_Input, Priority_Highest, on_text_packet env ord reg)]"

definition core_dispatcher ::
  "('d, 'h, Proxy option listener) base_dispatcher \<Rightarrow> 'z Env \<Rightarrow> orders \<Rightarrow> CommandRegistry \<Rightarrow>
     ('d, 'h) PriorityEventDispatcher \<Rightarrow> ('d, 'h) PriorityEventDispatcher"
where
  "core_dispatcher B env ord reg d =
     append_all B (map (\<lambda>(t, p, h). (t, p, listen h)) (core_handlers env ord reg)) d"

text \<open>The proxy after the constructors; \<open>ConnectionHandler\<close> does not initialise its port.\<close>

definition new_Proxy :: "u16 \<Rightarrow> bytes option \<Rightarrow> nat \<Rightarrow> Proxy" where
  "new_Proxy port cache threads =
     \<lparr>client_peer = None, server_peer = None, trace = [], pending_address = [], pending_port = port,
      web_address = [], web_port = no_port, items = clear_database, items_file = cache,
      world = new_World, scheduler = new_scheduler threads\<rparr>"

subsection \<open>Network events\<close>

text \<open>\<open>Client::on_receive\<close> and \<open>Server::on_receive\<close> after their guards, for any state the listeners
  work on.\<close>

definition deliver ::
  "('d, 'h, 'p option listener) base_dispatcher \<Rightarrow> ('d, 'h) PriorityEventDispatcher \<Rightarrow> 'z Env \<Rightarrow>
     Direction \<Rightarrow> event_type \<Rightarrow> bytes \<Rightarrow> 'p \<Rightarrow> 'p option"
where
  "deliver B d env dir raw_type data px = do {
     decoded \<leftarrow> decode (zlib_lib env) (regex_multiline env) (packet_registry env) (log_config env) data;
     let forward = (\<lambda>st. fst (dispatch B d raw_type (RawPacketEvent data) st False));
     case decoded of
       None \<Rightarrow> forward (Some px)
     | Some packet \<Rightarrow> do {
         p \<leftarrow> packet;
         case emit B registered_events d dir p (Some px) of
           (None, _) \<Rightarrow> None
         | (Some px, canceled) \<Rightarrow> if canceled = Some True then Some px else forward (Some px)
       }
   }"

definition client_on_receive ::
  "('d, 'h, Proxy option listener) base_dispatcher \<Rightarrow> ('d, 'h) PriorityEventDispatcher \<Rightarrow> 'z Env \<Rightarrow>
     nat \<Rightarrow> bytes \<Rightarrow> Proxy \<Rightarrow> Proxy option"
where
  "client_on_receive B d env peer data px =
     (if client_peer px \<noteq> Some peer then Some px
      else if length data < 4 then Some (client_disconnect px)
      else deliver B d env ClientBound Type_ClientBoundPacket data px)"

definition server_on_receive ::
  "('d, 'h, Proxy option listener) base_dispatcher \<Rightarrow> ('d, 'h) PriorityEventDispatcher \<Rightarrow> 'z Env \<Rightarrow>
     nat \<Rightarrow> bytes \<Rightarrow> Proxy \<Rightarrow> Proxy option"
where
  "server_on_receive B d env peer data px =
     (if server_peer px \<noteq> Some peer then Some px
      else if length data < 4 \<or> length data > 16384 then Some (server_disconnect px)
      else deliver B d env ServerBound Type_ServerBoundPacket data px)"

definition client_on_connect ::
  "('d, 'h, Proxy option listener) base_dispatcher \<Rightarrow> ('d, 'h) PriorityEventDispatcher \<Rightarrow>
     nat \<Rightarrow> Proxy \<Rightarrow> Proxy option"
where
  "client_on_connect B d peer px =
     fst (dispatch B d Type_ServerConnect ConnectionEvent (Some (px\<lparr>client_peer := Some peer\<rparr>)) False)"

definition server_on_connect ::
  "('d, 'h, Proxy option listener) base_dispatcher \<Rightarrow> ('d, 'h) PriorityEventDispatcher \<Rightarrow>
     nat \<Rightarrow> Proxy \<Rightarrow> Proxy option"
where
  "server_on_connect B d peer px =
     fst (dispatch B d Type_ClientConnect ConnectionEvent (Some (px\<lparr>server_peer := Some peer\<rparr>)) False)"

definition client_on_disconnect ::
  "('d, 'h, Proxy option listener) base_dispatcher \<Rightarrow> ('d, 'h) PriorityEventDispatcher \<Rightarrow>
     nat \<Rightarrow> Proxy \<Rightarrow> Proxy option"
where
  "client_on_disconnect B d peer px =
     (if client_peer px \<noteq> Some peer then Some px
      else fst (dispatch B d Type_ServerDisconnect ConnectionEvent (Some (px\<lparr>client_peer := None\<rparr>)) False))"

definition server_on_disconnect ::
  "('d, 'h, Proxy option listener) base_dispatcher \<Rightarrow> ('d, 'h) PriorityEventDispatcher \<Rightarrow>
     nat \<Rightarrow> Proxy \<Rightarrow> Proxy option"
where
  "server_on_disconnect B d peer px =
     (if server_peer px \<noteq> Some peer then Some px
      else fst (dispatch B d Type_ClientDisconnect ConnectionEvent (Some (px\<lparr>server_peer := None\<rparr>)) False))"

text \<open>
  \<open>ENetWrapper::process\<close>: one event of one of the hosts. It is in the trace before it is handled;
  the other actions are no events.
\<close>

definition process ::
  "('d, 'h, Proxy option listener) base_dispatcher \<Rightarrow> ('d, 'h) PriorityEventDispatcher \<Rightarrow> 'z Env \<Rightarrow>
     net_action \<Rightarrow> Proxy \<Rightarrow> Proxy option"
where
  "process B d env a px =
     (let px' = act a px
      in case a of
           Connected ClientHost p \<Rightarrow> client_on_connect B d p px'
         | Connected ServerHost p \<Rightarrow> server_on_connect B d p px'
         | Received ClientHost p data \<Rightarrow> client_on_receive B d env p data px'
         | Received ServerHost p data \<Rightarrow> server_on_receive B d env p data px'
         | Disconnected ClientHost p \<Rightarrow> client_on_disconnect B d p px'
         | Disconnected ServerHost p \<Rightarrow> server_on_disconnect B d p px'
         | _ \<Rightarrow> Some px)"

subsection \<open>What is dispatched\<close>

lemma invoke_listen_1: "invoke [listen h] e (Some px) False =
    (case h e px of None \<Rightarrow> (None, True) | Some (px, c) \<Rightarrow> (Some px, c))"
  by (auto simp: listen_def Let_def split: option.splits prod.splits)

lemma invoke_listen_2: "invoke [listen h, listen g] e (Some px) False =
    (case h e px of None \<Rightarrow> (None, True)
     | Some (px, c) \<Rightarrow> if c then (Some px, True) else
         (case g e px of None \<Rightarrow> (None, True) | Some (px, c) \<Rightarrow> (Some px, c)))"
  by (auto simp: listen_def Let_def split: option.splits prod.splits)

lemma registrations_map: "registrations t (map (\<lambda>(t, p, h). (t, p, listen h)) rs) =
    map (\<lambda>(p, h). (p, listen h)) (registrations t rs)"
  by (induction rs) (auto simp: registrations_def)

text \<open>The dispatcher after start-up.\<close>

definition started ::
  "('d, 'h, Proxy option listener) base_dispatcher \<Rightarrow> 'z Env \<Rightarrow> orders \<Rightarrow> CommandRegistry \<Rightarrow>
     ('d, 'h) PriorityEventDispatcher \<Rightarrow> bool"
where
  "started B env ord reg d \<longleftrightarrow>
     (\<exists>d0. eventpp_ok B \<and> dispatcher_inv B d0 \<and> handles d0 = (\<lambda>_. []) \<and> d = core_dispatcher B env ord reg d0)"

lemma dispatch_listen_all:
  fixes hs :: "(event_type \<times> int \<times> (event_data \<Rightarrow> 'p \<Rightarrow> ('p \<times> bool) option)) list"
  assumes "eventpp_ok B" and "dispatcher_inv B d0" and "handles d0 t = []"
  shows "dispatch B (append_all B (map (\<lambda>(t, p, h). (t, p, listen h)) hs) d0) t e st c =
    invoke (map listen (map snd (sort_key fst (registrations t hs)))) e st c"
proof -
  have sk: "sort_key fst (map (\<lambda>(p, h). (p, listen h)) rs) = map (\<lambda>(p, h). (p, listen h)) (sort_key fst rs)"
    for rs :: "(int \<times> (event_data \<Rightarrow> 'p \<Rightarrow> ('p \<times> bool) option)) list"
  proof (induction rs)
    case (Cons r rs)
    have "insort_key fst (p, listen h) (map (\<lambda>(p, h). (p, listen h)) xs) =
        map (\<lambda>(p, h). (p, listen h)) (insort_key fst (p, h) xs)"
      for p h and xs :: "(int \<times> (event_data \<Rightarrow> 'p \<Rightarrow> ('p \<times> bool) option)) list"
      by (induction xs) auto
    with Cons show ?case by (cases r) simp
  qed simp
  show ?thesis
    unfolding dispatch_append_all [OF assms] registrations_map sk
    by (simp add: comp_def split_beta)
qed

lemma dispatch_started:
  assumes "started B env ord reg d"
  shows "dispatch B d t e st c =
    invoke (map listen (map snd (sort_key fst (registrations t (core_handlers env ord reg))))) e st c"
  using assms by (auto simp: started_def core_dispatcher_def dispatch_listen_all)

end
