(* ===== verification/Decoding.thy ===== *)
theory Decoding
  imports PacketRegistry
begin

text \<open>
  What the decoder makes of the bytes that \<open>PacketHelper\<close> sends: round trips of the three
  message forms, totality, and what the registry creates.
\<close>

subsection \<open>Serialized messages\<close>

lemma serialize_text:
  "serialize_payload (TextPayload t d r) = le_bytes t @ bytes_of_string (raw d)"
  by (simp add: serialize_payload_def write_string_def write_word_def write_data_def empty_stream_def
      take_data_def le_bytes_simps)

definition sent_header :: "GameUpdatePacket \<Rightarrow> bytes \<Rightarrow> GameUpdatePacket" where
  "sent_header pkt ext =
     (if ext \<noteq> [] then (set_extended pkt)\<lparr>data_size := word_of_nat (length ext)\<rparr> else pkt)"

lemma serialize_game:
  "serialize_payload (GamePayload pkt ext r) =
     le_bytes NET_MESSAGE_GAME_PACKET @ encode_packet (sent_header pkt ext) @ ext"
  by (simp add: serialize_payload_def write_packet_def write_word_def write_data_def empty_stream_def
      take_data_def le_bytes_simps sent_header_def Let_def)

definition call_header_of :: "GameUpdatePacket \<Rightarrow> variants \<Rightarrow> GameUpdatePacket" where
  "call_header_of pkt vs =
     (set_extended (pkt\<lparr>pkt_type := PACKET_CALL_FUNCTION\<rparr>))
       \<lparr>data_size := word_of_nat (length (serialize vs))\<rparr>"

lemma serialize_call:
  "serialize_payload (VariantPayload pkt vs r) =
     le_bytes NET_MESSAGE_GAME_PACKET @ encode_packet (call_header_of pkt vs) @ serialize vs"
  by (simp add: serialize_payload_def write_packet_def write_word_def write_data_def empty_stream_def
      take_data_def le_bytes_simps call_header_of_def Let_def)

lemma call_header_type [simp]: "pkt_type (call_header_of pkt vs) = PACKET_CALL_FUNCTION"
  by (simp add: call_header_of_def set_extended_def)

lemma sent_header_type [simp]: "pkt_type (sent_header pkt ext) = pkt_type pkt"
  by (simp add: sent_header_def)

subsection \<open>Reading the message type\<close>

lemma read_type:
  fixes t :: u32
  assumes "length (le_bytes t @ rest) < 2 ^ 64"
  defines "s \<equiv> span_stream (le_bytes t @ rest)"
  shows "read_word old s = Some (True, t, advance 4 s)" and "rd old s = Some (t, advance 4 s)"
    and "in_bounds (advance 4 s)" and "remaining (advance 4 s) = rest"
    and "unat (read_offset (advance 4 s)) = 4" and "get_raw_ptr (advance 4 s) = le_bytes t @ rest"
proof -
  have s: "in_bounds s" "remaining s = le_bytes t @ rest"
    using assms(1) by (simp_all add: s_def)
  show "read_word old s = Some (True, t, advance 4 s)" "rd old s = Some (t, advance 4 s)"
    using rd_enc [OF _ _ s, of old] by simp_all
  show "in_bounds (advance 4 s)" "remaining (advance 4 s) = rest"
    using u32_codec.after_enc [OF s] by simp_all
  show "unat (read_offset (advance 4 s)) = 4"
    using unat_offset_advance [OF s(1), of 4] s(2) by (simp add: s_def span_stream_def)
  show "get_raw_ptr (advance 4 s) = le_bytes t @ rest"
    by (simp only: s_def get_raw_ptr_advance) (simp add: span_stream_def get_raw_ptr_def)
qed

lemma decode_type_short:
  "length data < 4 \<Longrightarrow> decode lib multiline reg cfg data = Some None"
  by (simp add: decode_def read_word_in_bounds)

lemma split_type:
  assumes "4 \<le> length data"
  obtains t :: u32 and rest where "data = le_bytes t @ rest"
proof
  show "data = le_bytes (of_le (take 4 data) :: u32) @ drop 4 data"
    using assms by (simp add: le_bytes_of_le)
qed

subsection \<open>The two inner readers\<close>

lemma read_string_len:
  fixes len :: u16
  assumes s: "in_bounds s" and len: "len \<noteq> 0"
  shows "rd_str len old s =
    (if unat len \<le> length (remaining s)
     then Some (string_of_bytes (take (unat len) (remaining s)), advance (unat len) s)
     else Some (old, s))"
  using assms size_minus_offset [OF s]
  by (auto simp: rd_str_def read_string_def read_data_in_bounds word_less_nat_alt unat_ucast_up)

lemma decode_text_message:
  fixes t :: u32
  assumes "0 < length m" and "length m < 65536"
  shows "decode_text (le_bytes t @ m @ [b]) = Some (parse (string_of_bytes m) bar)"
    (is "decode_text ?data = _")
proof -
  have len: "length ?data < 2 ^ 64" using assms by simp
  note rt = read_type [OF len]
  let ?s = "advance 4 (span_stream ?data)" and ?l = "word_of_nat (length m) :: u16"
  have size: "get_size ?s = word_of_nat (length m + 5)"
    by (simp only: get_size_alt rt(6)) simp
  have "ucast (get_size ?s - 4 - 1) = ?l"
    by (simp add: size ucast_word_of_nat_down)
  moreover have un: "unat ?l = length m" using assms by (simp add: unat_word_of_nat_lt)
  moreover have "?l \<noteq> 0" using un assms by auto
  ultimately show ?thesis
    using read_string_len [OF rt(3), of ?l "[]"] rt(4)
    by (simp add: decode_text_def rt(2))
qed

lemma decode_game_packet:
  fixes t :: u32
  assumes "length ext < 2 ^ 63"
  shows "decode_game (le_bytes t @ encode_packet p @ ext) = Some (p, ext)"
    (is "decode_game ?data = _")
proof -
  have len: "length ?data < 2 ^ 64" using assms by simp
  note rt = read_type [OF len]
  let ?s = "advance 4 (span_stream ?data)"
  have "rd_packet zero_packet ?s = Some (p, advance 56 ?s)"
    using packet_codec.dec_enc [OF rt(3) rt(4)] by simp
  moreover have "unat (read_offset (advance 56 ?s)) = 60"
    using unat_offset_advance [OF rt(3), of 56] rt(4,5) by simp
  ultimately show ?thesis
    by (simp add: decode_game_def rt(2))
qed

subsection \<open>Nothing faults\<close>

lemma decode_text_total:
  assumes "length data < 2 ^ 64"
  shows "\<exists>d. decode_text data = Some d"
proof -
  have s: "in_bounds (span_stream data)" using assms by simp
  obtain t s1 where 1: "rd (0 :: u32) (span_stream data) = Some (t, s1)" and s1: "in_bounds s1"
    using u32_codec.dec_total [OF s] by blast
  obtain m s2 where "rd_str (ucast (get_size s1 - 4 - 1) :: u16) [] s1 = Some (m, s2)"
    using safe_readerD [OF safe_rd_str s1, of "ucast (get_size s1 - 4 - 1) :: u16" "[]"]
    by (auto elim: safe_run_obtain)
  with 1 show ?thesis by (simp add: decode_text_def)
qed

lemma decode_game_total:
  assumes "length data < 2 ^ 64"
  shows "\<exists>p ext. decode_game data = Some (p, ext) \<and> length ext \<le> length data"
proof -
  have s: "in_bounds (span_stream data)" using assms by simp
  obtain t s1 where 1: "rd (0 :: u32) (span_stream data) = Some (t, s1)" and s1: "in_bounds s1"
    using u32_codec.dec_total [OF s] by blast
  obtain p s2 where "rd_packet zero_packet s1 = Some (p, s2)"
    using packet_codec.dec_total [OF s1] by blast
  with 1 show ?thesis by (simp add: decode_game_def)
qed

text \<open>A zlib whose output always comes to an end.\<close>

definition zlib_ends :: "'z zlib \<Rightarrow> bool" where
  "zlib_ends lib \<longleftrightarrow> (\<forall>z acc. inflate_loop lib z acc \<noteq> None)"

lemma decompress_total:
  assumes "zlib_ends lib"
  shows "\<exists>ok d. decompress_zlib lib c old n = Some (ok, d)"
proof (cases "inflateInit lib (avail_in c)")
  case None
  then show ?thesis by (auto simp: decompress_zlib_def)
next
  case (Some z)
  let ?acc = "if n > 0 then resize old (unat n) else []"
  obtain r where "inflate_loop lib z ?acc = Some r"
    using assms unfolding zlib_ends_def by blast
  with Some show ?thesis
    by (cases r) (auto simp: decompress_zlib_def)
qed

lemma packet_read_total:
  assumes "zlib_ends lib"
  shows "\<exists>ok p'. packet_read lib payload p = Some (ok, p')"
proof -
  have "SendItemDatabaseData_read lib payload q \<noteq> None" for q
  proof (cases "game_payload_if payload")
    case (Some t)
    obtain h e r where t: "t = (h, e, r)" by (cases t)
    obtain ok d where "decompress_zlib lib e (items_dat q) (int_data h) = Some (ok, d)"
      using decompress_total [OF assms] by blast
    with Some t show ?thesis by (auto simp: SendItemDatabaseData_read_def)
  qed (simp add: SendItemDatabaseData_read_def)
  then show ?thesis by (cases p) (auto simp: prod_eq_iff)
qed

lemma create_total:
  assumes "zlib_ends lib" and "\<forall>d. payload \<noteq> RawPayload d"
  shows "\<exists>p. create lib multiline reg payload = Some p"
proof -
  obtain i where i: "derive_packet_id multiline payload = Some i"
    using assms(2) by (cases payload) auto
  show ?thesis
  proof (cases "if i \<noteq> Id_Unknown then create_id reg i else None")
    case None
    then show ?thesis by (simp add: create_def i)
  next
    case (Some fresh)
    with packet_read_total [OF assms(1), of payload fresh] show ?thesis
      by (auto simp: create_def i)
  qed
qed

subsection \<open>The registry after registration\<close>

definition all_registered :: registry where
  "all_registered = snd (snd (register_all_packets False (\<lambda>_. None)))"

lemma all_registered_eq:
  "all_registered i = map_of (map (\<lambda>p. (packet_id p, p)) registered_classes) i"
  by (simp add: all_registered_def register_all_packets_def registered_classes_def register_packet_def)

lemma all_registered_id: "all_registered i = Some p \<Longrightarrow> packet_id p = i"
  unfolding all_registered_eq by (drule map_of_SomeD) auto

lemma map_prod_id_eq: "map_prod id f q = (a, b) \<longleftrightarrow> fst q = a \<and> b = f (snd q)"
  by (cases q) auto

lemma read_keeps_id: "packet_read lib payload p = Some (ok, p') \<Longrightarrow> packet_id p' = packet_id p"
  by (cases p) (auto simp: map_prod_id_eq)

lemma create_generic_simps [simp]:
  "create_generic (TextPayload t d r) =
     Some (P_GenericText \<lparr>raw_data = r, text_parse = d, generic_message_type = t\<rparr>)"
  "create_generic (VariantPayload h v r) =
     Some (P_GenericVariant \<lparr>raw_data = r, variant = v, call_packet = h\<rparr>)"
  "create_generic (GamePayload h e r) =
     Some (P_GenericGame \<lparr>raw_data = r, game_packet = h, extra = e\<rparr>)"
  "create_generic (RawPayload r) = None"
  by (simp_all add: create_generic_def GenericTextPacket_read_def GenericVariantPacket_read_def
      GenericGamePacket_read_def new_generic_text_def new_variant_def new_game_def)

lemma create_generic_id: "create_generic payload = Some p \<Longrightarrow> packet_id p = Id_Unknown"
  by (cases payload) auto

lemma create_registered:
  assumes c: "create lib multiline all_registered payload = Some (Some p)"
  obtains i where "derive_packet_id multiline payload = Some i" and "packet_id p = i" and "i \<noteq> Id_Unknown"
  | "packet_id p = Id_Unknown" and "create_generic payload = Some p"
proof -
  obtain i where i: "derive_packet_id multiline payload = Some i"
    using c by (cases "derive_packet_id multiline payload") (auto simp: create_def)
  show thesis
  proof (cases "if i \<noteq> Id_Unknown then create_id all_registered i else None")
    case None
    then have "create_generic payload = Some p" using c i by (simp add: create_def)
    then show thesis using that(2) create_generic_id by blast
  next
    case (Some fresh)
    then have ne: "i \<noteq> Id_Unknown" and f: "all_registered i = Some fresh"
      by (auto simp: create_id_def split: if_splits)
    have "packet_read lib payload fresh \<bind> (\<lambda>(ok, p). Some (if ok then Some p else None)) = Some (Some p)"
      using c by (simp only: create_def i Some option.case bind.bind_lunit)
    then obtain r where r: "packet_read lib payload fresh = Some r"
        "(case r of (ok, p) \<Rightarrow> Some (if ok then Some p else None)) = Some (Some p)"
      unfolding bind_eq_Some_conv by blast
    obtain ok p' where "r = (ok, p')" by (cases r)
    with r have "packet_read lib payload fresh = Some (ok, p)" by (simp split: if_splits)
    from read_keeps_id [OF this] have "packet_id p = i"
      using all_registered_id [OF f] by simp
    then show thesis using that(1) [OF i] ne by blast
  qed
qed

lemma decode_creates:
  assumes "decode lib multiline reg cfg data = Some (Some (Some p))"
  obtains pl t d h vs e where "create lib multiline reg pl = Some (Some p)"
    and "pl = TextPayload t d data \<or> pl = VariantPayload h vs data \<or> pl = GamePayload h e data"
proof -
  obtain ok t s where 1: "read_word (0 :: u32) (span_stream data) = Some (ok, t, s)"
    using assms by (cases "read_word (0 :: u32) (span_stream data)") (auto simp: decode_def)
  have nn: "ok" using assms 1 by (cases ok) (auto simp: decode_def)
  show thesis
  proof (cases "t = NET_MESSAGE_SERVER_HELLO")
    case True
    then have "create lib multiline reg (TextPayload NET_MESSAGE_SERVER_HELLO [] data) = Some (Some p)"
      using assms 1 nn by (auto simp: decode_def bind_eq_Some_conv)
    then show thesis using that by blast
  next
    case hello: False
    show thesis
    proof (cases "t = NET_MESSAGE_GENERIC_TEXT \<or> t = NET_MESSAGE_GAME_MESSAGE")
      case True
      then obtain d where "create lib multiline reg (TextPayload t d data) = Some (Some p)"
        using assms 1 nn hello by (auto simp: decode_def bind_eq_Some_conv split: if_splits)
      then show thesis using that by blast
    next
      case False
      then have "(\<exists>h vs. create lib multiline reg (VariantPayload h vs data) = Some (Some p)) \<or>
          (\<exists>h e. create lib multiline reg (GamePayload h e data) = Some (Some p))"
        using assms 1 nn hello
        by (auto simp: decode_def bind_eq_Some_conv split: if_splits)
      then show thesis using that by blast
    qed
  qed
qed

subsection \<open>Properties of the decoder\<close>

lemma decode_text_sent:
  assumes "text_ok (CHR ''|'') d" and "d \<noteq> []" and "length (raw d) < 65536"
    and "t = NET_MESSAGE_GENERIC_TEXT \<or> t = NET_MESSAGE_GAME_MESSAGE"
    and "data = serialize_payload (TextPayload t d r) @ [0]"
  shows "decode lib multiline reg cfg data = do {
    p \<leftarrow> create lib multiline reg (TextPayload t d data);
    Some (if p = None then None else Some p)
  }"
proof -
  let ?m = "bytes_of_string (raw d)"
  have data: "data = le_bytes t @ ?m @ [0]" using assms(5) by (simp add: serialize_text)
  have "raw d \<noteq> []"
    using assms(1,2) by (cases d) (auto simp: text_ok_def)
  then have "decode_text data = Some (parse (raw d) bar)"
    using decode_text_message [of ?m t 0] assms(3) by (simp add: data)
  moreover have "parse (raw d) bar = d"
    by (rule parse_get_raw [OF _ assms(1)]) simp
  moreover have "read_word 0 (span_stream data) = Some (True, t, advance 4 (span_stream data))"
    using read_type(1) [of t "?m @ [0]"] assms(3) by (simp add: data)
  ultimately show ?thesis
    using assms(4) by (auto simp: decode_def)
qed

text \<open>C17: a text message that \<open>PacketHelper\<close> serialized and sent (a zero byte is appended)
  decodes into the packet made from the same message type and the same fields, whenever the
  fields print unambiguously and the text fits the 16-bit length.\<close>

theorem decode_sent_text:
  assumes "text_ok (CHR ''|'') d" and "d \<noteq> []" and "length (raw d) < 65536"
    and "t = NET_MESSAGE_GENERIC_TEXT \<or> t = NET_MESSAGE_GAME_MESSAGE"
    and "data = serialize_payload (TextPayload t d r) @ [0]"
  shows "decode lib multiline reg cfg data = do {
    p \<leftarrow> create lib multiline reg (TextPayload t d data);
    Some (if p = None then None else Some p)
  }"
  by (rule decode_text_sent [OF assms])

definition quiet :: LogConfig where
  "quiet = \<lparr>print_message = False, print_game_update_packet = False, print_variant = False,
     print_extra = False\<rparr>"

lemma stored_zlib_ends: "zlib_ends stored_zlib"
  unfolding zlib_ends_def using inflate_loop_delivers [OF stored_delivers] by simp

theorem decode_sent_text_witness:
  "decode stored_zlib True all_registered quiet
     (serialize_payload (TextPayload NET_MESSAGE_GAME_MESSAGE [(''action'', [''quit''])] []) @ [0]) =
   Some (Some (Some (P_Quit \<lparr>raw_data = [], text_parse = [(''action'', [''quit''])]\<rparr>)))"
  by (subst decode_sent_text [OF _ _ _ _ refl])
    (simp_all add: text_ok_def field_ok_def create_def derive_text_id_def text_regex_patterns_def
      regex_search_def match_at_def create_id_def all_registered_eq registered_classes_def
      Quit_read_def new_text_def)

lemma decode_call:
  assumes "vs \<noteq> []" and "length vs < 256" and "list_all value_ok vs"
    and "length (serialize vs) < 2 ^ 62"
    and "data = serialize_payload (VariantPayload pkt vs r) @ [0]"
  shows "decode lib multiline reg cfg data = do {
    p \<leftarrow> create lib multiline reg (VariantPayload (call_header_of pkt vs) vs data);
    Some (if p = None then None else Some p)
  }"
proof -
  let ?h = "call_header_of pkt vs"
  have data: "data = le_bytes NET_MESSAGE_GAME_PACKET @ encode_packet ?h @ (serialize vs @ [0])"
    using assms(5) by (simp add: serialize_call)
  have "decode_game data = Some (?h, serialize vs @ [0])"
    unfolding data using assms(4) by (intro decode_game_packet) simp
  moreover have "deserialize [] (serialize vs @ [0]) = Some (True, vs)"
    using deserialize_append [of vs "[0]" "[]"] assms(1-4) by simp
  moreover have "read_word 0 (span_stream data) =
      Some (True, NET_MESSAGE_GAME_PACKET, advance 4 (span_stream data))"
    using read_type(1) [of NET_MESSAGE_GAME_PACKET "encode_packet ?h @ serialize vs @ [0]"] assms(4)
    by (simp add: data)
  ultimately show ?thesis
    by (simp add: decode_def) (simp add: data)
qed

text \<open>C18: a remote call that \<open>PacketHelper\<close> serialized and sent decodes into the packet made from
  the same arguments, under the header with the call type, the extended flag and the size of the
  arguments filled in.\<close>

theorem decode_sent_call:
  assumes "vs \<noteq> []" and "length vs < 256" and "list_all value_ok vs"
    and "length (serialize vs) < 2 ^ 62"
    and "data = serialize_payload (VariantPayload pkt vs r) @ [0]"
  shows "decode lib multiline reg cfg data = do {
    p \<leftarrow> create lib multiline reg (VariantPayload (call_header_of pkt vs) vs data);
    Some (if p = None then None else Some p)
  }"
  by (rule decode_call [OF assms])

theorem decode_sent_call_witness:
  "decode stored_zlib True all_registered quiet
     (serialize_payload (VariantPayload zero_packet [VString ''OnName''] []) @ [0]) =
   Some (Some (Some (P_GenericVariant
     \<lparr>raw_data = serialize_payload (VariantPayload zero_packet [VString ''OnName''] []) @ [0],
      variant = [VString ''OnName''], call_packet = call_header_of zero_packet [VString ''OnName'']\<rparr>)))"
  by (subst decode_sent_call [OF _ _ _ _ refl])
    (simp_all add: create_def derive_variant_id_def VARIANT_FUNCTION_MAP_def function_name_def
      get_string_def serialize_alt enc_string_def)

text \<open>A game packet that \<open>PacketHelper\<close> serialized and sent decodes with the same header, but
  its extra data has grown by the zero byte that ended the transmission.\<close>

theorem decode_sent_game:
  assumes "pkt_type pkt \<noteq> PACKET_CALL_FUNCTION" and "length ext < 2 ^ 62"
    and "data = serialize_payload (GamePayload pkt ext r) @ [0]"
  shows "decode lib multiline reg cfg data = do {
    p \<leftarrow> create lib multiline reg (GamePayload (sent_header pkt ext) (ext @ [0]) data);
    Some (if p = None then None else Some p)
  }"
proof -
  let ?h = "sent_header pkt ext"
  have data: "data = le_bytes NET_MESSAGE_GAME_PACKET @ encode_packet ?h @ (ext @ [0])"
    using assms(3) by (simp add: serialize_game)
  have "decode_game data = Some (?h, ext @ [0])"
    unfolding data using assms(2) by (intro decode_game_packet) simp
  moreover have "read_word 0 (span_stream data) =
      Some (True, NET_MESSAGE_GAME_PACKET, advance 4 (span_stream data))"
    using read_type(1) [of NET_MESSAGE_GAME_PACKET "encode_packet ?h @ ext @ [0]"] assms(2)
    by (simp add: data)
  ultimately show ?thesis
    using assms(1) by (simp add: decode_def) (simp add: data)
qed

theorem decode_sent_game_witness:
  "decode stored_zlib True all_registered quiet
     (serialize_payload (GamePayload (zero_packet\<lparr>pkt_type := PACKET_SEND_MAP_DATA\<rparr>) [1] []) @ [0]) =
   Some (Some (Some (P_SendMapData (new_game\<lparr>extra := [1, 0]\<rparr>))))"
  by (subst decode_sent_game [OF _ _ refl])
    (simp_all add: zero_packet_def create_def derive_game_id_def GAME_PACKET_MAP_def create_id_def
      all_registered_eq registered_classes_def SendMapData_read_def)

text \<open>C16: decoding always comes to a result and never reads outside the message, for every message,
  registry and log configuration, except that the printing of game packets needs the 60 bytes it
  prints.\<close>

theorem decode_total:
  assumes "length data < 2 ^ 64" and "zlib_ends lib"
    and "print_game_update_packet cfg \<Longrightarrow> 60 \<le> length data"
  shows "\<exists>r. decode lib multiline reg cfg data = Some r"
proof (cases "length data < 4")
  case True
  then show ?thesis using decode_type_short assms(1) by blast
next
  case False
  then have "4 \<le> length data" by simp
  then obtain t rest where data: "data = le_bytes (t :: u32) @ rest" by (rule split_type)
  have rt: "read_word 0 (span_stream data) = Some (True, t, advance 4 (span_stream data))"
    using read_type(1) [of t rest 0] assms(1) unfolding data by simp
  have mk: "\<exists>p. create lib multiline reg pl = Some p" if "\<forall>d. pl \<noteq> RawPayload d" for pl
    using create_total [OF assms(2) that] .
  obtain d where d: "decode_text data = Some d" using decode_text_total [OF assms(1)] by blast
  obtain pkt ext where g: "decode_game data = Some (pkt, ext)" "length ext \<le> length data"
    using decode_game_total [OF assms(1)] by blast
  obtain ok vs where v: "deserialize [] ext = Some (ok, vs)"
    using deserialize_total_aux [of ext "[]"] g(2) assms(1) by auto
  consider "t = NET_MESSAGE_SERVER_HELLO" | "t = NET_MESSAGE_GENERIC_TEXT \<or> t = NET_MESSAGE_GAME_MESSAGE"
    | "t = NET_MESSAGE_GAME_PACKET"
    | "t \<noteq> NET_MESSAGE_SERVER_HELLO" "t \<noteq> NET_MESSAGE_GENERIC_TEXT" "t \<noteq> NET_MESSAGE_GAME_MESSAGE"
      "t \<noteq> NET_MESSAGE_GAME_PACKET" by blast
  then show ?thesis
  proof cases
    case 1
    then show ?thesis
      using mk [of "TextPayload NET_MESSAGE_SERVER_HELLO [] data"] by (auto simp: decode_def rt)
  next
    case 2
    then show ?thesis using mk [of "TextPayload t d data"] by (auto simp: decode_def rt d)
  next
    case 3
    then show ?thesis
      using mk [of "VariantPayload pkt vs data"] mk [of "GamePayload pkt ext data"] assms(3)
      by (auto simp: decode_def rt g v)
  qed (simp add: decode_def rt)
qed

theorem decode_total_witness:
  "\<exists>r. decode stored_zlib True all_registered quiet [4, 0, 0, 0, 1] = Some r"
  by (rule decode_total) (simp_all add: stored_zlib_ends quiet_def)

text \<open>With printing of game packets on, every game packet shorter than its header is a read
  outside the message.\<close>

theorem decode_short_game_packet_faults:
  assumes "print_game_update_packet cfg" and "length rest < 56"
  shows "decode lib multiline reg cfg (le_bytes NET_MESSAGE_GAME_PACKET @ rest) = None"
proof -
  let ?data = "le_bytes NET_MESSAGE_GAME_PACKET @ rest"
  have len: "length ?data < 2 ^ 64" using assms(2) by simp
  obtain pkt ext where "decode_game ?data = Some (pkt, ext)"
    using decode_game_total [OF len] by blast
  then show ?thesis
    using read_type(1) [OF len, of 0] assms by (simp add: decode_def)
qed

theorem decode_short_game_packet_faults_witness:
  "decode stored_zlib True all_registered (quiet\<lparr>print_game_update_packet := True\<rparr>) [4, 0, 0, 0, 1] = None"
  using decode_short_game_packet_faults [of "quiet\<lparr>print_game_update_packet := True\<rparr>" "[1]"]
  by (simp add: le_bytes_simps)

text \<open>C19: a message the decoder has no class for comes back as a generic packet, and serializing
  that packet gives the bytes of the message unchanged.\<close>

theorem generic_passes_through:
  assumes "decode lib multiline all_registered cfg data = Some (Some (Some p))"
    and "packet_id p = Id_Unknown"
  shows "serialize_packet lib p = (data, p)"
proof -
  have "data \<noteq> []"
  proof
    assume "data = []"
    then show False
      using assms(1) decode_type_short [of "[]" lib multiline all_registered cfg] by simp
  qed
  have raw: "packet_raw_data p = data" if "create lib multiline all_registered pl = Some (Some p)"
    and "pl = TextPayload t d data \<or> pl = VariantPayload h vs data \<or> pl = GamePayload h e data"
    for pl t d h vs e
    using that(1)
  proof (cases rule: create_registered)
    case 2
    then show ?thesis using that(2) by auto
  qed (use assms(2) in simp)
  have "packet_raw_data p = data"
    by (rule decode_creates [OF assms(1)]) (rule raw)
  with \<open>data \<noteq> []\<close> show ?thesis by (simp add: serialize_packet_def)
qed

theorem generic_passes_through_witness:
  "serialize_packet stored_zlib (P_GenericText \<lparr>raw_data = [3, 0, 0, 0], text_parse = [],
     generic_message_type = NET_MESSAGE_GAME_MESSAGE\<rparr>) =
   ([3, 0, 0, 0], P_GenericText \<lparr>raw_data = [3, 0, 0, 0], text_parse = [],
     generic_message_type = NET_MESSAGE_GAME_MESSAGE\<rparr>)"
proof (rule generic_passes_through [of _ True quiet])
  let ?s = "span_stream [3, 0, 0, 0]"
  have d: "[3, 0, 0, 0] = le_bytes (3 :: u32) @ []" by (simp add: le_bytes_simps)
  note rt = read_type [of "3 :: u32" "[]", folded d, simplified]
  have "get_size (advance 4 ?s) = 4"
    by (simp add: get_size_alt rt(6))
  moreover have "ucast (- 1 :: u64) = (- 1 :: u16)"
    by (rule bit_word_eqI) (simp add: bit_ucast_iff)
  moreover have "unat (- 1 :: u16) \<noteq> 0" by (simp add: unat_eq_zero)
  ultimately have "decode_text [3, 0, 0, 0] = Some []"
    using read_string_len [OF rt(3), of "- 1 :: u16" "[]"] rt(4)
    by (simp add: decode_text_def rt(2) parse_def tokenize_def)
  then show "decode stored_zlib True all_registered quiet [3, 0, 0, 0] =
      Some (Some (Some (P_GenericText \<lparr>raw_data = [3, 0, 0, 0], text_parse = [],
        generic_message_type = NET_MESSAGE_GAME_MESSAGE\<rparr>)))"
    by (simp add: decode_def rt(1) create_def derive_text_id_def text_regex_patterns_def
        regex_search_def match_at_def)
qed simp

end
