(* ===== verification/PacketFacts.thy ===== *)
theory PacketFacts
  imports Decoding
begin

text \<open>
  What the packet classes promise: which fields survive \<open>write\<close> followed by \<open>read\<close>, and which
  identifier the registry gives to what a class has written.
\<close>

subsection \<open>Integers in text\<close>

lemma word_of_int_sint: "word_of_int (sint w) = w"
  by simp

lemma from_chars_int32: "from_chars_i32 (int32_chars w) = Inr (sint w)"
  unfolding int32_chars_def
  using sint_range_size [of w] by (intro from_chars_to_chars) (simp_all add: word_size)

lemma int32_chars_nonempty [simp]: "int32_chars w \<noteq> []"
  by (simp add: int32_chars_def to_chars_def)

lemma int32_chars_ok [simp]: "field_ok (CHR ''|'') (int32_chars w)"
proof -
  have "\<not> is_digit 10 (CHR ''|'')" "\<not> is_digit 10 (CHR 0x0A)"
    by (simp_all add: is_digit_def digit_value_def)
  then show ?thesis by (simp add: field_ok_def int32_chars_def to_chars_no)
qed

lemma get_int32_chars: "get d key i = int32_chars w \<Longrightarrow> get_int32 d key i = w"
  by (simp add: get_int32_def get_i32_def Let_def from_chars_int32 [simplified])

lemma field_ok_Nil [simp]: "field_ok c []"
  by (simp add: field_ok_def)

lemma parse_raw: "text_ok (CHR ''|'') d \<Longrightarrow> parse (raw d) bar = d"
  by (rule parse_get_raw) simp

lemma get_Cons: "get ((k, vs) # d) key i =
  (if k = key then (if i < 0 \<or> i \<ge> int (length vs) then [] else vs ! nat i) else get d key i)"
  by (simp add: get_def)

lemma get_Nil: "get [] key i = []"
  by (simp add: get_def)

lemmas get_simps = get_Cons get_Nil

subsection \<open>Remote calls\<close>

definition text_fields_ok :: "string list \<Rightarrow> bool" where
  "text_fields_ok = list_all (field_ok (CHR ''|''))"

lemma read_written_OnSendToServer:
  assumes "server_address p \<noteq> []"
    and "text_fields_ok [server_address p, server_door_id p, server_uuid_token p]"
  shows "OnSendToServer_read (OnSendToServer_write p) q =
    (True, q\<lparr>variant := call_args (OnSendToServer_write p), call_packet := call_packet p,
       server_port := server_port p, server_token := server_token p, server_user := server_user p,
       server_address := server_address p, server_door_id := server_door_id p,
       server_uuid_token := server_uuid_token p, server_login_mode := server_login_mode p,
       server_username := server_username p\<rparr>)"
proof -
  let ?d = "[(server_address p, [server_door_id p, server_uuid_token p])]"
  let ?bar = "CHR ''|''"
  have ok: "text_ok ?bar ?d" using assms by (simp add: text_ok_def text_fields_ok_def)
  have nobar: "?bar \<notin> set (server_address p)" using assms by (simp add: text_fields_ok_def field_ok_def)
  then have "takeWhile (\<lambda>c. c \<noteq> ?bar) (raw ?d) = server_address p"
    by (simp add: takeWhile_append)
  then show ?thesis
    by (simp add: OnSendToServer_read_def OnSendToServer_write_def add_def Let_def get_string_def
        get_signed_def get_unsigned_def parse_raw [OF ok] get_simps ucast_up_ucast_id is_up
        del: get_raw.simps)
qed

text \<open>Reading back the \<open>OnSendToServer\<close> call the proxy writes when it redirects the client
  recovers the port, token, user, address, door, login token, login mode and user name, for an
  address and texts that hold no delimiter.\<close>

theorem OnSendToServer_roundtrip:
  assumes "server_address p \<noteq> []"
    and "text_fields_ok [server_address p, server_door_id p, server_uuid_token p]"
  shows "OnSendToServer_read (OnSendToServer_write p) q =
    (True, q\<lparr>variant := call_args (OnSendToServer_write p), call_packet := call_packet p,
       server_port := server_port p, server_token := server_token p, server_user := server_user p,
       server_address := server_address p, server_door_id := server_door_id p,
       server_uuid_token := server_uuid_token p, server_login_mode := server_login_mode p,
       server_username := server_username p\<rparr>)"
  by (rule read_written_OnSendToServer [OF assms])

theorem OnSendToServer_roundtrip_witness:
  "OnSendToServer_read (OnSendToServer_write
     (new_OnSendToServer\<lparr>server_address := ''127.0.0.1'', server_port := 17091\<rparr>)) new_OnSendToServer =
   (True, new_OnSendToServer\<lparr>variant := [VString ''OnSendToServer'', VSigned 17091, VSigned 0, VSigned 0,
      VString ''127.0.0.1||'', VUnsigned 0, VString []], server_address := ''127.0.0.1'',
      server_port := 17091\<rparr>)"
  by (subst OnSendToServer_roundtrip)
    (simp_all add: new_OnSendToServer_def text_fields_ok_def field_ok_def OnSendToServer_write_def add_def)

text \<open>Reading back an \<open>OnSpawn\<close> call recovers every field except \<open>online_id\<close>, which is always
  written empty and read as zero.\<close>

theorem OnSpawn_roundtrip:
  assumes "text_fields_ok [spawn p, spawn_name p, title_icon p, country_code p, spawn_type p]"
  shows "OnSpawn_read (OnSpawn_write p) q =
    (True, q\<lparr>variant := call_args (OnSpawn_write p), call_packet := call_packet p, spawn := spawn p,
       spawn_net_id := spawn_net_id p, spawn_user_id := spawn_user_id p,
       country_code := country_code p, spawn_name := spawn_name p,
       spawn_position := spawn_position p, spawn_collision := spawn_collision p,
       invisible := invisible p, mod_state := mod_state p, supermod_state := supermod_state p,
       online_id := 0, spawn_type := spawn_type p, title_icon := title_icon p\<rparr>)"
proof -
  obtain x y where pos: "spawn_position p = (x, y)" by (cases "spawn_position p")
  obtain a b c d where col: "spawn_collision p = (a, b, c, d)" by (cases "spawn_collision p")
  have ok: "text_ok (CHR ''|'') (OnSpawn_text p)"
    using assms
    by (simp add: OnSpawn_text_def add_def text_ok_def text_fields_ok_def col pos)
       (simp add: field_ok_def)
  have "get_int32 (OnSpawn_text p) ''onlineID'' 0 = 0"
    by (simp add: OnSpawn_text_def add_def get_int32_def get_i32_def get_simps Let_def)
  moreover have "get_int32 (OnSpawn_text p) ''netID'' 0 = spawn_net_id p"
    "get_int32 (OnSpawn_text p) ''userID'' 0 = spawn_user_id p"
    "get_int32 (OnSpawn_text p) ''posXY'' 0 = x" "get_int32 (OnSpawn_text p) ''posXY'' 1 = y"
    "get_int32 (OnSpawn_text p) ''colrect'' 0 = a" "get_int32 (OnSpawn_text p) ''colrect'' 1 = b"
    "get_int32 (OnSpawn_text p) ''colrect'' 2 = c" "get_int32 (OnSpawn_text p) ''colrect'' 3 = d"
    "get_int32 (OnSpawn_text p) ''invis'' 0 = invisible p"
    "get_int32 (OnSpawn_text p) ''mstate'' 0 = mod_state p"
    "get_int32 (OnSpawn_text p) ''smstate'' 0 = supermod_state p"
    by (rule get_int32_chars; simp add: OnSpawn_text_def add_def get_simps pos col)+
  moreover have "get (OnSpawn_text p) ''spawn'' 0 = spawn p" "get (OnSpawn_text p) ''country'' 0 = country_code p"
    "get (OnSpawn_text p) ''name'' 0 = spawn_name p" "get (OnSpawn_text p) ''type'' 0 = spawn_type p"
    "get (OnSpawn_text p) ''titleIcon'' 0 = title_icon p"
    by (simp_all add: OnSpawn_text_def add_def get_simps col pos)
  ultimately show ?thesis
    by (simp add: OnSpawn_read_def OnSpawn_write_def get_string_def parse_raw [OF ok] OnSpawn_parse_def
        pos col)
qed

theorem OnSpawn_roundtrip_witness:
  "online_id (snd (OnSpawn_read (OnSpawn_write
     (new_OnSpawn\<lparr>spawn := ''avatar'', online_id := 5\<rparr>)) new_OnSpawn)) = 0"
  by (subst OnSpawn_roundtrip) (simp_all add: new_OnSpawn_def text_fields_ok_def field_ok_def)

text \<open>Reading back an \<open>OnRemove\<close> call recovers both identifiers.\<close>

theorem OnRemove_roundtrip:
  "OnRemove_read (OnRemove_write p) q =
    (True, q\<lparr>variant := call_args (OnRemove_write p), call_packet := call_packet p,
       remove_net_id := remove_net_id p, player_id := player_id p\<rparr>)"
proof -
  have p1: "parse (k @ CHR ''|'' # int32_chars w) bar = [(k, [int32_chars w])]"
    if "k \<noteq> []" "field_ok (CHR ''|'') k" for k w
    using parse_raw [of "[(k, [int32_chars w])]"] that by (simp add: text_ok_def)
  have "parse (''netID|'' @ int32_chars w) bar = [(''netID'', [int32_chars w])]"
    "parse (''pId|'' @ int32_chars w) bar = [(''pId'', [int32_chars w])]" for w
    using p1 [of "''netID''" w] p1 [of "''pId''" w] by (simp_all add: field_ok_def)
  moreover have "get_int32 [(k, [int32_chars w])] k 0 = w" for k w
    by (rule get_int32_chars) (simp add: get_simps)
  ultimately show ?thesis
    by (simp add: OnRemove_read_def OnRemove_write_def get_string_def contains_def Let_def)
qed

subsection \<open>Text messages\<close>

text \<open>The world name and the invitation flag of a join request survive.\<close>

theorem JoinRequest_roundtrip:
  "JoinRequest_read (JoinRequest_write p) q =
    (True, q\<lparr>text_parse := text_data (JoinRequest_write p),
       join_world_name := join_world_name p, invited_world := invited_world p\<rparr>)"
  by (simp add: JoinRequest_read_def JoinRequest_write_def Let_def add_def get_simps)

text \<open>A log message and a world validation read their text at index 1 but write it at index
  0: what they have written themselves they read as empty.\<close>

theorem Log_ValidateWorld_lose_text:
  "Log_read (Log_write l) l' = (True, l'\<lparr>text_parse := text_data (Log_write l), msg := []\<rparr>) \<and>
   ValidateWorld_read (ValidateWorld_write v) v' =
     (True, v'\<lparr>text_parse := text_data (ValidateWorld_write v), validate_world_name := []\<rparr>)"
  by (simp_all add: Log_read_def Log_write_def ValidateWorld_read_def ValidateWorld_write_def
      add_def get_simps)

text \<open>The chat input a packet writes goes out on one line, so the text is not found again when
  the message is parsed.\<close>

theorem Input_text_lost:
  assumes "text_fields_ok [input_text p]"
  shows "get (parse (raw (text_data (Input_write p))) bar) ''text'' 0 = []"
proof -
  have eq: "raw (text_data (Input_write p)) = raw [(''action'', [''input'', ''text'', input_text p])]"
    by (simp add: Input_write_def add_def)
  have "text_ok (CHR ''|'') [(''action'', [''input'', ''text'', input_text p])]"
    using assms by (simp add: text_ok_def text_fields_ok_def) (simp add: field_ok_def)
  from parse_raw [OF this] show ?thesis by (simp only: eq) (simp add: get_simps)
qed

theorem Input_text_lost_witness:
  "get (parse (raw (text_data (Input_write (new_Input\<lparr>input_text := ''hello''\<rparr>)))) bar) ''text'' 0 = []"
  by (rule Input_text_lost) (simp add: new_Input_def text_fields_ok_def field_ok_def)

text \<open>With the anchors of the C++ standard a join request written by the proxy is not recognised
  as one: its text goes on behind the first line.\<close>

theorem join_request_unrecognised:
  "derive_packet_id False (JoinRequest_write p) = Some Id_Unknown"
  by (simp add: JoinRequest_write_def Let_def add_def derive_text_single_line)

subsection \<open>Header packets\<close>

text \<open>A tile change and an object change are written with packet type 0, and are not recognised
  when they come back.\<close>

theorem change_packets_unrecognised:
  assumes "tile_item_id t \<noteq> 0" and "ico_item_id i \<noteq> 0"
  shows "derive_packet_id multiline (TileChangeRequest_write t) = Some Id_Unknown \<and>
    derive_packet_id multiline (ItemChangeObject_write i) = Some Id_Unknown"
  using assms
  by (simp add: TileChangeRequest_write_def ItemChangeObject_write_def zero_packet_def
      derive_game_id_def GAME_PACKET_MAP_def Let_def)

theorem change_packets_unrecognised_witness:
  "derive_packet_id True (TileChangeRequest_write (new_TileChangeRequest\<lparr>tile_item_id := 18\<rparr>)) =
     Some Id_Unknown"
  using change_packets_unrecognised [of "new_TileChangeRequest\<lparr>tile_item_id := 18\<rparr>"
      "new_ItemChangeObject\<lparr>ico_item_id := 2\<rparr>" True]
  by (simp add: new_TileChangeRequest_def new_ItemChangeObject_def)

text \<open>Amount and item of an object change share one word: they are always read equal, and
  whatever amount is written, the item is in its place.\<close>

theorem ItemChangeObject_amount:
  "ico_amount (snd (ItemChangeObject_read (GamePayload h e r) p)) =
     ico_item_id (snd (ItemChangeObject_read (GamePayload h e r) p)) \<and>
   ItemChangeObject_write (q\<lparr>ico_amount := a\<rparr>) = ItemChangeObject_write q"
  by (simp add: ItemChangeObject_read_def ItemChangeObject_write_def Let_def)

subsection \<open>The item database packet\<close>

lemma read_item_database_zeros:
  assumes "SendItemDatabaseData_read lib payload new_SendItemDatabaseData = Some (True, q)"
  shows "set (items_dat q) \<subseteq> {0}" and "length (items_dat q) < 2 ^ 32"
proof -
  let ?p = new_SendItemDatabaseData
  obtain h e r where p: "game_payload_if payload = Some (h, e, r)" and n: "int_data h \<noteq> 0"
    and d: "decompress_zlib lib e (items_dat ?p) (int_data h) \<bind>
      (\<lambda>(ok, d). Some (ok, ?p\<lparr>items_dat := d\<rparr>)) = Some (True, q)"
    using assms by (auto simp: SendItemDatabaseData_read_def split: option.splits if_splits)
  from d obtain dat where dec: "decompress_zlib lib e (items_dat ?p) (int_data h) = Some (True, dat)"
    and q: "q = ?p\<lparr>items_dat := dat\<rparr>"
    unfolding bind_eq_Some_conv by auto
  have "dat = resize [] (unat (int_data h))"
    using decompress_sized_true [OF dec] n by (simp add: new_SendItemDatabaseData_def)
  moreover have "unat (int_data h) < 2 ^ 32"
    using unsigned_less [of "int_data h"] by simp
  ultimately show "set (items_dat q) \<subseteq> {0}" "length (items_dat q) < 2 ^ 32"
    by (auto simp: q resize_def)
qed

text \<open>The item database packet never takes over an item file: when it reads at all, what it
  holds is only zero bytes, since the decompressed data is put behind the room made for it and
  then fails the size check.\<close>

theorem SendItemDatabaseData_read_zeros:
  assumes "SendItemDatabaseData_read lib payload new_SendItemDatabaseData = Some (True, q)"
  shows "set (items_dat q) \<subseteq> {0}"
  by (rule read_item_database_zeros(1) [OF assms])

text \<open>A library whose streams are always empty and complete, to show that the read can succeed.\<close>

theorem SendItemDatabaseData_read_zeros_witness:
  "set (items_dat (snd (the (SendItemDatabaseData_read
     (stored_zlib\<lparr>inflate := \<lambda>z n. (Z_STREAM_END, [], [])\<rparr>)
     (GamePayload (zero_packet\<lparr>int_data := 1\<rparr>) [1] []) new_SendItemDatabaseData)))) \<subseteq> {0}"
proof -
  let ?lib = "stored_zlib\<lparr>inflate := \<lambda>z n. (Z_STREAM_END, [], [])\<rparr>"
  have r: "SendItemDatabaseData_read ?lib (GamePayload (zero_packet\<lparr>int_data := 1\<rparr>) [1] [])
      new_SendItemDatabaseData = Some (True, new_SendItemDatabaseData\<lparr>items_dat := [0]\<rparr>)"
    by (simp add: SendItemDatabaseData_read_def decompress_zlib_def stored_zlib_def
        zero_packet_def inflate_loop.simps resize_def new_SendItemDatabaseData_def)
  show ?thesis
    using SendItemDatabaseData_read_zeros [OF r] by (simp add: r)
qed

end
