(* ===== verification/CoreFacts.thy ===== *)
theory CoreFacts
  imports Core PacketFacts
begin

text \<open>
  What the proxy does with the messages it receives: which are forwarded, which are not, and what
  the redirect to the proxy looks like.
\<close>

subsection \<open>The listener of a packet\<close>

text \<open>Every packet event has at most one built-in listener.\<close>

definition packet_handler :: "'z Env \<Rightarrow> orders \<Rightarrow> CommandRegistry \<Rightarrow> PacketId \<Rightarrow> handler option" where
  "packet_handler env ord reg i =
     map_of
       [(Id_OnSendToServer, conn_on_send_to_server env), (Id_Quit, conn_quit),
        (Id_Disconnect, conn_disconnect), (Id_SendItemDatabaseData, conn_send_item_database env),
        (Id_OnSuperMain, conn_on_super_main), (Id_JoinRequest, world_join_request),
        (Id_OnSpawn, world_on_spawn), (Id_OnRemove, world_on_remove),
        (Id_SendMapData, world_send_map_data env), (Id_SendTileUpdateData, world_send_tile_update env),
        (Id_TileChangeRequest, world_tile_change), (Id_ItemChangeObject, world_item_change),
        (Id_Input, on_text_packet env ord reg)] i"

lemmas core_handler_simps =
  core_handlers_def web_listeners_def connection_listeners_def forwarding_listeners_def
  world_listeners_def registrations_def packet_event_type_def packet_event_offset_def

lemma packet_registrations:
  assumes "i \<in> set registered_events"
  shows "map snd (registrations (packet_event_type i) (core_handlers env ord reg)) =
    (case packet_handler env ord reg i of None \<Rightarrow> [] | Some h \<Rightarrow> [h])"
  using assms unfolding registered_events_def
  by (simp only: set_simps insert_iff empty_iff, elim disjE)
    (simp_all add: core_handler_simps packet_handler_def)

lemma short_sort_key: "length xs \<le> 1 \<Longrightarrow> sort_key f xs = xs"
  by (cases xs; cases "tl xs") auto

lemma raw_registrations:
  "map snd (registrations Type_ClientBoundPacket (core_handlers env ord reg)) = [forward_client_bound env]"
  "map snd (registrations Type_ServerBoundPacket (core_handlers env ord reg)) = [forward_server_bound env]"
  by (simp_all add: core_handler_simps)

lemma dispatch_single:
  assumes "started B env ord reg d" and "map snd (registrations t (core_handlers env ord reg)) = [h]"
  shows "dispatch B d t e (Some px) False =
    (case h e px of None \<Rightarrow> (None, True) | Some (px, c) \<Rightarrow> (Some px, c))"
proof -
  have "length (registrations t (core_handlers env ord reg)) \<le> 1"
    using arg_cong [OF assms(2), of length] by simp
  then show ?thesis
    using assms(2) by (simp add: dispatch_started [OF assms(1)] short_sort_key invoke_listen_1
        del: invoke.simps)
qed

lemma emit_started:
  assumes "started B env ord reg d"
  shows "emit B registered_events d dir p (Some px) =
    (if packet_id p \<notin> set registered_events then (Some px, None)
     else case packet_handler env ord reg (packet_id p) of
       None \<Rightarrow> (Some px, Some False)
     | Some h \<Rightarrow> (case h (TypedPacketEvent dir p) px of
         None \<Rightarrow> (None, Some True) | Some (px, c) \<Rightarrow> (Some px, Some c)))"
proof (cases "packet_id p \<in> set registered_events")
  case False
  then show ?thesis by (simp add: emit_def has_event_def)
next
  case True
  note r = packet_registrations [OF True, of env ord reg]
  show ?thesis
  proof (cases "packet_handler env ord reg (packet_id p)")
    case None
    with r have "registrations (packet_event_type (packet_id p)) (core_handlers env ord reg) = []" by simp
    then show ?thesis
      using True None by (simp add: emit_def has_event_def dispatch_started [OF assms])
  next
    case (Some h)
    with r have "map snd (registrations (packet_event_type (packet_id p)) (core_handlers env ord reg)) = [h]"
      by simp
    then show ?thesis
      using True Some
      by (auto simp: emit_def has_event_def dispatch_single [OF assms] split: option.split prod.split)
  qed
qed

text \<open>Delivery in terms of the one listener and the forwarding.\<close>

lemma deliver_started:
  assumes "started B env ord reg d"
    and "raw_type = Type_ClientBoundPacket \<and> fwd = server_write env \<or>
      raw_type = Type_ServerBoundPacket \<and> fwd = client_write env"
  shows "deliver B d env dir raw_type data px = do {
    decoded \<leftarrow> decode (zlib_lib env) (regex_multiline env) (packet_registry env) (log_config env) data;
    case decoded of
      None \<Rightarrow> Some (snd (fwd data px))
    | Some packet \<Rightarrow> do {
        p \<leftarrow> packet;
        (px, canceled) \<leftarrow>
          (if packet_id p \<notin> set registered_events then go px
           else case packet_handler env ord reg (packet_id p) of
             None \<Rightarrow> go px
           | Some h \<Rightarrow> h (TypedPacketEvent dir p) px);
        Some (if canceled then px else snd (fwd data px))
      }
  }"
proof -
  have fwd: "fst (dispatch B d raw_type (RawPacketEvent data) (Some px) False) = Some (snd (fwd data px))" for px
    using assms(2) dispatch_single [OF assms(1) raw_registrations(1)]
      dispatch_single [OF assms(1) raw_registrations(2)]
    by (auto simp: forward_client_bound_def forward_server_bound_def raw_packet_def go_def)
  let ?dec = "decode (zlib_lib env) (regex_multiline env) (packet_registry env) (log_config env) data"
  consider "?dec = None" | "?dec = Some None" | "?dec = Some (Some None)" | p where "?dec = Some (Some (Some p))"
    by (metis not_None_eq)
  then show ?thesis
  proof cases
    case (4 p)
    then show ?thesis
      unfolding deliver_def
      by (simp add: fwd emit_started [OF assms(1)] go_def split: option.split prod.split)
  qed (simp_all add: deliver_def fwd)
qed

subsection \<open>What handlers leave alone\<close>

text \<open>A silent handler asks nothing of the network and does not cancel.\<close>

definition silent :: "handler \<Rightarrow> bool" where
  "silent h \<longleftrightarrow> (\<forall>e px px' c. h e px = Some (px', c) \<longrightarrow>
     trace px' = trace px \<and> client_peer px' = client_peer px \<and> server_peer px' = server_peer px \<and> \<not> c)"

lemma silentD:
  "silent h \<Longrightarrow> h e px = Some (px', c) \<Longrightarrow>
     trace px' = trace px \<and> client_peer px' = client_peer px \<and> server_peer px' = server_peer px \<and> \<not> c"
  unfolding silent_def by blast

lemmas handler_defs =
  world_join_request_def world_on_spawn_def world_on_remove_def world_send_map_data_def
  world_send_tile_update_def world_tile_change_def world_item_change_def conn_send_item_database_def
  conn_on_super_main_def

lemma silent_handlers:
  "silent world_join_request" "silent world_on_spawn" "silent world_on_remove"
  "silent (world_send_map_data env)" "silent (world_send_tile_update env)" "silent world_tile_change"
  "silent world_item_change" "silent (conn_send_item_database env)" "silent conn_on_super_main"
  unfolding silent_def handler_defs go_def on_world_def
  by (auto split: option.splits prod.splits IPacket.splits Direction.splits if_splits
      simp: bind_eq_Some_conv Let_def)

lemma packet_handler_silent:
  assumes "packet_handler env ord reg i = Some h"
    and "i \<notin> {Id_OnSendToServer, Id_Quit, Id_Disconnect, Id_Input}"
  shows "silent h"
  using assms silent_handlers by (auto simp: packet_handler_def split: if_splits)

lemma server_write_trace:
  assumes "server_peer px = Some q" and "enet_connected env (trace px) ServerHost q"
  shows "trace (snd (server_write env d px)) = trace px @ [Send ServerHost q d]"
  using assms by (simp add: server_write_def server_connected_def Let_def act_def)

lemma client_write_trace:
  assumes "client_peer px = Some q" and "enet_connected env (trace px) ClientHost q"
  shows "trace (snd (client_write env d px)) = trace px @ [Send ClientHost q d]"
  using assms by (simp add: client_write_def client_connected_def Let_def act_def)

lemma act_simps [simp]:
  "trace (act a px) = trace px @ [a]" "client_peer (act a px) = client_peer px"
  "server_peer (act a px) = server_peer px"
  by (simp_all add: act_def)

text \<open>What the packet of a message is, when it has one.\<close>

definition decoded :: "'z Env \<Rightarrow> bytes \<Rightarrow> IPacket option option option" where
  "decoded env data = decode (zlib_lib env) (regex_multiline env) (packet_registry env) (log_config env) data"

lemma deliver_cases:
  assumes "started B env ord reg d"
    and "raw_type = Type_ClientBoundPacket \<and> fwd = server_write env \<or>
      raw_type = Type_ServerBoundPacket \<and> fwd = client_write env"
    and "deliver B d env dir raw_type data px = Some px'"
  obtains (passed) "px' = snd (fwd data px)"
  | (handled) p h px1 c where "decoded env data = Some (Some (Some p))"
      and "packet_handler env ord reg (packet_id p) = Some h"
      and "h (TypedPacketEvent dir p) px = Some (px1, c)"
      and "px' = (if c then px1 else snd (fwd data px1))"
proof -
  note dl = assms(3) [unfolded deliver_started [OF assms(1,2)], folded decoded_def]
  then obtain r where r: "decoded env data = Some r" by (cases "decoded env data") auto
  show thesis
  proof (cases r)
    case None
    then show ?thesis using dl r passed by auto
  next
    case (Some q)
    then obtain p where p: "decoded env data = Some (Some (Some p))"
      using dl r by (cases q) auto
    show ?thesis
    proof (cases "packet_id p \<in> set registered_events \<and> packet_handler env ord reg (packet_id p) \<noteq> None")
      case False
      then show ?thesis using dl p passed by (auto simp: go_def split: if_splits)
    next
      case True
      then obtain h where h: "packet_handler env ord reg (packet_id p) = Some h" by auto
      obtain px1 c where "h (TypedPacketEvent dir p) px = Some (px1, c)"
        and "px' = (if c then px1 else snd (fwd data px1))"
        using dl p h True by (auto simp: bind_eq_Some_conv)
      from handled [OF p h this] show ?thesis .
    qed
  qed
qed

lemma deliver_forwards:
  assumes "started B env ord reg d"
    and "raw_type = Type_ClientBoundPacket \<and> fwd = server_write env \<or>
      raw_type = Type_ServerBoundPacket \<and> fwd = client_write env"
    and "deliver B d env dir raw_type data px = Some px'"
    and "\<And>p h px1 c. decoded env data = Some (Some (Some p)) \<Longrightarrow>
      packet_handler env ord reg (packet_id p) = Some h \<Longrightarrow> h (TypedPacketEvent dir p) px = Some (px1, c) \<Longrightarrow>
      trace px1 = trace px \<and> client_peer px1 = client_peer px \<and> server_peer px1 = server_peer px \<and> \<not> c"
  shows "\<exists>px1. trace px1 = trace px \<and> client_peer px1 = client_peer px \<and> server_peer px1 = server_peer px \<and>
    px' = snd (fwd data px1)"
  using assms(1-3)
proof (cases rule: deliver_cases)
  case (handled p h px1 c)
  from assms(4) [OF handled(1-3)] handled(4) show ?thesis by auto
qed auto

text \<open>The two connection handlers that disconnect only look at what the game sends.\<close>

lemma quiet_packet:
  assumes "packet_handler env ord reg (packet_id p) = Some h" and "h (TypedPacketEvent dir p) px = Some (px', c)"
    and "packet_id p \<notin> {Id_OnSendToServer, Id_Input}"
    and "dir = ClientBound \<or> packet_id p \<notin> {Id_Quit, Id_Disconnect}"
  shows "trace px' = trace px \<and> client_peer px' = client_peer px \<and> server_peer px' = server_peer px \<and> \<not> c"
proof (cases "packet_id p \<in> {Id_Quit, Id_Disconnect}")
  case True
  then have "h = conn_quit \<or> h = conn_disconnect" using assms(1) by (auto simp: packet_handler_def)
  then show ?thesis
    using assms(2,4) True by (auto simp: conn_quit_def conn_disconnect_def typed_packet_def go_def split: if_splits)
next
  case False
  then have "silent h" using packet_handler_silent [OF assms(1)] assms(3) by blast
  from silentD [OF this assms(2)] show ?thesis .
qed

subsection \<open>A concrete proxy\<close>

definition demo_orders :: orders where
  "demo_orders = \<lparr>command_order = (\<lambda>cs. map (\<lambda>c. (command_name c, c)) [HelpCommand, ProxyCommand]),
     player_order = (\<lambda>_. [])\<rparr>"

definition demo_env :: "bytes Env" where
  "demo_env = \<lparr>zlib_lib = stored_zlib, regex_multiline = True, packet_registry = all_registered,
     log_config = quiet, server_port_config = 17091, enet_connect = (\<lambda>_ _ _. Some 1),
     enet_connected = (\<lambda>_ _ _. True), enet_send = (\<lambda>_ _ _ _. True), uninitialised = (\<lambda>_ _. 0),
     cache_writable = True, https_bound = True, clock = int \<circ> length\<rparr>"

definition demo_dispatcher ::
  "(event_type \<Rightarrow> (nat \<times> Proxy option listener) list, nat) PriorityEventDispatcher" where
  "demo_dispatcher =
     core_dispatcher list_dispatcher demo_env demo_orders (register_default_commands new_registry) no_listeners"

lemma demo_started:
  "started list_dispatcher demo_env demo_orders (register_default_commands new_registry) demo_dispatcher"
  unfolding started_def demo_dispatcher_def
  by (rule exI [of _ no_listeners]) (simp add: list_dispatcher_ok no_listeners_inv, simp add: no_listeners_def)

text \<open>The proxy between a game and the Growtopia server.\<close>

definition demo_proxy :: Proxy where
  "demo_proxy = (new_Proxy 0 None 1)\<lparr>client_peer := Some 7, server_peer := Some 8\<rparr>"

lemma demo_simps [simp]:
  "zlib_lib demo_env = stored_zlib" "regex_multiline demo_env = True" "packet_registry demo_env = all_registered"
  "log_config demo_env = quiet" "server_port_config demo_env = 17091" "enet_connect demo_env = (\<lambda>_ _ _. Some 1)"
  "enet_connected demo_env = (\<lambda>_ _ _. True)" "https_bound demo_env = True"
  "client_peer demo_proxy = Some 7" "server_peer demo_proxy = Some 8" "trace demo_proxy = []"
  "pending_port demo_proxy = 0" "web_port demo_proxy = no_port" "scheduler demo_proxy = new_scheduler 1"
  by (simp_all add: demo_env_def demo_proxy_def new_Proxy_def)

text \<open>A message of an unknown type.\<close>

lemma decoded_unknown: "decoded demo_env [9, 0, 0, 0] = Some None"
proof -
  have d: "[9, 0, 0, 0] = le_bytes (9 :: u32) @ []" by (simp add: le_bytes_simps)
  show ?thesis
    using read_type(1) [of "9 :: u32" "[]" 0, folded d] by (simp add: decoded_def decode_def)
qed

text \<open>The game says goodbye, or something in the chat.\<close>

definition quit_message :: bytes where
  "quit_message = serialize_payload (TextPayload NET_MESSAGE_GAME_MESSAGE [(''action'', [''quit''])] []) @ [0]"

definition chat_message :: "string \<Rightarrow> bytes" where
  "chat_message s = serialize_payload
     (TextPayload NET_MESSAGE_GENERIC_TEXT [(''action'', [''input'']), (''text'', [s])] []) @ [0]"

lemma decoded_quit: "decoded demo_env quit_message =
    Some (Some (Some (P_Quit \<lparr>raw_data = [], text_parse = [(''action'', [''quit''])]\<rparr>)))"
  unfolding decoded_def quit_message_def
  by (subst decode_text_sent [OF _ _ _ _ refl])
    (simp_all add: text_ok_def field_ok_def create_def derive_text_id_def text_regex_patterns_def
      regex_search_def match_at_def create_id_def all_registered_eq registered_classes_def
      Quit_read_def new_text_def)

lemma decoded_chat: "decoded demo_env (chat_message ''/exit'') =
    Some (Some (Some (P_Input \<lparr>raw_data = [], text_parse = [(''action'', [''input'']), (''text'', [''/exit''])],
      input_text = ''/exit''\<rparr>)))"
  unfolding decoded_def chat_message_def
  by (subst decode_text_sent [OF _ _ _ _ refl])
    (simp_all add: text_ok_def field_ok_def create_def derive_text_id_def text_regex_patterns_def
      regex_search_def match_at_def create_id_def all_registered_eq registered_classes_def
      Input_read_def new_Input_def get_simps line_terminator_def)

subsection \<open>Properties\<close>

text \<open>C1: every message of the Growtopia server that is not a redirect (or, against its direction, a chat
  input) is passed on to the game byte for byte, once, and nothing else is sent: neither parsing it
  nor keeping the world, the players or the items up to date changes what the game receives.\<close>

theorem client_bound_forwarded:
  assumes "started B env ord reg d"
    and "process B d env (Received ClientHost p data) px = Some px'"
    and "client_peer px = Some p" and "4 \<le> length data"
    and "\<And>pkt. decoded env data = Some (Some (Some pkt)) \<Longrightarrow> packet_id pkt \<notin> {Id_OnSendToServer, Id_Input}"
    and "server_peer px = Some q"
    and "enet_connected env (trace px @ [Received ClientHost p data]) ServerHost q"
  shows "trace px' = trace px @ [Received ClientHost p data, Send ServerHost q data]"
proof -
  let ?px = "act (Received ClientHost p data) px"
  have dl: "deliver B d env ClientBound Type_ClientBoundPacket data ?px = Some px'"
    using assms(2-4) by (simp add: process_def client_on_receive_def Let_def)
  have "\<exists>px1. trace px1 = trace ?px \<and> client_peer px1 = client_peer ?px \<and> server_peer px1 = server_peer ?px \<and>
      px' = snd (server_write env data px1)"
    by (rule deliver_forwards [OF assms(1) _ dl]) (use quiet_packet assms(5) in blast)+
  then show ?thesis
    using server_write_trace assms(6,7) by fastforce
qed

theorem client_bound_forwarded_witness:
  "trace (the (process list_dispatcher demo_dispatcher demo_env (Received ClientHost 7 [9, 0, 0, 0]) demo_proxy)) =
    [Received ClientHost 7 [9, 0, 0, 0], Send ServerHost 8 [9, 0, 0, 0]]"
proof -
  let ?msg = "Received ClientHost 7 [9, 0, 0, 0]"
  obtain px where "process list_dispatcher demo_dispatcher demo_env ?msg demo_proxy = Some px"
    using decoded_unknown
    by (simp add: process_def client_on_receive_def deliver_started [OF demo_started disjI1, OF conjI [OF refl refl]]
        decoded_def)
  with client_bound_forwarded [OF demo_started this, of 8] show ?thesis by (simp add: decoded_unknown)
qed

text \<open>C2: every message of the game of an acceptable size that is neither a redirect nor a chat input nor
  a goodbye is passed on to the Growtopia server byte for byte, once, and nothing else is sent.\<close>

theorem server_bound_forwarded:
  assumes "started B env ord reg d"
    and "process B d env (Received ServerHost p data) px = Some px'"
    and "server_peer px = Some p" and "4 \<le> length data" and "length data \<le> 16384"
    and "\<And>pkt. decoded env data = Some (Some (Some pkt)) \<Longrightarrow>
      packet_id pkt \<notin> {Id_OnSendToServer, Id_Input, Id_Quit, Id_Disconnect}"
    and "client_peer px = Some q"
    and "enet_connected env (trace px @ [Received ServerHost p data]) ClientHost q"
  shows "trace px' = trace px @ [Received ServerHost p data, Send ClientHost q data]"
proof -
  let ?px = "act (Received ServerHost p data) px"
  have dl: "deliver B d env ServerBound Type_ServerBoundPacket data ?px = Some px'"
    using assms(2-5) by (simp add: process_def server_on_receive_def Let_def)
  have "\<exists>px1. trace px1 = trace ?px \<and> client_peer px1 = client_peer ?px \<and> server_peer px1 = server_peer ?px \<and>
      px' = snd (client_write env data px1)"
    by (rule deliver_forwards [OF assms(1) _ dl]) (use quiet_packet assms(6) in blast)+
  then show ?thesis
    using client_write_trace assms(7,8) by fastforce
qed

theorem server_bound_forwarded_witness:
  "trace (the (process list_dispatcher demo_dispatcher demo_env (Received ServerHost 8 [9, 0, 0, 0]) demo_proxy)) =
    [Received ServerHost 8 [9, 0, 0, 0], Send ClientHost 7 [9, 0, 0, 0]]"
proof -
  let ?msg = "Received ServerHost 8 [9, 0, 0, 0]"
  obtain px where "process list_dispatcher demo_dispatcher demo_env ?msg demo_proxy = Some px"
    using decoded_unknown
    by (simp add: process_def server_on_receive_def deliver_started [OF demo_started disjI2, OF conjI [OF refl refl]]
        decoded_def)
  with server_bound_forwarded [OF demo_started this, of 7] show ?thesis by (simp add: decoded_unknown)
qed

text \<open>C12: a message that is too short, or from the game too long, is not passed on: the proxy asks to
  close the connection it came from and that is all. A message of a peer that is not the
  connection is ignored.\<close>

theorem malformed_not_forwarded:
  "(client_peer px = Some p \<longrightarrow> length data < 4 \<longrightarrow>
      process B d env (Received ClientHost p data) px =
      Some (act (Disconnects ClientHost p) (act (Received ClientHost p data) px))) \<and>
   (server_peer px = Some p \<longrightarrow> length data < 4 \<or> 16384 < length data \<longrightarrow>
      process B d env (Received ServerHost p data) px =
      Some (act (Disconnects ServerHost p) (act (Received ServerHost p data) px))) \<and>
   (client_peer px \<noteq> Some p \<longrightarrow>
      process B d env (Received ClientHost p data) px = Some (act (Received ClientHost p data) px)) \<and>
   (server_peer px \<noteq> Some p \<longrightarrow>
      process B d env (Received ServerHost p data) px = Some (act (Received ServerHost p data) px))"
  by (auto simp: process_def client_on_receive_def server_on_receive_def client_disconnect_def
      server_disconnect_def Let_def)

theorem malformed_not_forwarded_witness:
  "process list_dispatcher demo_dispatcher demo_env (Received ClientHost 7 [4, 0, 0]) demo_proxy =
    Some (act (Disconnects ClientHost 7) (act (Received ClientHost 7 [4, 0, 0]) demo_proxy))"
  using malformed_not_forwarded [of demo_proxy 7 "[4, 0, 0]" list_dispatcher demo_dispatcher demo_env] by simp

subsection \<open>The redirect\<close>

lemma send_to_server_length:
  assumes "length (server_address p) < 2 ^ 30" and "length (server_door_id p) < 2 ^ 30"
    and "length (server_uuid_token p) < 2 ^ 30" and "length (server_username p) < 2 ^ 30"
  shows "length (serialize (call_args (OnSendToServer_write p))) < 2 ^ 62"
    and "list_all value_ok (call_args (OnSendToServer_write p))"
  using assms by (simp_all add: serialize_alt OnSendToServer_write_def add_def enc_string_def enumerate_simps)

lemma OnSendToServer_read_header:
  assumes "OnSendToServer_read (VariantPayload h vs x) q = (ok, r)"
  shows "OnSendToServer_read (VariantPayload h' vs x') q = (ok, r\<lparr>call_packet := h'\<rparr>)"
  using assms by (auto simp: OnSendToServer_read_def Let_def split: if_splits)

text \<open>A redirect that is sent is decoded with the same fields.\<close>

definition redirect_ok :: "OnSendToServer \<Rightarrow> bool" where
  "redirect_ok p \<longleftrightarrow> text_fields_ok [server_address p, server_door_id p, server_uuid_token p] \<and>
     length (server_address p) < 2 ^ 30 \<and> length (server_door_id p) < 2 ^ 30 \<and>
     length (server_uuid_token p) < 2 ^ 30 \<and> length (server_username p) < 2 ^ 30"

definition same_redirect :: "OnSendToServer \<Rightarrow> OnSendToServer \<Rightarrow> bool" where
  "same_redirect r p \<longleftrightarrow> server_address r = server_address p \<and> server_port r = server_port p \<and>
     server_token r = server_token p \<and> server_user r = server_user p \<and>
     server_door_id r = server_door_id p \<and> server_uuid_token r = server_uuid_token p \<and>
     server_login_mode r = server_login_mode p \<and> server_username r = server_username p"

lemma decode_send_to_server:
  assumes "redirect_ok p" and "server_address p \<noteq> []"
  shows "\<exists>r. decode lib multiline all_registered cfg (serialize_payload (OnSendToServer_write p) @ [0]) =
      Some (Some (Some (P_OnSendToServer r))) \<and> same_redirect r p"
proof -
  obtain pkt vs where w: "OnSendToServer_write p = VariantPayload pkt vs []"
    by (simp add: OnSendToServer_write_def)
  have vs: "vs = call_args (OnSendToServer_write p)" by (simp add: w)
  have ok: "text_fields_ok [server_address p, server_door_id p, server_uuid_token p]"
    using assms(1) by (simp add: redirect_ok_def)
  let ?data = "serialize_payload (VariantPayload pkt vs []) @ [0]"
  let ?v = "VariantPayload (call_header_of pkt vs) vs ?data"
  note rd = read_written_OnSendToServer [OF assms(2) ok, of new_OnSendToServer, folded vs]
  note r = OnSendToServer_read_header [OF rd [unfolded w], of "call_header_of pkt vs" ?data]
  have ne: "vs \<noteq> []" "length vs < 256" by (simp_all add: vs OnSendToServer_write_def)
  have len: "list_all value_ok vs" "length (serialize vs) < 2 ^ 62"
    using assms(1) send_to_server_length [of p] unfolding vs by (simp_all add: redirect_ok_def)
  have id: "derive_variant_id vs = Id_OnSendToServer"
    by (simp add: vs OnSendToServer_write_def derive_variant_id_def function_name_def VARIANT_FUNCTION_MAP_def
        get_string_def)
  have "create lib multiline all_registered ?v = Some (Some (P_OnSendToServer (snd (OnSendToServer_read ?v new_OnSendToServer))))"
    by (simp add: create_def id create_id_def all_registered_eq registered_classes_def r)
  then have "decode lib multiline all_registered cfg ?data =
      Some (Some (Some (P_OnSendToServer (snd (OnSendToServer_read ?v new_OnSendToServer)))))"
    using decode_call [OF ne len refl, where lib = lib and multiline = multiline and reg = all_registered
        and cfg = cfg] by simp
  then show ?thesis unfolding r w by (simp add: same_redirect_def)
qed

lemma decoded_redirect_raw:
  assumes "decode lib multiline all_registered cfg data = Some (Some (Some (P_OnSendToServer p)))"
  shows "raw_data p = []"
proof -
  have mk: "raw_data p = []" if "create lib multiline all_registered pl = Some (Some (P_OnSendToServer p))" for pl
    using that
  proof (cases rule: create_registered)
    case (1 i)
    then have i: "i = Id_OnSendToServer" by simp
    have "all_registered Id_OnSendToServer = Some (P_OnSendToServer new_OnSendToServer)"
      by (simp add: all_registered_eq registered_classes_def)
    then show ?thesis
      using that 1(1) i
      by (auto simp: create_def create_id_def OnSendToServer_read_def Let_def new_OnSendToServer_def
          split: prod.splits option.splits if_splits)
  next
    case 2
    then show ?thesis by simp
  qed
  show ?thesis by (rule decode_creates [OF assms]) (rule mk)
qed

lemma decoded_length: "decoded env data = Some (Some p) \<Longrightarrow> 4 \<le> length data"
  unfolding decoded_def by (rule ccontr) (simp add: decode_type_short)

abbreviation redirect_bytes :: "'z Env \<Rightarrow> OnSendToServer \<Rightarrow> bytes" where
  "redirect_bytes env p \<equiv> serialize_payload (OnSendToServer_write (redirect_packet env p)) @ [0]"

lemma write_redirect:
  assumes "raw_data p = []"
  shows "write_server env (P_OnSendToServer (redirect_packet env p)) = server_write env (redirect_bytes env p)"
  using assms
  by (simp add: fun_eq_iff write_server_def helper_write_def serialize_packet_def redirect_packet_def
      OnSendToServer_write_def serialize_call le_bytes_simps)

lemma process_redirect:
  assumes "started B env ord reg d" and "packet_registry env = all_registered"
    and "decoded env data = Some (Some (Some (P_OnSendToServer pk)))" and "client_peer px = Some p"
  shows "process B d env (Received ClientHost p data) px =
    Some (snd (server_write env (redirect_bytes env pk)
      (act (Received ClientHost p data) px\<lparr>pending_address := server_address pk, pending_port := server_port pk\<rparr>)))"
proof -
  have raw: "raw_data pk = []"
    using decoded_redirect_raw assms(2,3) unfolding decoded_def by metis
  let ?px = "act (Received ClientHost p data) px"
  have "Id_OnSendToServer \<in> set registered_events" by (simp add: registered_events_def)
  then have "deliver B d env ClientBound Type_ClientBoundPacket data ?px = Some (snd (server_write env
      (redirect_bytes env pk) (?px\<lparr>pending_address := server_address pk, pending_port := server_port pk\<rparr>)))"
    using assms(3)
    by (simp add: deliver_started [OF assms(1) disjI1, OF conjI [OF refl refl]] packet_handler_def
        decoded_def conn_on_send_to_server_def typed_packet_def write_redirect [OF raw] Let_def)
  then show ?thesis
    using decoded_length [OF assms(3)] assms(4) by (simp add: process_def client_on_receive_def Let_def)
qed

subsection \<open>Connection events\<close>

lemma game_connects:
  assumes "started B env ord reg d"
  shows "process B d env (Connected ServerHost p) px =
    (let px = (act (Connected ServerHost p) px)\<lparr>server_peer := Some p\<rparr>;
         px = (if https_bound env then fst (the (web_on_client_connect env ConnectionEvent px)) else px)
     in map_option fst (conn_client_connect env ConnectionEvent px))"
  by (simp add: process_def server_on_connect_def dispatch_started [OF assms] core_handler_simps
      invoke_listen_1 invoke_listen_2 web_on_client_connect_def conn_client_connect_def go_def Let_def
      del: invoke.simps)

lemma game_connects_returns:
  "started B env ord reg d \<Longrightarrow> \<exists>px'. process B d env (Connected ServerHost p) px = Some px'"
  by (simp add: game_connects conn_client_connect_def go_def Let_def) blast

lemma game_disconnects:
  assumes "started B env ord reg d" and "server_peer px = Some p"
  shows "process B d env (Disconnected ServerHost p) px =
    (let px = (act (Disconnected ServerHost p) px)\<lparr>server_peer := None\<rparr>;
         px = (if https_bound env then px\<lparr>web_address := [], web_port := no_port\<rparr> else px)
     in Some (if client_connected env px then client_disconnect px else px))"
  using assms(2)
  by (simp add: process_def server_on_disconnect_def dispatch_started [OF assms(1)] core_handler_simps
      invoke_listen_1 invoke_listen_2 web_on_client_disconnect_def conn_client_disconnect_def go_def
      del: invoke.simps)

lemma growtopia_connects:
  assumes "started B env ord reg d"
  shows "process B d env (Connected ClientHost p) px =
    Some ((act (Connected ClientHost p) px)\<lparr>client_peer := Some p\<rparr>)"
  by (simp add: process_def client_on_connect_def dispatch_started [OF assms] core_handler_simps Let_def)

lemma growtopia_disconnects:
  assumes "started B env ord reg d" and "client_peer px = Some p"
  shows "process B d env (Disconnected ClientHost p) px =
    (let px = (act (Disconnected ClientHost p) px)\<lparr>client_peer := None\<rparr>
     in Some (if server_connected env px then server_disconnect px else px))"
  using assms(2)
  by (simp add: process_def client_on_disconnect_def dispatch_started [OF assms(1)] core_handler_simps
      invoke_listen_1 conn_server_disconnect_def go_def Let_def del: invoke.simps)

subsection \<open>Properties of the connections\<close>

lemma pending_kept [simp]:
  "pending_address (act a px) = pending_address px" "pending_port (act a px) = pending_port px"
  "web_port (act a px) = web_port px" "web_address (act a px) = web_address px"
  by (simp_all add: act_def)

text \<open>C3: a redirect is not passed on as it came: the game gets one message, the redirect to the
  proxy itself, and the target of the original one is remembered.\<close>

theorem redirect_intercepted:
  assumes "started B env ord reg d" and "packet_registry env = all_registered"
    and "decoded env data = Some (Some (Some (P_OnSendToServer pk)))"
    and "client_peer px = Some p" and "server_peer px = Some q"
    and "enet_connected env (trace px @ [Received ClientHost p data]) ServerHost q"
  shows "\<exists>px'. process B d env (Received ClientHost p data) px = Some px' \<and>
    trace px' = trace px @ [Received ClientHost p data,
      Send ServerHost q (serialize_payload (OnSendToServer_write (redirect_packet env pk)) @ [0])] \<and>
    pending_address px' = server_address pk \<and> pending_port px' = server_port pk"
  using process_redirect [OF assms(1-4)] assms(5,6)
  by (simp add: server_write_def server_connected_def Let_def)

definition demo_redirect :: OnSendToServer where
  "demo_redirect = new_OnSendToServer\<lparr>server_address := ''213.179.209.168'', server_port := 17235\<rparr>"

definition redirect_message :: bytes where
  "redirect_message = serialize_payload (OnSendToServer_write demo_redirect) @ [0]"

lemma decoded_redirect:
  obtains r where "decoded demo_env redirect_message = Some (Some (Some (P_OnSendToServer r)))"
    and "same_redirect r demo_redirect"
  using decode_send_to_server [of demo_redirect stored_zlib True quiet]
  by (auto simp: decoded_def redirect_message_def redirect_ok_def demo_redirect_def new_OnSendToServer_def
      text_fields_ok_def field_ok_def)

theorem redirect_intercepted_witness:
  "\<exists>px' d. process list_dispatcher demo_dispatcher demo_env (Received ClientHost 7 redirect_message) demo_proxy = Some px' \<and>
    trace px' = [Received ClientHost 7 redirect_message, Send ServerHost 8 d] \<and>
    pending_address px' = ''213.179.209.168'' \<and> pending_port px' = 17235"
proof -
  obtain r where r: "decoded demo_env redirect_message = Some (Some (Some (P_OnSendToServer r)))"
      "same_redirect r demo_redirect" by (rule decoded_redirect)
  with redirect_intercepted [OF demo_started _ r(1), of demo_proxy 7 8]
  show ?thesis by (auto simp: same_redirect_def demo_redirect_def)
qed

text \<open>C5: the game decodes that message as the redirect it is: the proxy's address and port, and
  everything else as the Growtopia server had sent it.\<close>

theorem redirect_reaches_game:
  assumes "redirect_ok (redirect_packet env p)"
  shows "\<exists>r. decode lib multiline all_registered cfg
      (serialize_payload (OnSendToServer_write (redirect_packet env p)) @ [0]) =
      Some (Some (Some (P_OnSendToServer r))) \<and>
    server_address r = ''127.0.0.1'' \<and> server_port r = word_of_int (server_port_config env) \<and>
    same_redirect r (p\<lparr>server_address := server_address r, server_port := server_port r\<rparr>)"
  using decode_send_to_server [OF assms, of lib multiline cfg]
  by (auto simp: same_redirect_def redirect_packet_def)

theorem redirect_reaches_game_witness:
  "\<exists>r. decode stored_zlib True all_registered quiet
      (serialize_payload (OnSendToServer_write (redirect_packet demo_env demo_redirect)) @ [0]) =
      Some (Some (Some (P_OnSendToServer r))) \<and> server_address r = ''127.0.0.1'' \<and> server_port r = 17091"
  using redirect_reaches_game [of demo_env demo_redirect stored_zlib True quiet]
  by (auto simp: redirect_ok_def redirect_packet_def demo_redirect_def new_OnSendToServer_def
      text_fields_ok_def field_ok_def)

text \<open>C4: the game that follows the redirect is taken to its target: when its connection to the
  proxy ends and it connects again, the proxy connects to the address and port the Growtopia
  server had named, once, whatever the web server had stored.\<close>

theorem redirect_followed:
  assumes "started B env ord reg d" and "packet_registry env = all_registered"
    and "decoded env data = Some (Some (Some (P_OnSendToServer pk)))" and "server_port pk \<noteq> no_port"
    and "client_peer px = Some p" and "server_peer px = Some q"
    and "process B d env (Received ClientHost p data) px = Some px1"
    and "process B d env (Disconnected ServerHost q) px1 = Some px2"
    and "process B d env (Connected ServerHost q') px2 = Some px3"
  shows "\<exists>mid. trace px3 = trace px2 @ [Connected ServerHost q', Connect (server_address pk) (server_port pk)] \<and>
    trace px2 = trace px1 @ Disconnected ServerHost q # mid \<and> set mid \<subseteq> {Disconnects ClientHost p} \<and>
    client_peer px3 = enet_connect env (trace px2 @ [Connected ServerHost q']) (server_address pk) (server_port pk) \<and>
    pending_port px3 = no_port"
proof -
  have 1: "pending_address px1 = server_address pk" "pending_port px1 = server_port pk"
    "client_peer px1 = Some p" "server_peer px1 = Some q"
    using process_redirect [OF assms(1-3,5)] assms(5,6,7)
    by (auto simp: server_write_def Let_def)
  let ?px = "(act (Disconnected ServerHost q) px1)\<lparr>server_peer := None\<rparr>"
  let ?web = "if https_bound env then ?px\<lparr>web_address := [], web_port := no_port\<rparr> else ?px"
  have 2: "px2 = (if client_connected env ?web then act (Disconnects ClientHost p) ?web else ?web)"
    using game_disconnects [OF assms(1) 1(4)] assms(8) 1(3) by (simp add: Let_def client_disconnect_def)
  have web: "https_bound env \<Longrightarrow> web_port px2 = no_port" by (simp add: 2)
  have px2: "pending_address px2 = server_address pk" "pending_port px2 = server_port pk"
    by (simp_all add: 2 1)
  have "px3 = (snd (client_connect env (server_address pk) (server_port pk)
      ((act (Connected ServerHost q') px2)\<lparr>server_peer := Some q'\<rparr>)))\<lparr>pending_address := [], pending_port := no_port\<rparr>"
    using game_connects [OF assms(1)] assms(9) assms(4) web px2
    by (auto simp: Let_def web_on_client_connect_def conn_client_connect_def go_def split: if_splits)
  then show ?thesis
    by (auto simp: client_connect_def Let_def 2)
qed

theorem redirect_followed_witness:
  "\<exists>px1 px2 px3.
    process list_dispatcher demo_dispatcher demo_env (Received ClientHost 7 redirect_message) demo_proxy = Some px1 \<and>
    process list_dispatcher demo_dispatcher demo_env (Disconnected ServerHost 8) px1 = Some px2 \<and>
    process list_dispatcher demo_dispatcher demo_env (Connected ServerHost 9) px2 = Some px3 \<and>
    last (trace px3) = Connect ''213.179.209.168'' 17235"
proof -
  obtain r where r: "decoded demo_env redirect_message = Some (Some (Some (P_OnSendToServer r)))"
    and same: "same_redirect r demo_redirect" by (rule decoded_redirect)
  have port: "server_port r = 17235" "server_address r = ''213.179.209.168''"
    using same by (simp_all add: same_redirect_def demo_redirect_def)
  obtain px1 where 1: "process list_dispatcher demo_dispatcher demo_env (Received ClientHost 7 redirect_message)
      demo_proxy = Some px1"
    using process_redirect [OF demo_started _ r, of demo_proxy 7] by auto
  then have "server_peer px1 = Some 8"
    using process_redirect [OF demo_started _ r, of demo_proxy 7] by (auto simp: server_write_def Let_def)
  then obtain px2 where 2: "process list_dispatcher demo_dispatcher demo_env (Disconnected ServerHost 8) px1 = Some px2"
    using game_disconnects [OF demo_started] by (simp add: Let_def)
  obtain px3 where 3: "process list_dispatcher demo_dispatcher demo_env (Connected ServerHost 9) px2 = Some px3"
    using game_connects_returns [OF demo_started] by blast
  have "last (trace px3) = Connect (server_address r) (server_port r)"
    using redirect_followed [OF demo_started _ r _ _ _ 1 2 3] port by fastforce
  with 1 2 3 port show ?thesis by auto
qed

lemma process_server_packet:
  assumes "started B env ord reg d" and "decoded env data = Some (Some (Some pkt))"
    and "packet_handler env ord reg (packet_id pkt) = Some h"
    and "server_peer px = Some p" and "length data \<le> 16384"
  shows "process B d env (Received ServerHost p data) px = do {
    (px, canceled) \<leftarrow> h (TypedPacketEvent ServerBound pkt) (act (Received ServerHost p data) px);
    Some (if canceled then px else snd (client_write env data px))
  }"
proof -
  have "packet_id pkt \<in> set registered_events"
    using assms(3) by (auto simp: packet_handler_def registered_events_def split: if_splits)
  then have "deliver B d env ServerBound Type_ServerBoundPacket data px' = do {
      (px, canceled) \<leftarrow> h (TypedPacketEvent ServerBound pkt) px';
      Some (if canceled then px else snd (client_write env data px))
    }" for px'
    using assms(2,3)
    by (simp add: deliver_started [OF assms(1) disjI2, OF conjI [OF refl refl]] decoded_def)
  then show ?thesis
    using decoded_length [OF assms(2)] assms(4,5) by (simp add: process_def server_on_receive_def Let_def)
qed

text \<open>C11: when the game says goodbye, both connections are closed and the message is not passed on:
  the connection to the Growtopia server is gone before the message is forwarded.\<close>

theorem goodbye_closes:
  assumes "started B env ord reg d" and "decoded env data = Some (Some (Some pkt))"
    and "packet_id pkt \<in> {Id_Quit, Id_Disconnect}"
    and "server_peer px = Some p" and "client_peer px = Some q" and "length data \<le> 16384"
  shows "\<exists>px'. process B d env (Received ServerHost p data) px = Some px' \<and> client_peer px' = None \<and>
    trace px' = trace px @ [Received ServerHost p data,
      (if packet_id pkt = Id_Quit then Disconnects ServerHost p else Disconnects_now ServerHost p),
      Disconnects_now ClientHost q]"
proof -
  have h: "packet_handler env ord reg (packet_id pkt) =
      Some (if packet_id pkt = Id_Quit then conn_quit else conn_disconnect)"
    using assms(3) by (auto simp: packet_handler_def)
  show ?thesis
    using assms(3-5)
    by (auto simp: process_server_packet [OF assms(1,2) h assms(4,6)] conn_quit_def conn_disconnect_def
        typed_packet_def go_def server_disconnect_def server_disconnect_now_def client_disconnect_now_def
        client_write_def client_connected_def)
qed

theorem goodbye_closes_witness:
  "\<exists>px'. process list_dispatcher demo_dispatcher demo_env (Received ServerHost 8 quit_message) demo_proxy = Some px' \<and>
    trace px' = [Received ServerHost 8 quit_message, Disconnects ServerHost 8, Disconnects_now ClientHost 7]"
  using goodbye_closes [OF demo_started decoded_quit, of demo_proxy 8 7]
  by (auto simp: quit_message_def serialize_text le_bytes_simps)

text \<open>C10: a chat input of the game that names a command runs it and is not passed on; any other chat
  input is passed on unchanged.\<close>

theorem chat_commands:
  assumes "started B env ord reg d" and "decoded env data = Some (Some (Some (P_Input pkt)))"
    and "server_peer px = Some p" and "length data \<le> 16384"
  shows "process B d env (Received ServerHost p data) px =
    (let px = act (Received ServerHost p data) px;
         (name, args) = parse_command reg (input_text pkt)
     in case commands reg name of
          Some c \<Rightarrow> if name \<noteq> [] then Some (snd (execute_command env ord reg c args px))
            else Some (snd (client_write env data px))
        | None \<Rightarrow> Some (snd (client_write env data px)))"
proof -
  have h: "packet_handler env ord reg (packet_id (P_Input pkt)) = Some (on_text_packet env ord reg)"
    by (simp add: packet_handler_def)
  have "\<not> is_command reg (input_text pkt) \<Longrightarrow> parse_command reg (input_text pkt) = ([], [])"
    by (auto simp: is_command_def parse_command_def)
  moreover obtain name args where "parse_command reg (input_text pkt) = (name, args)" by fastforce
  ultimately show ?thesis
    unfolding process_server_packet [OF assms(1,2) h assms(3,4)]
    by (cases "is_command reg (input_text pkt)"; cases "commands reg name")
      (auto simp: on_text_packet_def typed_packet_def execute_def get_command_def Let_def)
qed

theorem chat_commands_witness:
  "process list_dispatcher demo_dispatcher demo_env (Received ServerHost 8 (chat_message ''/exit'')) demo_proxy =
    Some (snd (execute_exit demo_env (act (Received ServerHost 8 (chat_message ''/exit'')) demo_proxy)))"
proof -
  have "parse_command (register_default_commands new_registry) ''/exit'' = (''exit'', [])"
    by (simp add: parse_command_def register_default_commands_def add_command_def new_registry_def
        words.simps is_space_def)
  moreover have "commands (register_default_commands new_registry) ''exit'' = Some ExitCommand"
    by (simp add: register_default_commands_def add_command_def new_registry_def)
  moreover have "length (chat_message ''/exit'') \<le> 16384"
    by (simp add: chat_message_def serialize_text)
  ultimately show ?thesis
    using chat_commands [OF demo_started decoded_chat, of demo_proxy 8] by (simp add: execute_command_def)
qed

end
