(* ===== verification/Reachable.thy ===== *)
theory Reachable
  imports CoreFacts
begin

text \<open>
  The running proxy as a state machine: its steps are the events of the two hosts, what happens to
  the scheduler, and the scheduled tasks that run. What holds in every state it can reach.
\<close>

subsection \<open>Steps\<close>

datatype proxy_event =
    Network net_action
  | Scheduling "(task_action, unit) label"
  | Runs task_action

inductive proxy_step ::
  "('d, 'h, Proxy option listener) base_dispatcher \<Rightarrow> ('d, 'h) PriorityEventDispatcher \<Rightarrow> 'z Env \<Rightarrow>
     Proxy \<Rightarrow> proxy_event \<Rightarrow> Proxy \<Rightarrow> bool"
  for B d env
where
  network: "started B env ord reg d \<Longrightarrow> process B d env a px = Some px' \<Longrightarrow> proxy_step B d env px (Network a) px'"
| scheduling: "sched_step (scheduler px) e s \<Longrightarrow> proxy_step B d env px (Scheduling e) (px\<lparr>scheduler := s\<rparr>)"
| task: "run_task env t px = Some px' \<Longrightarrow> proxy_step B d env px (Runs t) px'"

inductive_cases proxy_stepE: "proxy_step B d env px e px'"

text \<open>A proxy that has just been made, with any contents of the uninitialised port.\<close>

definition proxy_starts :: "Proxy \<Rightarrow> bool" where
  "proxy_starts px \<longleftrightarrow> (\<exists>port cache threads. px = new_Proxy port cache threads)"

subsection \<open>The invariant\<close>

text \<open>Every message is handed to a peer that is connected at that moment.\<close>

definition sends_ok :: "'z Env \<Rightarrow> net_action list \<Rightarrow> bool" where
  "sends_ok env tr \<longleftrightarrow> (\<forall>bef h p data aft. tr = bef @ Send h p data # aft \<longrightarrow> enet_connected env bef h p)"

definition no_send :: "net_action \<Rightarrow> bool" where
  "no_send a \<longleftrightarrow> (\<forall>h p data. a \<noteq> Send h p data)"

lemma sends_ok_Nil [simp]: "sends_ok env []"
  by (simp add: sends_ok_def)

lemma sends_ok_snoc:
  "sends_ok env (tr @ [a]) \<longleftrightarrow>
    sends_ok env tr \<and> (\<forall>h p data. a = Send h p data \<longrightarrow> enet_connected env tr h p)"
  unfolding sends_ok_def
proof (intro iffI conjI allI impI)
  fix bef h p data aft
  assume *: "\<forall>bef h p data aft. tr @ [a] = bef @ Send h p data # aft \<longrightarrow> enet_connected env bef h p"
    and "tr = bef @ Send h p data # aft"
  then have "tr @ [a] = bef @ Send h p data # (aft @ [a])" by simp
  with * show "enet_connected env bef h p" by blast
next
  fix bef h p data aft
  assume *: "(\<forall>bef h p data aft. tr = bef @ Send h p data # aft \<longrightarrow> enet_connected env bef h p) \<and>
      (\<forall>h p data. a = Send h p data \<longrightarrow> enet_connected env tr h p)"
    and eq: "tr @ [a] = bef @ Send h p data # aft"
  then show "enet_connected env bef h p"
    by (cases aft rule: rev_cases) auto
qed auto

lemma sends_ok_other [simp]: "no_send a \<Longrightarrow> sends_ok env (tr @ [a]) \<longleftrightarrow> sends_ok env tr"
  by (auto simp: sends_ok_snoc no_send_def)

lemma no_send_simps [simp]:
  "no_send (Connect x y)" "no_send (Disconnects h p)" "no_send (Disconnects_now h p)"
  "no_send (Connected h p)" "no_send (Received h p data)" "no_send (Disconnected h p)"
  by (simp_all add: no_send_def)

text \<open>The table of players is keyed by their identifiers, and the local player is in it.\<close>

definition world_inv :: "World \<Rightarrow> bool" where
  "world_inv w \<longleftrightarrow> (\<forall>i p. players w i = Some p \<longrightarrow> player_net_id p = i) \<and>
     (local_net_id w \<noteq> - 1 \<longrightarrow> players w (local_net_id w) \<noteq> None)"

definition proxy_inv :: "'z Env \<Rightarrow> Proxy \<Rightarrow> bool" where
  "proxy_inv env px \<longleftrightarrow> sends_ok env (trace px) \<and> sched_inv (scheduler px) \<and> world_inv (world px)"

lemma proxy_inv_update [simp]:
  "proxy_inv env (px\<lparr>client_peer := a\<rparr>) = proxy_inv env px"
  "proxy_inv env (px\<lparr>server_peer := a\<rparr>) = proxy_inv env px"
  "proxy_inv env (px\<lparr>pending_address := s\<rparr>) = proxy_inv env px"
  "proxy_inv env (px\<lparr>pending_port := n\<rparr>) = proxy_inv env px"
  "proxy_inv env (px\<lparr>web_address := s\<rparr>) = proxy_inv env px"
  "proxy_inv env (px\<lparr>web_port := n\<rparr>) = proxy_inv env px"
  "proxy_inv env (px\<lparr>items := db\<rparr>) = proxy_inv env px"
  "proxy_inv env (px\<lparr>items_file := f\<rparr>) = proxy_inv env px"
  by (simp_all add: proxy_inv_def)

lemma proxy_inv_act [simp]: "no_send a \<Longrightarrow> proxy_inv env (act a px) = proxy_inv env px"
  by (simp add: proxy_inv_def act_def)

lemma proxy_inv_world: "proxy_inv env px \<Longrightarrow> world_inv w \<Longrightarrow> proxy_inv env (px\<lparr>world := w\<rparr>)"
  by (simp add: proxy_inv_def)

lemma proxy_inv_scheduler: "proxy_inv env px \<Longrightarrow> sched_inv s \<Longrightarrow> proxy_inv env (px\<lparr>scheduler := s\<rparr>)"
  by (simp add: proxy_inv_def)

subsection \<open>Operations that keep it\<close>

lemma world_inv_simps:
  "world_inv new_World"
  "world_inv (clear_world w)"
  "world_inv w \<Longrightarrow> world_inv (add_player p w)"
  "world_inv w \<Longrightarrow> world_inv (remove_player i w)"
  "world_inv (w\<lparr>world_version := v\<rparr>) = world_inv w"
  "world_inv (w\<lparr>world_name := n\<rparr>) = world_inv w"
  "world_inv (w\<lparr>tile_map := tm\<rparr>) = world_inv w"
  "world_inv (w\<lparr>object_map := om\<rparr>) = world_inv w"
  by (auto simp: world_inv_def new_World_def clear_world_def add_player_def remove_player_def Let_def)

lemma inv_connection [simp]:
  assumes "proxy_inv env px"
  shows "proxy_inv env (snd (client_connect env x n px))"
    and "proxy_inv env (snd (client_write env data px))" and "proxy_inv env (snd (server_write env data px))"
    and "proxy_inv env (client_disconnect px)" and "proxy_inv env (server_disconnect px)"
    and "proxy_inv env (client_disconnect_now px)" and "proxy_inv env (server_disconnect_now px)"
  using assms
  by (auto simp: client_connect_def client_write_def server_write_def client_disconnect_def
      server_disconnect_def client_disconnect_now_def server_disconnect_now_def client_connected_def
      server_connected_def proxy_inv_def act_def sends_ok_snoc Let_def split: option.splits)

lemma inv_write [simp]:
  assumes "proxy_inv env px"
  shows "proxy_inv env (snd (write_server env p px))" and "proxy_inv env (snd (write_client env p px))"
    and "proxy_inv env (send_log env m px)"
  using assms by (auto simp: write_server_def write_client_def send_log_def split: option.split)

lemma inv_fold:
  "(\<And>x px. proxy_inv env px \<Longrightarrow> proxy_inv env (g x px)) \<Longrightarrow> proxy_inv env px \<Longrightarrow> proxy_inv env (fold g xs px)"
  by (induction xs arbitrary: px) simp_all

lemma inv_logs [simp]: "proxy_inv env px \<Longrightarrow> proxy_inv env (fold (send_log env) ms px)"
  by (rule inv_fold) simp_all

lemma inv_scheduled [simp]:
  assumes "proxy_inv env px"
  shows "proxy_inv env (px\<lparr>scheduler := snd (schedule cb opts now (scheduler px))\<rparr>)"
    and "proxy_inv env (px\<lparr>scheduler := snd (cancel_by_tag tg (scheduler px))\<rparr>)"
  using assms by (simp_all add: proxy_inv_def inv_schedule inv_cancel_by_tag)

lemma inv_warp: "proxy_inv env px \<Longrightarrow> proxy_inv env (snd (execute_warp env reg args px))"
  by (simp add: execute_warp_def Let_def schedule_delayed_def)

lemma inv_command:
  assumes "proxy_inv env px"
  shows "proxy_inv env (snd (execute_command env ord reg c args px))"
proof (cases c)
  case WarpCommand
  then show ?thesis using inv_warp [OF assms] by (simp add: execute_command_def)
next
  case HelpCommand
  then show ?thesis
    using assms
    by (auto simp: execute_command_def execute_help_def Let_def split_beta intro!: inv_fold split: option.split)
qed (use assms in \<open>auto simp: execute_command_def execute_proxy_def execute_exit_def execute_nick_def
      execute_skin_def execute_debug_def Let_def split: option.split sum.split\<close>)

subsection \<open>Handlers and events that keep it\<close>

lemma world_inv_read: "World_serialize db J ext w = Some w' \<Longrightarrow> world_inv w \<Longrightarrow> world_inv w'"
  by (auto simp: World_serialize_def bind_eq_Some_conv world_inv_simps split: option.splits)

text \<open>A handler is \<open>tame\<close> when it keeps the invariant.\<close>

definition tame :: "'z Env \<Rightarrow> handler \<Rightarrow> bool" where
  "tame env h \<longleftrightarrow> (\<forall>e px px' c. h e px = Some (px', c) \<longrightarrow> proxy_inv env px \<longrightarrow> proxy_inv env px')"

lemma tameI: "(\<And>e px px' c. h e px = Some (px', c) \<Longrightarrow> proxy_inv env px \<Longrightarrow> proxy_inv env px') \<Longrightarrow> tame env h"
  unfolding tame_def by blast

lemma tameD: "tame env h \<Longrightarrow> h e px = Some (px', c) \<Longrightarrow> proxy_inv env px \<Longrightarrow> proxy_inv env px'"
  unfolding tame_def by blast

text \<open>Every handler is a case distinction on the packet that goes on in all other cases.\<close>

lemma proxy_inv_worldD: "proxy_inv env px \<Longrightarrow> world_inv (world px)"
  by (simp add: proxy_inv_def)

lemma tame_connection_handlers:
  "tame env (conn_on_send_to_server env)" "tame env conn_quit" "tame env conn_disconnect"
  "tame env (conn_send_item_database env)" "tame env conn_on_super_main"
  by (rule tameI, auto simp: conn_on_send_to_server_def conn_quit_def conn_disconnect_def
      conn_send_item_database_def conn_on_super_main_def go_def bind_eq_Some_conv Let_def
      split: option.splits prod.splits IPacket.splits Direction.splits if_splits)+

lemma tame_world_handlers:
  "tame env world_join_request" "tame env world_on_spawn" "tame env world_on_remove"
  "tame env (world_send_map_data env)" "tame env (world_send_tile_update env)" "tame env world_item_change"
  by (rule tameI, auto simp: handler_defs go_def on_world_def bind_eq_Some_conv world_inv_simps
      intro!: proxy_inv_world dest: proxy_inv_worldD world_inv_read
      split: option.splits prod.splits IPacket.splits Direction.splits if_splits)+

lemma world_inv_tile_change: "tile_change p w = Some w' \<Longrightarrow> world_inv w \<Longrightarrow> world_inv w'"
  by (auto simp: tile_change_def bind_eq_Some_conv Let_def world_inv_simps split: if_splits)

lemma tame_tile_change: "tame env world_tile_change"
  by (rule tameI, auto simp: world_tile_change_def go_def bind_eq_Some_conv
      intro!: proxy_inv_world dest: proxy_inv_worldD world_inv_tile_change
      split: option.splits prod.splits IPacket.splits if_splits)

lemma tame_text_packet: "tame env (on_text_packet env ord reg)"
  by (rule tameI, auto simp: on_text_packet_def execute_def inv_command
      split: option.splits prod.splits IPacket.splits if_splits)

lemma inv_handlers:
  assumes "packet_handler env ord reg i = Some h" and "h e px = Some (px', c)" and "proxy_inv env px"
  shows "proxy_inv env px'"
proof -
  have "tame env h"
    using assms(1) tame_connection_handlers tame_world_handlers tame_tile_change tame_text_packet
    by (auto simp: packet_handler_def split: if_splits)
  from tameD [OF this assms(2,3)] show ?thesis .
qed

lemma inv_deliver:
  assumes "started B env ord reg d"
    and "raw_type = Type_ClientBoundPacket \<and> fwd = server_write env \<or>
      raw_type = Type_ServerBoundPacket \<and> fwd = client_write env"
    and "deliver B d env dir raw_type data px = Some px'" and "proxy_inv env px"
  shows "proxy_inv env px'"
  using assms(1-3)
proof (cases rule: deliver_cases)
  case passed
  then show ?thesis using assms(2,4) by auto
next
  case (handled p h px1 c)
  from inv_handlers [OF handled(2,3) assms(4)] handled(4) show ?thesis using assms(2) by auto
qed

lemma inv_receive:
  assumes "started B env ord reg d" and "proxy_inv env px"
  shows "client_on_receive B d env p data px = Some px' \<Longrightarrow> proxy_inv env px'"
    and "server_on_receive B d env p data px = Some px' \<Longrightarrow> proxy_inv env px'"
  using inv_deliver [OF assms(1) _ _ assms(2), of _ _ _ data px'] assms(2)
  by (fastforce simp: client_on_receive_def server_on_receive_def split: if_splits)+

lemma inv_process:
  assumes "started B env ord reg d" and "process B d env a px = Some px'" and "proxy_inv env px"
  shows "proxy_inv env px'"
proof -
  have act: "no_send a \<Longrightarrow> proxy_inv env (act a px)" using assms(3) by simp
  have web: "proxy_inv env q \<Longrightarrow> proxy_inv env (fst (the (web_on_client_connect env e q)))" for q e
    by (simp add: web_on_client_connect_def go_def Let_def)
  show ?thesis
  proof (cases a)
    case (Connected h p)
    then show ?thesis
      using assms(2) act growtopia_connects [OF assms(1), of p px] game_connects [OF assms(1), of p px]
      by (cases h) (auto simp: Let_def conn_client_connect_def go_def web split: if_splits)
  next
    case (Received h p data)
    then show ?thesis
      using assms(2) inv_receive [OF assms(1) act, of p data px']
      by (cases h) (auto simp: process_def Let_def)
  next
    case (Disconnected h p)
    then show ?thesis
      using assms(2) act growtopia_disconnects [OF assms(1), of px p] game_disconnects [OF assms(1), of px p]
      by (cases h) (auto simp: process_def client_on_disconnect_def server_on_disconnect_def Let_def
          split: if_splits)
  qed (use assms(2,3) in \<open>auto simp: process_def Let_def\<close>)
qed

lemma inv_start: "proxy_starts px \<Longrightarrow> proxy_inv env px"
  by (auto simp: proxy_starts_def new_Proxy_def proxy_inv_def inv_new world_inv_simps)

lemma inv_step: "proxy_inv env px \<Longrightarrow> proxy_step B d env px e px' \<Longrightarrow> proxy_inv env px'"
proof (erule proxy_stepE)
  fix ord reg a assume "proxy_inv env px" and "started B env ord reg d" and "process B d env a px = Some px'"
  then show "proxy_inv env px'" using inv_process by blast
next
  fix e s assume "proxy_inv env px" and "sched_step (scheduler px) e s" and "px' = px\<lparr>scheduler := s\<rparr>"
  then show "proxy_inv env px'" using sched.inv_step by (auto simp: proxy_inv_def)
next
  fix t assume "proxy_inv env px" and "run_task env t px = Some px'"
  then show "proxy_inv env px'" by (auto simp: run_task_def split: task_action.splits if_splits)
qed

interpretation proxy: state_machine proxy_starts "proxy_step B d env" "proxy_inv env" for B d env
  by unfold_locales (auto intro: inv_start inv_step)

subsection \<open>Properties\<close>

text \<open>C6: whatever happens, in whatever order, no message is handed to a peer that is not connected at
  that moment, and the scheduler and the table of players stay consistent: a player is found under
  his own identifier, and the local player is in the table as long as there is one.\<close>

theorem reachable_invariant:
  assumes "proxy_starts px0" and "state_machine.run (proxy_step B d env) px0 es px"
  shows "(\<forall>bef h p data aft. trace px = bef @ Send h p data # aft \<longrightarrow> enet_connected env bef h p) \<and>
    sched_inv (scheduler px) \<and>
    (\<forall>i p. get_player (world px) i = Some p \<longrightarrow> player_net_id p = i) \<and>
    (local_net_id (world px) \<noteq> - 1 \<longrightarrow> get_player (world px) (local_net_id (world px)) \<noteq> None)"
  using proxy.run_from_init [OF assms]
  by (simp add: proxy_inv_def sends_ok_def world_inv_def get_player_def)

theorem reachable_invariant_witness:
  "sends_ok demo_env (trace (the (process list_dispatcher demo_dispatcher demo_env (Connected ClientHost 3)
     (new_Proxy 0 None 1))))"
proof -
  let ?px = "(act (Connected ClientHost 3) (new_Proxy 0 None 1))\<lparr>client_peer := Some 3\<rparr>"
  have p: "process list_dispatcher demo_dispatcher demo_env (Connected ClientHost 3) (new_Proxy 0 None 1) = Some ?px"
    by (rule growtopia_connects [OF demo_started])
  have "state_machine.run (proxy_step list_dispatcher demo_dispatcher demo_env) (new_Proxy 0 None 1)
      [Network (Connected ClientHost 3)] ?px"
    by (rule proxy.run_cons [OF proxy_step.network [OF demo_started p] proxy.run_nil])
  with reachable_invariant [OF _ this] p show ?thesis
    by (auto simp: proxy_starts_def sends_ok_def)
qed

subsection \<open>The item database\<close>

definition items_inv :: "bytes option \<Rightarrow> Proxy \<Rightarrow> bool" where
  "items_inv cache px \<longleftrightarrow>
     (items_file px = cache \<or> (\<exists>data. items_file px = Some data \<and> set data \<subseteq> {0} \<and> length data < 2 ^ 32)) \<and>
     (db_items (items px) = [] \<or> (\<exists>data ok. cache = Some data \<and> parse_database data = Some (ok, items px)))"

text \<open>A step that leaves the database and its file alone.\<close>

definition same_items :: "Proxy \<Rightarrow> Proxy \<Rightarrow> bool" where
  "same_items px px' \<longleftrightarrow> items px' = items px \<and> items_file px' = items_file px"

lemma items_act [simp]: "items (act a px) = items px" "items_file (act a px) = items_file px"
  by (simp_all add: act_def)

lemma items_connection [simp]:
  "items (snd (client_connect env x n px)) = items px" "items_file (snd (client_connect env x n px)) = items_file px"
  "items (snd (client_write env data px)) = items px" "items_file (snd (client_write env data px)) = items_file px"
  "items (snd (server_write env data px)) = items px" "items_file (snd (server_write env data px)) = items_file px"
  "items (client_disconnect px) = items px" "items_file (client_disconnect px) = items_file px"
  "items (server_disconnect px) = items px" "items_file (server_disconnect px) = items_file px"
  "items (client_disconnect_now px) = items px" "items_file (client_disconnect_now px) = items_file px"
  "items (server_disconnect_now px) = items px" "items_file (server_disconnect_now px) = items_file px"
  by (auto simp: client_connect_def client_write_def server_write_def client_disconnect_def server_disconnect_def
      client_disconnect_now_def server_disconnect_now_def Let_def split: option.split)

lemma items_write [simp]:
  "items (snd (write_server env p px)) = items px" "items_file (snd (write_server env p px)) = items_file px"
  "items (snd (write_client env p px)) = items px" "items_file (snd (write_client env p px)) = items_file px"
  "items (send_log env m px) = items px" "items_file (send_log env m px) = items_file px"
  by (auto simp: write_server_def write_client_def send_log_def split: option.split)

lemma items_fold:
  "(\<And>x px. items (g x px) = items px \<and> items_file (g x px) = items_file px) \<Longrightarrow>
    items (fold g xs px) = items px \<and> items_file (fold g xs px) = items_file px"
  by (induction xs arbitrary: px) simp_all

lemma items_logs [simp]:
  "items (fold (send_log env) ms px) = items px" "items_file (fold (send_log env) ms px) = items_file px"
  "items (fold (\<lambda>(a, b). send_log env (f a b)) ns px) = items px"
  "items_file (fold (\<lambda>(a, b). send_log env (f a b)) ns px) = items_file px"
  using items_fold [of "send_log env" ms px] items_fold [of "\<lambda>(a, b). send_log env (f a b)" ns px]
  by (simp_all add: split_beta)

lemma items_command: "same_items px (snd (execute_command env ord reg c args px))"
  by (cases c)
    (auto simp: same_items_def execute_command_def execute_proxy_def execute_exit_def execute_nick_def
      execute_skin_def execute_debug_def execute_help_def execute_warp_def Let_def split: option.split sum.split)

text \<open>Zero bytes are a database without items.\<close>

lemma of_le_zeros: "set bs \<subseteq> {0} \<Longrightarrow> of_le bs = 0"
  by (induction bs) auto

lemma parse_zeros:
  assumes "set data \<subseteq> {0}" and "length data < 2 ^ 32" and "parse_database data = Some (ok, db)"
  shows "db_items db = []"
proof -
  let ?s = "span_stream data"
  have s: "in_bounds ?s" using assms(2) by (intro in_bounds_span) simp
  have "set (take n (drop m data)) \<subseteq> {0}" for n m
    using assms(1) by (meson in_set_dropD in_set_takeD subset_code(1))
  note z = of_le_zeros [OF this]
  show ?thesis
  proof (cases "2 \<le> length data")
    case False
    then show ?thesis
      using assms(3) s by (auto simp: parse_database_def read_word_in_bounds clear_database_def split: if_splits)
  next
    case True
    then have s2: "in_bounds (advance 2 ?s)" "remaining (advance 2 ?s) = drop 2 data"
      using s by (simp_all add: in_bounds_advance remaining_advance)
    show ?thesis
      using assms(3) s s2 True z [of 2 0, where 'a = 16] z [of 4 2, where 'a = 32]
      by (auto simp: parse_database_def read_word_in_bounds clear_database_def split: if_splits)
  qed
qed

lemma decoded_items_zeros:
  assumes "decode lib multiline all_registered cfg data = Some (Some (Some (P_SendItemDatabaseData p)))"
  shows "set (items_dat p) \<subseteq> {0} \<and> length (items_dat p) < 2 ^ 32"
proof -
  have mk: "set (items_dat p) \<subseteq> {0} \<and> length (items_dat p) < 2 ^ 32"
    if "create lib multiline all_registered pl = Some (Some (P_SendItemDatabaseData p))" for pl
    using that
  proof (cases rule: create_registered)
    case (1 i)
    then have i: "i = Id_SendItemDatabaseData" by simp
    have "all_registered Id_SendItemDatabaseData = Some (P_SendItemDatabaseData new_SendItemDatabaseData)"
      by (simp add: all_registered_eq registered_classes_def)
    then have "SendItemDatabaseData_read lib pl new_SendItemDatabaseData = Some (True, p)"
      using that 1(1) i by (auto simp: create_def create_id_def bind_eq_Some_conv split: if_splits)
    from read_item_database_zeros [OF this] show ?thesis by blast
  next
    case 2
    then show ?thesis by simp
  qed
  show ?thesis by (rule decode_creates [OF assms]) (rule mk)
qed

lemma items_same: "same_items px px' \<Longrightarrow> items_inv cache px \<Longrightarrow> items_inv cache px'"
  by (simp add: same_items_def items_inv_def)

lemma same_items_handlers:
  assumes "packet_handler env ord reg i = Some h" and "h e px = Some (px', c)"
    and "i \<noteq> Id_SendItemDatabaseData" and "i \<noteq> Id_OnSuperMain"
  shows "same_items px px'"
proof -
  have world: "same_items px px'" if "h \<in> {world_join_request, world_on_spawn, world_on_remove, world_send_map_data env,
      world_send_tile_update env, world_tile_change, world_item_change}"
    using that assms(2)
    by (elim insertE emptyE, hypsubst_thin)
      (auto simp: handler_defs go_def on_world_def same_items_def bind_eq_Some_conv
        split: option.splits prod.splits IPacket.splits Direction.splits if_splits)
  have connection: "same_items px px'" if "h \<in> {conn_on_send_to_server env, conn_quit, conn_disconnect}"
    using that assms(2)
    by (auto simp: conn_on_send_to_server_def conn_quit_def conn_disconnect_def go_def same_items_def Let_def
        split: option.splits prod.splits IPacket.splits Direction.splits)
  have chat: "same_items px px'" if "on_text_packet env ord reg e px = Some (px', c)"
    using that
    by (auto simp: on_text_packet_def execute_def same_items_def items_command [unfolded same_items_def]
        split: option.splits prod.splits IPacket.splits if_splits)
  from assms world connection chat show ?thesis
    by (auto simp: packet_handler_def split: if_splits)
qed

lemma items_super_main:
  assumes "conn_on_super_main e px = Some (px', c)" and "items_inv cache px"
  shows "items_inv cache px'"
proof -
  have "px' = px \<or> (\<exists>ok db. load_from_file (items_file px) (items px) = Some (ok, db) \<and> px' = px\<lparr>items := db\<rparr>)"
    using assms(1) by (auto simp: conn_on_super_main_def go_def bind_eq_Some_conv
        split: option.splits prod.splits IPacket.splits if_splits)
  then show ?thesis
    using assms(2) parse_zeros by (auto simp: items_inv_def load_from_file_def split: option.splits)
qed

lemma items_send_item_database:
  assumes "conn_send_item_database env (TypedPacketEvent dir p) px = Some (px', c)" and "items_inv cache px"
    and "packet_registry env = all_registered" and "decoded env data = Some (Some (Some p))"
  shows "items_inv cache px'"
proof -
  consider "px' = px"
    | q ok db where "p = P_SendItemDatabaseData q" and "parse_database (items_dat q) = Some (ok, db)"
      and "px' = px\<lparr>items := db\<rparr> \<or> px' = px\<lparr>items := db, items_file := Some (items_dat q)\<rparr>"
    using assms(1) by (auto simp: conn_send_item_database_def typed_packet_def go_def bind_eq_Some_conv Let_def
        split: option.splits prod.splits IPacket.splits Direction.splits if_splits)
  then show ?thesis
  proof cases
    case (2 q ok db)
    have z: "set (items_dat q) \<subseteq> {0} \<and> length (items_dat q) < 2 ^ 32"
      using assms(3,4) 2(1) decoded_items_zeros unfolding decoded_def by metis
    then have "db_items db = []" using parse_zeros 2(2) by blast
    with 2(3) z assms(2) show ?thesis by (auto simp: items_inv_def)
  qed (use assms(2) in simp)
qed

lemma items_deliver:
  assumes "started B env ord reg d" and "packet_registry env = all_registered"
    and "raw_type = Type_ClientBoundPacket \<and> fwd = server_write env \<or>
      raw_type = Type_ServerBoundPacket \<and> fwd = client_write env"
    and "deliver B d env dir raw_type data px = Some px'" and "items_inv cache px"
  shows "items_inv cache px'"
proof -
  have fwd: "same_items q (snd (fwd data q))" for q using assms(3) by (auto simp: same_items_def)
  show ?thesis
    using assms(1,3,4)
  proof (cases rule: deliver_cases)
    case passed
    then show ?thesis using items_same [OF fwd assms(5)] by simp
  next
    case (handled p h px1 c)
    have "items_inv cache px1"
    proof (cases "packet_id p = Id_SendItemDatabaseData \<or> packet_id p = Id_OnSuperMain")
      case True
      then have "h = conn_send_item_database env \<or> h = conn_on_super_main"
        using handled(2) by (auto simp: packet_handler_def)
      then show ?thesis
        using handled(1,3) items_super_main [OF _ assms(5)] items_send_item_database [OF _ assms(5,2)] by blast
    next
      case False
      then show ?thesis using same_items_handlers [OF handled(2,3)] items_same assms(5) by blast
    qed
    then show ?thesis using handled(4) items_same [OF fwd, of cache px1] by simp
  qed
qed

lemma items_process:
  assumes "started B env ord reg d" and "packet_registry env = all_registered"
    and "process B d env a px = Some px'" and "items_inv cache px"
  shows "items_inv cache px'"
proof -
  have act: "items_inv cache (act a px)" using items_same [OF _ assms(4)] by (simp add: same_items_def)
  note dl = items_deliver [OF assms(1,2) _ _ act, of _ _ _ _ px']
  have web: "items (fst (the (web_on_client_connect env e q))) = items q \<and>
      items_file (fst (the (web_on_client_connect env e q))) = items_file q" for q e
    by (simp add: web_on_client_connect_def go_def Let_def)
  show ?thesis
  proof (cases a)
    case (Connected h p)
    then have "same_items px px'"
      using assms(3) growtopia_connects [OF assms(1), of p px] game_connects [OF assms(1), of p px]
      by (cases h) (auto simp: same_items_def Let_def conn_client_connect_def go_def web split: if_splits)
    then show ?thesis using items_same assms(4) by blast
  next
    case (Received h p data)
    then show ?thesis
      using assms(3,4) act dl [of Type_ClientBoundPacket "server_write env" ClientBound data]
        dl [of Type_ServerBoundPacket "client_write env" ServerBound data]
      by (cases h)
        (auto simp: process_def client_on_receive_def server_on_receive_def Let_def items_inv_def split: if_splits)
  next
    case (Disconnected h p)
    then have "same_items px px'"
      using assms(3) growtopia_disconnects [OF assms(1), of px p] game_disconnects [OF assms(1), of px p]
      by (cases h) (auto simp: same_items_def process_def client_on_disconnect_def server_on_disconnect_def Let_def
          split: if_splits)
    then show ?thesis using items_same assms(4) by blast
  qed (use assms(3,4) in \<open>auto simp: process_def Let_def\<close>)
qed

lemma items_start: "proxy_starts px \<Longrightarrow> items_inv (items_file px) px"
  by (auto simp: proxy_starts_def new_Proxy_def items_inv_def clear_database_def)

lemma items_step:
  assumes "packet_registry env = all_registered" and "items_inv cache px" and "proxy_step B d env px e px'"
  shows "items_inv cache px'"
  using assms(3)
proof (cases rule: proxy_step.cases)
  case network
  then show ?thesis using items_process assms(1,2) by blast
next
  case task
  then show ?thesis using assms(2) by (auto simp: run_task_def split: task_action.splits if_splits)
qed (use assms(2) in \<open>simp add: items_inv_def\<close>)

interpretation items: state_machine "\<lambda>px. proxy_starts px \<and> items_file px = cache"
  "proxy_step B d env" "\<lambda>px. packet_registry env = all_registered \<longrightarrow> items_inv cache px"
  for B d env cache
  by unfold_locales (auto intro: items_start items_step)

text \<open>C7: whatever item databases the Growtopia server sends, the proxy never takes one over: its item
  database is empty or what the item file held before the start.\<close>

theorem item_database_only_from_cache:
  assumes "proxy_starts px0" and "packet_registry env = all_registered"
    and "state_machine.run (proxy_step B d env) px0 es px"
  shows "db_items (items px) = [] \<or>
    (\<exists>data ok. items_file px0 = Some data \<and> parse_database data = Some (ok, items px))"
  using items.run_from_init [OF conjI [OF assms(1) refl] assms(3)] assms(2) by (simp add: items_inv_def)

theorem item_database_only_from_cache_witness:
  "db_items (items (the (process list_dispatcher demo_dispatcher demo_env (Connected ClientHost 3)
     (new_Proxy 0 None 1)))) = []"
proof -
  let ?px = "(act (Connected ClientHost 3) (new_Proxy 0 None 1))\<lparr>client_peer := Some 3\<rparr>"
  have p: "process list_dispatcher demo_dispatcher demo_env (Connected ClientHost 3) (new_Proxy 0 None 1) = Some ?px"
    by (rule growtopia_connects [OF demo_started])
  have "state_machine.run (proxy_step list_dispatcher demo_dispatcher demo_env) (new_Proxy 0 None 1)
      [Network (Connected ClientHost 3)] ?px"
    by (rule proxy.run_cons [OF proxy_step.network [OF demo_started p] proxy.run_nil])
  with item_database_only_from_cache [OF _ _ this] p show ?thesis
    by (auto simp: proxy_starts_def new_Proxy_def)
qed

end
