(* ===== verification/HandlerFacts.thy ===== *)
theory HandlerFacts
  imports Reachable
begin

text \<open>
  What single handlers and commands do: tile and object changes, how a chat line is split into a
  command, and the delayed join of \<open>/warp\<close>.
\<close>

subsection \<open>Tile changes\<close>

lemma unat_index: "0 \<le> i \<Longrightarrow> i < 2 ^ 31 \<Longrightarrow> unat (word_of_int i :: u32) = nat i"
  by (simp add: unsigned_of_int take_bit_int_eq_self)

lemma tile_index_in_map:
  assumes "0 \<le> sint x" and "sint x < sint wd" and "0 \<le> sint y" and "sint y < sint ht"
    and "sint wd * sint ht < 2 ^ 31"
  obtains k where "tile_index x y wd = Some k" and "unat k = nat (sint y * sint wd + sint x)"
    and "0 \<le> sint y * sint wd + sint x" and "sint y * sint wd + sint x < sint wd * sint ht"
proof -
  have "(sint y + 1) * sint wd \<le> sint ht * sint wd"
    using assms by (intro mult_right_mono) auto
  then have "sint y * sint wd + sint wd \<le> sint wd * sint ht" by (simp add: algebra_simps)
  then have up: "sint y * sint wd + sint x < sint wd * sint ht" using assms(2) by linarith
  have lo: "0 \<le> sint y * sint wd" using assms by (intro mult_nonneg_nonneg) auto
  have "sint y * sint wd \<le> sint y * sint wd + sint x" using assms(1) by simp
  then have "sint y * sint wd < 2 ^ 31" using up assms(5) by linarith
  moreover have "- (2 ^ 31) \<le> sint y * sint wd" by (rule order_trans [OF _ lo]) simp
  moreover have "0 \<le> sint y * sint wd + sint x" using assms(1) lo by simp
  then have "- (2 ^ 31) \<le> sint y * sint wd + sint x" by (rule order_trans [rotated]) simp
  moreover have "sint y * sint wd + sint x < 2 ^ 31" using assms(5) up by simp
  ultimately have "tile_index x y wd = Some (word_of_int (sint x + sint y * sint wd))"
    by (simp add: tile_index_def int32_range_def Let_def add.commute)
  then show thesis
    using that up lo assms(1,5) unat_index [of "sint x + sint y * sint wd"] by (simp add: add.commute)
qed

text \<open>Breaking a tile inside a map whose tiles are all there changes exactly that tile, the
  foreground before the background, and no other message of the kind changes the world.\<close>

theorem tile_change_inside:
  assumes "map_size (tile_map w) = (wd, ht)" and "length (tiles (tile_map w)) = nat (sint wd * sint ht)"
    and "sint wd * sint ht < 2 ^ 31"
    and "0 \<le> sint (tile_int_x p)" and "sint (tile_int_x p) < sint wd"
    and "0 \<le> sint (tile_int_y p)" and "sint (tile_int_y p) < sint ht"
  shows "\<exists>w'. tile_change p w = Some w' \<and> length (tiles (tile_map w')) = length (tiles (tile_map w)) \<and>
    (\<forall>i < length (tiles (tile_map w)). tiles (tile_map w') ! i =
      (if tile_item_id p = 18 \<and> int i = sint (tile_int_y p) * sint wd + sint (tile_int_x p)
       then punch (tiles (tile_map w) ! i) else tiles (tile_map w) ! i))"
proof -
  let ?i = "sint (tile_int_y p) * sint wd + sint (tile_int_x p)"
  obtain k where ti: "tile_index (tile_int_x p) (tile_int_y p) wd = Some k" "unat k = nat ?i" "0 \<le> ?i"
      "?i < sint wd * sint ht"
    by (rule tile_index_in_map [OF assms(4-7,3)])
  have len: "nat ?i < length (tiles (tile_map w))" using ti assms(2) by (simp add: nat_less_eq_zless)
  let ?m = "tile_map w"
  have "tile_change p w = Some (if tile_item_id p = 18
      then w\<lparr>tile_map := ?m\<lparr>tiles := (tiles ?m)[nat ?i := punch (tiles ?m ! nat ?i)]\<rparr>\<rparr> else w)"
    using ti len by (simp add: tile_change_def Let_def assms(1) not_le)
  moreover have "int i = ?i \<longleftrightarrow> i = nat ?i" for i using ti by auto
  ultimately show ?thesis by (simp add: nth_list_update)
qed

text \<open>A map of two tiles, the second with a lock in front.\<close>

definition two_tiles :: World where
  "two_tiles = new_World\<lparr>tile_map := new_WorldTileMap\<lparr>map_size := (2, 1),
     tiles := [new_Tile, new_Tile\<lparr>foreground := 242, background := 14\<rparr>]\<rparr>\<rparr>"

theorem tile_change_inside_witness:
  "\<exists>w'. tile_change (new_TileChangeRequest\<lparr>tile_int_x := 1, tile_item_id := 18\<rparr>) two_tiles = Some w' \<and>
    foreground (tiles (tile_map w') ! 1) = 0 \<and> background (tiles (tile_map w') ! 1) = 14"
proof -
  have t: "tiles (tile_map two_tiles) = [new_Tile, new_Tile\<lparr>foreground := 242, background := 14\<rparr>]"
    "map_size (tile_map two_tiles) = (2, 1)" by (simp_all add: two_tiles_def)
  show ?thesis
    using tile_change_inside [of two_tiles 2 1 "new_TileChangeRequest\<lparr>tile_int_x := 1, tile_item_id := 18\<rparr>"]
    by (auto simp: t new_TileChangeRequest_def punch_def)
qed

text \<open>Coordinates far outside make the index overflow, which is undefined.\<close>

theorem tile_change_overflows:
  assumes "map_size (tile_map w) = (wd, ht)"
    and "2 ^ 31 \<le> sint (tile_int_y p) * sint wd \<or> sint (tile_int_y p) * sint wd < - (2 ^ 31)"
  shows "tile_change p w = None"
  using assms by (auto simp: tile_change_def tile_index_def int32_range_def Let_def)

theorem tile_change_overflows_witness:
  "tile_change (new_TileChangeRequest\<lparr>tile_int_y := 2 ^ 30\<rparr>) two_tiles = None"
  using tile_change_overflows [of two_tiles 2 1 "new_TileChangeRequest\<lparr>tile_int_y := 2 ^ 30\<rparr>"]
  by (simp add: two_tiles_def new_TileChangeRequest_def)

subsection \<open>Object changes\<close>

text \<open>An object change only ever takes objects out of the world: the type is an unsigned byte, so
  neither the drop of a new object nor the update of an old one is ever recognised.\<close>

theorem object_change_only_removes:
  "object_change p m = m\<lparr>objects := filter (\<lambda>ob. obj_id ob \<noteq> ucast (ico_item_net_id p)) (objects m)\<rparr>"
proof -
  have "0 \<le> uint (ico_object_change_type p)" by (rule unsigned_greater_eq)
  then have "uint (ico_object_change_type p) \<noteq> - 1" "uint (ico_object_change_type p) \<noteq> - 3" by linarith+
  then show ?thesis by (simp add: object_change_def Let_def)
qed

subsection \<open>Chat lines\<close>

definition is_word :: "string \<Rightarrow> bool" where
  "is_word w \<longleftrightarrow> w \<noteq> [] \<and> list_all (\<lambda>c. \<not> is_space c) w"

lemma words_Cons:
  assumes "is_word w"
  shows "words (w @ rest) = (if rest = [] \<or> is_space (hd rest) then w # words rest else words (w @ rest))"
proof (cases "rest = [] \<or> is_space (hd rest)")
  case True
  have w: "\<forall>c \<in> set w. \<not> is_space c" "w \<noteq> []" using assms by (auto simp: is_word_def list_all_iff)
  then have "dropWhile is_space (w @ rest) = w @ rest" by (cases w) auto
  moreover have "takeWhile (\<lambda>c. \<not> is_space c) (w @ rest) = w"
    using w(1) True by (cases rest) (auto simp: takeWhile_append)
  moreover have "dropWhile (\<lambda>c. \<not> is_space c) (w @ rest) = rest"
    using w(1) True by (cases rest) (auto simp: dropWhile_append)
  ultimately show ?thesis using True w(2) by (subst words.simps) (simp add: Let_def)
qed simp

lemma words_space: "is_space c \<Longrightarrow> words (c # s) = words s"
  by (subst (1 2) words.simps) simp

lemma words_join: "list_all is_word ws \<Longrightarrow> words (join '' '' ws) = ws"
proof (induction ws)
  case Nil
  show ?case by (subst words.simps) simp
next
  case (Cons w ws)
  have sp: "is_space (CHR '' '')" by (simp add: is_space_def)
  show ?case
  proof (cases ws)
    case Nil
    then show ?thesis using Cons words_Cons [of w "[]"] words.simps [of "[]"] by simp
  next
    case (Cons v vs)
    then have "join '' '' (w # ws) = w @ CHR '' '' # join '' '' ws" by simp
    then show ?thesis
      using Cons.IH Cons.prems words_Cons [of w "CHR '' '' # join '' '' ws"] words_space [OF sp] sp by simp
  qed
qed

lemma words_are_words: "list_all is_word (words s) \<and> concat (words s) = filter (\<lambda>c. \<not> is_space c) s"
proof (induction s rule: words.induct)
  case (1 s)
  let ?s = "dropWhile is_space s"
  have fl: "filter (\<lambda>c. \<not> is_space c) s = filter (\<lambda>c. \<not> is_space c) ?s"
    by (induction s) auto
  show ?case
  proof (cases "?s = []")
    case True
    then show ?thesis using fl by (subst (1 2) words.simps) simp
  next
    case False
    let ?w = "takeWhile (\<lambda>c. \<not> is_space c) ?s" and ?r = "dropWhile (\<lambda>c. \<not> is_space c) ?s"
    have "is_word ?w"
      using False hd_dropWhile [of is_space s] by (cases ?s) (auto simp: is_word_def list_all_iff dest: set_takeWhileD)
    moreover have "filter (\<lambda>c. \<not> is_space c) ?s = ?w @ filter (\<lambda>c. \<not> is_space c) ?r"
      by (metis filter_append filter_True set_takeWhileD takeWhile_dropWhile_id)
    moreover have "words s = ?w # words ?r" using False by (subst words.simps) (simp add: Let_def)
    ultimately show ?thesis using "1.IH" [OF refl False] fl by simp
  qed
qed

text \<open>A chat line made of a command and arguments without white space is taken apart into them.\<close>

theorem parse_command_roundtrip:
  assumes "list_all is_word (name # args)"
  shows "parse_command reg (prefix reg # join '' '' (name # args)) = (name, args)"
  using words_join [OF assms] by (simp add: parse_command_def)

theorem parse_command_roundtrip_witness:
  "parse_command new_registry ''/warp START'' = (''warp'', [''START''])"
  using parse_command_roundtrip [of "''warp''" "[''START'']" new_registry]
  by (simp add: is_word_def is_space_def new_registry_def)

text \<open>Splitting a chat line always ends, and keeps every character but the white space: the words
  are not empty, hold no white space, and together are the line without it.\<close>

theorem words_split:
  "list_all is_word (words s) \<and> concat (words s) = filter (\<lambda>c. \<not> is_space c) s"
  by (rule words_are_words)

subsection \<open>The delayed join\<close>

text \<open>Cancelling a tag and scheduling under it leaves one live task of the tag.\<close>

lemma one_of_tag:
  assumes inv: "sched_inv s" and "tg \<noteq> []" and "running s"
    and s': "s' = snd (schedule (Some c) \<lparr>opt_tag = tg, opt_priority = p, opt_delay = dly, opt_interval = 0\<rparr> now
      (snd (cancel_by_tag tg s)))"
  shows "pending_count_by_tag tg s' = 1" and "is_pending (next_id s) s'"
    and "last (task_queue s') = \<lparr>tid = next_id s, tag = tg, priority = p, execute_at = now + dly,
      interval = 0, callback = c, should_continue = None\<rparr>"
proof -
  note d = sched_invD [OF inv]
  let ?i = "next_id s"
  define S where "S = (case tasks_by_tag s tg of None \<Rightarrow> {} | Some S \<Rightarrow> S)"
  have "?i \<notin> set (tids (live s))" using d(5) by blast
  then have fresh: "?i \<notin> pending_tasks s" "?i \<notin> cancelled_tasks s"
    using d(2-4) by (auto simp: live_def)
  define K where "K = cancelled_tasks s \<union> (S \<inter> pending_tasks s)"
  have c: "snd (cancel_by_tag tg s) = s\<lparr>cancelled_tasks := K\<rparr>"
    using assms(2) by (auto simp: cancel_by_tag_def S_def K_def split: option.split)
  have i: "?i \<notin> K" using fresh by (simp add: K_def)
  have s'_eq: "s' = enqueue \<lparr>tid = ?i, tag = tg, priority = p, execute_at = now + dly, interval = 0,
      callback = c, should_continue = None\<rparr> (s\<lparr>cancelled_tasks := K, next_id := Suc ?i\<rparr>)"
    using assms(3) by (simp add: s' c schedule_def generate_id_def Let_def)
  have tags: "tasks_by_tag s' tg = Some (insert ?i S)"
    using assms(2) by (simp add: s'_eq enqueue_def insert_tag_def S_def)
  have "(insert ?i S \<inter> pending_tasks s') - cancelled_tasks s' = {?i}"
    using i by (auto simp: s'_eq enqueue_def K_def)
  then show "pending_count_by_tag tg s' = 1"
    using assms(2) tags by (simp add: pending_count_by_tag_def)
  show "is_pending ?i s'" using i by (simp add: s'_eq enqueue_def is_pending_def)
  show "last (task_queue s') = \<lparr>tid = ?i, tag = tg, priority = p, execute_at = now + dly,
      interval = 0, callback = c, should_continue = None\<rparr>" by (simp add: s'_eq enqueue_def)
qed

lemma scheduler_write [simp]:
  "scheduler (snd (write_server env pk px)) = scheduler px" "scheduler (snd (write_client env pk px)) = scheduler px"
  "scheduler (send_log env m px) = scheduler px"
  by (auto simp: write_server_def write_client_def send_log_def server_write_def client_write_def act_def Let_def
      split: option.split)

text \<open>\<open>/warp\<close> to a world leaves exactly one join waiting, for that world and 1750 milliseconds
  later, whatever joins were waiting before; and when that task runs while the proxy is connected, it
  reads the name of the world from a variable that no longer exists.\<close>

theorem warp_schedules_join:
  assumes "sched_inv (scheduler px)" and "running (scheduler px)"
    and "args \<noteq> []" and "args ! 0 \<noteq> ''exit''" and "length (args ! 0) \<le> 23"
    and "execute_warp env reg args px = (r, px')"
  shows "r = Success \<and> pending_count_by_tag ''warp'' (scheduler px') = 1 \<and>
    (let t = last (task_queue (scheduler px'))
     in is_pending (tid t) (scheduler px') \<and> callback t = JoinWorld (args ! 0) \<and>
        execute_at t = clock env (trace px') + 1750 \<and>
        (\<forall>px''. client_connected env px'' \<longrightarrow> run_task env (callback t) px'' = None))"
proof -
  let ?px = "send_log env (''Warping to '' @ args ! 0 @ ''...'') (snd (write_client env (P_QuitToExit new_text)
    (px\<lparr>scheduler := snd (cancel_by_tag ''warp'' (scheduler px))\<rparr>)))"
  have r: "r = Success" and px': "px' = ?px\<lparr>scheduler := snd (schedule (Some (JoinWorld (args ! 0)))
      \<lparr>opt_tag = ''warp'', opt_priority = 0, opt_delay = 1750, opt_interval = 0\<rparr> (clock env (trace ?px))
      (snd (cancel_by_tag ''warp'' (scheduler px))))\<rparr>"
    using assms(3-6) by (auto simp: execute_warp_def Let_def schedule_delayed_def)
  note one = one_of_tag [OF assms(1) _ assms(2) refl, of "''warp''" "JoinWorld (args ! 0)" 0 1750
      "clock env (trace ?px)"]
  show ?thesis
    using one by (simp add: r px' run_task_def Let_def)
qed

theorem warp_schedules_join_witness:
  "pending_count_by_tag ''warp'' (scheduler (snd (execute_warp demo_env new_registry [''START''] demo_proxy))) = 1"
proof -
  have "sched_inv (scheduler demo_proxy)" "running (scheduler demo_proxy)"
    by (simp only: demo_simps inv_new) (simp add: new_scheduler_def)
  then show ?thesis
    using warp_schedules_join [of demo_proxy "[''START'']" demo_env new_registry]
    by (cases "execute_warp demo_env new_registry [''START''] demo_proxy") simp
qed

end
