(* ===== verification/ScriptBridge.thy ===== *)
theory ScriptBridge
  imports EventDispatch "HOL-Library.AList"
begin

text \<open>
  \<open>scripting::ScriptEventBridge\<close> (\<open>src/scripting/script_event_bridge.cpp\<close> and \<open>.hpp\<close>): the callbacks
  of the Lua scripts on events, and what they see of an event. The interpreter is a parameter: what a
  callback returns, whether it cancels the event through its context, and what it does to the rest of
  the program, which includes the callbacks themselves. magic_enum, which turns the enumerators of a
  type into strings, sees those up to a bound that is fixed when the program is built
  (\<open>MAGIC_ENUM_RANGE_MAX\<close>); the bound is a parameter.
\<close>

subsection \<open>Names of events\<close>

definition event_type_enumerators :: "(string \<times> event_type) list" where
  "event_type_enumerators =
     [(''ClientConnect'', Type_ClientConnect), (''ServerConnect'', Type_ServerConnect),
      (''ClientDisconnect'', Type_ClientDisconnect), (''ServerDisconnect'', Type_ServerDisconnect),
      (''ClientBoundPacket'', Type_ClientBoundPacket), (''ServerBoundPacket'', Type_ServerBoundPacket),
      (''PacketEventOffset'', 0x1000), (''Max'', 0x1001)]"

definition packet_id_enumerators :: "(string \<times> PacketId) list" where
  "packet_id_enumerators =
     [(''ServerHello'', Id_ServerHello), (''Padding'', 0x1000),
      (''Quit'', Id_Quit), (''QuitToExit'', Id_QuitToExit), (''JoinRequest'', Id_JoinRequest),
      (''ValidateWorld'', Id_ValidateWorld), (''Input'', Id_Input), (''Log'', Id_Log),
      (''OnNameChanged'', Id_OnNameChanged), (''OnChangeSkin'', Id_OnChangeSkin), (''Padding2'', 0x2000),
      (''Disconnect'', Id_Disconnect), (''TileChangeRequest'', Id_TileChangeRequest),
      (''SendMapData'', Id_SendMapData), (''SendTileUpdateData'', Id_SendTileUpdateData),
      (''SendItemDatabaseData'', Id_SendItemDatabaseData), (''SendInventoryState'', Id_SendInventoryState),
      (''ModifyItemInventory'', Id_ModifyItemInventory), (''ItemChangeObject'', Id_ItemChangeObject),
      (''Padding3'', 0x3000), (''OnSendToServer'', Id_OnSendToServer), (''OnSpawn'', Id_OnSpawn),
      (''OnRemove'', Id_OnRemove), (''OnSuperMainStartAcceptLogonHrdxs47254722215a'', Id_OnSuperMain),
      (''Unknown'', Id_Unknown)]"

definition enum_values :: "nat \<Rightarrow> (string \<times> u32) list \<Rightarrow> (string \<times> u32) list" where
  "enum_values range_max es = filter (\<lambda>(n, v). unat v \<le> range_max) es"

definition enum_name :: "nat \<Rightarrow> (string \<times> u32) list \<Rightarrow> u32 \<Rightarrow> string" where
  "enum_name range_max es v =
     (case find (\<lambda>(n, w). w = v) (enum_values range_max es) of None \<Rightarrow> [] | Some (n, _) \<Rightarrow> n)"

definition PACKET_ID_MAP :: "(string \<times> PacketId) list" where
  "PACKET_ID_MAP =
     [(''ServerHello'', Id_ServerHello), (''Quit'', Id_Quit), (''QuitToExit'', Id_QuitToExit),
      (''JoinRequest'', Id_JoinRequest), (''ValidateWorld'', Id_ValidateWorld), (''Input'', Id_Input),
      (''Log'', Id_Log), (''Disconnect'', Id_Disconnect), (''OnSendToServer'', Id_OnSendToServer),
      (''OnNameChanged'', Id_OnNameChanged), (''OnChangeSkin'', Id_OnChangeSkin),
      (''OnSpawn'', Id_OnSpawn), (''OnRemove'', Id_OnRemove), (''SendMapData'', Id_SendMapData),
      (''SendTileUpdateData'', Id_SendTileUpdateData), (''SendInventoryState'', Id_SendInventoryState),
      (''ModifyItemInventory'', Id_ModifyItemInventory), (''TileChangeRequest'', Id_TileChangeRequest),
      (''ItemChangeObject'', Id_ItemChangeObject), (''OnSuperMainStartAcceptLogon'', Id_OnSuperMain)]"

definition string_to_event_type :: "nat \<Rightarrow> string \<Rightarrow> event_type option" where
  "string_to_event_type range_max name =
     (case map_of (enum_values range_max event_type_enumerators) name of
        Some t \<Rightarrow> Some t
      | None \<Rightarrow> map_option packet_event_type (map_of PACKET_ID_MAP name))"

text \<open>\<open>event.on\<close> accepts a prefix (\<open>src/scripting/bindings/event_bindings.cpp\<close>).\<close>

definition starts_with :: "string \<Rightarrow> string \<Rightarrow> bool" where
  "starts_with p s \<longleftrightarrow> take (length p) s = p"

definition normalize_event_name :: "string \<Rightarrow> string" where
  "normalize_event_name name =
     (if starts_with ''server:'' name then ''Server'' @ drop 7 name
      else if starts_with ''client:'' name then ''Client'' @ drop 7 name
      else name)"

subsection \<open>What a script sees of an event\<close>

record LuaEventContext =
  ctx_type :: event_type
  ctx_raw_data :: bytes
  ctx_valid :: bool
  ctx_packet :: "IPacket option"
  ctx_direction :: "Direction option"

text \<open>The values handed to Lua. A packet is handed out under its own class or as its base class.\<close>

datatype lua_object =
    Lua_nil
  | Lua_text text_data
  | Lua_variant variants
  | Lua_header GameUpdatePacket
  | Lua_packet IPacket
  | Lua_base_packet IPacket

text \<open>Every method throws when the event is over: \<open>check_valid\<close>.\<close>

definition check_valid :: "LuaEventContext \<Rightarrow> 'a \<Rightarrow> 'a option" where
  "check_valid ctx r = (if ctx_valid ctx then Some r else None)"

definition type_name :: "nat \<Rightarrow> LuaEventContext \<Rightarrow> string option" where
  "type_name range_max ctx = check_valid ctx
     (if is_packet_event (ctx_type ctx)
      then enum_name range_max packet_id_enumerators (packet_id_from_type (ctx_type ctx))
      else enum_name range_max event_type_enumerators (ctx_type ctx))"

definition has_packet :: "LuaEventContext \<Rightarrow> bool option" where
  "has_packet ctx = check_valid ctx (ctx_packet ctx \<noteq> None)"

definition is_raw :: "LuaEventContext \<Rightarrow> bool option" where
  "is_raw ctx = check_valid ctx (ctx_raw_data ctx \<noteq> [] \<and> ctx_packet ctx = None)"

definition get_event_data :: "LuaEventContext \<Rightarrow> int list option" where
  "get_event_data ctx = check_valid ctx (map uint (ctx_raw_data ctx))"

definition get_packet :: "LuaEventContext \<Rightarrow> lua_object option" where
  "get_packet ctx = check_valid ctx
     (case ctx_packet ctx of
        None \<Rightarrow> Lua_nil
      | Some p \<Rightarrow>
          if packet_id p \<in> {Id_Input, Id_Log, Id_JoinRequest, Id_Quit, Id_QuitToExit, Id_ServerHello,
               Id_OnSendToServer, Id_OnNameChanged, Id_OnChangeSkin, Id_OnSpawn, Id_OnRemove, Id_SendMapData,
               Id_SendTileUpdateData, Id_TileChangeRequest, Id_ItemChangeObject, Id_OnSuperMain}
          then Lua_packet p
          else case p of
              P_GenericText _ \<Rightarrow> Lua_packet p
            | P_GenericVariant _ \<Rightarrow> Lua_packet p
            | P_GenericGame _ \<Rightarrow> Lua_packet p
            | _ \<Rightarrow> Lua_base_packet p)"

definition event_packet_id :: "nat \<Rightarrow> LuaEventContext \<Rightarrow> string option" where
  "event_packet_id range_max ctx = check_valid ctx
     (case ctx_packet ctx of
        None \<Rightarrow> ''Unknown''
      | Some p \<Rightarrow> enum_name range_max packet_id_enumerators (packet_id p))"

definition event_direction :: "LuaEventContext \<Rightarrow> string option" where
  "event_direction ctx = check_valid ctx
     (case ctx_direction ctx of
        None \<Rightarrow> ''Unknown''
      | Some ClientBound \<Rightarrow> ''ClientBound''
      | Some ServerBound \<Rightarrow> ''ServerBound'')"

abbreviation NET_MESSAGE_ERROR :: NetMessageType where "NET_MESSAGE_ERROR \<equiv> 5"

text \<open>\<open>content.pop_back()\<close> when the last character is zero.\<close>

definition pop_zero :: "string \<Rightarrow> string" where
  "pop_zero s = (if s \<noteq> [] \<and> last s = CHR 0x00 then butlast s else s)"

text \<open>\<open>ctx:parse()\<close>; the outer \<open>None\<close> is a read outside the data, the inner one the exception of
  \<open>check_valid\<close>.\<close>

definition parse_raw_data :: "bytes \<Rightarrow> lua_object option" where
  "parse_raw_data d =
     (if d = [] then Some Lua_nil
      else do {
        (ok, msg_type, s) \<leftarrow> read_word (0 :: u32) (span_stream d);
        if \<not> ok then Some Lua_nil
        else if msg_type = NET_MESSAGE_GAME_MESSAGE \<or> msg_type = NET_MESSAGE_GENERIC_TEXT \<or>
             msg_type = NET_MESSAGE_ERROR then
          (if get_size s - read_offset s > 0
           then Some (Lua_text (parse (pop_zero (string_of_bytes
                  (take (unat (get_size s - read_offset s)) (drop (unat (read_offset s)) (get_raw_ptr s))))) bar))
           else Some Lua_nil)
        else if msg_type = NET_MESSAGE_GAME_PACKET then do {
          (r, s) \<leftarrow> read_data 56 s;
          case r of
            None \<Rightarrow> Some Lua_nil
          | Some h \<Rightarrow>
              let pkt = decode_packet h
              in if flag_extended pkt \<and> data_size pkt > 0 then do {
                   (r, s) \<leftarrow> read_data (ucast (data_size pkt)) s;
                   case r of
                     None \<Rightarrow> Some (Lua_header pkt)
                   | Some ext \<Rightarrow> do {
                       (ok, vs) \<leftarrow> deserialize [] ext;
                       Some (if ok then Lua_variant vs else Lua_header pkt)
                     }
                 }
                 else Some (Lua_header pkt)
        }
        else Some Lua_nil
      })"

definition parse_packet :: "LuaEventContext \<Rightarrow> lua_object option option" where
  "parse_packet ctx =
     (if ctx_valid ctx then map_option Some (parse_raw_data (ctx_raw_data ctx)) else Some None)"

subsection \<open>Callbacks\<close>

record 'cb CallbackEntry =
  entry_handle :: nat
  entry_type :: event_type
  entry_priority :: int
  entry_callback :: 'cb

record 'cb ScriptEventBridge =
  script_callbacks :: "'cb CallbackEntry list"
  next_handle :: nat

definition new_bridge :: "'cb ScriptEventBridge" where
  "new_bridge = \<lparr>script_callbacks = [], next_handle = 0\<rparr>"

text \<open>\<open>register_callback\<close>; an unknown name throws.\<close>

definition register_callback ::
  "nat \<Rightarrow> string \<Rightarrow> 'cb \<Rightarrow> int \<Rightarrow> 'cb ScriptEventBridge \<Rightarrow> (nat \<times> 'cb ScriptEventBridge) option"
where
  "register_callback range_max name cb p b =
     (case string_to_event_type range_max name of
        None \<Rightarrow> None
      | Some t \<Rightarrow> Some (next_handle b,
          b\<lparr>script_callbacks := script_callbacks b @
              [\<lparr>entry_handle = next_handle b, entry_type = t, entry_priority = p, entry_callback = cb\<rparr>],
            next_handle := next_handle b + 1\<rparr>))"

fun erase_first :: "('a \<Rightarrow> bool) \<Rightarrow> 'a list \<Rightarrow> 'a list" where
  "erase_first P [] = []"
| "erase_first P (x # xs) = (if P x then xs else x # erase_first P xs)"

definition unregister_callback :: "nat \<Rightarrow> 'cb ScriptEventBridge \<Rightarrow> bool \<times> 'cb ScriptEventBridge" where
  "unregister_callback h b =
     (if \<exists>e \<in> set (script_callbacks b). entry_handle e = h
      then (True, b\<lparr>script_callbacks := erase_first (\<lambda>e. entry_handle e = h) (script_callbacks b)\<rparr>)
      else (False, b))"

subsection \<open>Running the callbacks\<close>

text \<open>The identifiers \<open>try_fill_typed_context\<close> has a case for.\<close>

definition typed_context_ids :: "PacketId list" where
  "typed_context_ids =
     [Id_OnSendToServer, Id_Quit, Id_QuitToExit, Id_JoinRequest, Id_ValidateWorld, Id_Input, Id_Log,
      Id_Disconnect, Id_ServerHello, Id_OnNameChanged, Id_OnChangeSkin, Id_OnSpawn, Id_OnRemove,
      Id_SendMapData, Id_SendTileUpdateData, Id_TileChangeRequest, Id_ItemChangeObject, Id_OnSuperMain]"

definition fill_typed_context :: "PacketId \<Rightarrow> event_data \<Rightarrow> LuaEventContext \<Rightarrow> LuaEventContext" where
  "fill_typed_context i e ctx =
     (case typed_packet i e of
        Some (dir, p) \<Rightarrow> ctx\<lparr>ctx_packet := Some p, ctx_direction := Some dir\<rparr>
      | None \<Rightarrow> ctx)"

definition try_fill_typed_context :: "PacketId \<Rightarrow> event_data \<Rightarrow> LuaEventContext \<Rightarrow> LuaEventContext" where
  "try_fill_typed_context i e ctx =
     (if i \<in> set typed_context_ids then fill_typed_context i e ctx else ctx)"

text \<open>Nothing in the program makes a plain \<open>PacketEvent\<close>, and a typed event is none.\<close>

definition event_context :: "event_type \<Rightarrow> event_data \<Rightarrow> LuaEventContext" where
  "event_context t e =
     (let ctx = \<lparr>ctx_type = t, ctx_raw_data = (case raw_packet e of None \<Rightarrow> [] | Some d \<Rightarrow> d), ctx_valid = True,
                 ctx_packet = None, ctx_direction = None\<rparr>
      in if is_packet_event t then try_fill_typed_context (packet_id_from_type t) e ctx else ctx)"

text \<open>
  What a callback does: its result, whether it called \<open>cancel\<close> on the context, and the new state.
\<close>

datatype callback_result = Callback_error | Callback_bool bool | Callback_other

type_synonym ('cb, 's) lua_callbacks =
  "'cb \<Rightarrow> LuaEventContext \<Rightarrow> 'cb ScriptEventBridge \<times> 's \<Rightarrow>
     callback_result \<times> bool \<times> 'cb ScriptEventBridge \<times> 's"

fun run_callbacks ::
  "('cb, 's) lua_callbacks \<Rightarrow> LuaEventContext \<Rightarrow> 'cb CallbackEntry list \<Rightarrow> 'cb ScriptEventBridge \<times> 's \<Rightarrow>
     bool \<Rightarrow> ('cb ScriptEventBridge \<times> 's) \<times> bool"
where
  "run_callbacks lua ctx [] st canceled = (st, canceled)"
| "run_callbacks lua ctx (e # es) st canceled =
     (if canceled then (st, canceled)
      else case lua (entry_callback e) ctx st of
        (r, c, st) \<Rightarrow> if r = Callback_bool False then (st, True) else run_callbacks lua ctx es st c)"

text \<open>\<open>std::ranges::sort\<close> leaves the order of callbacks with the same priority open; \<open>srt\<close> is its
  choice.\<close>

definition invoke_callbacks ::
  "('cb, 's) lua_callbacks \<Rightarrow> ('cb CallbackEntry list \<Rightarrow> 'cb CallbackEntry list) \<Rightarrow> event_type \<Rightarrow> event_data \<Rightarrow>
     'cb ScriptEventBridge \<times> 's \<Rightarrow> bool \<Rightarrow> ('cb ScriptEventBridge \<times> 's) \<times> bool"
where
  "invoke_callbacks lua srt t e st canceled =
     (if canceled then (st, canceled)
      else run_callbacks lua (event_context t e)
             (srt (filter (\<lambda>c. entry_type c = t) (script_callbacks (fst st)))) st False)"

definition sort_ok :: "('cb CallbackEntry list \<Rightarrow> 'cb CallbackEntry list) \<Rightarrow> bool" where
  "sort_ok srt \<longleftrightarrow> (\<forall>cs. mset (srt cs) = mset cs \<and> sorted (map entry_priority (srt cs)))"

subsection \<open>Listening\<close>

text \<open>
  The event types the bridge listens to: those magic_enum sees and one for each entry of the map, in
  the map's iteration order.
\<close>

definition bridge_types :: "nat \<Rightarrow> (string \<times> PacketId) list \<Rightarrow> event_type list" where
  "bridge_types range_max order =
     filter (\<lambda>t. t \<noteq> 0x1001) (map snd (enum_values range_max event_type_enumerators)) @
     map (\<lambda>(n, i). packet_event_type i) order"

text \<open>\<open>setup_event_listeners\<close> with the handles it keeps, and the destructor. A type that comes twice
  keeps the later handle only.\<close>

definition setup_event_listeners ::
  "('d, 'h, 'c) base_dispatcher \<Rightarrow> (event_type \<Rightarrow> 'c) \<Rightarrow> event_type list \<Rightarrow> ('d, 'h) PriorityEventDispatcher \<Rightarrow>
     (event_type \<times> 'h) list \<times> ('d, 'h) PriorityEventDispatcher"
where
  "setup_event_listeners B handler ts d =
     fold (\<lambda>t (hs, d). case appendListener B t (handler t) Priority_FairlyHigh d of
                         (h, d) \<Rightarrow> (AList.update t h hs, d)) ts ([], d)"

definition destroy_bridge ::
  "('d, 'h, 'c) base_dispatcher \<Rightarrow> (event_type \<times> 'h) list \<Rightarrow> ('d, 'h) PriorityEventDispatcher \<Rightarrow>
     ('d, 'h) PriorityEventDispatcher"
where
  "destroy_bridge B hs d = fold (\<lambda>(t, h) d. snd (removeListener B t h d)) hs d"

end
