(* ===== verification/LuaPackets.thy ===== *)
theory LuaPackets
  imports ScriptBridge Proxy
begin

text \<open>
  \<open>src/scripting/bindings/packet_bindings.cpp\<close>: the packet classes as Lua sees them. sol2 is not
  under \<open>src/\<close>; what is used of it is that a member given by its address can be read and assigned
  under its name, that a property with a getter alone can only be read, and that a usertype also has
  the members of its bases. Assigning a value of another type, or a number the member has no room for,
  is outside the model, \<open>None\<close>.
\<close>

subsection \<open>Values and members\<close>

text \<open>Lua integers and floats, strings, tables of bytes and tables with named fields, and the objects
  of the program. A \<open>float\<close> is its bit pattern.\<close>

datatype lua_value =
    L_nil
  | L_boolean bool
  | L_integer int
  | L_float u32
  | L_string string
  | L_bytes "int list"
  | L_fields "(string \<times> lua_value) list"
  | L_text text_data
  | L_variants variants
  | L_header GameUpdatePacket

text \<open>A member: its name, how it is read, and how it is assigned if it can be.\<close>

type_synonym 'a lua_member = "string \<times> ('a \<Rightarrow> lua_value) \<times> ('a \<Rightarrow> lua_value \<Rightarrow> 'a option) option"

definition member_get :: "'a lua_member list \<Rightarrow> 'a \<Rightarrow> string \<Rightarrow> lua_value option" where
  "member_get ms p n = map_option (\<lambda>(g, _). g p) (map_of ms n)"

definition member_put :: "'a lua_member list \<Rightarrow> 'a \<Rightarrow> string \<Rightarrow> lua_value \<Rightarrow> 'a option" where
  "member_put ms p n v =
     (case map_of ms n of
        Some (_, Some put) \<Rightarrow> put p v
      | _ \<Rightarrow> None)"

definition variable ::
  "('v \<Rightarrow> lua_value) \<Rightarrow> (lua_value \<Rightarrow> 'v option) \<Rightarrow> string \<Rightarrow> ('a \<Rightarrow> 'v) \<Rightarrow> (('v \<Rightarrow> 'v) \<Rightarrow> 'a \<Rightarrow> 'a) \<Rightarrow> 'a lua_member"
where
  "variable push pull n getter upd =
     (n, \<lambda>p. push (getter p), Some (\<lambda>p v. map_option (\<lambda>x. upd (\<lambda>_. x) p) (pull v)))"

definition read_only :: "string \<Rightarrow> ('a \<Rightarrow> lua_value) \<Rightarrow> 'a lua_member" where
  "read_only n getter = (n, getter, None)"

text \<open>How members of each type are passed. Unsigned and signed integers have the range of their type.\<close>

definition push_unsigned :: "'w::len word \<Rightarrow> lua_value" where
  "push_unsigned w = L_integer (uint w)"

definition pull_unsigned :: "lua_value \<Rightarrow> 'w::len word option" where
  "pull_unsigned v =
     (case v of
        L_integer i \<Rightarrow> if 0 \<le> i \<and> i < 2 ^ LENGTH('w) then Some (word_of_int i) else None
      | _ \<Rightarrow> None)"

definition push_signed :: "'w::len word \<Rightarrow> lua_value" where
  "push_signed w = L_integer (sint w)"

definition pull_signed :: "lua_value \<Rightarrow> 'w::len word option" where
  "pull_signed v =
     (case v of
        L_integer i \<Rightarrow>
          if - (2 ^ (LENGTH('w) - 1)) \<le> i \<and> i < 2 ^ (LENGTH('w) - 1) then Some (word_of_int i) else None
      | _ \<Rightarrow> None)"

definition pull_string :: "lua_value \<Rightarrow> string option" where
  "pull_string v = (case v of L_string s \<Rightarrow> Some s | _ \<Rightarrow> None)"

definition pull_boolean :: "lua_value \<Rightarrow> bool option" where
  "pull_boolean v = (case v of L_boolean b \<Rightarrow> Some b | _ \<Rightarrow> None)"

definition pull_text :: "lua_value \<Rightarrow> text_data option" where
  "pull_text v = (case v of L_text d \<Rightarrow> Some d | _ \<Rightarrow> None)"

definition pull_variants :: "lua_value \<Rightarrow> variants option" where
  "pull_variants v = (case v of L_variants vs \<Rightarrow> Some vs | _ \<Rightarrow> None)"

definition pull_header :: "lua_value \<Rightarrow> GameUpdatePacket option" where
  "pull_header v = (case v of L_header h \<Rightarrow> Some h | _ \<Rightarrow> None)"

abbreviation "unsigned_member \<equiv> variable push_unsigned pull_unsigned"
abbreviation "signed_member \<equiv> variable push_signed pull_signed"
abbreviation "string_member \<equiv> variable L_string pull_string"
abbreviation "boolean_member \<equiv> variable L_boolean pull_boolean"
abbreviation "text_member \<equiv> variable L_text pull_text"
abbreviation "variant_member \<equiv> variable L_variants pull_variants"
abbreviation "header_member \<equiv> variable L_header pull_header"

definition byte_table :: "bytes \<Rightarrow> lua_value" where
  "byte_table d = L_bytes (map uint d)"

subsection \<open>The usertypes\<close>

text \<open>\<open>bind_base_packet\<close>: the members of every packet, three methods and a property.\<close>

definition has_raw_data :: "IPacket \<Rightarrow> bool" where
  "has_raw_data p \<longleftrightarrow> packet_raw_data p \<noteq> []"

definition base_method :: "string \<Rightarrow> IPacket \<Rightarrow> lua_value option" where
  "base_method n p =
     map_of
       [(''id'', push_unsigned (packet_id p)), (''channel'', L_integer 0),
        (''has_raw_data'', L_boolean (has_raw_data p))] n"

definition IPacket_members :: "IPacket lua_member list" where
  "IPacket_members = [read_only ''raw'' (byte_table \<circ> packet_raw_data)]"

text \<open>\<open>bind_message_packets\<close>.\<close>

definition TextPacket_members :: "TextPacket lua_member list" where
  "TextPacket_members = [text_member ''text_parse'' text_parse text_parse_update]"

definition Log_members :: "Log lua_member list" where
  "Log_members =
     [string_member ''msg'' msg msg_update,
      text_member ''text_parse'' text_parse text_parse_update]"

definition JoinRequest_members :: "JoinRequest lua_member list" where
  "JoinRequest_members =
     [string_member ''world_name'' join_world_name join_world_name_update,
      boolean_member ''invited_world'' invited_world invited_world_update,
      text_member ''text_parse'' text_parse text_parse_update]"

definition ValidateWorld_members :: "ValidateWorld lua_member list" where
  "ValidateWorld_members =
     [string_member ''world_name'' validate_world_name validate_world_name_update,
      text_member ''text_parse'' text_parse text_parse_update]"

definition Input_members :: "Input lua_member list" where
  "Input_members =
     [string_member ''text'' input_text input_text_update,
      text_member ''text_parse'' text_parse text_parse_update]"

text \<open>\<open>bind_game_packets\<close>.\<close>

definition Disconnect_members :: "GamePacket lua_member list" where
  "Disconnect_members =
     [header_member ''game_packet'' game_packet game_packet_update,
      read_only ''extra'' (byte_table \<circ> extra)]"

definition OnSendToServer_members :: "OnSendToServer lua_member list" where
  "OnSendToServer_members =
     [unsigned_member ''port'' server_port server_port_update,
      signed_member ''token'' server_token server_token_update,
      signed_member ''user'' server_user server_user_update,
      string_member ''address'' server_address server_address_update,
      string_member ''door_id'' server_door_id server_door_id_update,
      string_member ''uuid_token'' server_uuid_token server_uuid_token_update,
      unsigned_member ''login_mode'' server_login_mode server_login_mode_update,
      string_member ''username'' server_username server_username_update,
      variant_member ''variant'' variant variant_update,
      header_member ''game_packet'' call_packet call_packet_update]"

definition OnNameChanged_members :: "OnNameChanged lua_member list" where
  "OnNameChanged_members =
     [string_member ''name'' new_name new_name_update,
      signed_member ''net_id'' name_net_id name_net_id_update,
      variant_member ''variant'' variant variant_update,
      header_member ''game_packet'' call_packet call_packet_update]"

definition OnChangeSkin_members :: "OnChangeSkin lua_member list" where
  "OnChangeSkin_members =
     [unsigned_member ''skin'' skin_code skin_code_update,
      signed_member ''net_id'' skin_net_id skin_net_id_update,
      variant_member ''variant'' variant variant_update,
      header_member ''game_packet'' call_packet call_packet_update]"

definition OnSpawn_members :: "OnSpawn lua_member list" where
  "OnSpawn_members =
     [string_member ''spawn'' spawn spawn_update,
      signed_member ''net_id'' spawn_net_id spawn_net_id_update,
      signed_member ''user_id'' spawn_user_id spawn_user_id_update,
      string_member ''country_code'' country_code country_code_update,
      string_member ''name'' spawn_name spawn_name_update,
      read_only ''position'' (\<lambda>p. L_fields
        [(''x'', push_signed (fst (spawn_position p))), (''y'', push_signed (snd (spawn_position p)))]),
      signed_member ''invisible'' invisible invisible_update,
      signed_member ''mod_state'' mod_state mod_state_update,
      signed_member ''supermod_state'' supermod_state supermod_state_update,
      signed_member ''online_id'' online_id online_id_update,
      string_member ''type'' spawn_type spawn_type_update,
      string_member ''title_icon'' title_icon title_icon_update,
      variant_member ''variant'' variant variant_update,
      header_member ''game_packet'' call_packet call_packet_update]"

definition OnRemove_members :: "OnRemove lua_member list" where
  "OnRemove_members =
     [signed_member ''net_id'' remove_net_id remove_net_id_update,
      signed_member ''player_id'' player_id player_id_update,
      variant_member ''variant'' variant variant_update,
      header_member ''game_packet'' call_packet call_packet_update]"

definition SendMapData_members :: "GamePacket lua_member list" where
  "SendMapData_members = [read_only ''extra'' (byte_table \<circ> extra)]"

definition TileChangeRequest_members :: "TileChangeRequest lua_member list" where
  "TileChangeRequest_members =
     [signed_member ''int_x'' tile_int_x tile_int_x_update,
      signed_member ''int_y'' tile_int_y tile_int_y_update,
      signed_member ''item_id'' tile_item_id tile_item_id_update]"

definition ItemChangeObject_members :: "ItemChangeObject lua_member list" where
  "ItemChangeObject_members =
     [unsigned_member ''pos_x'' ico_pos_x ico_pos_x_update,
      unsigned_member ''pos_y'' ico_pos_y ico_pos_y_update,
      unsigned_member ''item_id'' ico_item_id ico_item_id_update,
      unsigned_member ''amount'' ico_amount ico_amount_update]"

definition OnSuperMain_members :: "OnSuperMain lua_member list" where
  "OnSuperMain_members =
     [variant_member ''variant'' variant variant_update,
      header_member ''game_packet'' call_packet call_packet_update,
      signed_member ''item_hash'' item_hash item_hash_update,
      string_member ''u'' super_u super_u_update,
      string_member ''uu'' super_uu super_uu_update,
      string_member ''uuu'' super_uuu super_uuu_update,
      unsigned_member ''player_tribute_hash'' player_tribute_hash player_tribute_hash_update]"

definition SendInventoryState_members :: "SendInventoryState lua_member list" where
  "SendInventoryState_members = [read_only ''extra'' (byte_table \<circ> inventory_extra)]"

definition ModifyItemInventory_members :: "ModifyItemInventory lua_member list" where
  "ModifyItemInventory_members =
     [signed_member ''item_id'' modify_item_id modify_item_id_update,
      signed_member ''amount'' modify_amount modify_amount_update,
      signed_member ''net_id'' modify_net_id modify_net_id_update]"

text \<open>\<open>bind_generic_packets\<close>.\<close>

definition GenericText_members :: "GenericTextPacket lua_member list" where
  "GenericText_members =
     [text_member ''text_parse'' text_parse text_parse_update,
      unsigned_member ''message_type'' generic_message_type generic_message_type_update]"

definition GenericVariant_members :: "VariantPacket lua_member list" where
  "GenericVariant_members =
     [variant_member ''variant'' variant variant_update,
      header_member ''game_packet'' call_packet call_packet_update]"

definition GenericGame_members :: "GamePacket lua_member list" where
  "GenericGame_members =
     [header_member ''game_packet'' game_packet game_packet_update,
      read_only ''extra'' (byte_table \<circ> extra)]"

subsection \<open>The header\<close>

text \<open>\<open>bind_game_update_packet\<close> goes through the byte array that shares its place with the
  coordinates.\<close>

definition pad_4 :: "GameUpdatePacket \<Rightarrow> bytes" where
  "pad_4 h =
     le_bytes (pos_x h) @ le_bytes (pos_y h) @ le_bytes (pos_x2 h) @ le_bytes (pos_y2 h) @
     le_bytes (pad_5 h) @ le_bytes (int_x h) @ le_bytes (int_y h)"

definition set_pad_4 :: "bytes \<Rightarrow> GameUpdatePacket \<Rightarrow> GameUpdatePacket" where
  "set_pad_4 d h =
     h\<lparr>pos_x := u32_at 0 d, pos_y := u32_at 4 d, pos_x2 := u32_at 8 d, pos_y2 := u32_at 12 d,
       pad_5 := u32_at 16 d, int_x := u32_at 20 d, int_y := u32_at 24 d\<rparr>"

definition view_at :: "nat \<Rightarrow> GameUpdatePacket \<Rightarrow> u32" where
  "view_at i h = u32_at i (pad_4 h)"

definition set_view :: "nat \<Rightarrow> (u32 \<Rightarrow> u32) \<Rightarrow> GameUpdatePacket \<Rightarrow> GameUpdatePacket" where
  "set_view i f h =
     set_pad_4 (take i (pad_4 h) @ le_bytes (f (view_at i h)) @ drop (i + 4) (pad_4 h)) h"

definition pull_float :: "lua_value \<Rightarrow> u32 option" where
  "pull_float v = (case v of L_float w \<Rightarrow> Some w | _ \<Rightarrow> None)"

abbreviation "float_view n i \<equiv> variable L_float pull_float n (view_at i) (set_view i)"

definition GameUpdatePacket_members :: "GameUpdatePacket lua_member list" where
  "GameUpdatePacket_members =
     [unsigned_member ''type'' pkt_type pkt_type_update,
      unsigned_member ''net_id'' net_id net_id_update,
      read_only ''flags'' (push_unsigned \<circ> flags),
      unsigned_member ''data_size'' data_size data_size_update,
      float_view ''pos_x'' 0,
      float_view ''pos_y'' 4,
      float_view ''vec_x'' 8,
      float_view ''vec_y'' 12,
      float_view ''modifier'' 16,
      signed_member ''int_data'' (view_at 24) (set_view 24)]"

subsection \<open>Objects in a script\<close>

text \<open>An object handed to a script has the members of its class, then those of the base.
  \<open>SendItemDatabaseData\<close> has no usertype.\<close>

fun class_get :: "IPacket \<Rightarrow> string \<Rightarrow> lua_value option" where
  "class_get (P_ServerHello p) n = member_get TextPacket_members p n"
| "class_get (P_Quit p) n = member_get TextPacket_members p n"
| "class_get (P_QuitToExit p) n = member_get TextPacket_members p n"
| "class_get (P_JoinRequest p) n = member_get JoinRequest_members p n"
| "class_get (P_ValidateWorld p) n = member_get ValidateWorld_members p n"
| "class_get (P_Input p) n = member_get Input_members p n"
| "class_get (P_Log p) n = member_get Log_members p n"
| "class_get (P_Disconnect p) n = member_get Disconnect_members p n"
| "class_get (P_SendMapData p) n = member_get SendMapData_members p n"
| "class_get (P_SendTileUpdateData p) n = member_get SendMapData_members p n"
| "class_get (P_SendItemDatabaseData p) n = None"
| "class_get (P_SendInventoryState p) n = member_get SendInventoryState_members p n"
| "class_get (P_ModifyItemInventory p) n = member_get ModifyItemInventory_members p n"
| "class_get (P_TileChangeRequest p) n = member_get TileChangeRequest_members p n"
| "class_get (P_ItemChangeObject p) n = member_get ItemChangeObject_members p n"
| "class_get (P_OnSendToServer p) n = member_get OnSendToServer_members p n"
| "class_get (P_OnSuperMain p) n = member_get OnSuperMain_members p n"
| "class_get (P_OnSpawn p) n = member_get OnSpawn_members p n"
| "class_get (P_OnRemove p) n = member_get OnRemove_members p n"
| "class_get (P_OnNameChanged p) n = member_get OnNameChanged_members p n"
| "class_get (P_OnChangeSkin p) n = member_get OnChangeSkin_members p n"
| "class_get (P_GenericText p) n = member_get GenericText_members p n"
| "class_get (P_GenericVariant p) n = member_get GenericVariant_members p n"
| "class_get (P_GenericGame p) n = member_get GenericGame_members p n"

fun class_put :: "IPacket \<Rightarrow> string \<Rightarrow> lua_value \<Rightarrow> IPacket option" where
  "class_put (P_ServerHello p) n v = map_option P_ServerHello (member_put TextPacket_members p n v)"
| "class_put (P_Quit p) n v = map_option P_Quit (member_put TextPacket_members p n v)"
| "class_put (P_QuitToExit p) n v = map_option P_QuitToExit (member_put TextPacket_members p n v)"
| "class_put (P_JoinRequest p) n v = map_option P_JoinRequest (member_put JoinRequest_members p n v)"
| "class_put (P_ValidateWorld p) n v = map_option P_ValidateWorld (member_put ValidateWorld_members p n v)"
| "class_put (P_Input p) n v = map_option P_Input (member_put Input_members p n v)"
| "class_put (P_Log p) n v = map_option P_Log (member_put Log_members p n v)"
| "class_put (P_Disconnect p) n v = map_option P_Disconnect (member_put Disconnect_members p n v)"
| "class_put (P_SendMapData p) n v = map_option P_SendMapData (member_put SendMapData_members p n v)"
| "class_put (P_SendTileUpdateData p) n v =
     map_option P_SendTileUpdateData (member_put SendMapData_members p n v)"
| "class_put (P_SendItemDatabaseData p) n v = None"
| "class_put (P_SendInventoryState p) n v =
     map_option P_SendInventoryState (member_put SendInventoryState_members p n v)"
| "class_put (P_ModifyItemInventory p) n v =
     map_option P_ModifyItemInventory (member_put ModifyItemInventory_members p n v)"
| "class_put (P_TileChangeRequest p) n v =
     map_option P_TileChangeRequest (member_put TileChangeRequest_members p n v)"
| "class_put (P_ItemChangeObject p) n v =
     map_option P_ItemChangeObject (member_put ItemChangeObject_members p n v)"
| "class_put (P_OnSendToServer p) n v = map_option P_OnSendToServer (member_put OnSendToServer_members p n v)"
| "class_put (P_OnSuperMain p) n v = map_option P_OnSuperMain (member_put OnSuperMain_members p n v)"
| "class_put (P_OnSpawn p) n v = map_option P_OnSpawn (member_put OnSpawn_members p n v)"
| "class_put (P_OnRemove p) n v = map_option P_OnRemove (member_put OnRemove_members p n v)"
| "class_put (P_OnNameChanged p) n v = map_option P_OnNameChanged (member_put OnNameChanged_members p n v)"
| "class_put (P_OnChangeSkin p) n v = map_option P_OnChangeSkin (member_put OnChangeSkin_members p n v)"
| "class_put (P_GenericText p) n v = map_option P_GenericText (member_put GenericText_members p n v)"
| "class_put (P_GenericVariant p) n v = map_option P_GenericVariant (member_put GenericVariant_members p n v)"
| "class_put (P_GenericGame p) n v = map_option P_GenericGame (member_put GenericGame_members p n v)"

definition lua_get :: "lua_object \<Rightarrow> string \<Rightarrow> lua_value option" where
  "lua_get ob n =
     (case ob of
        Lua_packet p \<Rightarrow>
          (case class_get p n of Some v \<Rightarrow> Some v | None \<Rightarrow> member_get IPacket_members p n)
      | Lua_base_packet p \<Rightarrow> member_get IPacket_members p n
      | Lua_header h \<Rightarrow> member_get GameUpdatePacket_members h n
      | _ \<Rightarrow> None)"

definition lua_put :: "lua_object \<Rightarrow> string \<Rightarrow> lua_value \<Rightarrow> lua_object option" where
  "lua_put ob n v =
     (case ob of
        Lua_packet p \<Rightarrow> map_option Lua_packet (class_put p n v)
      | Lua_header h \<Rightarrow> map_option Lua_header (member_put GameUpdatePacket_members h n v)
      | _ \<Rightarrow> None)"

text \<open>The classes a script can make objects of.\<close>

definition lua_constructors :: "(string \<times> IPacket) list" where
  "lua_constructors =
     [(''ServerHelloPacket'', P_ServerHello new_text), (''LogPacket'', P_Log new_Log),
      (''QuitPacket'', P_Quit new_text), (''QuitToExitPacket'', P_QuitToExit new_text),
      (''JoinRequestPacket'', P_JoinRequest new_JoinRequest),
      (''ValidateWorldPacket'', P_ValidateWorld new_ValidateWorld), (''InputPacket'', P_Input new_Input),
      (''DisconnectPacket'', P_Disconnect new_game),
      (''OnSendToServerPacket'', P_OnSendToServer new_OnSendToServer),
      (''OnNameChangedPacket'', P_OnNameChanged new_OnNameChanged),
      (''OnChangeSkinPacket'', P_OnChangeSkin new_OnChangeSkin),
      (''OnSpawnPacket'', P_OnSpawn new_OnSpawn), (''OnRemovePacket'', P_OnRemove new_OnRemove),
      (''SendMapDataPacket'', P_SendMapData new_game),
      (''SendTileUpdateDataPacket'', P_SendTileUpdateData new_game),
      (''TileChangeRequestPacket'', P_TileChangeRequest new_TileChangeRequest),
      (''ItemChangeObjectPacket'', P_ItemChangeObject new_ItemChangeObject),
      (''OnSuperMainStartAcceptLogonPacket'', P_OnSuperMain new_OnSuperMain),
      (''SendInventoryStatePacket'', P_SendInventoryState new_SendInventoryState),
      (''ModifyItemInventoryPacket'', P_ModifyItemInventory new_ModifyItemInventory),
      (''GenericTextPacket'', P_GenericText new_generic_text),
      (''GenericVariantPacket'', P_GenericVariant new_variant),
      (''GenericGamePacket'', P_GenericGame new_game)]"

subsection \<open>Text objects and arguments\<close>

text \<open>\<open>bind_text_parse\<close>; its methods \<open>get\<close>, \<open>remove\<close>, \<open>contains\<close> and \<open>get_raw\<close> are those of the
  class.\<close>

definition lua_text_new :: "string \<Rightarrow> string \<Rightarrow> text_data" where
  "lua_text_new str delim = parse str delim"

definition lua_text_get :: "text_data \<Rightarrow> string \<Rightarrow> int option \<Rightarrow> string" where
  "lua_text_get d key index = get d key (case index of None \<Rightarrow> 0 | Some i \<Rightarrow> i)"

definition lua_text_raw :: "text_data \<Rightarrow> string option \<Rightarrow> string" where
  "lua_text_raw d delim = get_raw (case delim of None \<Rightarrow> bar | Some s \<Rightarrow> s) [] d"

definition lua_text_add :: "text_data \<Rightarrow> string \<Rightarrow> string \<Rightarrow> text_data" where
  "lua_text_add d key v = add d key [v]"

definition lua_text_set :: "text_data \<Rightarrow> string \<Rightarrow> string \<Rightarrow> text_data" where
  "lua_text_set d key v = set_val d key [v]"

definition lua_text_keys :: "text_data \<Rightarrow> string list" where
  "lua_text_keys d = map fst d"

definition lua_text_empty :: "text_data \<Rightarrow> bool" where
  "lua_text_empty d \<longleftrightarrow> d = []"

text \<open>\<open>bind_packet_variant\<close>: \<open>get\<close> by the type of the argument, and one getter for each type.\<close>

definition lua_variant_get :: "variants \<Rightarrow> nat \<Rightarrow> lua_value" where
  "lua_variant_get vs i =
     (if i \<ge> length vs then L_nil
      else case vs ! i of
        VFloat w \<Rightarrow> L_float w
      | VString s \<Rightarrow> L_string s
      | VVec2 x y \<Rightarrow> L_fields [(''x'', L_float x), (''y'', L_float y)]
      | VVec3 x y z \<Rightarrow> L_fields [(''x'', L_float x), (''y'', L_float y), (''z'', L_float z)]
      | VUnsigned w \<Rightarrow> push_unsigned w
      | VSigned w \<Rightarrow> push_signed w)"

definition lua_get_string :: "variants \<Rightarrow> nat \<Rightarrow> lua_value" where
  "lua_get_string vs i = L_string (get_string vs i)"

definition lua_get_int :: "variants \<Rightarrow> nat \<Rightarrow> lua_value" where
  "lua_get_int vs i = push_signed (get_signed vs i)"

definition lua_get_uint :: "variants \<Rightarrow> nat \<Rightarrow> lua_value" where
  "lua_get_uint vs i = push_unsigned (get_unsigned vs i)"

definition lua_get_float :: "variants \<Rightarrow> nat \<Rightarrow> lua_value" where
  "lua_get_float vs i = L_float (if i \<ge> length vs then 0 else case vs ! i of VFloat w \<Rightarrow> w | _ \<Rightarrow> 0)"

definition lua_get_vec2 :: "variants \<Rightarrow> nat \<Rightarrow> lua_value" where
  "lua_get_vec2 vs i =
     (case (if i \<ge> length vs then (0, 0) else case vs ! i of VVec2 x y \<Rightarrow> (x, y) | _ \<Rightarrow> (0, 0)) of
        (x, y) \<Rightarrow> L_fields [(''x'', L_float x), (''y'', L_float y)])"

definition lua_get_vec3 :: "variants \<Rightarrow> nat \<Rightarrow> lua_value" where
  "lua_get_vec3 vs i =
     (case (if i \<ge> length vs then (0, 0, 0) else case vs ! i of VVec3 x y z \<Rightarrow> (x, y, z) | _ \<Rightarrow> (0, 0, 0)) of
        (x, y, z) \<Rightarrow> L_fields [(''x'', L_float x), (''y'', L_float y), (''z'', L_float z)])"

subsection \<open>Enumerations\<close>

text \<open>A table of the enumerators magic_enum sees.\<close>

definition enum_table :: "nat \<Rightarrow> (string \<times> 'w::len word) list \<Rightarrow> (string \<times> int) list" where
  "enum_table range_max es = map (\<lambda>(n, v). (n, uint v)) (filter (\<lambda>(n, v). unat v \<le> range_max) es)"

definition variant_type_enumerators :: "(string \<times> u8) list" where
  "variant_type_enumerators =
     [(''UNKNOWN'', 0), (''FLOAT'', 1), (''STRING'', 2), (''VEC2'', 3), (''VEC3'', 4), (''UNSIGNED'', 5),
      (''SIGNED'', 9)]"

definition lua_type_at :: "nat \<Rightarrow> variants \<Rightarrow> nat \<Rightarrow> string" where
  "lua_type_at range_max vs i =
     (if i \<ge> length vs then ''nil''
      else case find (\<lambda>(n, v). v = uint (get_type (vs ! i))) (enum_table range_max variant_type_enumerators) of
        None \<Rightarrow> [] | Some (n, _) \<Rightarrow> n)"

definition packet_type_enumerators :: "(string \<times> u8) list" where
  "packet_type_enumerators =
     zip [''PACKET_STATE'', ''PACKET_CALL_FUNCTION'', ''PACKET_UPDATE_STATUS'', ''PACKET_TILE_CHANGE_REQUEST'',
       ''PACKET_SEND_MAP_DATA'', ''PACKET_SEND_TILE_UPDATE_DATA'', ''PACKET_SEND_TILE_UPDATE_DATA_MULTIPLE'',
       ''PACKET_TILE_ACTIVATE_REQUEST'', ''PACKET_TILE_APPLY_DAMAGE'', ''PACKET_SEND_INVENTORY_STATE'',
       ''PACKET_ITEM_ACTIVATE_REQUEST'', ''PACKET_ITEM_ACTIVATE_OBJECT_REQUEST'', ''PACKET_SEND_TILE_TREE_STATE'',
       ''PACKET_MODIFY_ITEM_INVENTORY'', ''PACKET_ITEM_CHANGE_OBJECT'', ''PACKET_SEND_LOCK'',
       ''PACKET_SEND_ITEM_DATABASE_DATA'', ''PACKET_SEND_PARTICLE_EFFECT'', ''PACKET_SET_ICON_STATE'',
       ''PACKET_ITEM_EFFECT'', ''PACKET_SET_CHARACTER_STATE'', ''PACKET_PING_REPLY'', ''PACKET_PING_REQUEST'',
       ''PACKET_GOT_PUNCHED'', ''PACKET_APP_CHECK_RESPONSE'', ''PACKET_APP_INTEGRITY_FAIL'', ''PACKET_DISCONNECT'',
       ''PACKET_BATTLE_JOIN'', ''PACKET_BATTLE_EVENT'', ''PACKET_USE_DOOR'', ''PACKET_SEND_PARENTAL'',
       ''PACKET_GONE_FISHIN'', ''PACKET_STEAM'', ''PACKET_PET_BATTLE'', ''PACKET_NPC'', ''PACKET_SPECIAL'',
       ''PACKET_SEND_PARTICLE_EFFECT_V2'', ''PACKET_ACTIVE_ARROW_TO_ITEM'', ''PACKET_SELECT_TILE_INDEX'',
       ''PACKET_SEND_PLAYER_TRIBUTE_DATA'', ''PACKET_FTUE_SET_ITEM_TO_QUICK_INVENTORY'', ''PACKET_PVE_NPC'',
       ''PACKET_PVP_CARD_BATTLE'', ''PACKET_PVE_APPLY_PLAYER_DAMAGE'', ''PACKET_PVE_NPC_POSITION_DAMAGE'',
       ''PACKET_SET_EXTRA_MODS'', ''PACKET_ON_STEP_ON_TILE_MOD'', ''PACKET_MAX'']
       (map word_of_nat [0..<48])"

text \<open>\<open>bind_enums\<close> lists the flags by hand.\<close>

definition packet_flag_table :: "(string \<times> int) list" where
  "packet_flag_table =
     [(''PACKET_FLAG_NONE'', 0), (''PACKET_FLAG_UNK'', 2 ^ 1), (''PACKET_FLAG_RESET_VISUAL_STATE'', 2 ^ 2),
      (''PACKET_FLAG_EXTENDED'', 2 ^ 3), (''PACKET_FLAG_ROTATE_LEFT'', 2 ^ 4), (''PACKET_FLAG_ON_SOLID'', 2 ^ 5),
      (''PACKET_FLAG_ON_FIRE_DAMAGE'', 2 ^ 6), (''PACKET_FLAG_ON_JUMP'', 2 ^ 7), (''PACKET_FLAG_ON_KILLED'', 2 ^ 8),
      (''PACKET_FLAG_ON_PUNCHED'', 2 ^ 9), (''PACKET_FLAG_ON_PLACED'', 2 ^ 10),
      (''PACKET_FLAG_ON_TILE_ACTION'', 2 ^ 11), (''PACKET_FLAG_ON_GOT_PUNCHED'', 2 ^ 12),
      (''PACKET_FLAG_ON_RESPAWNED'', 2 ^ 13), (''PACKET_FLAG_ON_COLLECT_OBJECT'', 2 ^ 14),
      (''PACKET_FLAG_ON_TRAMPOLINE'', 2 ^ 15), (''PACKET_FLAG_ON_DAMAGE'', 2 ^ 16),
      (''PACKET_FLAG_ON_SLIDE'', 2 ^ 17), (''PACKET_FLAG_ON_WALL_HANG'', 2 ^ 21),
      (''PACKET_FLAG_ON_ACID_DAMAGE'', 2 ^ 26)]"

subsection \<open>Sending\<close>

text \<open>\<open>Client\<close> is the connection to the Growtopia server, \<open>Server\<close> the one to the game. A Lua table
  of length \<open>n\<close> is the list of its entries 1 to \<open>n\<close>, those that are integers.\<close>

definition lua_send_to_server :: "'z Env \<Rightarrow> IPacket \<Rightarrow> Proxy \<Rightarrow> bool \<times> Proxy" where
  "lua_send_to_server env p px = write_client env p px"

definition lua_send_to_client :: "'z Env \<Rightarrow> IPacket \<Rightarrow> Proxy \<Rightarrow> bool \<times> Proxy" where
  "lua_send_to_client env p px = write_server env p px"

definition send_to_direction :: "'z Env \<Rightarrow> bytes \<Rightarrow> bool \<Rightarrow> Proxy \<Rightarrow> bool \<times> Proxy" where
  "send_to_direction env d to_server px = (if to_server then client_write env d px else server_write env d px)"

definition table_bytes :: "int option list \<Rightarrow> bytes" where
  "table_bytes t = map word_of_int (List.map_filter id t)"

definition lua_send_raw :: "'z Env \<Rightarrow> int option list \<Rightarrow> bool \<Rightarrow> Proxy \<Rightarrow> bool \<times> Proxy" where
  "lua_send_raw env t to_server px =
     (let d = table_bytes t in if d = [] then (False, px) else send_to_direction env d to_server px)"

definition text_message :: "string \<Rightarrow> NetMessageType \<Rightarrow> bytes" where
  "text_message s t = get_data (write_string TYPE(16) s False (write_word t empty_stream)) @ [0]"

definition send_text_packet :: "'z Env \<Rightarrow> string \<Rightarrow> bool \<Rightarrow> int option \<Rightarrow> Proxy \<Rightarrow> bool \<times> Proxy" where
  "send_text_packet env s to_server msg_type px =
     send_to_direction env
       (text_message s (case msg_type of Some i \<Rightarrow> word_of_int i | None \<Rightarrow> NET_MESSAGE_GAME_MESSAGE)) to_server px"

definition lua_send_text_parse :: "'z Env \<Rightarrow> text_data \<Rightarrow> bool \<Rightarrow> int option \<Rightarrow> Proxy \<Rightarrow> bool \<times> Proxy" where
  "lua_send_text_parse env d to_server msg_type px = send_text_packet env (raw d) to_server msg_type px"

end
