(* ===== verification/Printing.thy ===== *)
theory Printing
  imports LuaPackets
begin

text \<open>
  What the proxy prints about messages: the formatters of \<open>utils/formatter/\<close> and the lines the packet
  decoder logs (\<open>packet/packet_decoder.cpp\<close>). How fmt prints a float and how spdlog dumps bytes are
  parameters.
\<close>

subsection \<open>Formatters\<close>

definition format_text :: "text_data \<Rightarrow> string" where
  "format_text d = join newline (map (\<lambda>(k, v). k @ '': '' @ v) (get_key_values bar d))"

fun format_variant :: "(u32 \<Rightarrow> string) \<Rightarrow> variant \<Rightarrow> string" where
  "format_variant fl (VFloat f) = ''[FLOAT]: '' @ fl f"
| "format_variant fl (VString s) = ''[STRING]: '' @ s"
| "format_variant fl (VVec2 x y) = ''[VEC2]: x: '' @ fl x @ '', y: '' @ fl y"
| "format_variant fl (VVec3 x y z) = ''[VEC3]: x: '' @ fl x @ '', y: '' @ fl y @ '', z: '' @ fl z"
| "format_variant fl (VUnsigned w) = ''[UNSIGNED]: '' @ to_chars (uint w)"
| "format_variant fl (VSigned w) = ''[SIGNED]: '' @ to_chars (sint w)"

definition format_entry :: "(u32 \<Rightarrow> string) \<Rightarrow> nat \<Rightarrow> variant \<Rightarrow> string" where
  "format_entry fl i v = ''['' @ to_chars (int i) @ ''] '' @ format_variant fl v"

definition format_variants :: "(u32 \<Rightarrow> string) \<Rightarrow> variants \<Rightarrow> string" where
  "format_variants fl vs = join newline (map (\<lambda>i. format_entry fl i (vs ! i)) [0..<length vs])"

subsection \<open>The decoder's lines\<close>

record printers =
  float_chars :: "u32 \<Rightarrow> string"
  to_hex :: "bytes \<Rightarrow> string"
  enum_range :: nat

definition net_message_enumerators :: "(string \<times> u32) list" where
  "net_message_enumerators =
     [(''NET_MESSAGE_UNKNOWN'', 0), (''NET_MESSAGE_SERVER_HELLO'', 1), (''NET_MESSAGE_GENERIC_TEXT'', 2),
      (''NET_MESSAGE_GAME_MESSAGE'', 3), (''NET_MESSAGE_GAME_PACKET'', 4), (''NET_MESSAGE_ERROR'', 5),
      (''NET_MESSAGE_TRACK'', 6), (''NET_MESSAGE_CLIENT_LOG_REQUEST'', 7),
      (''NET_MESSAGE_CLIENT_LOG_RESPONSE'', 8), (''NET_MESSAGE_MAX'', 9)]"

definition packet_type_name :: "nat \<Rightarrow> u8 \<Rightarrow> string" where
  "packet_type_name range_max t =
     (case find (\<lambda>(n, v). v = uint t) (enum_table range_max packet_type_enumerators) of
        None \<Rightarrow> [] | Some (n, _) \<Rightarrow> n)"

text \<open>The lines of one message; None is a view of the header in a message that is shorter.\<close>

definition decode_lines :: "printers \<Rightarrow> LogConfig \<Rightarrow> string \<Rightarrow> bytes \<Rightarrow> string list option" where
  "decode_lines pr cfg direction data = do {
     let size_line = ''['' @ direction @ ''] Decoding packet of size '' @ to_chars (int (length data)) @ '' bytes'';
     (ok, msg_type, s) \<leftarrow> read_word (0 :: u32) (span_stream data);
     let type_name = enum_name (enum_range pr) net_message_enumerators msg_type;
     if \<not> ok then Some [size_line]
     else if msg_type = NET_MESSAGE_SERVER_HELLO then Some [size_line, ''Received server hello packet'']
     else if msg_type = NET_MESSAGE_GENERIC_TEXT \<or> msg_type = NET_MESSAGE_GAME_MESSAGE then do {
       (message, s) \<leftarrow> rd_str (ucast (get_size s - 4 - 1) :: u16) [] s;
       Some (size_line #
         (if print_message cfg
          then [type_name @ '' ('' @ to_chars (int (length message)) @ '' bytes):'' @ newline @ format_text (parse message bar)]
          else []))
     }
     else if msg_type = NET_MESSAGE_GAME_PACKET then do {
       (pkt, ext) \<leftarrow> decode_game data;
       let ls = [size_line, type_name @ '' with type of '' @ packet_type_name (enum_range pr) (pkt_type pkt)];
       if print_game_update_packet cfg \<and> length data < 60 then None
       else do {
         let ls = ls @ (if print_game_update_packet cfg then [''Game packet: '' @ to_hex pr (take 56 (drop 4 data))] else []);
         if pkt_type pkt = PACKET_CALL_FUNCTION then do {
           (ok, vs) \<leftarrow> deserialize [] ext;
           Some (if ok \<and> print_variant cfg then ls @ [format_variants (float_chars pr) vs] else ls)
         }
         else Some (if print_extra cfg \<and> (if data_size pkt > 0 then unat (data_size pkt) else length ext) > 1
                    then ls @ [''Extra data: '' @ to_hex pr ext] else ls)
       }
     }
     else Some [size_line]
   }"

subsection \<open>What a printed remote call tells\<close>

text \<open>Floats that print differently from each other, on one line and without a comma; fmt prints the
  shortest digits that read back as the same float, and one word for all that are not numbers.\<close>

definition float_printer :: "(u32 \<Rightarrow> string) \<Rightarrow> u32 set \<Rightarrow> bool" where
  "float_printer fl F \<longleftrightarrow> inj_on fl F \<and> (\<forall>x \<in> F. CHR '','' \<notin> set (fl x) \<and> CHR 0x0A \<notin> set (fl x))"

fun one_line :: "u32 set \<Rightarrow> variant \<Rightarrow> bool" where
  "one_line F (VString s) = (CHR 0x0A \<notin> set s)"
| "one_line F (VFloat x) = (x \<in> F)"
| "one_line F (VVec2 x y) = (x \<in> F \<and> y \<in> F)"
| "one_line F (VVec3 x y z) = (x \<in> F \<and> y \<in> F \<and> z \<in> F)"
| "one_line F _ = True"

lemma to_chars_inject [simp]: "to_chars i = to_chars j \<longleftrightarrow> i = j"
  by (metis from_chars_to_chars max.cobounded1 max.cobounded2 min.cobounded1 min.cobounded2 sum.inject(2))

lemma append_separated:
  "c \<notin> set xs \<Longrightarrow> c \<notin> set ys \<Longrightarrow> xs @ c # zs = ys @ c # ws \<longleftrightarrow> xs = ys \<and> zs = ws"
  by (induction xs arbitrary: ys) (case_tac ys; auto)+

lemma printer_D:
  assumes "float_printer fl F"
  shows "x \<in> F \<Longrightarrow> y \<in> F \<Longrightarrow> fl x = fl y \<longleftrightarrow> x = y"
    and "x \<in> F \<Longrightarrow> CHR '','' \<notin> set (fl x)" and "x \<in> F \<Longrightarrow> CHR 0x0A \<notin> set (fl x)"
  using assms by (auto simp: float_printer_def inj_on_eq_iff)

lemma to_chars_plain [simp]: "CHR 0x0A \<notin> set (to_chars i)" "CHR '']'' \<notin> set (to_chars i)"
  by (simp_all add: to_chars_no is_digit_def digit_value_def)

lemma format_variant_inject:
  assumes "float_printer fl F" and "one_line F v" and "one_line F w"
  shows "format_variant fl v = format_variant fl w \<longleftrightarrow> v = w"
  using assms(2,3) printer_D [OF assms(1)]
  by (cases v; cases w) (simp_all add: append_separated flip: word_eq_iff_unsigned word_eq_iff_signed)

lemma format_entry_inject:
  assumes "float_printer fl F" and "one_line F v" and "one_line F w"
  shows "format_entry fl i v = format_entry fl j w \<longleftrightarrow> i = j \<and> v = w"
  using format_variant_inject [OF assms] by (simp add: format_entry_def append_separated)

lemma format_entry_one_line:
  assumes "float_printer fl F" and "one_line F v"
  shows "CHR 0x0A \<notin> set (format_entry fl i v)"
  using assms(2) printer_D(3) [OF assms(1)] by (cases v) (simp_all add: format_entry_def)

text \<open>The line the decoder prints for a remote call tells its arguments, provided its strings hold no line
  break and its floats are numbers.\<close>

theorem printed_call_faithful:
  assumes "float_printer fl F" and "list_all (one_line F) vs" and "list_all (one_line F) ws"
  shows "format_variants fl vs = format_variants fl ws \<longleftrightarrow> vs = ws"
proof (rule iffI)
  assume same: "format_variants fl vs = format_variants fl ws"
  have entries: "\<forall>e \<in> set (map (\<lambda>i. format_entry fl i (us ! i)) [0..<length us]). CHR 0x0A \<notin> set e"
    if "list_all (one_line F) us" for us
    using that by (auto simp: list_all_length intro!: format_entry_one_line [OF assms(1)])
  have split: "split_view newline (format_variants fl us) =
      (if us = [] then [[]] else map (\<lambda>i. format_entry fl i (us ! i)) [0..<length us])"
    if "list_all (one_line F) us" for us
    using split_view_join [OF entries [OF that]] by (simp add: format_variants_def)
  have nonempty: "map (\<lambda>i. format_entry fl i (us ! i)) ns \<noteq> [[]]" for us ns
    by (cases ns) (simp_all add: format_entry_def)
  have entries_eq: "map (\<lambda>i. format_entry fl i (vs ! i)) [0..<length vs] = map (\<lambda>i. format_entry fl i (ws ! i)) [0..<length ws]"
  proof (cases "vs = [] \<or> ws = []")
    case True
    then have "vs = [] \<and> ws = []"
      using split [OF assms(2)] split [OF assms(3)] same nonempty nonempty [symmetric]
      by (metis (no_types, lifting))
    then show ?thesis by simp
  next
    case False
    then show ?thesis using split [OF assms(2)] split [OF assms(3)] same by (simp del: upt_Suc)
  qed
  then have len: "length vs = length ws"
    by (metis (no_types, lifting) diff_zero length_map length_upt)
  moreover have "vs ! i = ws ! i" if "i < length vs" for i
  proof -
    from entries_eq have "map (\<lambda>i. format_entry fl i (vs ! i)) [0..<length vs] ! i =
        map (\<lambda>i. format_entry fl i (ws ! i)) [0..<length ws] ! i"
      by (rule arg_cong)
    with that len have "format_entry fl i (vs ! i) = format_entry fl i (ws ! i)"
      by (simp del: upt_Suc)
    moreover have "one_line F (vs ! i)" and "one_line F (ws ! i)"
      using that len assms(2,3) by (simp_all add: list_all_length)
    ultimately show ?thesis using format_entry_inject [OF assms(1)] by blast
  qed
  ultimately show "vs = ws" by (rule nth_equalityI)
qed simp

text \<open>The string ``1'' and the number 1; the floats are the words 0 and 1, printed as their first digit.\<close>

theorem printed_call_faithful_witness:
  "format_variants (\<lambda>x. if x = 0 then ''0'' else ''1'') [VFloat 1, VString ''1''] =
     format_variants (\<lambda>x. if x = 0 then ''0'' else ''1'') [VFloat 1, VSigned 1] \<longleftrightarrow>
   [VFloat 1, VString ''1''] = [VFloat 1, VSigned 1]"
proof (rule printed_call_faithful)
  show "float_printer (\<lambda>x. if x = 0 then ''0'' else ''1'') {0, 1}"
    by (simp add: float_printer_def)
qed simp_all

text \<open>An argument with a line break prints like two arguments.\<close>

theorem printed_call_forged:
  "format_variants fl [VString (s @ newline @ format_entry fl 1 v)] = format_variants fl [VString s, v]"
  by (simp add: format_variants_def format_entry_def)

end
