(* ===== verification/LuaData.thy ===== *)
theory LuaData
  imports LuaPackets Reachable
begin

text \<open>
  What scripts see of items, the world and its players: \<open>item_bindings.cpp\<close>, \<open>world_bindings.cpp\<close>,
  \<open>world_data_bindings.cpp\<close> and \<open>player_bindings.cpp\<close> under \<open>src/scripting/bindings/\<close>, with the
  enumerations of \<open>src/item/item_info.hpp\<close> they hand out.
\<close>

subsection \<open>Enumerations of items\<close>

definition MaterialType_enumerators :: "(string \<times> u8) list" where
  "MaterialType_enumerators =
     [(''Wooden'', 0), (''Glass'', 1), (''Rock'', 2), (''Metal'', 3)]"

definition ItemType_enumerators :: "(string \<times> u8) list" where
  "ItemType_enumerators =
     [(''AnyButSeed'', 254), (''Any'', 255), (''Fist'', 0), (''Wrench'', 1), (''UserDoor'', 2),
      (''Lock'', 3), (''Gems'', 4), (''Treasure'', 5), (''Deadly'', 6), (''Trampoline'', 7),
      (''Consumable'', 8), (''Gateway'', 9), (''Sign'', 10), (''SfxWithExtraFrame'', 11),
      (''Boombox'', 12), (''Door'', 13), (''Platform'', 14), (''Bedrock'', 15), (''Lava'', 16),
      (''Normal'', 17), (''Background'', 18), (''Seed'', 19), (''Clothes'', 20),
      (''NormalWithExtraFrame'', 21), (''BackgdSfxExtraFrame'', 22), (''BackBoombox'', 23),
      (''Bouncy'', 24), (''Pointy'', 25), (''Portal'', 26), (''Checkpoint'', 27), (''Musicnote'', 28),
      (''Ice'', 29), (''RaceFlag'', 30), (''Switcheroo'', 31), (''Chest'', 32), (''Mailbox'', 33),
      (''Bulletin'', 34), (''Pinata'', 35), (''Dice'', 36), (''Component'', 37), (''Provider'', 38),
      (''Lab'', 39), (''Achievement'', 40), (''WeatherMachine'', 41), (''Scoreboard'', 42),
      (''Sungate'', 43), (''Profile'', 44), (''DeadlyIfOn'', 45), (''HeartMonitor'', 46),
      (''DonationBox'', 47), (''Toybox'', 48), (''Mannequin'', 49), (''Camera'', 50), (''Magicegg'', 51),
      (''Team'', 52), (''GameGen'', 53), (''Xenonite'', 54), (''Dressup'', 55), (''Crystal'', 56),
      (''Burglar'', 57), (''Compactor'', 58), (''Spotlight'', 59), (''Wind'', 60), (''DisplayBlock'', 61),
      (''Vending'', 62), (''Fishtank'', 63), (''Petfish'', 64), (''Solar'', 65), (''Forge'', 66),
      (''GivingTree'', 67), (''GivingTreeStump'', 68), (''Steampunk'', 69), (''SteamLavaIfOn'', 70),
      (''SteamOrgan'', 71), (''Tamagotchi'', 72), (''Sewing'', 73), (''Flag'', 74), (''LobsterTrap'', 75),
      (''Artcanvas'', 76), (''BattleCage'', 77), (''PetTrainer'', 78), (''SteamEngine'', 79),
      (''LockBot'', 80), (''WeatherSpecial'', 81), (''SpiritStorage'', 82), (''DisplayShelf'', 83),
      (''VipDoor'', 84), (''ChalTimer'', 85), (''ChalFlag'', 86), (''FishMount'', 87), (''Portrait'', 88),
      (''WeatherSpecial2'', 89), (''Fossil'', 90), (''FossilPrep'', 91), (''DnaMachine'', 92),
      (''Blaster'', 93), (''Valhowla'', 94), (''Chemsynth'', 95), (''Chemtank'', 96), (''Storage'', 97),
      (''Oven'', 98), (''SuperMusic'', 99), (''Geigercharge'', 100), (''AdventureReset'', 101),
      (''TombRobber'', 102), (''Faction'', 103), (''RedFaction'', 104), (''GreenFaction'', 105),
      (''BlueFaction'', 106), (''Artifact'', 107), (''TrampolineMomentum'', 108),
      (''FishgotchiTank'', 109), (''FishingBlock'', 110), (''ItemSucker'', 111), (''ItemPlanter'', 112),
      (''Robot'', 113), (''Command'', 114), (''LuckyTicket'', 115), (''StatsBlock'', 116),
      (''FieldNode'', 117), (''OuijaBoard'', 118), (''ArchitectMachine'', 119), (''Starship'', 120),
      (''Autodelete'', 121), (''Boombox2'', 122), (''AutoActionBreak'', 123), (''AutoActionHarvest'', 124),
      (''AutoActionHarvestSuck'', 125), (''LightningCloud'', 126), (''PhasedBlock'', 127), (''Mud'', 128),
      (''RootCutting'', 129), (''PasswordStorage'', 130), (''PhasedBlock2'', 131), (''Bomb'', 132),
      (''PveNpc'', 133), (''InfinityWeatherMachine'', 134), (''Slime'', 135), (''Acid'', 136),
      (''Completionist'', 137), (''PunchToggle'', 138), (''AnzuBlock'', 139), (''FeedingBlock'', 140),
      (''KrankensBlock'', 141), (''FriendsEntrance'', 142), (''Pearls'', 143)]"

definition VisualEffect_enumerators :: "(string \<times> u8) list" where
  "VisualEffect_enumerators =
     [(''None'', 0), (''FlameLick'', 1), (''Smoking'', 2), (''GlowTint1'', 3), (''Anim'', 4),
      (''Bubbles'', 5), (''Pet'', 6), (''PetAnim'', 7), (''NoArms'', 8), (''Wavey'', 9),
      (''WaveyAnim'', 10), (''Botharms'', 11), (''Lowhair'', 12), (''Underface'', 13), (''Skintint'', 14),
      (''Mask'', 15), (''AnimMask'', 16), (''LowhairMask'', 17), (''Ghost'', 18), (''BubbleMachine'', 46),
      (''Pulse'', 19), (''Colorize'', 20), (''ColorizeToShirt'', 21), (''ColorizeAnim'', 22),
      (''Highface'', 23), (''HighfaceAnim'', 24), (''RainbowShift'', 25), (''Backfore'', 26),
      (''ColorizeWithSkin'', 27), (''NoRender'', 28), (''Spin'', 29), (''Offhand'', 30), (''Winged'', 31),
      (''Sink'', 32), (''Darkness'', 33), (''Lightsource'', 34), (''LightIfOn'', 35), (''Discolor'', 36),
      (''StepSpin'', 37), (''Petcolored'', 38), (''Silkfoot'', 39), (''Tilty'', 40), (''TiltyDark'', 41),
      (''NextFrameIfOn'', 42), (''Wobble'', 43), (''Scroll'', 44), (''LightsourcePulse'', 45),
      (''Verylowhair'', 47), (''VerylowhairMask'', 48)]"

definition CollisionType_enumerators :: "(string \<times> u8) list" where
  "CollisionType_enumerators =
     [(''None'', 0), (''Full'', 1), (''JumpThrough'', 2), (''Gateway'', 3), (''CollideIfOff'', 4),
      (''OneWay'', 5), (''VipDoor'', 6), (''JumpDown'', 7), (''Adventure'', 8), (''CollideIfOn'', 9),
      (''Faction'', 10), (''Guild'', 11), (''Cloud'', 12), (''FriendEntrance'', 13)]"

definition ClothingType_enumerators :: "(string \<times> u8) list" where
  "ClothingType_enumerators =
     [(''None'', 0), (''Shirt'', 1), (''Pants'', 2), (''Shoes'', 3), (''Face'', 4), (''Hand'', 5),
      (''Back'', 6), (''Hair'', 7), (''Neck'', 8)]"

text \<open>\<open>bind_enums\<close>: the tables under \<open>item\<close>.\<close>

definition item_enums :: "nat \<Rightarrow> (string \<times> (string \<times> int) list) list" where
  "item_enums range_max =
     [(''Type'', enum_table range_max ItemType_enumerators),
      (''CollisionType'', enum_table range_max CollisionType_enumerators),
      (''VisualEffect'', enum_table range_max VisualEffect_enumerators),
      (''MaterialType'', enum_table range_max MaterialType_enumerators),
      (''ClothingType'', enum_table range_max ClothingType_enumerators)]"

subsection \<open>Items\<close>

text \<open>The bit fields of \<open>ItemInfoFlag\<close>, from the lowest bit.\<close>

definition item_flag_names :: "string list" where
  "item_flag_names =
     [''flippable'', ''editable'', ''seedless'', ''permanent'', ''dropless'', ''no_self'', ''no_shadow'',
      ''world_locked'', ''beta'', ''auto_pickup'', ''mod'', ''random_grow'', ''is_public'', ''foreground'',
      ''holiday'', ''untradeable'']"

definition item_flags :: "u16 \<Rightarrow> (string \<times> lua_value) list" where
  "item_flags w = map (\<lambda>(i, n). (n, L_boolean (bit w i))) (enumerate 0 item_flag_names)"

fun push_field :: "field_value \<Rightarrow> lua_value" where
  "push_field (V8 w) = push_unsigned w"
| "push_field (V16 w) = push_unsigned w"
| "push_field (V32 w) = push_unsigned w"
| "push_field (VStr s) = L_string s"
| "push_field (VArr d) = byte_table d"

text \<open>The members scripts can name; \<open>flags\<close> becomes a table of booleans.\<close>

definition item_member_names :: "string list" where
  "item_member_names =
     [''item_id'', ''item_name'', ''item_type'', ''material'', ''texture_file_path'', ''visual_effect'',
      ''collision_type'', ''clothing_type'', ''rarity'', ''max_amount'', ''health'', ''flags'']"

definition item_get :: "ItemInfo \<Rightarrow> string \<Rightarrow> lua_value option" where
  "item_get it n =
     (if n \<notin> set item_member_names then None
      else map_option (\<lambda>v. if n = ''flags'' then (case v of V16 w \<Rightarrow> L_fields (item_flags w) | _ \<Rightarrow> L_nil)
                           else push_field v) (map_of it n))"

text \<open>\<open>bind_item_database\<close>; \<open>get_item\<close> is that of the class.\<close>

definition database_version :: "ItemDatabase \<Rightarrow> lua_value" where
  "database_version db = push_unsigned (db_version db)"

definition database_count :: "ItemDatabase \<Rightarrow> lua_value" where
  "database_count db = push_unsigned (db_count db)"

definition database_empty :: "ItemDatabase \<Rightarrow> bool" where
  "database_empty db \<longleftrightarrow> db_items db = []"

subsection \<open>Players and the world\<close>

definition Player_members :: "Player lua_member list" where
  "Player_members =
     [read_only ''net_id'' (push_signed \<circ> player_net_id),
      read_only ''user_id'' (push_signed \<circ> player_user_id),
      read_only ''name'' (L_string \<circ> player_name),
      read_only ''country_code'' (L_string \<circ> player_country),
      read_only ''position'' (\<lambda>p. L_fields
        [(''x'', push_signed (fst (player_position p))), (''y'', push_signed (snd (player_position p)))]),
      read_only ''collision'' (\<lambda>p. case player_collision p of (x, y, z, w) \<Rightarrow> L_fields
        [(''x'', push_signed x), (''y'', push_signed y), (''z'', push_signed z), (''w'', push_signed w)]),
      read_only ''invisible'' (push_signed \<circ> player_invisible),
      read_only ''mod_state'' (push_signed \<circ> player_mod_state),
      read_only ''supermod_state'' (push_signed \<circ> player_supermod_state),
      read_only ''is_local'' (L_boolean \<circ> is_local)]"

definition world_local_net_id :: "World \<Rightarrow> lua_value" where
  "world_local_net_id w = push_signed (local_net_id w)"

definition world_get_version :: "World \<Rightarrow> lua_value" where
  "world_get_version w = push_unsigned (world_version w)"

text \<open>\<open>world:get_players()\<close>: a table keyed by the identifiers.\<close>

definition world_players :: "World \<Rightarrow> int \<Rightarrow> Player option" where
  "world_players w k = (if k \<in> sint ` dom (players w) then players w (word_of_int k) else None)"

subsection \<open>Tiles and objects\<close>

definition Tile_members :: "Tile lua_member list" where
  "Tile_members =
     [unsigned_member ''foreground'' foreground foreground_update,
      unsigned_member ''background'' background background_update,
      unsigned_member ''parent_tile'' parent_tile parent_tile_update,
      unsigned_member ''flag'' tile_flag tile_flag_update,
      unsigned_member ''lock_parent_tile'' lock_parent_tile lock_parent_tile_update]"

definition Object_members :: "Object lua_member list" where
  "Object_members =
     [unsigned_member ''item_id'' obj_item_id obj_item_id_update,
      read_only ''pos'' (\<lambda>ob. L_fields [(''x'', push_signed (fst (obj_pos ob))), (''y'', push_signed (snd (obj_pos ob)))]),
      unsigned_member ''amount'' obj_amount obj_amount_update,
      unsigned_member ''flags'' obj_flags obj_flags_update,
      unsigned_member ''object_id'' obj_id obj_id_update]"

text \<open>\<open>extra:get_as_door()\<close> and the others: the data if it is of the kind.\<close>

definition get_as_door :: "TileExtra \<Rightarrow> extra_data option" where
  "get_as_door x = (case extra_value x of Door l u \<Rightarrow> Some (Door l u) | _ \<Rightarrow> None)"

definition get_as_lock :: "TileExtra \<Rightarrow> extra_data option" where
  "get_as_lock x = (case extra_value x of Lock a b c \<Rightarrow> Some (Lock a b c) | _ \<Rightarrow> None)"

definition get_as_seed :: "TileExtra \<Rightarrow> extra_data option" where
  "get_as_seed x = (case extra_value x of Seed a b \<Rightarrow> Some (Seed a b) | _ \<Rightarrow> None)"

definition get_as_sign :: "TileExtra \<Rightarrow> extra_data option" where
  "get_as_sign x = (case extra_value x of Sign l u \<Rightarrow> Some (Sign l u) | _ \<Rightarrow> None)"

text \<open>A Lua table of references: entry \<open>i\<close> is element \<open>i - 1\<close>.\<close>

definition table_entry :: "'a list \<Rightarrow> int \<Rightarrow> 'a option" where
  "table_entry xs i = (if 1 \<le> i \<and> i \<le> int (length xs) then Some (xs ! nat (i - 1)) else None)"

definition extra_get_type :: "TileExtra \<Rightarrow> lua_value" where
  "extra_get_type x = push_unsigned (extra_type x)"

text \<open>The members that \<open>bind_tile_extra_variants\<close> would give the data of tiles. It is never called: scripts
  are handed the data, but find no member in it.\<close>

definition Door_members :: "extra_data \<Rightarrow> (string \<times> lua_value) list" where
  "Door_members v = (case v of Door l u \<Rightarrow> [(''label'', L_string l), (''unk'', push_unsigned u)] | _ \<Rightarrow> [])"

definition Lock_members :: "extra_data \<Rightarrow> (string \<times> lua_value) list" where
  "Lock_members v = (case v of Lock u i _ \<Rightarrow> [(''owner_id'', push_unsigned i), (''unk'', push_unsigned u)] | _ \<Rightarrow> [])"

definition Lock_accesses :: "extra_data \<Rightarrow> int \<Rightarrow> lua_value option" where
  "Lock_accesses v i = (case v of Lock _ _ ws \<Rightarrow> map_option push_unsigned (table_entry ws i) | _ \<Rightarrow> None)"

definition Seed_members :: "extra_data \<Rightarrow> (string \<times> lua_value) list" where
  "Seed_members v =
     (case v of Seed t n \<Rightarrow> [(''growth_time'', push_unsigned t), (''fruit_count'', push_unsigned n)] | _ \<Rightarrow> [])"

definition Sign_members :: "extra_data \<Rightarrow> (string \<times> lua_value) list" where
  "Sign_members v = (case v of Sign l u \<Rightarrow> [(''label'', L_string l), (''unk'', push_unsigned u)] | _ \<Rightarrow> [])"

definition tile_map_size :: "WorldTileMap \<Rightarrow> lua_value" where
  "tile_map_size m = L_fields [(''x'', push_signed (fst (map_size m))), (''y'', push_signed (snd (map_size m)))]"

definition map_tiles :: "WorldTileMap \<Rightarrow> int \<Rightarrow> Tile option" where
  "map_tiles m = table_entry (tiles m)"

definition map_objects :: "WorldObjectMap \<Rightarrow> int \<Rightarrow> Object option" where
  "map_objects m = table_entry (objects m)"

definition object_drop_id :: "WorldObjectMap \<Rightarrow> lua_value" where
  "object_drop_id m = push_unsigned (drop_id m)"

end
