(* ===== verification/LuaFacts.thy ===== *)
theory LuaFacts
  imports LuaPackets CoreFacts
begin

text \<open>
  What scripts can do with packets: an assignment changes the member it names and nothing else, what
  of it is sent, and what becomes of the messages a script sends itself.
\<close>

subsection \<open>Classes\<close>

text \<open>What a usertype promises: an assigned member has the assigned value and the others keep theirs.\<close>

locale lua_class =
  fixes ms :: "'a lua_member list"
  assumes names: "distinct (map fst ms)"
    and put_get: "(n, g, Some put) \<in> set ms \<Longrightarrow> put p v = Some p' \<Longrightarrow> g p' = v"
    and put_other: "(n, g, Some put) \<in> set ms \<Longrightarrow> (m, h, s) \<in> set ms \<Longrightarrow> m \<noteq> n \<Longrightarrow> put p v = Some p' \<Longrightarrow> h p' = h p"
begin

lemma put_member:
  assumes "member_put ms p n v = Some p'"
  obtains g put where "(n, g, Some put) \<in> set ms" and "put p v = Some p'"
  using assms by (auto simp: member_put_def dest!: map_of_SomeD split: option.splits)

lemma get_member: "(n, g, s) \<in> set ms \<Longrightarrow> member_get ms p n = Some (g p)"
  using names by (simp add: member_get_def)

lemma get_assigned: "member_put ms p n v = Some p' \<Longrightarrow> member_get ms p' n = Some v"
  by (elim put_member) (simp add: get_member put_get)

lemma get_unassigned:
  assumes "member_put ms p n v = Some p'" and "m \<noteq> n"
  shows "member_get ms p' m = member_get ms p m"
proof (cases "map_of ms m")
  case None
  then show ?thesis by (simp add: member_get_def)
next
  case (Some e)
  then obtain h s where h: "(m, h, s) \<in> set ms" by (cases e) (auto dest: map_of_SomeD)
  from assms(1) have "h p' = h p" by (elim put_member) (rule put_other [OF _ h assms(2)])
  with h show ?thesis by (simp add: get_member)
qed

end

lemma pull_simps [simp]:
  "pull_string v = Some s \<longleftrightarrow> v = L_string s" "pull_boolean v = Some b \<longleftrightarrow> v = L_boolean b"
  "pull_text v = Some d \<longleftrightarrow> v = L_text d" "pull_variants v = Some vs \<longleftrightarrow> v = L_variants vs"
  "pull_header v = Some h \<longleftrightarrow> v = L_header h" "pull_float v = Some f \<longleftrightarrow> v = L_float f"
  by (auto simp: pull_string_def pull_boolean_def pull_text_def pull_variants_def pull_header_def pull_float_def
      split: lua_value.splits)

lemma pull_unsigned_simp [simp]: "pull_unsigned v = Some w \<longleftrightarrow> v = push_unsigned w"
proof
  assume "pull_unsigned v = Some w"
  then show "v = push_unsigned w"
    by (auto simp: pull_unsigned_def push_unsigned_def uint_word_of_int_eq take_bit_int_eq_self
        split: lua_value.splits if_splits)
qed (auto simp: pull_unsigned_def push_unsigned_def)

lemma pull_signed_simp [simp]: "pull_signed v = Some w \<longleftrightarrow> v = push_signed w"
proof
  assume "pull_signed v = Some w"
  then show "v = push_signed w"
    by (auto simp: pull_signed_def push_signed_def sint_sbintrunc' signed_take_bit_int_eq_self
        split: lua_value.splits if_splits)
next
  assume "v = push_signed w"
  then show "pull_signed v = Some w"
    using sint_ge [of w] sint_lt [of w] by (simp add: pull_signed_def push_signed_def)
qed

text \<open>A class is checked member by member.\<close>

definition keeps :: "('a \<Rightarrow> lua_value \<Rightarrow> 'a option) option \<Rightarrow> ('a \<Rightarrow> 'b) \<Rightarrow> bool" where
  "keeps put h \<longleftrightarrow> (case put of None \<Rightarrow> True | Some f \<Rightarrow> \<forall>p v p'. f p v = Some p' \<longrightarrow> h p' = h p)"

definition assigns :: "('a \<Rightarrow> lua_value \<Rightarrow> 'a option) option \<Rightarrow> ('a \<Rightarrow> lua_value) \<Rightarrow> bool" where
  "assigns put g \<longleftrightarrow> (case put of None \<Rightarrow> True | Some f \<Rightarrow> \<forall>p v p'. f p v = Some p' \<longrightarrow> g p' = v)"

lemma lua_classI:
  assumes "distinct (map fst ms)" and "\<forall>(n, g, put) \<in> set ms. assigns put g"
    and "\<forall>(n, g, put) \<in> set ms. \<forall>(m, h, s) \<in> set ms. m = n \<or> keeps put h"
  shows "lua_class ms"
  by unfold_locales (use assms in \<open>force simp: assigns_def keeps_def\<close>)+

lemma assigns_simps [simp]:
  "assigns None g"
  "assigns (Some (\<lambda>p v. map_option (\<lambda>x. upd (\<lambda>_. x) p) (pull v))) g \<longleftrightarrow>
     (\<forall>p v x. pull v = Some x \<longrightarrow> g (upd (\<lambda>_. x) p) = v)"
  by (auto simp: assigns_def)

lemma keeps_simps [simp]:
  "keeps None g"
  "keeps (Some (\<lambda>p v. map_option (\<lambda>x. upd (\<lambda>_. x) p) (pull v))) h \<longleftrightarrow>
     (\<forall>p v x. pull v = Some x \<longrightarrow> h (upd (\<lambda>_. x) p) = h p)"
  by (auto simp: keeps_def)

lemmas member_defs = variable_def read_only_def

interpretation text_class: lua_class TextPacket_members
  by (rule lua_classI) (simp_all add: TextPacket_members_def member_defs)

interpretation spawn_class: lua_class OnSpawn_members
  by (rule lua_classI) (simp_all add: OnSpawn_members_def member_defs)

interpretation log_class: lua_class Log_members
  by (rule lua_classI) (simp_all add: Log_members_def member_defs)

interpretation join_class: lua_class JoinRequest_members
  by (rule lua_classI) (simp_all add: JoinRequest_members_def member_defs)

interpretation validate_class: lua_class ValidateWorld_members
  by (rule lua_classI) (simp_all add: ValidateWorld_members_def member_defs)

interpretation input_class: lua_class Input_members
  by (rule lua_classI) (simp_all add: Input_members_def member_defs)

interpretation disconnect_class: lua_class Disconnect_members
  by (rule lua_classI) (simp_all add: Disconnect_members_def member_defs)

interpretation redirect_class: lua_class OnSendToServer_members
  by (rule lua_classI) (simp_all add: OnSendToServer_members_def member_defs)

interpretation name_class: lua_class OnNameChanged_members
  by (rule lua_classI) (simp_all add: OnNameChanged_members_def member_defs)

interpretation skin_class: lua_class OnChangeSkin_members
  by (rule lua_classI) (simp_all add: OnChangeSkin_members_def member_defs)

interpretation remove_class: lua_class OnRemove_members
  by (rule lua_classI) (simp_all add: OnRemove_members_def member_defs)

interpretation map_class: lua_class SendMapData_members
  by (rule lua_classI) (simp_all add: SendMapData_members_def member_defs)

interpretation tile_class: lua_class TileChangeRequest_members
  by (rule lua_classI) (simp_all add: TileChangeRequest_members_def member_defs)

interpretation object_class: lua_class ItemChangeObject_members
  by (rule lua_classI) (simp_all add: ItemChangeObject_members_def member_defs)

interpretation logon_class: lua_class OnSuperMain_members
  by (rule lua_classI) (simp_all add: OnSuperMain_members_def member_defs)

interpretation inventory_class: lua_class SendInventoryState_members
  by (rule lua_classI) (simp_all add: SendInventoryState_members_def member_defs)

interpretation modify_class: lua_class ModifyItemInventory_members
  by (rule lua_classI) (simp_all add: ModifyItemInventory_members_def member_defs)

interpretation generic_text_class: lua_class GenericText_members
  by (rule lua_classI) (simp_all add: GenericText_members_def member_defs)

interpretation generic_variant_class: lua_class GenericVariant_members
  by (rule lua_classI) (simp_all add: GenericVariant_members_def member_defs)

interpretation generic_game_class: lua_class GenericGame_members
  by (rule lua_classI) (simp_all add: GenericGame_members_def member_defs)

text \<open>The views of the header: what is called \<open>int_data\<close> is the second coordinate of the tile, what is
  called \<open>modifier\<close> the padding in front of it.\<close>

lemma view_at_simps:
  "view_at 0 h = pos_x h" "view_at 4 h = pos_y h" "view_at 8 h = pos_x2 h" "view_at 12 h = pos_y2 h"
  "view_at 16 h = pad_5 h" "view_at 24 h = int_y h"
  by (simp_all add: view_at_def pad_4_def u32_at_skip u32_at_here)

lemma set_pad_4_parts:
  "set_pad_4 (le_bytes a @ le_bytes b @ le_bytes c @ le_bytes d @ le_bytes e @ le_bytes f @ le_bytes g) h =
     h\<lparr>pos_x := a, pos_y := b, pos_x2 := c, pos_y2 := d, pad_5 := e, int_x := f, int_y := g\<rparr>"
  by (simp add: set_pad_4_def u32_at_skip u32_at_here)

lemma set_view_simps:
  "set_view 0 f = pos_x_update f" "set_view 4 f = pos_y_update f" "set_view 8 f = pos_x2_update f"
  "set_view 12 f = pos_y2_update f" "set_view 16 f = pad_5_update f" "set_view 24 f = int_y_update f"
proof -
  have "set_view i f h = set_pad_4 (take i (pad_4 h) @ le_bytes (f (view_at i h)) @ drop (i + 4) (pad_4 h)) h" for i h
    by (rule set_view_def)
  note s = this [unfolded pad_4_def]
  show "set_view 0 f = pos_x_update f" "set_view 4 f = pos_y_update f" "set_view 8 f = pos_x2_update f"
    "set_view 12 f = pos_y2_update f" "set_view 16 f = pad_5_update f" "set_view 24 f = int_y_update f"
    by (rule ext, simp add: s view_at_simps, subst set_pad_4_parts, simp)+
qed

interpretation header_class: lua_class GameUpdatePacket_members
  by (rule lua_classI) (simp_all add: GameUpdatePacket_members_def member_defs view_at_simps set_view_simps)

text \<open>No class has a member for the raw data, so assignments keep it.\<close>

lemma member_put_keeps:
  assumes "\<forall>(n, g, put) \<in> set ms. keeps put h" and "member_put ms p n v = Some p'"
  shows "h p' = h p"
  using assms by (auto simp: member_put_def keeps_def dest!: map_of_SomeD split: option.splits)

lemmas members_defs =
  TextPacket_members_def Log_members_def JoinRequest_members_def ValidateWorld_members_def Input_members_def
  Disconnect_members_def OnSendToServer_members_def OnNameChanged_members_def OnChangeSkin_members_def
  OnSpawn_members_def OnRemove_members_def SendMapData_members_def TileChangeRequest_members_def
  ItemChangeObject_members_def OnSuperMain_members_def SendInventoryState_members_def
  ModifyItemInventory_members_def GenericText_members_def GenericVariant_members_def GenericGame_members_def

lemmas put_raw_data = member_put_keeps [where h = raw_data]

lemma class_put_base: "class_put p n v = Some p' \<Longrightarrow> packet_raw_data p' = packet_raw_data p \<and> packet_id p' = packet_id p"
  by (cases p) (auto dest!: put_raw_data [rotated] simp: members_defs member_defs)

lemmas assigned_facts =
  text_class.get_assigned log_class.get_assigned join_class.get_assigned validate_class.get_assigned
  input_class.get_assigned disconnect_class.get_assigned redirect_class.get_assigned name_class.get_assigned
  skin_class.get_assigned spawn_class.get_assigned remove_class.get_assigned map_class.get_assigned
  tile_class.get_assigned object_class.get_assigned logon_class.get_assigned inventory_class.get_assigned
  modify_class.get_assigned generic_text_class.get_assigned generic_variant_class.get_assigned
  generic_game_class.get_assigned

lemmas unassigned_facts =
  text_class.get_unassigned log_class.get_unassigned join_class.get_unassigned validate_class.get_unassigned
  input_class.get_unassigned disconnect_class.get_unassigned redirect_class.get_unassigned name_class.get_unassigned
  skin_class.get_unassigned spawn_class.get_unassigned remove_class.get_unassigned map_class.get_unassigned
  tile_class.get_unassigned object_class.get_unassigned logon_class.get_unassigned inventory_class.get_unassigned
  modify_class.get_unassigned generic_text_class.get_unassigned generic_variant_class.get_unassigned
  generic_game_class.get_unassigned

lemma class_put_get: "class_put p n v = Some p' \<Longrightarrow> class_get p' n = Some v"
  by (cases p) (auto dest: assigned_facts)

lemma class_put_other: "class_put p n v = Some p' \<Longrightarrow> m \<noteq> n \<Longrightarrow> class_get p' m = class_get p m"
  by (cases p) (auto dest: unassigned_facts)



text \<open>What scripts know as \<open>int_data\<close> of a header is not its member of that name but the second tile
  coordinate: assigning it leaves the member alone and moves the coordinate.\<close>

theorem header_int_data:
  assumes "lua_put (Lua_header h) ''int_data'' v = Some (Lua_header h')"
  shows "int_data h' = int_data h \<and> L_integer (sint (int_y h')) = v \<and> int_x h' = int_x h \<and>
    lua_get (Lua_header h) ''int_data'' = Some (L_integer (sint (int_y h)))"
  using assms
  by (auto simp: lua_put_def lua_get_def member_put_def member_get_def GameUpdatePacket_members_def member_defs
      view_at_simps set_view_simps push_signed_def)

theorem header_int_data_witness:
  "int_data (zero_packet\<lparr>int_y := 7\<rparr>) = int_data zero_packet \<and>
   L_integer (sint (int_y (zero_packet\<lparr>int_y := 7\<rparr>))) = L_integer 7 \<and>
   int_x (zero_packet\<lparr>int_y := 7\<rparr>) = int_x zero_packet \<and>
   lua_get (Lua_header zero_packet) ''int_data'' = Some (L_integer (sint (int_y zero_packet)))"
  by (rule header_int_data)
    (simp add: lua_put_def member_put_def GameUpdatePacket_members_def member_defs set_view_simps pull_signed_def)

subsection \<open>What is sent\<close>

text \<open>Members that \<open>write\<close> does not look at.\<close>

fun unsent_members :: "IPacket \<Rightarrow> string list" where
  "unsent_members (P_ServerHello _) = [''text_parse'']"
| "unsent_members (P_Quit _) = [''text_parse'']"
| "unsent_members (P_QuitToExit _) = [''text_parse'']"
| "unsent_members (P_JoinRequest _) = [''text_parse'']"
| "unsent_members (P_ValidateWorld _) = [''text_parse'']"
| "unsent_members (P_Input _) = [''text_parse'']"
| "unsent_members (P_Log _) = [''text_parse'']"
| "unsent_members (P_Disconnect _) = [''game_packet'']"
| "unsent_members (P_ItemChangeObject _) = [''amount'']"
| "unsent_members (P_OnSendToServer _) = [''variant'']"
| "unsent_members (P_OnSuperMain _) = [''variant'']"
| "unsent_members (P_OnSpawn _) = [''variant'', ''online_id'']"
| "unsent_members (P_OnRemove _) = [''variant'']"
| "unsent_members (P_OnNameChanged _) = [''variant'']"
| "unsent_members (P_OnChangeSkin _) = [''variant'']"
| "unsent_members _ = []"

lemmas write_defs =
  ServerHello_write_def Quit_write_def QuitToExit_write_def JoinRequest_write_def ValidateWorld_write_def
  Input_write_def Log_write_def Disconnect_write_def ItemChangeObject_write_def OnSendToServer_write_def
  OnSuperMain_write_def OnSpawn_write_def OnSpawn_text_def OnRemove_write_def OnNameChanged_write_def
  OnChangeSkin_write_def

lemma unsent_write:
  assumes "class_put p n v = Some p'" and "n \<in> set (unsent_members p)"
  shows "fst (packet_write lib p') = fst (packet_write lib p)"
  using assms
  by (cases p) (auto simp: members_defs member_defs member_put_def write_defs Let_def split: if_splits)

text \<open>What a script assigns is lost when it sends a packet it was given whose message was kept, as it is
  for every packet without a class of its own, and when it assigns the text or the arguments of a
  packet with a class, the header of a \<open>Disconnect\<close>, the amount of an object change or the online
  identifier of a player: the same bytes are sent as before.\<close>

theorem script_edit_lost:
  assumes "class_put p n v = Some p'" and "packet_raw_data p \<noteq> [] \<or> n \<in> set (unsent_members p)"
  shows "fst (helper_write lib p') = fst (helper_write lib p)"
proof (cases "packet_raw_data p = []")
  case True
  with assms have "fst (packet_write lib p') = fst (packet_write lib p)" by (intro unsent_write) auto
  with True class_put_base [OF assms(1)] show ?thesis
    by (auto simp: helper_write_def serialize_packet_def split: prod.splits)
next
  case False
  with class_put_base [OF assms(1)] show ?thesis by (simp add: helper_write_def serialize_packet_def)
qed

theorem script_edit_lost_witness:
  "fst (helper_write stored_zlib (P_Log (new_Log\<lparr>msg := ''hi'', text_parse := [(''msg'', [''bye''])]\<rparr>))) =
   fst (helper_write stored_zlib (P_Log (new_Log\<lparr>msg := ''hi''\<rparr>)))"
  by (rule script_edit_lost [where n = "''text_parse''" and v = "L_text [(''msg'', [''bye''])]"])
    (simp_all add: Log_members_def member_defs member_put_def pull_text_def)

subsection \<open>Messages of a script\<close>

lemma text_message_eq: "text_message (raw d) t = serialize_payload (TextPayload t d []) @ [0]"
  by (simp add: text_message_def serialize_text write_string_def write_word_def write_data_def empty_stream_def
      get_data_def le_bytes_simps)

text \<open>A text a script sends goes out once, to the side it names, in the form the program itself sends
  texts in, and comes out of the decoder as the packet of the same type and fields; nothing is sent
  to a side that is not connected.\<close>

theorem script_text_sent:
  assumes "text_ok (CHR ''|'') d" and "d \<noteq> []" and "length (raw d) < 65536"
    and "t = NET_MESSAGE_GENERIC_TEXT \<or> t = NET_MESSAGE_GAME_MESSAGE" and "message = text_message (raw d) t"
    and "lua_send_text_parse env d to_server (Some (uint t)) px = (ok, px')"
    and "(host, peer) = (if to_server then (ClientHost, client_peer px) else (ServerHost, server_peer px))"
  shows "(case peer of
      Some q \<Rightarrow>
        if enet_connected env (trace px) host q then trace px' = trace px @ [Send host q message]
        else \<not> ok \<and> px' = px
    | None \<Rightarrow> \<not> ok \<and> px' = px) \<and>
    decode lib multiline reg cfg message = do {
      p \<leftarrow> create lib multiline reg (TextPayload t d message);
      Some (if p = None then None else Some p)
    }"
proof
  show "case peer of
      Some q \<Rightarrow>
        if enet_connected env (trace px) host q then trace px' = trace px @ [Send host q message]
        else \<not> ok \<and> px' = px
    | None \<Rightarrow> \<not> ok \<and> px' = px"
    using assms(5-7)
    by (auto simp: lua_send_text_parse_def send_text_packet_def send_to_direction_def client_write_def
        server_write_def client_connected_def server_connected_def act_def Let_def split: if_splits option.splits)
  show "decode lib multiline reg cfg message = do {
      p \<leftarrow> create lib multiline reg (TextPayload t d message);
      Some (if p = None then None else Some p)
    }"
    using assms(5) by (intro decode_text_sent [OF assms(1-4)]) (simp add: text_message_eq)
qed

theorem script_text_sent_witness:
  "trace (snd (lua_send_text_parse demo_env [(''action'', [''quit''])] True (Some 3) demo_proxy)) =
    [Send ClientHost 7 (text_message (raw [(''action'', [''quit''])]) NET_MESSAGE_GAME_MESSAGE)]"
proof -
  obtain ok px' where s: "lua_send_text_parse demo_env [(''action'', [''quit''])] True (Some 3) demo_proxy = (ok, px')"
    by fastforce
  with script_text_sent [of "[(''action'', [''quit''])]" NET_MESSAGE_GAME_MESSAGE _ demo_env True demo_proxy ok px'
      ClientHost "Some 7" stored_zlib True all_registered quiet, OF _ _ _ _ refl]
  show ?thesis by (simp add: text_ok_def field_ok_def)
qed

text \<open>Raw bytes: entries are taken modulo 256, holes of the table are skipped, and nothing is sent when
  nothing is left.\<close>

theorem script_raw_sent:
  "lua_send_raw env t to_server px =
    (if \<forall>e \<in> set t. e = None then (False, px)
     else (if to_server then client_write else server_write) env
       (map (\<lambda>i. word_of_int (i mod 256)) (map the (filter (\<lambda>e. e \<noteq> None) t))) px)"
proof -
  have "List.map_filter id t = map the (filter (\<lambda>e. e \<noteq> None) t)"
    by (induction t) (auto simp: map_filter_simps split: option.splits)
  moreover have "(word_of_int (i mod 256) :: u8) = word_of_int i" for i :: int
  proof -
    have "i mod 256 = take_bit 8 i" by (simp add: take_bit_eq_mod)
    then show ?thesis by (intro bit_word_eqI) (simp add: bit_simps)
  qed
  ultimately have "table_bytes t = map (\<lambda>i. word_of_int (i mod 256)) (map the (filter (\<lambda>e. e \<noteq> None) t))"
    by (simp add: table_bytes_def)
  then show ?thesis
    by (auto simp: lua_send_raw_def send_to_direction_def filter_empty_conv Let_def)
qed

subsection \<open>Arguments of a call\<close>

text \<open>The getters of the argument list agree: \<open>get\<close> gives the value the getter of its type gives and
  that alone, nil exactly behind the last argument, and \<open>type_at\<close> names the type.\<close>

theorem script_arguments:
  assumes "9 \<le> range_max"
  shows "(lua_variant_get vs i = L_nil \<longleftrightarrow> length vs \<le> i) \<and>
    (lua_type_at range_max vs i = ''nil'' \<longleftrightarrow> length vs \<le> i) \<and>
    (lua_type_at range_max vs i = ''STRING'' \<longrightarrow> lua_variant_get vs i = lua_get_string vs i) \<and>
    (lua_type_at range_max vs i = ''SIGNED'' \<longrightarrow> lua_variant_get vs i = lua_get_int vs i) \<and>
    (lua_type_at range_max vs i = ''UNSIGNED'' \<longrightarrow> lua_variant_get vs i = lua_get_uint vs i) \<and>
    (lua_type_at range_max vs i = ''FLOAT'' \<longrightarrow> lua_variant_get vs i = lua_get_float vs i) \<and>
    (lua_type_at range_max vs i = ''VEC2'' \<longrightarrow> lua_variant_get vs i = lua_get_vec2 vs i) \<and>
    (lua_type_at range_max vs i = ''VEC3'' \<longrightarrow> lua_variant_get vs i = lua_get_vec3 vs i)"
proof (cases "length vs \<le> i")
  case True
  then show ?thesis by (simp add: lua_variant_get_def lua_type_at_def)
next
  case False
  then show ?thesis
    using assms
    by (cases "vs ! i")
      (simp_all add: lua_variant_get_def lua_type_at_def enum_table_def variant_type_enumerators_def
        lua_get_string_def lua_get_int_def lua_get_uint_def lua_get_float_def lua_get_vec2_def lua_get_vec3_def
        get_string_def get_signed_def get_unsigned_def push_unsigned_def push_signed_def)
qed

theorem script_arguments_witness:
  "lua_variant_get [VString ''OnName''] 0 = lua_get_string [VString ''OnName''] 0"
  using script_arguments [of 127 "[VString ''OnName'']" 0]
  by (simp add: lua_type_at_def enum_table_def variant_type_enumerators_def)

end
