(* ===== verification/PlayerFacts.thy ===== *)
theory PlayerFacts
  imports CoreFacts
begin

text \<open>
  The players of the world as the server announces them: a spawn call, decoded and dispatched, puts its
  player into the table, a remove call takes him out again, and both reach the game.
\<close>

subsection \<open>Calls of the server\<close>

lemma OnSpawn_read_header:
  assumes "OnSpawn_read (VariantPayload h vs x) q = (ok, r)"
  shows "OnSpawn_read (VariantPayload h' vs x') q = (ok, r\<lparr>call_packet := h'\<rparr>)"
  using assms by (auto simp: OnSpawn_read_def OnSpawn_parse_def Let_def split: if_splits)

lemma OnRemove_read_header:
  assumes "OnRemove_read (VariantPayload h vs x) q = (ok, r)"
  shows "OnRemove_read (VariantPayload h' vs x') q = (ok, r\<lparr>call_packet := h'\<rparr>)"
  using assms by (auto simp: OnRemove_read_def Let_def split: if_splits)

lemma dec_nat_length: "n < 10 ^ Suc k \<Longrightarrow> length (dec_nat n) \<le> Suc k"
proof (induction k arbitrary: n)
  case 0
  then show ?case by (simp add: dec_nat.simps [of n])
next
  case (Suc k)
  then have "n div 10 < 10 ^ Suc k" by (simp add: less_mult_imp_div_less mult.commute)
  from Suc.IH [OF this] show ?case by (simp add: dec_nat.simps [of n])
qed

lemma int32_chars_length: "length (int32_chars w) \<le> 11"
proof -
  have b: "- (2 ^ 31) \<le> sint w" "sint w < 2 ^ 31"
    using sint_greater_eq [of w] sint_less [of w] by simp_all
  have "length (dec_nat (nat (- sint w))) \<le> Suc 9" "length (dec_nat (nat (sint w))) \<le> Suc 9"
    by (rule dec_nat_length, use b in simp)+
  then show ?thesis by (simp add: int32_chars_def to_chars_def)
qed

definition spawn_ok :: "OnSpawn \<Rightarrow> bool" where
  "spawn_ok p \<longleftrightarrow> text_fields_ok [spawn p, spawn_name p, title_icon p, country_code p, spawn_type p] \<and>
     length (raw (OnSpawn_text p)) < 2 ^ 30"

definition spawn_message :: "OnSpawn \<Rightarrow> bytes" where
  "spawn_message p = serialize_payload (OnSpawn_write p) @ [0]"

definition remove_message :: "OnRemove \<Rightarrow> bytes" where
  "remove_message p = serialize_payload (OnRemove_write p) @ [0]"

text \<open>What the listener of the world looks at.\<close>

definition same_player :: "OnSpawn \<Rightarrow> OnSpawn \<Rightarrow> bool" where
  "same_player p q \<longleftrightarrow> from_on_spawn p = from_on_spawn q"

lemma decode_spawn:
  assumes "spawn_ok p"
  shows "\<exists>r. decode lib multiline all_registered cfg (spawn_message p) = Some (Some (Some (P_OnSpawn r))) \<and>
    same_player r p"
proof -
  obtain pkt vs where w: "OnSpawn_write p = VariantPayload pkt vs []" by (simp add: OnSpawn_write_def)
  have vs: "vs = call_args (OnSpawn_write p)" by (simp add: w)
  let ?data = "serialize_payload (VariantPayload pkt vs []) @ [0]"
  let ?v = "VariantPayload (call_header_of pkt vs) vs ?data"
  have "text_fields_ok [spawn p, spawn_name p, title_icon p, country_code p, spawn_type p]"
    using assms by (simp add: spawn_ok_def)
  note r = OnSpawn_read_header [OF OnSpawn_roundtrip [OF this, of new_OnSpawn, unfolded w],
      of "call_header_of pkt vs" ?data]
  have ne: "vs \<noteq> []" "length vs < 256" by (simp_all add: vs OnSpawn_write_def)
  have len: "list_all value_ok vs" "length (serialize vs) < 2 ^ 62"
    using assms by (simp_all add: vs OnSpawn_write_def spawn_ok_def serialize_alt enc_string_def enumerate_simps)
  have id: "derive_variant_id vs = Id_OnSpawn"
    by (simp add: vs OnSpawn_write_def derive_variant_id_def function_name_def VARIANT_FUNCTION_MAP_def get_string_def)
  have "create lib multiline all_registered ?v = Some (Some (P_OnSpawn (snd (OnSpawn_read ?v new_OnSpawn))))"
    by (simp add: create_def id create_id_def all_registered_eq registered_classes_def r)
  then have "decode lib multiline all_registered cfg ?data =
      Some (Some (Some (P_OnSpawn (snd (OnSpawn_read ?v new_OnSpawn)))))"
    using decode_call [OF ne len refl, where lib = lib and multiline = multiline and reg = all_registered
        and cfg = cfg] by simp
  moreover have "same_player (snd (OnSpawn_read ?v new_OnSpawn)) p"
    unfolding r by (simp add: same_player_def from_on_spawn_def)
  ultimately show ?thesis by (simp add: spawn_message_def w)
qed

lemma decode_remove:
  "\<exists>r. decode lib multiline all_registered cfg (remove_message p) = Some (Some (Some (P_OnRemove r))) \<and>
    remove_net_id r = remove_net_id p"
proof -
  obtain pkt vs where w: "OnRemove_write p = VariantPayload pkt vs []" by (simp add: OnRemove_write_def)
  have vs: "vs = call_args (OnRemove_write p)" by (simp add: w)
  let ?data = "serialize_payload (VariantPayload pkt vs []) @ [0]"
  let ?v = "VariantPayload (call_header_of pkt vs) vs ?data"
  note r = OnRemove_read_header [OF OnRemove_roundtrip [of p new_OnRemove, unfolded w],
      of "call_header_of pkt vs" ?data]
  have ne: "vs \<noteq> []" "length vs < 256" by (simp_all add: vs OnRemove_write_def)
  have len: "list_all value_ok vs" "length (serialize vs) < 2 ^ 62"
    using int32_chars_length [of "remove_net_id p"] int32_chars_length [of "player_id p"]
    by (simp_all add: vs OnRemove_write_def serialize_alt enc_string_def enumerate_simps)
  have id: "derive_variant_id vs = Id_OnRemove"
    by (simp add: vs OnRemove_write_def derive_variant_id_def function_name_def VARIANT_FUNCTION_MAP_def get_string_def)
  have "create lib multiline all_registered ?v = Some (Some (P_OnRemove (snd (OnRemove_read ?v new_OnRemove))))"
    by (simp add: create_def id create_id_def all_registered_eq registered_classes_def r)
  then have "decode lib multiline all_registered cfg ?data =
      Some (Some (Some (P_OnRemove (snd (OnRemove_read ?v new_OnRemove)))))"
    using decode_call [OF ne len refl, where lib = lib and multiline = multiline and reg = all_registered
        and cfg = cfg] by simp
  then show ?thesis unfolding r by (simp add: remove_message_def w)
qed

subsection \<open>The table of players\<close>

lemma process_game_packet:
  assumes "started B env ord reg d"
    and "client_peer px = Some p" and "4 \<le> length data"
    and "decoded env data = Some (Some (Some pk))" and "packet_id pk \<in> set registered_events"
    and "packet_handler env ord reg (packet_id pk) = Some h"
    and "h (TypedPacketEvent ClientBound pk) (act (Received ClientHost p data) px) = go px1"
  shows "process B d env (Received ClientHost p data) px = Some (snd (server_write env data px1))"
  using assms(2-)
  by (simp add: process_def client_on_receive_def deliver_started [OF assms(1) disjI1, OF conjI [OF refl refl]]
      decoded_def go_def)

lemma message_length [simp]: "4 \<le> length (spawn_message p)" "4 \<le> length (remove_message q)"
  by (simp_all add: spawn_message_def remove_message_def OnSpawn_write_def OnRemove_write_def serialize_call)

lemma process_spawn:
  assumes "started B env ord reg d" and "packet_registry env = all_registered"
    and "client_peer px = Some p" and "spawn_ok sp" and "from_on_spawn sp = Some pl"
  shows "process B d env (Received ClientHost p (spawn_message sp)) px =
    Some (snd (server_write env (spawn_message sp)
      (on_world (add_player pl) (act (Received ClientHost p (spawn_message sp)) px))))"
proof -
  obtain r where r: "decoded env (spawn_message sp) = Some (Some (Some (P_OnSpawn r)))" and s: "same_player r sp"
    using decode_spawn [OF assms(4)] assms(2) unfolding decoded_def by metis
  show ?thesis
    using s assms(3,5)
    by (intro process_game_packet [OF assms(1) _ _ r, where h = world_on_spawn])
      (simp_all add: registered_events_def packet_handler_def world_on_spawn_def typed_packet_def same_player_def)
qed

lemma process_remove:
  assumes "started B env ord reg d" and "packet_registry env = all_registered"
    and "client_peer px = Some p"
  shows "process B d env (Received ClientHost p (remove_message rm)) px =
    Some (snd (server_write env (remove_message rm)
      (on_world (remove_player (remove_net_id rm)) (act (Received ClientHost p (remove_message rm)) px))))"
proof -
  obtain r where r: "decoded env (remove_message rm) = Some (Some (Some (P_OnRemove r)))"
      and s: "remove_net_id r = remove_net_id rm"
    using decode_remove assms(2) unfolding decoded_def by metis
  show ?thesis
    using s assms(3)
    by (intro process_game_packet [OF assms(1) _ _ r, where h = world_on_remove])
      (simp_all add: registered_events_def packet_handler_def world_on_remove_def typed_packet_def)
qed

lemma server_write_world [simp]: "world (snd (server_write env data px)) = world px"
  by (simp add: server_write_def act_def Let_def)

text \<open>C26: the spawn call of a player puts him into the table under his identifier, as the server describes
  him, and leaves the other players alone; a remove call takes a player out, unless he is the local
  player. Both calls are handed on to the game as they came, if it is connected.\<close>

theorem players_come_and_go:
  assumes "started B env ord reg d" and "packet_registry env = all_registered"
    and "client_peer px = Some p" and "spawn_ok sp" and "from_on_spawn sp = Some pl"
  shows "(\<exists>px'. process B d env (Received ClientHost p (spawn_message sp)) px = Some px' \<and>
      get_player (world px') = (get_player (world px))(spawn_net_id sp \<mapsto> pl) \<and>
      (spawn_type sp = ''local'' \<longrightarrow> local_net_id (world px') = spawn_net_id sp) \<and>
      px' = snd (server_write env (spawn_message sp)
        (on_world (add_player pl) (act (Received ClientHost p (spawn_message sp)) px)))) \<and>
    (\<exists>px'. process B d env (Received ClientHost p (remove_message rm)) px = Some px' \<and>
      get_player (world px') = (if remove_net_id rm = local_net_id (world px) then get_player (world px)
        else (get_player (world px))(remove_net_id rm := None)) \<and>
      px' = snd (server_write env (remove_message rm)
        (on_world (remove_player (remove_net_id rm)) (act (Received ClientHost p (remove_message rm)) px))))"
proof -
  have "player_net_id pl = spawn_net_id sp" "is_local pl \<longleftrightarrow> spawn_type sp = ''local''"
    using assms(5) by (cases "spawn_collision sp"; auto simp: from_on_spawn_def bind_eq_Some_conv)+
  then show ?thesis
    unfolding process_spawn [OF assms] process_remove [OF assms(1-3)]
    by (simp add: on_world_def act_def add_player_def remove_player_def get_player_def Let_def fun_eq_iff)
qed

definition demo_spawn :: OnSpawn where
  "demo_spawn = new_OnSpawn\<lparr>spawn := ''avatar'', spawn_net_id := 3, spawn_name := ''Alice'', spawn_type := ''local'',
     spawn_position := (3200, 1824)\<rparr>"

lemma demo_spawn_ok: "spawn_ok demo_spawn"
  by (simp add: spawn_ok_def demo_spawn_def new_OnSpawn_def text_fields_ok_def field_ok_def OnSpawn_text_def add_def
      int32_chars_def to_chars_def dec_nat.simps)

definition demo_known :: Player where
  "demo_known = \<lparr>player_net_id = 3, player_user_id = 0, player_name = ''Alice'', player_country = [],
     player_position = (3200, 1824), player_collision = (0, 0, 0, 0), player_invisible = 0, player_mod_state = 0,
     player_supermod_state = 0, is_local = True\<rparr>"

lemma demo_spawned: "from_on_spawn demo_spawn = Some demo_known"
  by (simp add: from_on_spawn_def demo_spawn_def new_OnSpawn_def float_round_small demo_known_def)

theorem players_come_and_go_witness:
  "\<exists>px'. process list_dispatcher demo_dispatcher demo_env (Received ClientHost 7 (spawn_message demo_spawn)) demo_proxy =
      Some px' \<and> get_player (world px') 3 = Some demo_known \<and> local_net_id (world px') = 3"
  using players_come_and_go [OF demo_started _ _ demo_spawn_ok demo_spawned, of demo_proxy 7]
  by (auto simp: demo_spawn_def)

end
