(* ===== verification/LuaDataFacts.thy ===== *)
theory LuaDataFacts
  imports LuaData LuaFacts PlayerFacts
begin

text \<open>What scripts can rely on when they look at items, players and tiles.\<close>

subsection \<open>Enumerations\<close>

lemma item_types_complete:
  fixes t :: u8
  shows "(\<exists>n. (n, t) \<in> set ItemType_enumerators) \<longleftrightarrow> unat t \<le> 143 \<or> unat t \<ge> 254"
proof -
  have "map snd ItemType_enumerators = [254, 255] @ map word_of_nat [0..<144]"
    by (simp add: ItemType_enumerators_def upt_rec)
  then have "t \<in> snd ` set ItemType_enumerators \<longleftrightarrow> t \<in> set ([254, 255] @ map word_of_nat [0..<144])"
    by (metis set_map)
  moreover have "t \<in> word_of_nat ` {0..<144} \<longleftrightarrow> unat t \<le> 143"
  proof
    assume "unat t \<le> 143"
    then show "t \<in> word_of_nat ` {0..<144}" by (intro image_eqI [of _ _ "unat t"]) simp_all
  qed (auto simp: unat_of_nat)
  moreover have "t = 254 \<or> t = 255 \<longleftrightarrow> unat t \<ge> 254"
  proof -
    have "unat t < 256" using unsigned_less [of t] by simp
    then show ?thesis by (auto simp: word_unat_eq_iff)
  qed
  ultimately show ?thesis by (force simp: image_iff)
qed

lemma in_enum_table: "(n, i) \<in> set (enum_table range_max es) \<longleftrightarrow> (\<exists>v. (n, v) \<in> set es \<and> unat v \<le> range_max \<and> i = uint v)"
  by (auto simp: enum_table_def image_iff)

text \<open>Scripts can name the type of an item if and only if its number is within the range of magic_enum
  and the type is known: with the usual bound of 127 the sixteen types from 128 on and the two special
  ones have no name in \<open>item.Type\<close>.\<close>

theorem item_types_named:
  fixes t :: u8
  shows "(\<exists>names n. map_of (item_enums range_max) ''Type'' = Some names \<and> (n, uint t) \<in> set names) \<longleftrightarrow>
     unat t \<le> range_max \<and> (unat t \<le> 143 \<or> 254 \<le> unat t)"
proof -
  have "uint t = uint v \<longleftrightarrow> v = t" for v :: u8 by (auto simp: word_uint_eq_iff)
  then show ?thesis
    using item_types_complete [of t] by (auto simp: item_enums_def in_enum_table)
qed

subsection \<open>Items\<close>

text \<open>The table of flags has an entry for every bit and determines the flags.\<close>

theorem item_flags_faithful: "item_flags w = item_flags w' \<longleftrightarrow> w = w'"
proof
  assume "item_flags w = item_flags w'"
  then have "\<forall>i < 16. bit w i = bit w' i"
    by (simp add: item_flags_def item_flag_names_def numeral_eq_Suc less_Suc_eq)
  then show "w = w'" by (intro bit_word_eqI) simp
qed simp

text \<open>Every member a script can name is there for every item of a file, whatever the file holds, and
  the flags are a table of sixteen booleans.\<close>

theorem script_items_complete:
  assumes "length data < 2 ^ 64" and "parse_database data = Some (ok, db)" and "get_item db i = Some it"
  shows "(item_get it n \<noteq> None \<longleftrightarrow> n \<in> set item_member_names) \<and>
    (\<exists>w. item_get it ''flags'' = Some (L_fields (item_flags w)) \<and> length (item_flags w) = 16)"
proof -
  have "it \<in> set (db_items db)" using assms(3) by (auto simp: get_item_def split: if_splits)
  with parse_database_typed [OF assms(1,2)] have "item_ok (db_version db) it" by (simp add: list_all_iff)
  then obtain fs u where it: "it = fs @ [(''__unk_9'', V8 u)]" and fs: "fields_typed item_layout fs"
    by (auto simp: item_ok_def)
  have names: "map fst fs = map fst item_layout"
    using fs by (simp add: fields_typed_def list_all2_conv_all_nth list_eq_iff_nth_eq)
  have "set item_member_names \<subseteq> set (map fst item_layout)"
    by (simp add: item_member_names_def item_layout_def)
  then have "set item_member_names \<subseteq> set (map fst it)" by (auto simp: it names)
  then have "item_get it n \<noteq> None \<longleftrightarrow> n \<in> set item_member_names"
    by (force simp: item_get_def map_of_eq_None_iff not_None_eq [symmetric] simp del: not_None_eq)
  moreover have "fs ! 1 = (''flags'', snd (fs ! 1)) \<and> (\<exists>w. snd (fs ! 1) = V16 w) \<and> 1 < length fs"
  proof -
    have "list_all2 (\<lambda>f v. fst v = fst f \<and> field_typed (snd f) (snd v)) item_layout fs"
      using fs by (simp add: fields_typed_def)
    from list_all2_nthD [OF this, of 1] list_all2_lengthD [OF this]
    show ?thesis by (cases "snd (fs ! 1)") (auto simp: item_layout_def prod_eq_iff)
  qed
  then obtain w where w: "(''flags'', V16 w) \<in> set fs" by (metis nth_mem)
  have "distinct (map fst fs)" unfolding names by (simp add: item_layout_def)
  with w have "map_of it ''flags'' = Some (V16 w)" by (simp add: it)
  then have "item_get it ''flags'' = Some (L_fields (item_flags w))"
    by (simp add: item_get_def item_member_names_def)
  moreover have "length (item_flags w) = 16" by (simp add: item_flags_def item_flag_names_def)
  ultimately show ?thesis by blast
qed

theorem script_items_complete_witness:
  "item_get sample_item ''rarity'' \<noteq> None"
proof -
  have "parse_database (enc_database sample_database) = Some (True, sample_database)"
    using parse_enc_database [OF _ _ sample_database_short] sample_item_ok by (simp add: sample_database_def)
  moreover have "length (enc_database sample_database) < 2 ^ 64" using sample_database_short by simp
  moreover have "get_item sample_database 0 = Some sample_item" by (simp add: get_item_def sample_database_def)
  ultimately show ?thesis
    using script_items_complete [of "enc_database sample_database" True sample_database 0 sample_item "''rarity''"]
    by (simp add: item_member_names_def)
qed

subsection \<open>Players\<close>

lemma world_players_simp: "world_players w (sint i) = players w i"
proof -
  have "sint i = sint j \<longleftrightarrow> j = i" for j :: u32 by (metis word_of_int_sint)
  then show ?thesis by (auto simp: world_players_def dom_def image_iff)
qed

text \<open>C38: in every state the proxy can reach, the table of players scripts get is keyed by the identifiers
  the players have, it is the table \<open>get_player\<close> looks into, the local player is in it while there is
  one, and a script cannot change a player.\<close>

theorem script_players:
  assumes "proxy_starts px0" and "state_machine.run (proxy_step B d env) px0 es px"
  shows "(world_players (world px) k = Some p \<longrightarrow>
      member_get Player_members p ''net_id'' = Some (L_integer k) \<and>
      (\<exists>i. k = sint i \<and> get_player (world px) i = Some p)) \<and>
    (get_player (world px) i = Some q \<longrightarrow> world_players (world px) (sint i) = Some q) \<and>
    (\<forall>n v. member_put Player_members p n v = None) \<and>
    (\<forall>j. world_local_net_id (world px) = L_integer j \<and> 0 \<le> j \<longrightarrow>
      get_local_player (world px) = world_players (world px) j \<and> world_players (world px) j \<noteq> None)"
proof -
  have "proxy_inv env px" using proxy.run_from_init [OF assms] .
  then have ids: "\<And>i p. players (world px) i = Some p \<Longrightarrow> player_net_id p = i"
    and l: "local_net_id (world px) \<noteq> - 1 \<Longrightarrow> players (world px) (local_net_id (world px)) \<noteq> None"
    by (auto simp: proxy_inv_def world_inv_def)
  have "world_players (world px) k = Some p \<longrightarrow> member_get Player_members p ''net_id'' = Some (L_integer k) \<and>
      (\<exists>i. k = sint i \<and> get_player (world px) i = Some p)"
    using ids by (auto simp: world_players_def get_player_def member_get_def Player_members_def read_only_def
        push_signed_def split: if_splits)
  moreover have "member_put Player_members p n v = None" for n v
    by (auto simp: member_put_def Player_members_def read_only_def split: option.split)
  moreover have "get_local_player (world px) = world_players (world px) j \<and> world_players (world px) j \<noteq> None"
    if "world_local_net_id (world px) = L_integer j" and "0 \<le> j" for j
  proof -
    have j: "j = sint (local_net_id (world px))"
      using that(1) by (simp add: world_local_net_id_def push_signed_def)
    then have "local_net_id (world px) \<noteq> - 1" using that(2) by auto
    with l j that(2) show ?thesis by (simp add: get_local_player_def get_player_def world_players_simp)
  qed
  ultimately show ?thesis by (simp add: world_players_simp get_player_def)
qed

text \<open>The connection to the server comes up and the server announces the local player.\<close>

theorem script_players_witness:
  "\<exists>px. state_machine.run (proxy_step list_dispatcher demo_dispatcher demo_env) (new_Proxy 0 None 1)
      [Network (Connected ClientHost 3), Network (Received ClientHost 3 (spawn_message demo_spawn))] px \<and>
    member_get Player_members (the (world_players (world px) 3)) ''net_id'' = Some (L_integer 3) \<and>
    get_local_player (world px) = world_players (world px) 3"
proof -
  let ?px = "(act (Connected ClientHost 3) (new_Proxy 0 None 1))\<lparr>client_peer := Some 3\<rparr>"
  let ?px' = "snd (server_write demo_env (spawn_message demo_spawn)
    (on_world (add_player demo_known) (act (Received ClientHost 3 (spawn_message demo_spawn)) ?px)))"
  have connect: "process list_dispatcher demo_dispatcher demo_env (Connected ClientHost 3) (new_Proxy 0 None 1) = Some ?px"
    by (rule growtopia_connects [OF demo_started])
  have spawn: "process list_dispatcher demo_dispatcher demo_env (Received ClientHost 3 (spawn_message demo_spawn)) ?px = Some ?px'"
    by (rule process_spawn [OF demo_started _ _ demo_spawn_ok demo_spawned]) simp_all
  have run: "state_machine.run (proxy_step list_dispatcher demo_dispatcher demo_env) (new_Proxy 0 None 1)
      [Network (Connected ClientHost 3), Network (Received ClientHost 3 (spawn_message demo_spawn))] ?px'"
    by (rule proxy.run_cons [OF proxy_step.network [OF demo_started connect]
        proxy.run_cons [OF proxy_step.network [OF demo_started spawn] proxy.run_nil]])
  have start: "proxy_starts (new_Proxy 0 None 1)" by (auto simp: proxy_starts_def)
  have w: "get_player (world ?px') 3 = Some demo_known" "world_local_net_id (world ?px') = L_integer 3"
    by (simp_all add: on_world_def act_def add_player_def get_player_def demo_known_def world_local_net_id_def
        push_signed_def)
  have "world_players (world ?px') 3 = Some demo_known"
    using script_players [OF start run, of 0 demo_known 3 demo_known] w(1) by simp
  with script_players [OF start run, of 3 demo_known] w(2) run show ?thesis by auto
qed

subsection \<open>Tiles\<close>

interpretation tile_members: lua_class Tile_members
  by (rule lua_classI) (simp_all add: Tile_members_def member_defs)

interpretation object_members: lua_class Object_members
  by (rule lua_classI) (simp_all add: Object_members_def member_defs)

text \<open>The kinds of tile data scripts can ask for exclude each other, and for the other kinds, as for a
  tile without data, they get none.\<close>

theorem tile_extra_kinds:
  "(get_as_door x \<noteq> None \<longleftrightarrow> (\<exists>l u. extra_value x = Door l u)) \<and>
    (get_as_sign x \<noteq> None \<longleftrightarrow> (\<exists>l u. extra_value x = Sign l u)) \<and>
    (get_as_lock x \<noteq> None \<longleftrightarrow> (\<exists>a b c. extra_value x = Lock a b c)) \<and>
    (get_as_seed x \<noteq> None \<longleftrightarrow> (\<exists>a b. extra_value x = Seed a b)) \<and>
    length (filter (\<lambda>r. r \<noteq> None) [get_as_door x, get_as_sign x, get_as_lock x, get_as_seed x]) \<le> 1 \<and>
    (\<not> has_value x \<longrightarrow> get_as_door x = None \<and> get_as_sign x = None \<and> get_as_lock x = None \<and> get_as_seed x = None)"
  by (cases "extra_value x")
    (simp_all add: get_as_door_def get_as_sign_def get_as_lock_def get_as_seed_def has_value_def)

text \<open>What a script assigns to a tile or an object changes only the member it names.\<close>

theorem script_tile_assignment:
  assumes "member_put Tile_members t n v = Some t'" and "member_put Object_members ob m u = Some ob'"
  shows "member_get Tile_members t' n = Some v \<and> tile_extra t' = tile_extra t \<and>
    (\<forall>k. k \<noteq> n \<longrightarrow> member_get Tile_members t' k = member_get Tile_members t k) \<and>
    member_get Object_members ob' m = Some u \<and> obj_pos ob' = obj_pos ob \<and>
    (\<forall>k. k \<noteq> m \<longrightarrow> member_get Object_members ob' k = member_get Object_members ob k)"
proof -
  have "tile_extra t' = tile_extra t"
    by (rule member_put_keeps [OF _ assms(1)]) (simp add: Tile_members_def member_defs)
  moreover have "obj_pos ob' = obj_pos ob"
    by (rule member_put_keeps [OF _ assms(2)]) (simp add: Object_members_def member_defs)
  ultimately show ?thesis
    using tile_members.get_assigned [OF assms(1)] tile_members.get_unassigned [OF assms(1)]
      object_members.get_assigned [OF assms(2)] object_members.get_unassigned [OF assms(2)]
    by blast
qed

theorem script_tile_assignment_witness:
  "member_get Tile_members (new_Tile\<lparr>background := 8\<rparr>) ''background'' = Some (L_integer 8) \<and>
    member_get Object_members (new_Object\<lparr>obj_amount := 200\<rparr>) ''amount'' = Some (L_integer 200)"
  using script_tile_assignment [of new_Tile "''background''" "L_integer 8" "new_Tile\<lparr>background := 8\<rparr>"
      new_Object "''amount''" "L_integer 200" "new_Object\<lparr>obj_amount := 200\<rparr>"]
  by (simp add: member_put_def Tile_members_def Object_members_def member_defs pull_unsigned_def)

subsection \<open>Texts\<close>

text \<open>What a script sets in a text it gets from it, the other keys keep their values, and a text it makes
  from the printed form of another has the same fields.\<close>

theorem script_text:
  assumes "distinct_keys d" and "text_ok (CHR ''|'') d"
  shows "lua_text_get (lua_text_set d k v) k None = v \<and>
    (k' \<noteq> k \<longrightarrow> lua_text_get (lua_text_set d k v) k' i = lua_text_get d k' i) \<and>
    lua_text_new (lua_text_raw d None) bar = d"
  using text_store [OF assms(1), of k "[v]"] parse_get_raw [OF _ assms(2)]
  by (simp add: lua_text_get_def lua_text_set_def lua_text_new_def lua_text_raw_def get_def)

theorem script_text_witness:
  "lua_text_get (lua_text_set [(''action'', [''input''])] ''text'' ''hi'') ''text'' None = ''hi''"
  using script_text [of "[(''action'', [''input''])]" "''text''" "''hi''"]
  by (simp add: distinct_keys_def text_ok_def field_ok_def)

text \<open>A script that looks into the data of a tile with \<open>get_as_door\<close>, \<open>get_as_lock\<close>, \<open>get_as_seed\<close> or
  \<open>get_as_sign\<close> gets an object of which all members that were meant for it are members of the data.\<close>

lemma variant_members_of:
  "get_as_door x = Some v \<Longrightarrow> map fst (Door_members v) = [''label'', ''unk'']"
  "get_as_lock x = Some v \<Longrightarrow> map fst (Lock_members v) = [''owner_id'', ''unk'']"
  "get_as_seed x = Some v \<Longrightarrow> map fst (Seed_members v) = [''growth_time'', ''fruit_count'']"
  "get_as_sign x = Some v \<Longrightarrow> map fst (Sign_members v) = [''label'', ''unk'']"
  by (auto simp: get_as_door_def get_as_lock_def get_as_seed_def get_as_sign_def Door_members_def Lock_members_def
      Seed_members_def Sign_members_def split: extra_data.splits)

end
