(* ===== verification/ItemFlags.thy ===== *)
theory ItemFlags
  imports LuaDataFacts
begin

text \<open>
  The bit fields and the remaining enumerations of \<open>src/item/item_info.hpp\<close>, and the packet flags of
  \<open>src/packet/packet_types.hpp\<close>: the words items and packets are read into, seen through the structures
  the program declares for them, and the tables of the same names that scripts are given.
\<close>

subsection \<open>Bit fields\<close>

text \<open>A structure of bit fields: names and widths. Compilers for the machines the program runs on give out
  the bits from the lowest one up.\<close>

type_synonym layout = "(string \<times> nat) list"

abbreviation bit_flags :: "string list \<Rightarrow> layout" where
  "bit_flags ns \<equiv> map (\<lambda>n. (n, 1)) ns"

definition ItemInfoFlag_layout :: layout where
  "ItemInfoFlag_layout = bit_flags
     [''flippable'', ''editable'', ''seedless'', ''permanent'', ''dropless'', ''no_self'', ''no_shadow'',
      ''world_locked'', ''beta'', ''auto_pickup'', ''mod'', ''random_grow'', ''is_public'', ''foreground'',
      ''holiday'', ''untradeable'']"

definition FXFlags_layout :: layout where
  "FXFlags_layout = bit_flags
     [''multi_anim_start'', ''multi_anim_2_start'', ''ping_pong_anim_start'', ''overlay_object'',
      ''render_fx_variant_version'', ''offset_up'', ''dual_layer'', ''use_skin_tint'', ''seed_tint_layer_1'',
      ''seed_tint_layer_2'', ''rainbow_tint_layer_1'', ''rainbow_tint_layer_2'', ''glow'', ''no_arms'',
      ''render_off_hand'', ''front_arm_punch'', ''slow_fall_object'', ''replacement_sprite'', ''orb_float''] @
     [(''padding'', 13)]"

definition ItemInfoFlag2_layout :: layout where
  "ItemInfoFlag2_layout = bit_flags
     [''robot_deadly'', ''robot_shoot_left'', ''robot_shoot_right'', ''robot_shoot_down'', ''robot_shoot_up'',
      ''robot_can_shoot'', ''robot_lava'', ''robot_pointy'', ''robot_shoot_deadly'', ''guild_item'', ''guild_flag'',
      ''starship_helm'', ''starship_reactor'', ''starship_view_screen'', ''super_mod'', ''tile_deadly_if_on'',
      ''long_hand_item_64x32'', ''gemless'', ''transmutable'', ''dungeon_item'', ''pve_melee'', ''pve_ranged'',
      ''pve_auto_aim'', ''one_in_world'', ''only_for_world_owner'', ''no_upgrade'', ''extinguish_fire'',
      ''extinguish_fire_no_damage'', ''need_reception_desk'', ''use_paint''] @
     [(''padding'', 2)]"

definition Color_layout :: layout where
  "Color_layout = [(''a'', 8), (''r'', 8), (''g'', 8), (''b'', 8)]"

text \<open>The fields of a word and the word of some fields; what does not fit into its field is cut off.\<close>

fun fields_from :: "nat \<Rightarrow> layout \<Rightarrow> 'w::len word \<Rightarrow> (string \<times> 'w word) list" where
  "fields_from k [] w = []"
| "fields_from k ((n, b) # l) w = (n, take_bit b (drop_bit k w)) # fields_from (k + b) l w"

fun word_from :: "nat \<Rightarrow> layout \<Rightarrow> 'w::len word list \<Rightarrow> 'w word" where
  "word_from k ((n, b) # l) (v # vs) = or (push_bit k (take_bit b v)) (word_from (k + b) l vs)"
| "word_from k _ _ = 0"

definition unpack_bits :: "layout \<Rightarrow> 'w::len word \<Rightarrow> (string \<times> 'w word) list" where
  "unpack_bits l w = fields_from 0 l w"

definition pack_bits :: "layout \<Rightarrow> 'w::len word list \<Rightarrow> 'w word" where
  "pack_bits l vs = word_from 0 l vs"

definition layout_bits :: "layout \<Rightarrow> nat" where
  "layout_bits l = sum_list (map snd l)"

lemma layout_bits_simps [simp]: "layout_bits [] = 0" "layout_bits ((n, b) # l) = b + layout_bits l"
  by (simp_all add: layout_bits_def)

lemma bit_word_from_fields:
  fixes w :: "'w::len word"
  assumes "k + layout_bits l \<le> LENGTH('w)" and "i < LENGTH('w)"
  shows "bit (word_from k l (map snd (fields_from k l w))) i \<longleftrightarrow> k \<le> i \<and> i < k + layout_bits l \<and> bit w i"
  using assms
proof (induction l arbitrary: k)
  case Nil
  then show ?case by simp
next
  case (Cons x l)
  obtain n b where x: "x = (n, b)" by (cases x)
  show ?case
    using Cons.IH [of "k + b"] Cons.prems
    by (auto simp: x bit_or_iff bit_push_bit_iff bit_take_bit_iff bit_drop_bit_eq)
qed

lemma bit_word_from:
  fixes vs :: "'w::len word list"
  assumes "k + layout_bits l \<le> LENGTH('w)" and "bit (word_from k l vs) i"
  shows "k \<le> i \<and> i < k + layout_bits l"
  using assms
proof (induction k l vs rule: word_from.induct)
  case (1 k n b l v vs)
  then show ?case by (auto simp: bit_or_iff bit_push_bit_iff bit_take_bit_iff)
qed simp_all

lemma fields_from_word:
  fixes vs :: "'w::len word list"
  assumes "k + layout_bits l \<le> LENGTH('w)" and "list_all2 (\<lambda>(n, b) v. take_bit b v = v) l vs"
    and "\<And>i. k \<le> i \<Longrightarrow> i < LENGTH('w) \<Longrightarrow> bit w i = bit (word_from k l vs) i"
  shows "fields_from k l w = zip (map fst l) vs"
  using assms
proof (induction k l vs rule: word_from.induct)
  case (1 k n b l v vs)
  have fits: "take_bit b v = v" "list_all2 (\<lambda>(n, b) v. take_bit b v = v) l vs" using "1.prems"(2) by auto
  have len: "k + b + layout_bits l \<le> LENGTH('w)" using "1.prems"(1) by simp
  have bits: "bit w i \<longleftrightarrow> bit (push_bit k v) i \<or> bit (word_from (k + b) l vs) i" if "k \<le> i" "i < LENGTH('w)" for i
    using "1.prems"(3) [OF that] by (simp add: fits(1) bit_or_iff)
  have v: "bit v i \<Longrightarrow> i < b" for i using fits(1) by (metis bit_take_bit_iff)
  have "take_bit b (drop_bit k w) = v"
  proof (rule bit_word_eqI)
    fix i assume "i < LENGTH('w)"
    show "bit (take_bit b (drop_bit k w)) i = bit v i"
    proof (cases "i < b")
      case True
      then have lt: "k + i < LENGTH('w)" using len by simp
      have "\<not> bit (word_from (k + b) l vs) (k + i)" using bit_word_from [OF len, of vs "k + i"] True by auto
      with bits [of "k + i"] lt True show ?thesis
        by (simp add: bit_take_bit_iff bit_drop_bit_eq bit_push_bit_iff)
    qed (use v in \<open>auto simp: bit_take_bit_iff\<close>)
  qed
  moreover have "fields_from (k + b) l w = zip (map fst l) vs"
  proof (rule "1.IH" [OF len fits(2)])
    fix i assume "k + b \<le> i" "i < LENGTH('w)"
    then show "bit w i = bit (word_from (k + b) l vs) i"
      using bits [of i] v [of "i - k"] by (auto simp: bit_push_bit_iff)
  qed
  ultimately show ?case by simp
qed auto

text \<open>Fields that fill a word describe it: taken apart it is put together again, and whatever values that
  fit are put into the fields are found there.\<close>

lemma pack_unpack:
  fixes w :: "'w::len word"
  assumes "layout_bits l = LENGTH('w)"
  shows "pack_bits l (map snd (unpack_bits l w)) = w"
  using assms by (intro bit_word_eqI) (simp add: pack_bits_def unpack_bits_def bit_word_from_fields)

lemma unpack_pack:
  fixes vs :: "'w::len word list"
  assumes "layout_bits l \<le> LENGTH('w)" and "list_all2 (\<lambda>(n, b) v. take_bit b v = v) l vs"
  shows "unpack_bits l (pack_bits l vs) = zip (map fst l) vs"
  using assms by (simp add: unpack_bits_def pack_bits_def fields_from_word)

lemma layout_sizes [simp]:
  "layout_bits ItemInfoFlag_layout = 16" "layout_bits FXFlags_layout = 32" "layout_bits ItemInfoFlag2_layout = 32"
  "layout_bits Color_layout = 32"
  by (simp_all add: ItemInfoFlag_layout_def FXFlags_layout_def ItemInfoFlag2_layout_def Color_layout_def)

text \<open>The structures for the flags, effects and colours of items fill their 16 or 32 bits without a gap, so
  no bit of an item gets lost in them, and the table of flags scripts are given has the fields of the
  structure, in their order and with their values.\<close>

theorem item_bit_fields:
  "pack_bits ItemInfoFlag_layout (map snd (unpack_bits ItemInfoFlag_layout f)) = (f :: u16) \<and>
   pack_bits FXFlags_layout (map snd (unpack_bits FXFlags_layout x)) = (x :: u32) \<and>
   pack_bits ItemInfoFlag2_layout (map snd (unpack_bits ItemInfoFlag2_layout g)) = (g :: u32) \<and>
   pack_bits Color_layout (map snd (unpack_bits Color_layout c)) = (c :: u32) \<and>
   unpack_bits Color_layout (pack_bits Color_layout [take_bit 8 c1, take_bit 8 c2, take_bit 8 c3, take_bit 8 (c4 :: u32)]) =
     [(''a'', take_bit 8 c1), (''r'', take_bit 8 c2), (''g'', take_bit 8 c3), (''b'', take_bit 8 c4)] \<and>
   item_flags f = map (\<lambda>(n, v). (n, L_boolean (v = 1))) (unpack_bits ItemInfoFlag_layout f)"
proof -
  have one: "L_boolean (bit f k) = L_boolean (take_bit (Suc 0) (drop_bit k f) = 1)" for k
    by (simp add: bit_iff_odd_drop_bit odd_iff_mod_2_eq_one take_bit_eq_mod)
  have "item_flags f = map (\<lambda>(n, v). (n, L_boolean (v = 1))) (unpack_bits ItemInfoFlag_layout f)"
    by (simp add: item_flags_def item_flag_names_def ItemInfoFlag_layout_def unpack_bits_def enumerate_simps one)
  then show ?thesis
    by (simp add: pack_unpack unpack_pack) (subst unpack_pack, simp_all add: Color_layout_def)
qed

subsection \<open>Enumerations\<close>

definition TextureType_enumerators :: "(string \<times> u8) list" where
  "TextureType_enumerators =
     [(''SingleFrameAlone'', 0), (''SingleFrame'', 1), (''SmartEdge'', 2), (''SmartEdgeHoriz'', 3), (''SmartCling'', 4),
      (''SmartCling2'', 5), (''SmartOuter'', 6), (''Random'', 7), (''SmartEdgeVert'', 8), (''SmartEdgeHorizCave'', 9),
      (''SmartEdgeDiagon'', 10)]"

definition SeedBase_enumerators :: "(string \<times> u8) list" where
  "SeedBase_enumerators =
     [(''None'', 0), (''ShadeUpper'', 1), (''Empty'', 2), (''Rough'', 3), (''Lines'', 4), (''Empty2'', 5), (''Rough2'', 6),
      (''Rough3'', 7), (''Lines2'', 8), (''CircleCenter'', 9), (''CircleCenter2'', 10), (''Empty3'', 11),
      (''DarkBottom'', 12), (''ShadeTop'', 13), (''Empty4'', 14), (''Cracked'', 15)]"

definition SeedOverlay_enumerators :: "(string \<times> u8) list" where
  "SeedOverlay_enumerators =
     [(''Lines'', 0), (''Stripey'', 2), (''PolkaDot'', 4), (''ShadeHalf'', 6), (''Cross'', 8), (''JaggedLine'', 10),
      (''WaveyLines'', 12), (''DiagonalLines'', 14)]"

definition TreeBase_enumerators :: "(string \<times> u8) list" where
  "TreeBase_enumerators =
     [(''BranchTree'', 0), (''Roots'', 1), (''Roots2'', 2), (''BigTrunk'', 3), (''BranchTree2'', 4), (''NoRoots'', 5),
      (''BentSlightly'', 6), (''VineLikePlant'', 7)]"

definition TreeLeaves_enumerators :: "(string \<times> u8) list" where
  "TreeLeaves_enumerators =
     [(''FlatLeaves'', 0), (''BigTriangularLeaves'', 2), (''BigCircleLeaves'', 4), (''CircularLeaves'', 6)]"

text \<open>Each name stands for one value and each value has one name.\<close>

lemma enumerators_distinct:
  "distinct (map fst es) \<and> distinct (map snd es)"
  if "es \<in> {TextureType_enumerators, SeedBase_enumerators, SeedOverlay_enumerators, TreeBase_enumerators,
    TreeLeaves_enumerators}"
  using that by (auto simp: TextureType_enumerators_def SeedBase_enumerators_def SeedOverlay_enumerators_def
      TreeBase_enumerators_def TreeLeaves_enumerators_def)

definition PacketFlag_enumerators :: "(string \<times> u32) list" where
  "PacketFlag_enumerators =
     (''PACKET_FLAG_NONE'', 0) #
     map (\<lambda>(n, k). (n, push_bit k 1))
      [(''PACKET_FLAG_UNK'', 1), (''PACKET_FLAG_RESET_VISUAL_STATE'', 2), (''PACKET_FLAG_EXTENDED'', 3),
       (''PACKET_FLAG_ROTATE_LEFT'', 4), (''PACKET_FLAG_ON_SOLID'', 5), (''PACKET_FLAG_ON_FIRE_DAMAGE'', 6),
       (''PACKET_FLAG_ON_JUMP'', 7), (''PACKET_FLAG_ON_KILLED'', 8), (''PACKET_FLAG_ON_PUNCHED'', 9),
       (''PACKET_FLAG_ON_PLACED'', 10), (''PACKET_FLAG_ON_TILE_ACTION'', 11), (''PACKET_FLAG_ON_GOT_PUNCHED'', 12),
       (''PACKET_FLAG_ON_RESPAWNED'', 13), (''PACKET_FLAG_ON_COLLECT_OBJECT'', 14), (''PACKET_FLAG_ON_TRAMPOLINE'', 15),
       (''PACKET_FLAG_ON_DAMAGE'', 16), (''PACKET_FLAG_ON_SLIDE'', 17), (''PACKET_FLAG_ON_WALL_HANG'', 21),
       (''PACKET_FLAG_ON_ACID_DAMAGE'', 26)]"

text \<open>The table of packet flags that scripts are given was written by hand; it has every flag of the program,
  with its value, and nothing else. Flags are different bits, and the one that announces extra data is the bit
  the decoder tests.\<close>

theorem packet_flags_agree:
  "packet_flag_table = map (\<lambda>(n, v). (n, uint v)) PacketFlag_enumerators \<and>
   distinct (map fst PacketFlag_enumerators) \<and> distinct (map snd PacketFlag_enumerators) \<and>
   list_all (\<lambda>v. v = 0 \<or> and v (v - 1) = 0) (map snd PacketFlag_enumerators) \<and>
   (flag_extended p \<longleftrightarrow> (case map_of PacketFlag_enumerators ''PACKET_FLAG_EXTENDED'' of
      None \<Rightarrow> False | Some v \<Rightarrow> and (flags p) v \<noteq> 0))"
proof (intro conjI)
  have "and (flags p) 8 = 0 \<longleftrightarrow> \<not> bit (flags p) 3"
    using and_exp_eq_0_iff_not_bit [of "flags p" 3] by simp
  then show "flag_extended p \<longleftrightarrow> (case map_of PacketFlag_enumerators ''PACKET_FLAG_EXTENDED'' of
      None \<Rightarrow> False | Some v \<Rightarrow> and (flags p) v \<noteq> 0)"
    by (simp add: PacketFlag_enumerators_def flag_extended_def push_bit_eq_mult)
qed (simp_all add: packet_flag_table_def PacketFlag_enumerators_def)

end
