(* ===== verification/ScriptFacts.thy ===== *)
theory ScriptFacts
  imports ScriptBridge Decoding
begin

text \<open>
  What the script event bridge shows of messages and events: parsing never leaves the message and
  gives back what was sent, which events have a name and a packet, and in which order callbacks run.
\<close>

subsection \<open>Parsing\<close>

lemma parse_raw_type:
  fixes t :: u32
  assumes "length (le_bytes t @ rest) < 2 ^ 64"
  defines "s \<equiv> advance 4 (span_stream (le_bytes t @ rest))"
  shows "parse_raw_data (le_bytes t @ rest) =
    (if t = NET_MESSAGE_GAME_MESSAGE \<or> t = NET_MESSAGE_GENERIC_TEXT \<or> t = NET_MESSAGE_ERROR
     then Some (if rest \<noteq> [] then Lua_text (parse (pop_zero (string_of_bytes rest)) bar) else Lua_nil)
     else if t = NET_MESSAGE_GAME_PACKET then do {
       (r, s) \<leftarrow> read_data 56 s;
       case r of
         None \<Rightarrow> Some Lua_nil
       | Some h \<Rightarrow>
           let pkt = decode_packet h
           in if flag_extended pkt \<and> data_size pkt > 0 then do {
                (r, s) \<leftarrow> read_data (ucast (data_size pkt)) s;
                case r of
                  None \<Rightarrow> Some (Lua_header pkt)
                | Some ext \<Rightarrow> do {
                    (ok, vs) \<leftarrow> deserialize [] ext;
                    Some (if ok then Lua_variant vs else Lua_header pkt)
                  }
              }
              else Some (Lua_header pkt)
     }
     else Some Lua_nil)"
proof -
  let ?d = "le_bytes t @ rest"
  note rt = read_type [OF assms(1)]
  have ne: "?d \<noteq> []" by (simp flip: length_0_conv)
  have left: "unat (get_size s - read_offset s) = length rest"
    unfolding s_def using size_minus_offset [OF rt(3)] rt(4) by simp
  then have pos: "get_size s - read_offset s > 0 \<longleftrightarrow> rest \<noteq> []"
    by (simp add: word_less_nat_alt)
  have body: "take (unat (get_size s - read_offset s)) (drop (unat (read_offset s)) (get_raw_ptr s)) = rest"
    using rt(4) unfolding left by (simp add: s_def remaining_def)
  have rt1: "read_word 0 (span_stream ?d) = Some (True, t, s)"
    unfolding s_def by (rule rt(1))
  show ?thesis
    unfolding parse_raw_data_def rt1 using ne by (simp add: body pos)
qed

lemma pop_zero_sent: "pop_zero (s @ [CHR 0x00]) = s"
  by (simp add: pop_zero_def)

text \<open>Parsing always comes to a result without leaving the message, and a script that parses what the
  program has sent gets the fields of the text message or the arguments of the call. Unlike the
  decoder it has no limit of 65535 characters for a text.\<close>

theorem parse_raw_data_total:
  assumes "length d < 2 ^ 62"
  shows "parse_raw_data d \<noteq> None \<and>
    (d = serialize_payload (TextPayload t ps r) @ [0] \<and> text_ok (CHR ''|'') ps \<and>
       (t = NET_MESSAGE_GENERIC_TEXT \<or> t = NET_MESSAGE_GAME_MESSAGE) \<longrightarrow>
     parse_raw_data d = Some (Lua_text ps)) \<and>
    (d = serialize_payload (VariantPayload pkt vs r) @ [0] \<and> vs \<noteq> [] \<and> length vs < 256 \<and>
       list_all value_ok vs \<and> length (serialize vs) < 2 ^ 32 \<longrightarrow>
     parse_raw_data d = Some (Lua_variant vs))"
proof (intro conjI impI)
  have len: "length d < 2 ^ 64" using assms by simp
  show "parse_raw_data d \<noteq> None"
  proof (cases "length d < 4")
    case True
    then show ?thesis by (auto simp: parse_raw_data_def read_word_in_bounds)
  next
    case False
    then obtain t' :: u32 and rest where d: "d = le_bytes t' @ rest"
      using split_type [of d] by auto
    obtain s where s: "s = advance 4 (span_stream (le_bytes t' @ rest))" by blast
    have rt: "in_bounds s" unfolding s by (rule read_type(3) [OF len [unfolded d]])
    note parse = parse_raw_type [OF len [unfolded d], folded s]
    show ?thesis
    proof (cases "t' = NET_MESSAGE_GAME_PACKET \<and> 56 \<le> length (remaining s)")
      case False
      then show ?thesis
        unfolding d parse by (auto simp: read_data_in_bounds [OF rt])
    next
      case True
      let ?p = "decode_packet (take 56 (remaining s))" and ?s' = "advance 56 s"
      have s': "in_bounds ?s'" using True rt by (intro in_bounds_advance) auto
      obtain x s2 where x: "read_data (ucast (data_size ?p)) ?s' = Some (x, s2)"
        "\<And>e. x = Some e \<Longrightarrow> length e < 2 ^ 64"
        using read_data_in_bounds [OF s', of "ucast (data_size ?p)"] length_remaining [OF s']
        by (auto split: if_splits)
      have "\<exists>ok vs. deserialize [] e = Some (ok, vs)" if "x = Some e" for e
        using x(2) [OF that] by (rule deserialize_total_aux)
      then show ?thesis
        unfolding d parse using True x(1)
        by (cases x) (auto simp: read_data_in_bounds [OF rt] Let_def)
    qed
  qed
next
  assume a: "d = serialize_payload (TextPayload t ps r) @ [0] \<and> text_ok (CHR ''|'') ps \<and>
    (t = NET_MESSAGE_GENERIC_TEXT \<or> t = NET_MESSAGE_GAME_MESSAGE)"
  then have d: "d = le_bytes t @ bytes_of_string (raw ps) @ [0]" by (simp add: serialize_text)
  have len: "length (le_bytes t @ bytes_of_string (raw ps) @ [0]) < 2 ^ 64" using assms d by simp
  have "string_of_bytes (bytes_of_string (raw ps) @ [0]) = raw ps @ [CHR 0x00]"
    by (simp add: char_of_byte_def) code_simp
  then have "pop_zero (string_of_bytes (bytes_of_string (raw ps) @ [0])) = raw ps"
    by (simp only: pop_zero_sent)
  moreover have "parse (raw ps) bar = ps" using a by (intro parse_get_raw) simp_all
  ultimately show "parse_raw_data d = Some (Lua_text ps)"
    using a unfolding d parse_raw_type [OF len] by auto
next
  assume a: "d = serialize_payload (VariantPayload pkt vs r) @ [0] \<and> vs \<noteq> [] \<and> length vs < 256 \<and>
    list_all value_ok vs \<and> length (serialize vs) < 2 ^ 32"
  let ?h = "call_header_of pkt vs"
  have d: "d = le_bytes NET_MESSAGE_GAME_PACKET @ encode_packet ?h @ serialize vs @ [0]"
    using a by (simp add: serialize_call)
  have len: "length (le_bytes NET_MESSAGE_GAME_PACKET @ encode_packet ?h @ serialize vs @ [0]) < 2 ^ 64"
    using assms d by simp
  note rt = read_type [OF len]
  let ?s = "advance 4 (span_stream (le_bytes NET_MESSAGE_GAME_PACKET @ encode_packet ?h @ serialize vs @ [0]))"
  have "read_data 56 ?s = Some (Some (encode_packet ?h), advance 56 ?s)"
    using rt(4) by (simp add: read_data_in_bounds [OF rt(3)])
  moreover have r: "in_bounds (advance 56 ?s)" "remaining (advance 56 ?s) = serialize vs @ [0]"
    using rt(3,4) by (simp_all add: in_bounds_advance remaining_advance)
  moreover have n: "unat (ucast (data_size ?h) :: u64) = length (serialize vs)"
    using a by (simp add: call_header_of_def unat_ucast_up unat_word_of_nat_lt)
  then have "read_data (ucast (data_size ?h)) (advance 56 ?s) =
      Some (Some (serialize vs), advance (length (serialize vs)) (advance 56 ?s))"
    by (simp add: read_data_in_bounds [OF r(1)] r(2))
  moreover have "deserialize [] (serialize vs) = Some (True, vs)"
    using deserialize_append [of vs "[]" "[]"] a by simp
  moreover have "flag_extended ?h"
    by (simp add: call_header_of_def flag_extended_def) (simp flip: flag_extended_def)
  moreover have "data_size ?h > 0"
  proof -
    have "0 < length (serialize vs)" by (simp add: serialize_alt)
    then show ?thesis using a by (simp add: call_header_of_def word_less_nat_alt unat_word_of_nat_lt)
  qed
  ultimately show "parse_raw_data d = Some (Lua_variant vs)"
    unfolding d parse_raw_type [OF len] by simp
qed

theorem parse_raw_data_total_witness:
  "parse_raw_data (serialize_payload (VariantPayload zero_packet [VString ''OnName''] []) @ [0]) =
     Some (Lua_variant [VString ''OnName''])"
proof -
  let ?d = "serialize_payload (VariantPayload zero_packet [VString ''OnName''] []) @ [0]"
  have "length ?d < 2 ^ 62" by (simp add: serialize_call serialize_alt enc_string_def)
  from parse_raw_data_total [OF this, of NET_MESSAGE_GENERIC_TEXT "[]" "[]" zero_packet "[VString ''OnName'']"]
  show ?thesis by (simp add: serialize_alt enc_string_def)
qed

subsection \<open>What is known of an event\<close>

lemma typed_packet_simp [simp]: "typed_packet i (TypedPacketEvent dir p) = (if packet_id p = i then Some (dir, p) else None)"
  by (simp add: typed_packet_def)

lemma registered_is_packet_event: "i \<in> set registered_events \<Longrightarrow> is_packet_event (packet_event_type i)"
  by (auto simp: registered_events_def is_packet_event_def packet_event_type_def packet_event_offset_def)

lemma context_of_packet:
  assumes "i \<in> set registered_events" and "packet_id p = i"
  shows "event_context (packet_event_type i) (TypedPacketEvent dir p) =
    \<lparr>ctx_type = packet_event_type i, ctx_raw_data = [], ctx_valid = True,
     ctx_packet = (if i \<in> set typed_context_ids then Some p else None),
     ctx_direction = (if i \<in> set typed_context_ids then Some dir else None)\<rparr>"
  using registered_is_packet_event [OF assms(1)] assms(2)
  by (simp add: event_context_def try_fill_typed_context_def fill_typed_context_def
      raw_packet_def packet_id_from_type_def packet_event_type_def)

lemma typed_context_registered:
  "\<forall>i \<in> set registered_events. i \<in> set typed_context_ids \<longleftrightarrow>
     i \<notin> {Id_SendItemDatabaseData, Id_SendInventoryState, Id_ModifyItemInventory}"
  by (simp add: registered_events_def typed_context_ids_def)

lemma named_registered:
  "\<forall>i \<in> set registered_events. i \<in> snd ` set PACKET_ID_MAP \<longleftrightarrow> i \<noteq> Id_SendItemDatabaseData"
  by (simp add: registered_events_def PACKET_ID_MAP_def)

text \<open>Of the packets that are dispatched, scripts are given all but the item database and the two
  inventory packets. They can register for the inventory packets, but their callbacks see an event
  without packet, direction and data; for the item database there is no name to register.\<close>

theorem packets_scripts_see:
  fixes dir :: Direction
  assumes "packet_id p \<in> set registered_events" and "range_max < 0x1000"
  defines "ctx \<equiv> event_context (packet_event_type (packet_id p)) (TypedPacketEvent dir p)"
  shows "(ctx_packet ctx = Some p \<and> ctx_direction ctx = Some dir \<longleftrightarrow>
      packet_id p \<notin> {Id_SendItemDatabaseData, Id_SendInventoryState, Id_ModifyItemInventory}) \<and>
    (packet_id p \<in> {Id_SendInventoryState, Id_ModifyItemInventory} \<longrightarrow>
      get_packet ctx = Some Lua_nil \<and> event_direction ctx = Some ''Unknown'' \<and> parse_packet ctx = Some (Some Lua_nil)) \<and>
    ((\<exists>name. string_to_event_type range_max name = Some (packet_event_type (packet_id p))) \<longleftrightarrow>
      packet_id p \<noteq> Id_SendItemDatabaseData)"
proof (intro conjI impI)
  let ?i = "packet_id p"
  note ctx = context_of_packet [OF assms(1) refl, of dir, folded ctx_def]
  have ids: "?i \<in> set typed_context_ids \<longleftrightarrow> ?i \<notin> {Id_SendItemDatabaseData, Id_SendInventoryState, Id_ModifyItemInventory}"
    using typed_context_registered assms(1) by blast
  then show "ctx_packet ctx = Some p \<and> ctx_direction ctx = Some dir \<longleftrightarrow>
      ?i \<notin> {Id_SendItemDatabaseData, Id_SendInventoryState, Id_ModifyItemInventory}"
    by (simp add: ctx)
  assume "?i \<in> {Id_SendInventoryState, Id_ModifyItemInventory}"
  with ids have "?i \<notin> set typed_context_ids" by blast
  then show "get_packet ctx = Some Lua_nil" "event_direction ctx = Some ''Unknown''"
    "parse_packet ctx = Some (Some Lua_nil)"
    by (simp_all add: ctx get_packet_def event_direction_def check_valid_def parse_packet_def parse_raw_data_def)
next
  let ?i = "packet_id p"
  have small: "map_of (enum_values range_max event_type_enumerators) n \<noteq> Some (packet_event_type ?i)" for n
  proof
    assume "map_of (enum_values range_max event_type_enumerators) n = Some (packet_event_type ?i)"
    then have "unat (packet_event_type ?i) \<le> range_max"
      by (auto simp: enum_values_def dest!: map_of_SomeD)
    moreover have "0x1000 \<le> unat (packet_event_type ?i)"
      using registered_is_packet_event [OF assms(1)]
      by (simp add: is_packet_event_def packet_event_offset_def word_le_nat_alt)
    ultimately show False using assms(2) by simp
  qed
  have inj: "packet_event_type i = packet_event_type j \<longleftrightarrow> i = j" for i j
    by (simp add: packet_event_type_def)
  have "(\<exists>name. string_to_event_type range_max name = Some (packet_event_type ?i)) \<longleftrightarrow> ?i \<in> snd ` set PACKET_ID_MAP"
  proof
    assume "\<exists>name. string_to_event_type range_max name = Some (packet_event_type ?i)"
    then obtain name where "map_of PACKET_ID_MAP name = Some ?i"
      using small by (auto simp: string_to_event_type_def inj split: option.splits)
    then show "?i \<in> snd ` set PACKET_ID_MAP" by (auto dest!: map_of_SomeD intro: rev_image_eqI)
  next
    assume "?i \<in> snd ` set PACKET_ID_MAP"
    then obtain name where n: "(name, ?i) \<in> set PACKET_ID_MAP" by auto
    have "distinct (map fst PACKET_ID_MAP)" by (simp add: PACKET_ID_MAP_def)
    then have "map_of PACKET_ID_MAP name = Some ?i" using n by simp
    moreover have "map_of (enum_values range_max event_type_enumerators) name = None"
      using n by (auto simp: map_of_eq_None_iff enum_values_def event_type_enumerators_def PACKET_ID_MAP_def)
    ultimately show "\<exists>name. string_to_event_type range_max name = Some (packet_event_type ?i)"
      by (intro exI [of _ name]) (simp add: string_to_event_type_def)
  qed
  also have "\<dots> \<longleftrightarrow> ?i \<noteq> Id_SendItemDatabaseData"
    using named_registered assms(1) by blast
  finally show "(\<exists>name. string_to_event_type range_max name = Some (packet_event_type ?i)) \<longleftrightarrow>
      ?i \<noteq> Id_SendItemDatabaseData" .
qed

theorem packets_scripts_see_witness:
  "get_packet (event_context (packet_event_type Id_SendInventoryState)
     (TypedPacketEvent ClientBound (P_SendInventoryState new_SendInventoryState))) = Some Lua_nil"
  using packets_scripts_see [of "P_SendInventoryState new_SendInventoryState" 127 ClientBound]
  by (simp add: registered_events_def)

text \<open>The name of the type is empty for the events of all packets but the server's greeting, because
  their identifiers lie above what magic_enum looks at.\<close>

theorem packet_event_type_names:
  assumes "range_max < 0x1000" and "i \<in> set registered_events" and "packet_id p = i"
  shows "type_name range_max (event_context (packet_event_type i) (TypedPacketEvent dir p)) =
    Some (if i = Id_ServerHello then ''ServerHello'' else [])"
proof -
  have small: "enum_values range_max packet_id_enumerators = [(''ServerHello'', Id_ServerHello)]"
    using assms(1) by (simp add: enum_values_def packet_id_enumerators_def)
  show ?thesis
    using registered_is_packet_event [OF assms(2)]
    by (simp add: context_of_packet [OF assms(2,3)] type_name_def check_valid_def enum_name_def small)
      (simp add: packet_id_from_type_def packet_event_type_def)
qed

theorem packet_event_type_names_witness:
  "type_name 127 (event_context (packet_event_type Id_Input) (TypedPacketEvent ServerBound (P_Input new_Input))) =
     Some []"
  by (subst packet_event_type_names) (simp_all add: registered_events_def)

subsection \<open>Names scripts use\<close>

lemma erase_first_last: "\<forall>x \<in> set xs. \<not> P x \<Longrightarrow> P y \<Longrightarrow> erase_first P (xs @ [y]) = xs"
  by (induction xs) auto

text \<open>Registering under a name gives the handle to unregister with; other callbacks stay.\<close>

theorem register_unregister:
  assumes "register_callback range_max name cb p b = Some (h, b')"
    and "\<forall>e \<in> set (script_callbacks b). entry_handle e < next_handle b"
  shows "unregister_callback h b' = (True, b\<lparr>next_handle := next_handle b + 1\<rparr>) \<and>
    (\<forall>e \<in> set (script_callbacks b'). entry_handle e < next_handle b')"
proof -
  obtain t where b': "h = next_handle b"
    "b' = b\<lparr>script_callbacks := script_callbacks b @
       [\<lparr>entry_handle = h, entry_type = t, entry_priority = p, entry_callback = cb\<rparr>],
       next_handle := next_handle b + 1\<rparr>"
    using assms(1) by (auto simp: register_callback_def split: option.splits)
  have "erase_first (\<lambda>e. entry_handle e = h) (script_callbacks b @
      [\<lparr>entry_handle = h, entry_type = t, entry_priority = p, entry_callback = cb\<rparr>]) = script_callbacks b"
    using assms(2) by (intro erase_first_last) (auto simp: b'(1))
  then show ?thesis
    using assms(2) by (auto simp: b'(2) unregister_callback_def) (simp add: b'(1) less_SucI)
qed

theorem register_unregister_witness:
  "unregister_callback 0 (new_bridge\<lparr>script_callbacks := [\<lparr>entry_handle = 0, entry_type = Type_ClientBoundPacket,
      entry_priority = 5, entry_callback = ''f''\<rparr>], next_handle := 1\<rparr>) = (True, new_bridge\<lparr>next_handle := 0 + 1\<rparr>)"
  using register_unregister [of 127 "''ClientBoundPacket''" "''f''" 5 new_bridge 0]
  by (simp add: register_callback_def string_to_event_type_def enum_values_def event_type_enumerators_def new_bridge_def)

subsection \<open>Order and cancellation\<close>

text \<open>Observing the callbacks that run.\<close>

definition logged_callbacks :: "('cb, 's) lua_callbacks \<Rightarrow> ('cb, 'cb list \<times> 's) lua_callbacks" where
  "logged_callbacks lua cb ctx = (\<lambda>(b, l, s). case lua cb ctx (b, s) of (r, c, b, s) \<Rightarrow> (r, c, b, l @ [cb], s))"

lemma logged_call:
  "logged_callbacks lua cb ctx (b, l, s) = (case lua cb ctx (b, s) of (r, c, b, s) \<Rightarrow> (r, c, b, l @ [cb], s))"
  by (simp add: logged_callbacks_def)

lemma run_logged:
  "run_callbacks (logged_callbacks lua) ctx es (b, l, s) c = ((b', l', s'), c') \<Longrightarrow>
   run_callbacks lua ctx es (b, s) c = ((b', s'), c') \<and>
   (\<exists>k \<le> length es. l' = l @ map entry_callback (take k es) \<and> (k < length es \<longrightarrow> c'))"
proof (induction es arbitrary: b l s c)
  case (Cons e es)
  obtain r c1 b1 s1 where call: "lua (entry_callback e) ctx (b, s) = (r, c1, b1, s1)" by (rule prod_cases4)
  show ?case
  proof (cases "c \<or> r = Callback_bool False")
    case True
    then show ?thesis
      using Cons.prems by (cases c) (auto simp: logged_call call intro: exI [of _ 0] exI [of _ 1])
  next
    case False
    with Cons.prems have "run_callbacks (logged_callbacks lua) ctx es (b1, l @ [entry_callback e], s1) c1 = ((b', l', s'), c')"
      by (simp add: logged_call call)
    from Cons.IH [OF this] obtain k where
      k: "run_callbacks lua ctx es (b1, s1) c1 = ((b', s'), c')" "k \<le> length es"
        "l' = (l @ [entry_callback e]) @ map entry_callback (take k es)" "k < length es \<longrightarrow> c'" by blast
    then show ?thesis
      using False by (auto simp: call intro!: exI [of _ "Suc k"])
  qed
qed auto


lemma sort_key_ok: "sort_ok (sort_key entry_priority)"
  by (simp add: sort_ok_def)

definition demo_bridge :: "string ScriptEventBridge" where
  "demo_bridge = \<lparr>script_callbacks =
     [\<lparr>entry_handle = 0, entry_type = Type_ClientBoundPacket, entry_priority = 5, entry_callback = ''f''\<rparr>,
      \<lparr>entry_handle = 1, entry_type = Type_ClientBoundPacket, entry_priority = - 3, entry_callback = ''g''\<rparr>,
      \<lparr>entry_handle = 2, entry_type = Type_ServerBoundPacket, entry_priority = 0, entry_callback = ''h''\<rparr>],
     next_handle = 3\<rparr>"

definition demo_lua :: "(string, 's) lua_callbacks" where
  "demo_lua cb ctx = (\<lambda>(b, s). (Callback_bool (cb \<noteq> ''g''), False, b, s))"


subsection \<open>Going away\<close>

text \<open>
  The listeners the bridge adds, one for each event type, are exactly what its destructor takes out:
  the priorities and callbacks registered for every type are what they were before.
\<close>

lemma update_fresh: "t \<notin> fst ` set hs \<Longrightarrow> AList.update t h hs = hs @ [(t, h)]"
  by (induction hs) auto

lemma filter_inserted:
  "\<not> Q x \<Longrightarrow> \<forall>y \<in> set ys. Q y \<Longrightarrow> filter Q (insert_before P x ys) = ys"
  by (induction ys) auto

lemma append_then_filter:
  assumes B: "eventpp_ok B" and inv: "dispatcher_inv B d" and a: "appendListener B t c p d = (h, d')"
  shows "filter (\<lambda>e. snd e \<noteq> h) (handles d' t) = handles d t"
    and "filter (\<lambda>l. fst l \<noteq> h) (listeners B (dispatcher d') t) = listeners B (dispatcher d) t"
    and "t' \<noteq> t \<Longrightarrow> handles d' t' = handles d t'"
    and "t' \<noteq> t \<Longrightarrow> listeners B (dispatcher d') t' = listeners B (dispatcher d) t'"
proof -
  have "map snd (handles d t) = map fst (listeners B (dispatcher d) t)"
    using inv by (simp add: dispatcher_inv_def)
  then have in_eq: "h \<in> snd ` set (handles d t) \<longleftrightarrow> h \<in> fst ` set (listeners B (dispatcher d) t)"
    by (metis set_map)
  have "filter (\<lambda>e. snd e \<noteq> h) (handles d' t) = handles d t \<and>
      filter (\<lambda>l. fst l \<noteq> h) (listeners B (dispatcher d') t) = listeners B (dispatcher d) t \<and>
      (\<forall>t'. t' \<noteq> t \<longrightarrow> handles d' t' = handles d t' \<and>
         listeners B (dispatcher d') t' = listeners B (dispatcher d) t')"
  proof (cases "first_greater p (handles d t)")
    case None
    then obtain d1 where d1: "base_append B t c (dispatcher d) = (h, d1)"
      and d': "d' = d\<lparr>dispatcher := d1, handles := (handles d)(t := handles d t @ [(p, h)])\<rparr>"
      using a by (auto simp: appendListener_def split: prod.splits)
    note l = eventpp_append [OF B d1]
    have "h \<notin> snd ` set (handles d t)" using l(1) in_eq by blast
    with l(1) show ?thesis by (auto simp: d' l(2) filter_id_conv image_iff)
  next
    case (Some b)
    then obtain d1 where d1: "base_insert B t c b (dispatcher d) = (h, d1)"
      and d': "d' = d\<lparr>dispatcher := d1,
         handles := (handles d)(t := insert_before (\<lambda>e. fst e > p) (p, h) (handles d t))\<rparr>"
      using a by (auto simp: appendListener_def split: prod.splits)
    note l = eventpp_insert [OF B d1]
    have "h \<notin> snd ` set (handles d t)" using l(1) in_eq by blast
    with l(1) show ?thesis by (auto simp: d' l(2) image_iff intro!: filter_inserted)
  qed
  then show "filter (\<lambda>e. snd e \<noteq> h) (handles d' t) = handles d t"
    "filter (\<lambda>l. fst l \<noteq> h) (listeners B (dispatcher d') t) = listeners B (dispatcher d) t"
    "t' \<noteq> t \<Longrightarrow> handles d' t' = handles d t'"
    "t' \<noteq> t \<Longrightarrow> listeners B (dispatcher d') t' = listeners B (dispatcher d) t'"
    by simp_all
qed

lemma setup_handles:
  assumes B: "eventpp_ok B" and "distinct ts" and "dispatcher_inv B d" and "fst ` set hs \<inter> set ts = {}"
    and "fold (\<lambda>t (hs, d). case appendListener B t (handler t) Priority_FairlyHigh d of
           (h, d) \<Rightarrow> (AList.update t h hs, d)) ts (hs, d) = (hs', d')"
  shows "dispatcher_inv B d' \<and> (\<exists>new. hs' = hs @ new \<and> map fst new = ts \<and>
    (\<forall>t h. (t, h) \<in> set new \<longrightarrow> filter (\<lambda>e. snd e \<noteq> h) (handles d' t) = handles d t \<and>
       filter (\<lambda>l. fst l \<noteq> h) (listeners B (dispatcher d') t) = listeners B (dispatcher d) t) \<and>
    (\<forall>t. t \<notin> set ts \<longrightarrow> handles d' t = handles d t \<and>
       listeners B (dispatcher d') t = listeners B (dispatcher d) t))"
  using assms(2-)
proof (induction ts arbitrary: hs d)
  case (Cons t ts)
  obtain h d1 where a: "appendListener B t (handler t) Priority_FairlyHigh d = (h, d1)" by fastforce
  have inv: "dispatcher_inv B d1" using append_listener_step [OF B Cons.prems(2) a] by blast
  note r = append_then_filter [OF B Cons.prems(2) a]
  have "t \<notin> fst ` set hs" using Cons.prems(3) by auto
  with Cons.prems(4) a have rest: "fold (\<lambda>t (hs, d). case appendListener B t (handler t) Priority_FairlyHigh d of
      (h, d) \<Rightarrow> (AList.update t h hs, d)) ts (hs @ [(t, h)], d1) = (hs', d')"
    by (simp add: update_fresh)
  have "distinct ts" "fst ` set (hs @ [(t, h)]) \<inter> set ts = {}" using Cons.prems(1,3) by auto
  from Cons.IH [OF this(1) inv this(2) rest] obtain new where
    new: "dispatcher_inv B d'" "hs' = (hs @ [(t, h)]) @ new" "map fst new = ts"
      "\<And>t' h'. (t', h') \<in> set new \<Longrightarrow> filter (\<lambda>e. snd e \<noteq> h') (handles d' t') = handles d1 t' \<and>
         filter (\<lambda>l. fst l \<noteq> h') (listeners B (dispatcher d') t') = listeners B (dispatcher d1) t'"
      "\<And>t'. t' \<notin> set ts \<Longrightarrow> handles d' t' = handles d1 t' \<and>
         listeners B (dispatcher d') t' = listeners B (dispatcher d1) t'" by blast
  have other: "t' \<noteq> t" if "(t', h') \<in> set new" for t' h'
    using that Cons.prems(1) by (force simp flip: new(3))
  have "t \<notin> set ts" using Cons.prems(1) by simp
  then show ?case
    using new(1-3) new(4,5) r other
    by (intro conjI exI [of _ "(t, h) # new"]) auto
qed simp

lemma remove_new:
  assumes B: "eventpp_ok B" and "dispatcher_inv B d'" and "distinct (map fst new)"
    and "\<And>t h. (t, h) \<in> set new \<Longrightarrow> filter (\<lambda>e. snd e \<noteq> h) (handles d' t) = handles d t \<and>
       filter (\<lambda>l. fst l \<noteq> h) (listeners B (dispatcher d') t) = listeners B (dispatcher d) t"
    and "\<And>t. t \<notin> fst ` set new \<Longrightarrow> handles d' t = handles d t \<and>
       listeners B (dispatcher d') t = listeners B (dispatcher d) t"
  shows "handles (destroy_bridge B new d') t = handles d t \<and>
    listeners B (dispatcher (destroy_bridge B new d')) t = listeners B (dispatcher d) t"
  using assms(2-)
proof (induction new arbitrary: d')
  case (Cons x new)
  obtain u h where x: "x = (u, h)" by (cases x)
  obtain ok d1 where r: "removeListener B u h d' = (ok, d1)" by fastforce
  obtain b where b: "base_remove B u h (dispatcher d') = (ok, b)"
    and d1: "d1 = d'\<lparr>handles := (handles d')(u := filter (\<lambda>e. snd e \<noteq> h) (handles d' u)), dispatcher := b\<rparr>"
    using r by (auto simp: removeListener_def Let_def split: prod.splits)
  note l = eventpp_remove(2) [OF B b]
  have inv: "dispatcher_inv B d1" using remove_listener_step [OF B Cons.prems(1) r] by blast
  have u: "u \<notin> fst ` set new" "distinct (map fst new)" using Cons.prems(2) x by auto
  have "filter (\<lambda>e. snd e \<noteq> g) (handles d1 s) = handles d s \<and>
      filter (\<lambda>l. fst l \<noteq> g) (listeners B (dispatcher d1) s) = listeners B (dispatcher d) s"
    if "(s, g) \<in> set new" for s g
    using Cons.prems(3) [of s g] that u(1) by (force simp: d1 l)
  moreover have "handles d1 s = handles d s \<and> listeners B (dispatcher d1) s = listeners B (dispatcher d) s"
    if "s \<notin> fst ` set new" for s
    using Cons.prems(3) [of u h] Cons.prems(4) [of s] that by (auto simp: d1 l x)
  ultimately show ?case
    using Cons.IH [OF inv u(2)] by (simp add: destroy_bridge_def x r)
qed (simp add: destroy_bridge_def)

text \<open>
  The listeners the bridge adds, one for each event type, are exactly what its destructor takes out:
  afterwards every event type has the listeners it had before, in their order.
\<close>

theorem bridge_comes_and_goes:
  assumes "eventpp_ok B" and "dispatcher_inv B d" and "distinct ts"
    and "setup_event_listeners B handler ts d = (hs, d')"
  shows "map fst hs = ts \<and> listeners B (dispatcher (destroy_bridge B hs d')) t = listeners B (dispatcher d) t \<and>
    handles (destroy_bridge B hs d') t = handles d t"
proof -
  from setup_handles [OF assms(1,3,2), of "[]" handler hs d'] assms(4) obtain
    "dispatcher_inv B d'" "map fst hs = ts"
    and h: "\<And>t h. (t, h) \<in> set hs \<Longrightarrow> filter (\<lambda>e. snd e \<noteq> h) (handles d' t) = handles d t \<and>
       filter (\<lambda>l. fst l \<noteq> h) (listeners B (dispatcher d') t) = listeners B (dispatcher d) t"
    and o: "\<And>t. t \<notin> set ts \<Longrightarrow> handles d' t = handles d t \<and>
       listeners B (dispatcher d') t = listeners B (dispatcher d) t"
    by (auto simp: setup_event_listeners_def)
  from remove_new [OF assms(1) this(1) _ h] o this(2) assms(3) show ?thesis
    by (metis list.set_map)
qed

lemma bridge_types_distinct: "distinct (bridge_types 127 PACKET_ID_MAP)"
  by (simp add: bridge_types_def enum_values_def event_type_enumerators_def PACKET_ID_MAP_def
      packet_event_type_def packet_event_offset_def)

theorem bridge_comes_and_goes_witness:
  "case setup_event_listeners list_dispatcher (\<lambda>t (e :: event_data) st (c :: bool). (st + (1 :: int), c)) (bridge_types 127 PACKET_ID_MAP) no_listeners
     of (hs, d) \<Rightarrow> listeners list_dispatcher (dispatcher (destroy_bridge list_dispatcher hs d)) Type_ClientConnect = []"
proof -
  obtain hs d where s: "setup_event_listeners list_dispatcher (\<lambda>t (e :: event_data) st (c :: bool). (st + (1 :: int), c))
      (bridge_types 127 PACKET_ID_MAP) no_listeners = (hs, d)" by (rule prod.exhaust)
  have "listeners list_dispatcher (dispatcher no_listeners) Type_ClientConnect = []"
    by (simp add: no_listeners_def list_dispatcher_def)
  with bridge_comes_and_goes [OF list_dispatcher_ok no_listeners_inv bridge_types_distinct s, of Type_ClientConnect]
  have "listeners list_dispatcher (dispatcher (destroy_bridge list_dispatcher hs d)) Type_ClientConnect = []"
    by (elim conjE) (rule trans)
  then show ?thesis unfolding s prod.case .
qed

end
