(* ===== verification/Scripting.thy ===== *)
theory Scripting
  imports ScriptFacts CoreFacts
begin

text \<open>
  The proxy with its scripts: the listeners of \<open>Core\<close> and those of the script event bridge on one
  dispatcher (\<open>src/core/core.cpp\<close>). The state is the bridge and the proxy, and a callback may do
  anything to both. Without callbacks nothing changes, with them the scripts decide which messages are
  forwarded.
\<close>

subsection \<open>All listeners\<close>

text \<open>A handler of the proxy leaves the callbacks alone.\<close>

definition scripted ::
  "(event_data \<Rightarrow> 'p \<Rightarrow> ('p \<times> bool) option) \<Rightarrow> event_data \<Rightarrow> 'b \<times> 'p \<Rightarrow> (('b \<times> 'p) \<times> bool) option"
where
  "scripted h e = (\<lambda>(b, px). map_option (\<lambda>(px, c). ((b, px), c)) (h e px))"

definition bridge_handler ::
  "('cb, 'p) lua_callbacks \<Rightarrow> ('cb CallbackEntry list \<Rightarrow> 'cb CallbackEntry list) \<Rightarrow> event_type \<Rightarrow>
     event_data \<Rightarrow> 'cb ScriptEventBridge \<times> 'p \<Rightarrow> (('cb ScriptEventBridge \<times> 'p) \<times> bool) option"
where
  "bridge_handler lua srt t e st = Some (invoke_callbacks lua srt t e st False)"

text \<open>The order of \<open>Core\<close>'s constructor: the bridge comes last.\<close>

definition with_bridge ::
  "(event_type \<Rightarrow> event_data \<Rightarrow> 'b \<times> Proxy \<Rightarrow> (('b \<times> Proxy) \<times> bool) option) \<Rightarrow> event_type list \<Rightarrow>
     'z Env \<Rightarrow> orders \<Rightarrow> CommandRegistry \<Rightarrow>
     (event_type \<times> int \<times> (event_data \<Rightarrow> 'b \<times> Proxy \<Rightarrow> (('b \<times> Proxy) \<times> bool) option)) list"
where
  "with_bridge g ts env ord reg =
     map (\<lambda>(t, p, h). (t, p, scripted h)) (core_handlers env ord reg) @
     map (\<lambda>t. (t, Priority_FairlyHigh, g t)) ts"

definition scripted_handlers ::
  "('cb, Proxy) lua_callbacks \<Rightarrow> ('cb CallbackEntry list \<Rightarrow> 'cb CallbackEntry list) \<Rightarrow> event_type list \<Rightarrow>
     'z Env \<Rightarrow> orders \<Rightarrow> CommandRegistry \<Rightarrow>
     (event_type \<times> int \<times>
        (event_data \<Rightarrow> 'cb ScriptEventBridge \<times> Proxy \<Rightarrow> (('cb ScriptEventBridge \<times> Proxy) \<times> bool) option)) list"
where
  "scripted_handlers lua srt = with_bridge (bridge_handler lua srt)"

text \<open>The dispatcher after start-up, with all listeners.\<close>

definition started_with ::
  "('d, 'h, 's option listener) base_dispatcher \<Rightarrow>
     (event_type \<times> int \<times> (event_data \<Rightarrow> 's \<Rightarrow> ('s \<times> bool) option)) list \<Rightarrow>
     ('d, 'h) PriorityEventDispatcher \<Rightarrow> bool"
where
  "started_with B hs d \<longleftrightarrow>
     (\<exists>d0. eventpp_ok B \<and> dispatcher_inv B d0 \<and> handles d0 = (\<lambda>_. []) \<and>
        d = append_all B (map (\<lambda>(t, p, h). (t, p, listen h)) hs) d0)"

definition scripted_started ::
  "('d, 'h, ('cb ScriptEventBridge \<times> Proxy) option listener) base_dispatcher \<Rightarrow>
     ('cb, Proxy) lua_callbacks \<Rightarrow> ('cb CallbackEntry list \<Rightarrow> 'cb CallbackEntry list) \<Rightarrow> event_type list \<Rightarrow>
     'z Env \<Rightarrow> orders \<Rightarrow> CommandRegistry \<Rightarrow> ('d, 'h) PriorityEventDispatcher \<Rightarrow> bool"
where
  "scripted_started B lua srt ts env ord reg = started_with B (scripted_handlers lua srt ts env ord reg)"

lemma dispatch_with:
  assumes "started_with B hs d"
  shows "dispatch B d t e st c = invoke (map listen (map snd (sort_key fst (registrations t hs)))) e st c"
  using assms by (auto simp: started_with_def dispatch_listen_all)

lemma dispatch_scripted:
  assumes "scripted_started B lua srt ts env ord reg d"
  shows "dispatch B d t e st c =
    invoke (map listen (map snd (sort_key fst (registrations t (scripted_handlers lua srt ts env ord reg))))) e st c"
  using assms by (simp add: scripted_started_def dispatch_with)

subsection \<open>Without callbacks\<close>

text \<open>The listeners of one event type, those of the proxy told from those of the bridge.\<close>

definition tagged ::
  "event_type list \<Rightarrow> (event_type \<times> int \<times> 'a) list \<Rightarrow> event_type \<Rightarrow> (int \<times> 'a option) list"
where
  "tagged ts hs t =
     map (\<lambda>(p, h). (p, Some h)) (registrations t hs) @
     map (\<lambda>_. (Priority_FairlyHigh, None)) (filter (\<lambda>u. u = t) ts)"

definition untagged where
  "untagged g t x = (case x of Some h \<Rightarrow> scripted h | None \<Rightarrow> g t)"

lemma registrations_append: "registrations t (xs @ ys) = registrations t xs @ registrations t ys"
  by (simp add: registrations_def)

lemma with_bridge_tagged:
  "registrations t (with_bridge g ts env ord reg) =
     map (\<lambda>(p, x). (p, untagged g t x)) (tagged ts (core_handlers env ord reg) t)"
proof -
  have "registrations t (map (\<lambda>(t, p, h). (t, p, scripted h)) hs) =
      map (\<lambda>(p, x). (p, untagged g t x)) (map (\<lambda>(p, h). (p, Some h)) (registrations t hs))"
    for hs :: "(event_type \<times> int \<times> handler) list"
    by (induction hs) (auto simp: registrations_def untagged_def)
  moreover have "registrations t (map (\<lambda>t. (t, Priority_FairlyHigh, g t)) ts) =
      map (\<lambda>(p, x). (p, untagged g t x)) (map (\<lambda>_. (Priority_FairlyHigh, None)) (filter (\<lambda>u. u = t) ts))"
    by (induction ts) (auto simp: registrations_def untagged_def)
  ultimately show ?thesis
    by (simp add: with_bridge_def registrations_append tagged_def)
qed

lemmas scripted_tagged = with_bridge_tagged [of _ "bridge_handler lua srt" for lua srt, folded scripted_handlers_def]

lemma sort_key_map_snd: "sort_key fst (map (\<lambda>(p, x). (p, f x)) xs) = map (\<lambda>(p, x). (p, f x)) (sort_key fst xs)"
proof (induction xs)
  case (Cons x xs)
  have "insort_key fst (p, f y) (map (\<lambda>(p, x). (p, f x)) zs) = map (\<lambda>(p, x). (p, f x)) (insort_key fst (p, y) zs)"
    for p y zs by (induction zs) auto
  with Cons show ?case by (cases x) simp
qed simp

text \<open>A bridge that does nothing in some state of the scripts.\<close>

definition idle_bridge ::
  "(event_type \<Rightarrow> event_data \<Rightarrow> 'b \<times> Proxy \<Rightarrow> (('b \<times> Proxy) \<times> bool) option) \<Rightarrow> 'b \<Rightarrow> bool"
where
  "idle_bridge g b \<longleftrightarrow> (\<forall>t e px. g t e (b, px) = Some ((b, px), False))"

lemma no_callbacks_idle:
  assumes "script_callbacks b = []" and "sort_ok srt"
  shows "idle_bridge (bridge_handler lua srt) b"
proof -
  have "srt [] = []" using assms(2) unfolding sort_ok_def by (metis mset.simps(1) mset_zero_iff)
  then show ?thesis by (simp add: idle_bridge_def bridge_handler_def invoke_callbacks_def assms(1))
qed

text \<open>Listeners on a larger state: those that do what a listener on the smaller one does, and those that do
  nothing. \<open>emb\<close> puts a small state into the larger one.\<close>

lemma invoke_simulates:
  assumes "\<And>x px. U (Some x) e (emb px) = map_option (\<lambda>(px, c). (emb px, c)) (V x e px)"
    and "\<And>px. U None e (emb px) = Some (emb px, False)"
  shows "invoke (map (\<lambda>x. listen (U x)) xs) e (Some (emb px)) False =
    (case invoke (map (\<lambda>x. listen (V x)) (List.map_filter id xs)) e (Some px) False of
       (st, c) \<Rightarrow> (map_option emb st, c))"
proof (induction xs arbitrary: px)
  case Nil
  then show ?case by (simp add: map_filter_simps)
next
  case (Cons x xs)
  then show ?case
    by (cases x) (auto simp: map_filter_simps listen_def assms split: option.splits)
qed

lemma invoke_untagged:
  assumes "idle_bridge g b"
  shows "invoke (map (\<lambda>x. listen (untagged g t x)) xs) e (Some (b, px)) False =
    (case invoke (map listen (List.map_filter id xs)) e (Some px) False of (st, c) \<Rightarrow> (map_option (Pair b) st, c))"
  using assms by (intro invoke_simulates) (auto simp: untagged_def scripted_def idle_bridge_def)

lemma map_filter_sorted:
  "List.map_filter id (map snd (sort_key fst (tagged ts hs t))) = map snd (sort_key fst (registrations t hs))"
proof -
  have "List.map_filter id (map snd xs) = map (the \<circ> snd) (filter (\<lambda>x. snd x \<noteq> None) xs)" for xs :: "(int \<times> 'a option) list"
    by (induction xs) (auto simp: map_filter_simps split: option.splits)
  then have "List.map_filter id (map snd (sort_key fst (tagged ts hs t))) =
      map (the \<circ> snd) (sort_key fst (filter (\<lambda>x. snd x \<noteq> None) (tagged ts hs t)))"
    by (simp add: filter_sort)
  also have "filter (\<lambda>x. snd x \<noteq> None) (tagged ts hs t) = map (\<lambda>(p, h). (p, Some h)) (registrations t hs)"
    by (auto simp: tagged_def filter_empty_conv intro!: filter_True)
  also have "sort_key fst \<dots> = map (\<lambda>(p, h). (p, Some h)) (sort_key fst (registrations t hs))"
    by (rule sort_key_map_snd)
  finally show ?thesis by (simp add: comp_def split_beta id_def)
qed

text \<open>The dispatchers of the proxy with and without scripts.\<close>

lemma dispatch_no_callbacks:
  assumes "started B env ord reg d" and "started_with B' (with_bridge g ts env ord reg) d'"
    and "idle_bridge g b"
  shows "dispatch B' d' t e (Some (b, px)) False =
    (case dispatch B d t e (Some px) False of (st, c) \<Rightarrow> (map_option (Pair b) st, c))"
  using invoke_untagged [of g b t "map snd (sort_key fst (tagged ts (core_handlers env ord reg) t))" e px,
      OF assms(3)]
  unfolding dispatch_with [OF assms(2)] dispatch_started [OF assms(1)] with_bridge_tagged sort_key_map_snd
    map_filter_sorted
  by (simp add: comp_def split_beta)

text \<open>The network events of \<open>Core\<close> on the larger state.\<close>

definition on_proxy :: "(Proxy \<Rightarrow> Proxy) \<Rightarrow> 'b \<times> Proxy \<Rightarrow> 'b \<times> Proxy" where
  "on_proxy f st = (fst st, f (snd st))"

definition scripted_process ::
  "('d, 'h, ('b \<times> Proxy) option listener) base_dispatcher \<Rightarrow> ('d, 'h) PriorityEventDispatcher \<Rightarrow> 'z Env \<Rightarrow>
     net_action \<Rightarrow> 'b \<times> Proxy \<Rightarrow> ('b \<times> Proxy) option"
where
  "scripted_process B d env a st =
     (let st' = on_proxy (act a) st;
          event = (\<lambda>t st. fst (dispatch B d t ConnectionEvent (Some st) False))
      in case a of
           Connected ClientHost p \<Rightarrow> event Type_ServerConnect (on_proxy (\<lambda>px. px\<lparr>client_peer := Some p\<rparr>) st')
         | Connected ServerHost p \<Rightarrow> event Type_ClientConnect (on_proxy (\<lambda>px. px\<lparr>server_peer := Some p\<rparr>) st')
         | Received ClientHost p data \<Rightarrow>
             if client_peer (snd st') \<noteq> Some p then Some st'
             else if length data < 4 then Some (on_proxy client_disconnect st')
             else deliver B d env ClientBound Type_ClientBoundPacket data st'
         | Received ServerHost p data \<Rightarrow>
             if server_peer (snd st') \<noteq> Some p then Some st'
             else if length data < 4 \<or> length data > 16384 then Some (on_proxy server_disconnect st')
             else deliver B d env ServerBound Type_ServerBoundPacket data st'
         | Disconnected ClientHost p \<Rightarrow>
             if client_peer (snd st') \<noteq> Some p then Some st'
             else event Type_ServerDisconnect (on_proxy (\<lambda>px. px\<lparr>client_peer := None\<rparr>) st')
         | Disconnected ServerHost p \<Rightarrow>
             if server_peer (snd st') \<noteq> Some p then Some st'
             else event Type_ClientDisconnect (on_proxy (\<lambda>px. px\<lparr>server_peer := None\<rparr>) st')
         | _ \<Rightarrow> Some st)"

lemma emit_no_callbacks:
  assumes "\<And>t e px. dispatch B' d' t e (Some (b, px)) False =
    (case dispatch B d t e (Some px) False of (st, c) \<Rightarrow> (map_option (Pair b) st, c))"
  shows "emit B' evs d' dir p (Some (b, px)) =
    (case emit B evs d dir p (Some px) of (st, c) \<Rightarrow> (map_option (Pair b) st, c))"
  by (auto simp: emit_def assms split: prod.split)

lemma deliver_no_callbacks:
  assumes "\<And>t e px. dispatch B' d' t e (Some (b, px)) False =
    (case dispatch B d t e (Some px) False of (st, c) \<Rightarrow> (map_option (Pair b) st, c))"
  shows "deliver B' d' env dir t data (b, px) = map_option (Pair b) (deliver B d env dir t data px)"
proof -
  have fwd: "fst (dispatch B' d' t (RawPacketEvent data) (Some (b, px)) False) =
      map_option (Pair b) (fst (dispatch B d t (RawPacketEvent data) (Some px) False))" for px
    by (simp add: assms split: prod.split)
  let ?dec = "decode (zlib_lib env) (regex_multiline env) (packet_registry env) (log_config env) data"
  consider "?dec = None" | "?dec = Some None" | "?dec = Some (Some None)" | p where "?dec = Some (Some (Some p))"
    by (metis not_None_eq)
  then show ?thesis
  proof cases
    case (4 p)
    obtain st c where e: "emit B registered_events d dir p (Some px) = (st, c)" by fastforce
    show ?thesis
      by (cases st) (simp_all add: deliver_def 4 emit_no_callbacks [OF assms] e fwd)
  qed (simp_all add: deliver_def fwd)
qed

text \<open>A proxy whose scripts have registered no callback behaves as one without the bridge.\<close>

lemma idle_process:
  assumes "started B env ord reg d" and "started_with B' (with_bridge g ts env ord reg) d'"
    and "idle_bridge g b"
  shows "scripted_process B' d' env a (b, px) = map_option (Pair b) (process B d env a px)"
proof -
  have dsp: "dispatch B' d' t e (Some (b, px)) False =
      (case dispatch B d t e (Some px) False of (st, c) \<Rightarrow> (map_option (Pair b) st, c))" for t e px
    by (rule dispatch_no_callbacks [OF assms])
  have fst_dsp: "fst (dispatch B' d' t e (Some (b, px)) False) =
      map_option (Pair b) (fst (dispatch B d t e (Some px) False))" for t e px
    by (simp add: dsp split: prod.split)
  note defs = scripted_process_def process_def on_proxy_def client_on_connect_def server_on_connect_def
    client_on_receive_def server_on_receive_def client_on_disconnect_def server_on_disconnect_def
    fst_dsp deliver_no_callbacks [OF dsp] Let_def
  show ?thesis
  proof (cases a)
    case (Connected h p)
    then show ?thesis by (cases h) (simp_all add: defs)
  next
    case (Received h p data)
    then show ?thesis by (cases h) (simp_all add: defs)
  next
    case (Disconnected h p)
    then show ?thesis by (cases h) (simp_all add: defs)
  qed (simp_all add: defs)
qed

text \<open>A concrete proxy with a bridge.\<close>

definition demo_scripted ::
  "(event_type \<Rightarrow> (nat \<times> (string ScriptEventBridge \<times> Proxy) option listener) list, nat) PriorityEventDispatcher" where
  "demo_scripted =
     append_all list_dispatcher (map (\<lambda>(t, p, h). (t, p, listen h))
       (scripted_handlers demo_lua (sort_key entry_priority) (bridge_types 127 PACKET_ID_MAP) demo_env demo_orders
          (register_default_commands new_registry))) no_listeners"

lemma demo_scripted_started:
  "scripted_started list_dispatcher demo_lua (sort_key entry_priority) (bridge_types 127 PACKET_ID_MAP) demo_env
     demo_orders (register_default_commands new_registry) demo_scripted"
  unfolding scripted_started_def started_with_def demo_scripted_def
  by (rule exI [of _ no_listeners]) (simp add: list_dispatcher_ok no_listeners_inv, simp add: no_listeners_def)

subsection \<open>With callbacks\<close>

text \<open>The scripts see a message before it is forwarded.\<close>

definition listens_once :: "event_type list \<Rightarrow> event_type \<Rightarrow> bool" where
  "listens_once ts t \<longleftrightarrow> filter (\<lambda>u. u = t) ts = [t]"

lemma bridge_listens_raw:
  "listens_once (bridge_types 127 PACKET_ID_MAP) Type_ClientBoundPacket"
  "listens_once (bridge_types 127 PACKET_ID_MAP) Type_ServerBoundPacket"
  by (simp_all add: listens_once_def bridge_types_def enum_values_def event_type_enumerators_def PACKET_ID_MAP_def
      packet_event_type_def packet_event_offset_def)

text \<open>What happens to a message nothing has canceled yet.\<close>

definition scripts_then ::
  "('cb, Proxy) lua_callbacks \<Rightarrow> ('cb CallbackEntry list \<Rightarrow> 'cb CallbackEntry list) \<Rightarrow> event_type \<Rightarrow> bytes \<Rightarrow>
     (Proxy \<Rightarrow> Proxy) \<Rightarrow> 'cb ScriptEventBridge \<times> Proxy \<Rightarrow> 'cb ScriptEventBridge \<times> Proxy"
where
  "scripts_then lua srt t data f st =
     (case invoke_callbacks lua srt t (RawPacketEvent data) st False of
        (st, canceled) \<Rightarrow> if canceled then st else on_proxy f st)"

lemma dispatch_raw_scripted:
  assumes "scripted_started B lua srt ts env ord reg d" and "listens_once ts t"
    and "t = Type_ClientBoundPacket \<and> fwd = server_write env \<or> t = Type_ServerBoundPacket \<and> fwd = client_write env"
  shows "fst (dispatch B d t (RawPacketEvent data) (Some st) False) =
    Some (scripts_then lua srt t data (\<lambda>px. snd (fwd data px)) st)"
proof -
  let ?h = "if t = Type_ClientBoundPacket then forward_client_bound env else forward_server_bound env"
  have "registrations t (core_handlers env ord reg) = [(Priority_Normal, ?h)]"
    using assms(3) by (auto simp: core_handler_simps)
  then have "sort_key fst (tagged ts (core_handlers env ord reg) t) = [(Priority_FairlyHigh, None), (Priority_Normal, Some ?h)]"
    using assms(2) by (simp add: tagged_def listens_once_def Priority_FairlyHigh_def Priority_Normal_def)
  then show ?thesis
    using assms(3)
    by (cases st)
      (auto simp: dispatch_scripted [OF assms(1)] scripted_tagged sort_key_map_snd untagged_def bridge_handler_def
        listen_def scripted_def forward_client_bound_def forward_server_bound_def raw_packet_def go_def
        scripts_then_def on_proxy_def split: prod.splits)
qed

text \<open>Messages without a packet that is dispatched: of an unknown kind, or with a packet no event is
  registered for.\<close>

definition no_packet_event :: "'z Env \<Rightarrow> bytes \<Rightarrow> bool" where
  "no_packet_event env data =
     (case decoded env data of
        Some None \<Rightarrow> True
      | Some (Some (Some p)) \<Rightarrow> packet_id p \<notin> set registered_events
      | _ \<Rightarrow> False)"

lemma deliver_raw_scripted:
  assumes "scripted_started B lua srt ts env ord reg d" and "listens_once ts t"
    and "t = Type_ClientBoundPacket \<and> fwd = server_write env \<or> t = Type_ServerBoundPacket \<and> fwd = client_write env"
    and "no_packet_event env data"
  shows "deliver B d env dir t data st = Some (scripts_then lua srt t data (\<lambda>px. snd (fwd data px)) st)"
proof -
  note fwd = dispatch_raw_scripted [OF assms(1-3)]
  from assms(4) consider "decoded env data = Some None"
    | p where "decoded env data = Some (Some (Some p))" "packet_id p \<notin> set registered_events"
    by (auto simp: no_packet_event_def split: option.splits)
  then show ?thesis
    by cases (simp_all add: decoded_def deliver_def fwd emit_def has_event_def)
qed

text \<open>C15: scripts decide about a message that has no packet event of its own: their callbacks for the raw
  message run before it is forwarded, on the state it has met, and it is forwarded, once and as it
  came, exactly if none of them canceled it.\<close>

theorem scripts_decide_forwarding:
  assumes "scripted_started B lua srt ts env ord reg d"
    and "listens_once ts Type_ClientBoundPacket" and "listens_once ts Type_ServerBoundPacket"
    and "no_packet_event env data" and "4 \<le> length data" and "length data \<le> 16384"
  shows "(client_peer px = Some p \<longrightarrow>
      invoke_callbacks lua srt Type_ClientBoundPacket (RawPacketEvent data)
        (b, act (Received ClientHost p data) px) False = ((b', px'), canceled) \<longrightarrow>
      scripted_process B d env (Received ClientHost p data) (b, px) =
        Some (b', if canceled then px' else snd (server_write env data px'))) \<and>
    (server_peer px = Some p \<longrightarrow>
      invoke_callbacks lua srt Type_ServerBoundPacket (RawPacketEvent data)
        (b, act (Received ServerHost p data) px) False = ((b', px'), canceled) \<longrightarrow>
      scripted_process B d env (Received ServerHost p data) (b, px) =
        Some (b', if canceled then px' else snd (client_write env data px')))"
proof -
  note to_game = deliver_raw_scripted [OF assms(1,2) disjI1, OF conjI [OF refl refl] assms(4)]
    and to_server = deliver_raw_scripted [OF assms(1,3) disjI2, OF conjI [OF refl refl] assms(4)]
  show ?thesis
    using assms(5,6) by (auto simp: scripted_process_def on_proxy_def to_game to_server scripts_then_def Let_def)
qed

theorem scripts_decide_forwarding_witness:
  "scripted_process list_dispatcher demo_scripted demo_env (Received ClientHost 7 [9, 0, 0, 0]) (demo_bridge, demo_proxy) =
    Some (demo_bridge, act (Received ClientHost 7 [9, 0, 0, 0]) demo_proxy)"
proof -
  have "invoke_callbacks demo_lua (sort_key entry_priority) Type_ClientBoundPacket (RawPacketEvent [9, 0, 0, 0])
      (demo_bridge, act (Received ClientHost 7 [9, 0, 0, 0]) demo_proxy) False =
    ((demo_bridge, act (Received ClientHost 7 [9, 0, 0, 0]) demo_proxy), True)"
    by (simp add: invoke_callbacks_def demo_bridge_def demo_lua_def)
  with scripts_decide_forwarding [OF demo_scripted_started bridge_listens_raw, of "[9, 0, 0, 0]" demo_proxy 7
      demo_bridge demo_bridge "act (Received ClientHost 7 [9, 0, 0, 0]) demo_proxy" True]
  show ?thesis by (simp add: no_packet_event_def decoded_unknown)
qed

text \<open>The chat listener runs before the scripts do.\<close>

lemma sorted_in_place: "sorted (map f xs) \<Longrightarrow> sort_key f xs = xs"
  by (induction xs) (auto simp: insort_is_Cons)

lemma dispatch_chat_scripted:
  assumes "scripted_started B lua srt ts env ord reg d"
    and "on_text_packet env ord reg e px = Some (px', True)"
  shows "dispatch B d (packet_event_type Id_Input) e (Some (b, px)) False = (Some (b, px'), True)"
proof -
  have "registrations (packet_event_type Id_Input) (core_handlers env ord reg) =
      [(Priority_Highest, on_text_packet env ord reg)]"
    by (simp add: core_handler_simps)
  then obtain us where "tagged ts (core_handlers env ord reg) (packet_event_type Id_Input) =
      (Priority_Highest, Some (on_text_packet env ord reg)) # us" and us: "us = map (\<lambda>_. (Priority_FairlyHigh, None))
      (filter (\<lambda>u. u = packet_event_type Id_Input) ts)"
    by (simp add: tagged_def)
  moreover have "sorted (map fst ((Priority_Highest, Some (on_text_packet env ord reg)) # us))"
    unfolding us by (auto simp: Priority_Highest_def Priority_FairlyHigh_def comp_def sorted_replicate map_replicate_const)
  ultimately have "sort_key fst (tagged ts (core_handlers env ord reg) (packet_event_type Id_Input)) =
      (Priority_Highest, Some (on_text_packet env ord reg)) # us"
    by (simp only: sorted_in_place)
  then show ?thesis
    using assms(2)
    by (simp add: dispatch_scripted [OF assms(1)] scripted_tagged sort_key_map_snd untagged_def listen_def
        scripted_def)
qed

text \<open>C30: A command in the chat is not shown to scripts: whatever callbacks they have registered, the proxy
  does with it what it does without scripts.\<close>

theorem commands_hidden_from_scripts:
  assumes "started B env ord reg d" and "scripted_started B' lua srt ts env ord reg d'"
    and "decoded env data = Some (Some (Some (P_Input pkt)))"
    and "parse_command reg (input_text pkt) = (name, args)" and "name \<noteq> []" and "commands reg name \<noteq> None"
  shows "scripted_process B' d' env (Received ServerHost p data) (b, px) =
    map_option (Pair b) (process B d env (Received ServerHost p data) px)"
proof -
  have "is_command reg (input_text pkt)"
    using assms(4,5) by (auto simp: is_command_def parse_command_def split: if_splits)
  then have "\<exists>px'. on_text_packet env ord reg (TypedPacketEvent dir (P_Input pkt)) px = Some (px', True)" for dir px
    using assms(4-6) by (auto simp: on_text_packet_def execute_def get_command_def)
  then obtain px' where h: "on_text_packet env ord reg (TypedPacketEvent ServerBound (P_Input pkt))
      (act (Received ServerHost p data) px) = Some (px', True)" by blast
  have reg: "has_event registered_events Id_Input" by (simp add: has_event_def registered_events_def)
  have handler: "packet_handler env ord reg (packet_id (P_Input pkt)) = Some (on_text_packet env ord reg)"
    by (simp add: packet_handler_def)
  have "deliver B' d' env ServerBound Type_ServerBoundPacket data (b, act (Received ServerHost p data) px) = Some (b, px')"
    using assms(3) by (simp add: deliver_def decoded_def emit_def reg dispatch_chat_scripted [OF assms(2) h])
  moreover have "deliver B d env ServerBound Type_ServerBoundPacket data (act (Received ServerHost p data) px) = Some px'"
    using assms(3) handler h reg
    by (simp add: deliver_started [OF assms(1) disjI2, OF conjI [OF refl refl]] decoded_def has_event_def)
  ultimately show ?thesis
    by (simp add: scripted_process_def process_def server_on_receive_def on_proxy_def server_disconnect_def Let_def)
qed

theorem commands_hidden_from_scripts_witness:
  "scripted_process list_dispatcher demo_scripted demo_env (Received ServerHost 8 (chat_message ''/exit''))
     (demo_bridge, demo_proxy) =
   map_option (Pair demo_bridge)
     (process list_dispatcher demo_dispatcher demo_env (Received ServerHost 8 (chat_message ''/exit'')) demo_proxy)"
proof -
  have "parse_command (register_default_commands new_registry) ''/exit'' = (''exit'', [])"
    by (simp add: parse_command_def register_default_commands_def add_command_def new_registry_def
        words.simps is_space_def)
  moreover have "commands (register_default_commands new_registry) ''exit'' \<noteq> None"
    by (simp add: register_default_commands_def add_command_def new_registry_def)
  ultimately show ?thesis
    using commands_hidden_from_scripts [OF demo_started demo_scripted_started decoded_chat, of "''exit''" "[]"]
    by simp
qed

end
