(* ===== verification/ScriptScheduler.thy ===== *)
theory ScriptScheduler
  imports Interfaces "HOL-Library.Sublist"
begin

text \<open>
  \<open>scripting::ScriptScheduler\<close> (\<open>src/scripting/script_scheduler.cpp\<close>): the timers of the Lua
  scripts, which the main loop advances by the time that has passed. The interpreter is not under
  \<open>src/\<close>: a callback is an argument \<open>lua\<close>, which says for every state what the callback returns,
  which operations of the scheduler it calls and what it does to the rest of the program, whose state
  is of any type. The code keeps its tasks behind shared pointers and only \<open>update\<close> removes some, so a
  task to execute is a position in \<open>script_tasks\<close>. Times are microseconds.
\<close>

subsection \<open>State\<close>

record 'cb ScriptTask =
  st_id :: nat
  st_remaining :: int
  st_interval :: int
  st_callback :: 'cb
  st_periodic :: bool
  st_cancelled :: bool

record 'cb ScriptScheduler =
  script_tasks :: "'cb ScriptTask list"
  next_script_id :: nat

definition new_script_scheduler :: "'cb ScriptScheduler" where
  "new_script_scheduler = \<lparr>script_tasks = [], next_script_id = 1\<rparr>"

text \<open>What a callback returns: \<open>sol::protected_function_result\<close>, an error, a boolean or anything else.\<close>

datatype script_result = Script_error | Script_bool bool | Script_other

subsection \<open>Operations\<close>

definition script_generate_id :: "'cb ScriptScheduler \<Rightarrow> nat \<times> 'cb ScriptScheduler" where
  "script_generate_id s = (next_script_id s, s\<lparr>next_script_id := next_script_id s + 1\<rparr>)"

definition script_schedule :: "int \<Rightarrow> 'cb \<Rightarrow> 'cb ScriptScheduler \<Rightarrow> nat \<times> 'cb ScriptScheduler" where
  "script_schedule delay cb s =
     (let (i, s) = script_generate_id s
      in (i, s\<lparr>script_tasks := script_tasks s @
           [\<lparr>st_id = i, st_remaining = delay * 1000, st_interval = 0, st_callback = cb,
             st_periodic = False, st_cancelled = False\<rparr>]\<rparr>))"

definition script_schedule_periodic ::
  "int \<Rightarrow> 'cb \<Rightarrow> int \<Rightarrow> 'cb ScriptScheduler \<Rightarrow> nat \<times> 'cb ScriptScheduler"
where
  "script_schedule_periodic every cb initial s =
     (let (i, s) = script_generate_id s
      in (i, s\<lparr>script_tasks := script_tasks s @
           [\<lparr>st_id = i, st_remaining = (if initial > 0 then initial else every) * 1000,
             st_interval = every * 1000, st_callback = cb, st_periodic = True, st_cancelled = False\<rparr>]\<rparr>))"

text \<open>\<open>find_if\<close> finds the first task with the identifier, cancelled or not.\<close>

fun cancel_first :: "nat \<Rightarrow> 'cb ScriptTask list \<Rightarrow> 'cb ScriptTask list option" where
  "cancel_first i [] = None"
| "cancel_first i (t # ts) =
     (if st_id t = i then Some (t\<lparr>st_cancelled := True\<rparr> # ts) else map_option ((#) t) (cancel_first i ts))"

definition script_cancel :: "nat \<Rightarrow> 'cb ScriptScheduler \<Rightarrow> bool \<times> 'cb ScriptScheduler" where
  "script_cancel i s =
     (case cancel_first i (script_tasks s) of
        None \<Rightarrow> (False, s)
      | Some ts \<Rightarrow> (True, s\<lparr>script_tasks := ts\<rparr>))"

definition script_cancel_all :: "'cb ScriptScheduler \<Rightarrow> 'cb ScriptScheduler" where
  "script_cancel_all s = s\<lparr>script_tasks := map (\<lambda>t. t\<lparr>st_cancelled := True\<rparr>) (script_tasks s)\<rparr>"

definition script_is_pending :: "nat \<Rightarrow> 'cb ScriptScheduler \<Rightarrow> bool" where
  "script_is_pending i s \<longleftrightarrow> (\<exists>t \<in> set (script_tasks s). st_id t = i \<and> \<not> st_cancelled t)"

definition script_pending_count :: "'cb ScriptScheduler \<Rightarrow> nat" where
  "script_pending_count s = length (filter (\<lambda>t. \<not> st_cancelled t) (script_tasks s))"

subsection \<open>Callbacks\<close>

text \<open>The operations scripts are given (\<open>src/scripting/bindings/scheduler_bindings.cpp\<close>).\<close>

datatype 'cb script_call =
    Call_schedule int 'cb
  | Call_periodic int 'cb int
  | Call_cancel nat
  | Call_cancel_all

definition run_call :: "'cb script_call \<Rightarrow> 'cb ScriptScheduler \<Rightarrow> 'cb ScriptScheduler" where
  "run_call c s =
     (case c of
        Call_schedule d cb \<Rightarrow> snd (script_schedule d cb s)
      | Call_periodic e cb d \<Rightarrow> snd (script_schedule_periodic e cb d s)
      | Call_cancel i \<Rightarrow> snd (script_cancel i s)
      | Call_cancel_all \<Rightarrow> script_cancel_all s)"

type_synonym ('cb, 'w) lua =
  "'cb \<Rightarrow> 'cb ScriptScheduler \<Rightarrow> 'w \<Rightarrow> script_result \<times> 'cb script_call list \<times> 'w"

subsection \<open>Update\<close>

text \<open>The first loop: which tasks are due, and what becomes of a task's clock.\<close>

definition is_due :: "int \<Rightarrow> 'cb ScriptTask \<Rightarrow> bool" where
  "is_due elapsed t \<longleftrightarrow> \<not> st_cancelled t \<and> st_remaining t - elapsed \<le> 0"

definition tick :: "int \<Rightarrow> 'cb ScriptTask \<Rightarrow> 'cb ScriptTask" where
  "tick elapsed t =
     (if st_cancelled t then t
      else if st_remaining t - elapsed \<le> 0 \<and> st_periodic t then t\<lparr>st_remaining := st_interval t\<rparr>
      else t\<lparr>st_remaining := st_remaining t - elapsed\<rparr>)"

definition tasks_to_execute :: "int \<Rightarrow> 'cb ScriptTask list \<Rightarrow> nat list" where
  "tasks_to_execute elapsed ts = filter (\<lambda>k. is_due elapsed (ts ! k)) [0..<length ts]"

text \<open>The second loop. What a callback returns is looked at after it has run.\<close>

definition finish_task :: "script_result \<Rightarrow> 'cb ScriptTask \<Rightarrow> 'cb ScriptTask" where
  "finish_task r t =
     (if r = Script_bool False \<and> st_periodic t \<or> \<not> st_periodic t then t\<lparr>st_cancelled := True\<rparr> else t)"

definition mark_finished :: "nat \<Rightarrow> script_result \<Rightarrow> 'cb ScriptScheduler \<Rightarrow> 'cb ScriptScheduler" where
  "mark_finished k r s = s\<lparr>script_tasks := (script_tasks s)[k := finish_task r (script_tasks s ! k)]\<rparr>"

fun execute_tasks ::
  "('cb, 'w) lua \<Rightarrow> nat list \<Rightarrow> 'cb ScriptScheduler \<Rightarrow> 'w \<Rightarrow> 'cb ScriptScheduler \<times> 'w"
where
  "execute_tasks lua [] s w = (s, w)"
| "execute_tasks lua (k # ks) s w =
     (if st_cancelled (script_tasks s ! k) then execute_tasks lua ks s w
      else let (r, calls, w) = lua (st_callback (script_tasks s ! k)) s w
           in execute_tasks lua ks (mark_finished k r (fold run_call calls s)) w)"

definition script_update ::
  "('cb, 'w) lua \<Rightarrow> int \<Rightarrow> 'cb ScriptScheduler \<Rightarrow> 'w \<Rightarrow> 'cb ScriptScheduler \<times> 'w"
where
  "script_update lua elapsed s w =
     (if script_tasks s = [] then (s, w)
      else let (s', w) = execute_tasks lua (tasks_to_execute elapsed (script_tasks s))
                           (s\<lparr>script_tasks := map (tick elapsed) (script_tasks s)\<rparr>) w
           in (s'\<lparr>script_tasks := filter (\<lambda>t. \<not> st_cancelled t) (script_tasks s')\<rparr>, w))"

subsection \<open>What operations do to the tasks that are there\<close>

text \<open>
  Operations append tasks and cancel tasks, nothing else: every position keeps its task, perhaps
  cancelled.
\<close>

definition advances :: "'cb ScriptScheduler \<Rightarrow> 'cb ScriptScheduler \<Rightarrow> bool" where
  "advances s s' \<longleftrightarrow> length (script_tasks s) \<le> length (script_tasks s') \<and>
     (\<forall>k < length (script_tasks s). script_tasks s' ! k = script_tasks s ! k \<or>
        script_tasks s' ! k = (script_tasks s ! k)\<lparr>st_cancelled := True\<rparr>)"

named_theorems script_simps

lemma advances_refl [intro]: "advances s s"
  by (simp add: advances_def)

lemma advances_trans [trans]: "advances s s' \<Longrightarrow> advances s' s'' \<Longrightarrow> advances s s''"
  unfolding advances_def by (metis (no_types, lifting) ScriptTask.surjective ScriptTask.update_convs(6) less_le_trans order_trans)

lemma advances_length: "advances s s' \<Longrightarrow> length (script_tasks s) \<le> length (script_tasks s')"
  by (simp add: advances_def)

lemma advances_nth:
  assumes "advances s s'" and "k < length (script_tasks s)"
  shows "st_callback (script_tasks s' ! k) = st_callback (script_tasks s ! k)"
    and "st_periodic (script_tasks s' ! k) = st_periodic (script_tasks s ! k)"
    and "st_id (script_tasks s' ! k) = st_id (script_tasks s ! k)"
  using assms by (fastforce simp: advances_def)+

lemma advances_cancelled:
  "advances s s' \<Longrightarrow> k < length (script_tasks s) \<Longrightarrow> st_cancelled (script_tasks s ! k) \<Longrightarrow>
     st_cancelled (script_tasks s' ! k)"
  by (fastforce simp: advances_def)

lemma cancel_first_SomeD:
  "cancel_first i ts = Some ts' \<Longrightarrow> length ts' = length ts \<and> map st_id ts' = map st_id ts \<and>
     (\<forall>k < length ts. ts' ! k = ts ! k \<or> ts' ! k = (ts ! k)\<lparr>st_cancelled := True\<rparr>)"
  by (induction i ts arbitrary: ts' rule: cancel_first.induct)
    (auto simp: nth_Cons split: if_splits nat.splits)

text \<open>The identifiers: a call adds the next one or none.\<close>

definition script_ids :: "'cb ScriptScheduler \<Rightarrow> nat list" where
  "script_ids s = map st_id (script_tasks s)"

lemma ids_run_call:
  "script_ids (run_call c s) = script_ids s \<and> next_script_id (run_call c s) = next_script_id s \<or>
   script_ids (run_call c s) = script_ids s @ [next_script_id s] \<and>
     next_script_id (run_call c s) = next_script_id s + 1"
  by (auto simp: run_call_def script_ids_def script_schedule_def script_schedule_periodic_def
      script_generate_id_def script_cancel_def script_cancel_all_def comp_def Let_def
      dest: cancel_first_SomeD split: script_call.splits option.splits)

lemma advances_run_call: "advances s (run_call c s)"
  by (auto simp: run_call_def advances_def script_schedule_def script_schedule_periodic_def nth_append
      script_generate_id_def script_cancel_def script_cancel_all_def Let_def
      dest: cancel_first_SomeD split: script_call.splits option.splits)

lemma advances_calls: "advances s (fold run_call calls s)"
  by (induction calls arbitrary: s) (auto intro: advances_trans [OF advances_run_call])

lemma advances_finish: "advances s (mark_finished k r s)"
proof -
  have "(script_tasks s)[k := finish_task r (script_tasks s ! k)] ! j \<in>
      {script_tasks s ! j, (script_tasks s ! j)\<lparr>st_cancelled := True\<rparr>}" if "j < length (script_tasks s)" for j
    using that by (cases "k = j") (auto simp: finish_task_def)
  then show ?thesis by (simp add: advances_def mark_finished_def)
qed

lemma execute_run:
  "\<not> st_cancelled (script_tasks s ! k) \<Longrightarrow> lua (st_callback (script_tasks s ! k)) s w = (r, calls, v) \<Longrightarrow>
     execute_tasks lua (k # ks) s w = execute_tasks lua ks (mark_finished k r (fold run_call calls s)) v"
  by simp

lemma advances_call: "advances s (mark_finished k r (fold run_call calls s))"
  using advances_calls advances_finish by (rule advances_trans)

text \<open>Induction over what is executed: a property kept by skipping a task and by a callback.\<close>

lemma execute_induct [consumes 1, case_names Nil Skip Run]:
  assumes "execute_tasks lua ks s w = (s', w')"
    and "\<And>s w. P [] s w s w"
    and "\<And>k ks s w s' w'. st_cancelled (script_tasks s ! k) \<Longrightarrow> P ks s w s' w' \<Longrightarrow> P (k # ks) s w s' w'"
    and "\<And>k ks s w r calls v s' w'. \<not> st_cancelled (script_tasks s ! k) \<Longrightarrow>
           lua (st_callback (script_tasks s ! k)) s w = (r, calls, v) \<Longrightarrow>
           execute_tasks lua ks (mark_finished k r (fold run_call calls s)) v = (s', w') \<Longrightarrow>
           P ks (mark_finished k r (fold run_call calls s)) v s' w' \<Longrightarrow> P (k # ks) s w s' w'"
  shows "P ks s w s' w'"
  using assms(1)
proof (induction ks arbitrary: s w)
  case (Cons k ks)
  show ?case
  proof (cases "st_cancelled (script_tasks s ! k)")
    case True
    with Cons assms(3) show ?thesis by simp
  next
    case False
    obtain r calls v where l: "lua (st_callback (script_tasks s ! k)) s w = (r, calls, v)"
      by (cases "lua (st_callback (script_tasks s ! k)) s w") auto
    from Cons.prems have "execute_tasks lua ks (mark_finished k r (fold run_call calls s)) v = (s', w')"
      by (simp add: False l)
    from assms(4) [OF False l this Cons.IH [OF this]] show ?thesis .
  qed
qed (simp add: assms(2))

lemma advances_execute: "execute_tasks lua ks s w = (s', w') \<Longrightarrow> advances s s'"
  by (induction rule: execute_induct) (auto intro: advances_trans [OF advances_call])

subsection \<open>The identifiers of the tasks\<close>

definition script_inv :: "'cb ScriptScheduler \<Rightarrow> bool" where
  "script_inv s \<longleftrightarrow> distinct (script_ids s) \<and> (\<forall>i \<in> set (script_ids s). 0 < i \<and> i < next_script_id s) \<and>
     0 < next_script_id s"

lemma inv_same_ids:
  "script_inv s \<Longrightarrow> script_ids s' = script_ids s \<Longrightarrow> next_script_id s' = next_script_id s \<Longrightarrow> script_inv s'"
  by (simp add: script_inv_def)

lemma inv_run_call: "script_inv s \<Longrightarrow> script_inv (run_call c s)"
  using ids_run_call [of c s] by (fastforce simp: script_inv_def)

lemma inv_calls: "script_inv s \<Longrightarrow> script_inv (fold run_call calls s)"
  by (induction calls arbitrary: s) (auto intro: inv_run_call)

lemma ids_mark_finished: "script_ids (mark_finished k r s) = script_ids s"
proof (cases "k < length (script_tasks s)")
  case True
  then show ?thesis
    by (simp add: script_ids_def mark_finished_def finish_task_def map_update list_update_same_conv)
qed (simp add: script_ids_def mark_finished_def not_less list_update_beyond)

lemma inv_mark_finished: "script_inv s \<Longrightarrow> script_inv (mark_finished k r s)"
  by (erule inv_same_ids) (rule ids_mark_finished, simp add: mark_finished_def)

lemma inv_execute: "execute_tasks lua ks s w = (s', w') \<Longrightarrow> script_inv s \<Longrightarrow> script_inv s'"
  by (induction rule: execute_induct) (auto intro: inv_mark_finished inv_calls)

lemma inv_filter: "script_inv s \<Longrightarrow> script_inv (s\<lparr>script_tasks := filter P (script_tasks s)\<rparr>)"
  by (auto simp: script_inv_def script_ids_def distinct_map intro: inj_on_subset)

lemma inv_tick: "script_inv s \<Longrightarrow> script_inv (s\<lparr>script_tasks := map (tick e) (script_tasks s)\<rparr>)"
  by (erule inv_same_ids) (auto simp: script_ids_def tick_def)

lemma inv_update:
  assumes "script_update lua e s w = (s', w')" and "script_inv s"
  shows "script_inv s'"
proof (cases "script_tasks s = []")
  case True
  with assms show ?thesis by (simp add: script_update_def)
next
  case False
  obtain u v where r: "execute_tasks lua (tasks_to_execute e (script_tasks s))
      (s\<lparr>script_tasks := map (tick e) (script_tasks s)\<rparr>) w = (u, v)"
    by (rule prod.exhaust)
  then have "script_inv u" by (rule inv_execute) (rule inv_tick [OF assms(2)])
  with assms(1) False r show ?thesis by (auto simp: script_update_def intro: inv_filter)
qed

text \<open>A scheduler with the rest of the program, and what happens to it.\<close>

inductive script_step ::
  "('cb, 'w) lua \<Rightarrow> 'cb ScriptScheduler \<times> 'w \<Rightarrow> 'cb script_call + int \<Rightarrow> 'cb ScriptScheduler \<times> 'w \<Rightarrow> bool"
  for lua
where
  step_call: "script_step lua (s, w) (Inl c) (run_call c s, w)"
| step_update: "script_step lua (s, w) (Inr e) (script_update lua e s w)"

inductive_cases script_stepE: "script_step lua s e s'"

interpretation script: state_machine "\<lambda>s. fst s = new_script_scheduler" "script_step lua" "\<lambda>s. script_inv (fst s)"
  for lua
proof unfold_locales
  fix s :: "'a ScriptScheduler \<times> 'b"
  assume "fst s = new_script_scheduler"
  then show "script_inv (fst s)" by (simp add: script_inv_def script_ids_def new_script_scheduler_def)
next
  fix s s' :: "'a ScriptScheduler \<times> 'b" and e
  assume "script_inv (fst s)" and "script_step lua s e s'"
  then show "script_inv (fst s')"
    by (auto elim!: script_stepE intro: inv_run_call) (metis inv_update prod.collapse)
qed

lemma cancel_first_iff: "cancel_first i ts = None \<longleftrightarrow> i \<notin> st_id ` set ts"
  by (induction i ts rule: cancel_first.induct) auto

lemma cancel_first_pending:
  "distinct (map st_id ts) \<Longrightarrow> cancel_first i ts = Some ts' \<Longrightarrow>
     (\<exists>t \<in> set ts'. st_id t = j \<and> \<not> st_cancelled t) \<longleftrightarrow>
     j \<noteq> i \<and> (\<exists>t \<in> set ts. st_id t = j \<and> \<not> st_cancelled t)"
proof (induction i ts arbitrary: ts' rule: cancel_first.induct)
  case (2 i t ts)
  show ?case
  proof (cases "st_id t = i")
    case True
    with "2.prems" have "\<forall>u \<in> set ts. st_id u \<noteq> i" by (auto simp: image_iff)
    with True "2.prems" show ?thesis by auto
  next
    case False
    with 2 show ?thesis by auto
  qed
qed simp

text \<open>In every state the scripts can reach the identifiers are different from each other and from
  those to come; cancelling an identifier succeeds for the tasks that are still in the list, and makes
  it, and no other, stop being pending.\<close>

theorem script_scheduler_invariant:
  assumes "script.run lua (new_script_scheduler, w0) es (s, w)"
  shows "distinct (map st_id (script_tasks s)) \<and> (\<forall>t \<in> set (script_tasks s). st_id t < next_script_id s) \<and>
    fst (script_cancel i s) = (i \<in> st_id ` set (script_tasks s)) \<and>
    script_is_pending j (snd (script_cancel i s)) = (j \<noteq> i \<and> script_is_pending j s)"
proof -
  have inv: "script_inv s" using script.run_from_init [OF _ assms] by simp
  then have d: "distinct (map st_id (script_tasks s))" by (simp add: script_inv_def script_ids_def)
  have "script_is_pending j (snd (script_cancel i s)) = (j \<noteq> i \<and> script_is_pending j s)"
    using cancel_first_pending [OF d] cancel_first_iff [of i "script_tasks s"]
    by (auto simp: script_is_pending_def script_cancel_def split: option.splits)
  moreover have "fst (script_cancel i s) = (i \<in> st_id ` set (script_tasks s))"
    using cancel_first_iff [of i "script_tasks s"] by (auto simp: script_cancel_def split: option.splits)
  ultimately show ?thesis using inv by (auto simp: script_inv_def script_ids_def)
qed

definition two_script_tasks :: "unit ScriptScheduler" where
  "two_script_tasks = run_call (Call_periodic 5 () 0) (run_call (Call_schedule 1 ()) new_script_scheduler)"

theorem script_scheduler_invariant_witness:
  "distinct (map st_id (script_tasks two_script_tasks)) \<and>
   (\<forall>t \<in> set (script_tasks two_script_tasks). st_id t < next_script_id two_script_tasks) \<and>
   fst (script_cancel 1 two_script_tasks) = (1 \<in> st_id ` set (script_tasks two_script_tasks)) \<and>
   script_is_pending 2 (snd (script_cancel 1 two_script_tasks)) =
     ((2 :: nat) \<noteq> 1 \<and> script_is_pending 2 two_script_tasks)"
  unfolding two_script_tasks_def
  by (rule script_scheduler_invariant [where lua = "\<lambda>_ _ w. (Script_other, [], w)" and w0 = "()" and w = "()"
      and es = "[Inl (Call_schedule 1 ()), Inl (Call_periodic 5 () 0)]"])
    (rule script.run_cons, rule step_call, rule script.run_cons, rule step_call, rule script.run_nil)

subsection \<open>Which callbacks run\<close>

text \<open>Observing the callbacks: what was called is written down beside the rest of the program.\<close>

definition logged :: "('cb, 'w) lua \<Rightarrow> ('cb, 'cb list \<times> 'w) lua" where
  "logged lua cb s = (\<lambda>(l, w). case lua cb s w of (r, calls, w) \<Rightarrow> (r, calls, l @ [cb], w))"

lemma execute_logged:
  assumes "execute_tasks (logged lua) ks s x = (s', x')"
  shows "\<forall>k \<in> set ks. k < length (script_tasks s) \<Longrightarrow>
    execute_tasks lua ks s (snd x) = (s', snd x') \<and>
    (\<exists>m. fst x' = fst x @ m \<and> subseq m (map (\<lambda>k. st_callback (script_tasks s ! k)) ks))"
  using assms
proof (induction rule: execute_induct)
  case (Skip k ks s x s' x')
  then show ?case by auto
next
  case (Run k ks s x r calls v s' x')
  obtain l w where x: "x = (l, w)" by (cases x)
  let ?cb = "st_callback (script_tasks s ! k)" and ?s = "mark_finished k r (fold run_call calls s)"
  obtain r' calls' w' where call: "lua ?cb s w = (r', calls', w')" by (rule prod_cases3)
  with Run(2) x have eq: "r' = r" "calls' = calls" "v = (l @ [?cb], w')"
    by (auto simp: logged_def call)
  have adv: "advances s ?s" by (rule advances_call)
  with Run.prems have "\<forall>k \<in> set ks. k < length (script_tasks ?s)"
    by (auto dest!: advances_length)
  from Run.IH [OF this] obtain m where
    m: "execute_tasks lua ks ?s w' = (s', snd x')" "fst x' = (l @ [?cb]) @ m"
      "subseq m (map (\<lambda>k. st_callback (script_tasks ?s ! k)) ks)"
    by (auto simp: eq)
  have "map (\<lambda>k. st_callback (script_tasks ?s ! k)) ks = map (\<lambda>k. st_callback (script_tasks s ! k)) ks"
    using Run.prems advances_nth(1) [OF adv] by auto
  with m Run(1) show ?case
    by (auto simp: x call eq(1,2) intro!: exI [of _ "?cb # m"])
qed auto

lemma map_to_execute: "map (\<lambda>k. f (ts ! k)) (tasks_to_execute e ts) = map f (filter (is_due e) ts)"
proof -
  have "map ((!) ts) (filter (\<lambda>k. is_due e (ts ! k)) [0..<length ts]) = filter (is_due e) (map ((!) ts) [0..<length ts])"
    by (simp add: filter_map comp_def)
  then have "map ((!) ts) (tasks_to_execute e ts) = filter (is_due e) ts"
    by (simp add: tasks_to_execute_def map_nth)
  then show ?thesis by (metis (no_types, lifting) comp_apply list.map_comp map_eq_conv)
qed

lemma to_execute_length: "k \<in> set (tasks_to_execute e ts) \<Longrightarrow> k < length ts"
  by (simp add: tasks_to_execute_def)

text \<open>An update calls the callbacks of tasks that were due and not cancelled, each at most once and in
  the order of the list, however much time has passed and whatever the callbacks do; those that they
  schedule have to wait for the next update. Afterwards no cancelled task is left.\<close>

theorem script_update_calls_due:
  assumes "script_update (logged lua) elapsed s ([], w) = (s', calls, w')"
  shows "subseq calls (map st_callback (filter (is_due elapsed) (script_tasks s))) \<and>
    script_update lua elapsed s w = (s', w') \<and> (\<forall>t \<in> set (script_tasks s'). \<not> st_cancelled t)"
proof (cases "script_tasks s = []")
  case True
  with assms show ?thesis by (auto simp: script_update_def)
next
  case False
  let ?ks = "tasks_to_execute elapsed (script_tasks s)"
    and ?s = "s\<lparr>script_tasks := map (tick elapsed) (script_tasks s)\<rparr>"
  obtain u v where r: "execute_tasks (logged lua) ?ks ?s ([], w) = (u, v)" by (rule prod.exhaust)
  with assms False have eq: "v = (calls, w')" "s' = u\<lparr>script_tasks := filter (\<lambda>t. \<not> st_cancelled t) (script_tasks u)\<rparr>"
    by (auto simp: script_update_def)
  have len: "\<forall>k \<in> set ?ks. k < length (script_tasks ?s)" by (simp add: to_execute_length)
  have "map (\<lambda>k. st_callback (script_tasks ?s ! k)) ?ks = map (\<lambda>k. st_callback (script_tasks s ! k)) ?ks"
    by (auto simp: tick_def to_execute_length)
  also have "\<dots> = map st_callback (filter (is_due elapsed) (script_tasks s))"
    by (rule map_to_execute)
  finally show ?thesis
    using execute_logged [OF r len] False by (auto simp: eq script_update_def)
qed

theorem script_update_calls_due_witness:
  "subseq [''b''] (map st_callback (filter (is_due 2500)
      (script_tasks (snd (script_schedule 2 ''b'' (snd (script_schedule 3 ''a'' new_script_scheduler))))))) \<and>
    script_update (\<lambda>cb s w. (Script_other, [], w)) 2500
      (snd (script_schedule 2 ''b'' (snd (script_schedule 3 ''a'' new_script_scheduler)))) () =
      (new_script_scheduler\<lparr>next_script_id := 3, script_tasks := [\<lparr>st_id = 1, st_remaining = 500, st_interval = 0,
        st_callback = ''a'', st_periodic = False, st_cancelled = False\<rparr>]\<rparr>, ()) \<and>
    (\<forall>t \<in> set (script_tasks (new_script_scheduler\<lparr>next_script_id := 3, script_tasks := [\<lparr>st_id = 1,
        st_remaining = 500, st_interval = 0, st_callback = ''a'', st_periodic = False, st_cancelled = False\<rparr>]\<rparr>)).
      \<not> st_cancelled t)"
  by (rule script_update_calls_due)
    (simp add: script_update_def script_schedule_def script_generate_id_def new_script_scheduler_def
      tasks_to_execute_def is_due_def tick_def mark_finished_def finish_task_def logged_def)

subsection \<open>Quiet callbacks\<close>

text \<open>Callbacks that do not touch the scheduler and do not return false. With them an update is a
  map and a filter over the list.\<close>

definition quiet_lua :: "('cb, 'w) lua \<Rightarrow> bool" where
  "quiet_lua lua \<longleftrightarrow> (\<forall>cb s w. fst (lua cb s w) \<noteq> Script_bool False \<and> fst (snd (lua cb s w)) = [])"

lemma finish_quiet: "r \<noteq> Script_bool False \<Longrightarrow> finish_task r t = finish_task Script_other t"
  by (simp add: finish_task_def)

lemma execute_quiet:
  assumes "execute_tasks (logged lua) ks s x = (s', x')" and "quiet_lua lua"
  shows "distinct ks \<Longrightarrow> \<forall>k \<in> set ks. k < length (script_tasks s) \<and> \<not> st_cancelled (script_tasks s ! k) \<Longrightarrow>
    s' = s\<lparr>script_tasks := map (\<lambda>k. (if k \<in> set ks then finish_task Script_other else id) (script_tasks s ! k))
             [0..<length (script_tasks s)]\<rparr> \<and>
    fst x' = fst x @ map (\<lambda>k. st_callback (script_tasks s ! k)) ks"
  using assms(1)
proof (induction rule: execute_induct)
  case (Nil s x)
  then show ?case by (simp add: map_nth)
next
  case (Run k ks s x r calls v s' x')
  let ?s = "mark_finished k r s"
  obtain l w where x: "x = (l, w)" by (cases x)
  have eq: "r \<noteq> Script_bool False" "calls = []" "fst v = l @ [st_callback (script_tasks s ! k)]"
    using Run(2) assms(2)
    by (auto simp: quiet_lua_def logged_def x split: prod.splits)
      (metis fst_conv snd_conv)+
  have s: "script_tasks ?s = (script_tasks s)[k := finish_task Script_other (script_tasks s ! k)]"
    by (simp add: mark_finished_def finish_quiet [OF eq(1)])
  have k: "k < length (script_tasks s)" "k \<notin> set ks" using Run.prems by auto
  have "\<forall>j \<in> set ks. j < length (script_tasks ?s) \<and> \<not> st_cancelled (script_tasks ?s ! j)"
    using Run.prems k by (auto simp: s nth_list_update)
  with Run.IH Run.prems(1) have IH:
    "s' = ?s\<lparr>script_tasks := map (\<lambda>j. (if j \<in> set ks then finish_task Script_other else id) (script_tasks ?s ! j))
             [0..<length (script_tasks ?s)]\<rparr>"
    "fst x' = fst v @ map (\<lambda>j. st_callback (script_tasks ?s ! j)) ks"
    by (auto simp: eq(2))
  have "map (\<lambda>j. (if j \<in> set ks then finish_task Script_other else id) (script_tasks ?s ! j))
             [0..<length (script_tasks ?s)] =
      map (\<lambda>j. (if j \<in> set (k # ks) then finish_task Script_other else id) (script_tasks s ! j))
             [0..<length (script_tasks s)]"
    using k by (auto simp: s nth_list_update)
  then have "s' = s\<lparr>script_tasks := map (\<lambda>j. (if j \<in> set (k # ks) then finish_task Script_other else id) (script_tasks s ! j))
             [0..<length (script_tasks s)]\<rparr>"
    unfolding IH(1) by (simp add: mark_finished_def)
  moreover have "fst x' = l @ map (\<lambda>j. st_callback (script_tasks s ! j)) (k # ks)"
    unfolding IH(2) using k by (auto simp: s eq(3) nth_list_update)
  ultimately show ?case by (simp add: x)
qed auto



subsection \<open>When a task runs\<close>

text \<open>Callbacks that may schedule but cancel nothing.\<close>

definition cancels_nothing :: "('cb, 'w) lua \<Rightarrow> bool" where
  "cancels_nothing lua \<longleftrightarrow> (\<forall>cb s w. \<forall>c \<in> set (fst (snd (lua cb s w))).
     case c of Call_cancel _ \<Rightarrow> False | Call_cancel_all \<Rightarrow> False | _ \<Rightarrow> True)"

lemma cancels_nothing_logged: "cancels_nothing lua \<Longrightarrow> cancels_nothing (logged lua)"
  unfolding cancels_nothing_def logged_def by (auto split: prod.split) (metis fst_conv snd_conv)

lemma keeps_call:
  "case c of Call_cancel _ \<Rightarrow> False | Call_cancel_all \<Rightarrow> False | _ \<Rightarrow> True \<Longrightarrow> k < length (script_tasks s) \<Longrightarrow>
     script_tasks (run_call c s) ! k = script_tasks s ! k"
  by (auto simp: run_call_def script_schedule_def script_schedule_periodic_def script_generate_id_def
      nth_append split: script_call.splits)

lemma keeps_calls:
  "\<forall>c \<in> set calls. case c of Call_cancel _ \<Rightarrow> False | Call_cancel_all \<Rightarrow> False | _ \<Rightarrow> True \<Longrightarrow>
     k < length (script_tasks s) \<Longrightarrow> script_tasks (fold run_call calls s) ! k = script_tasks s ! k"
proof (induction calls arbitrary: s)
  case (Cons c calls)
  have "k < length (script_tasks (run_call c s))"
    using Cons.prems advances_length [OF advances_run_call [of s c]] by simp
  with Cons show ?case by (simp add: keeps_call)
qed simp

lemma keeps_run:
  assumes "cancels_nothing lua" and "lua cb s w = (r, calls, v)" and "j < length (script_tasks s)"
  shows "script_tasks (mark_finished k r (fold run_call calls s)) ! j =
    (if j = k then finish_task r (script_tasks s ! j) else script_tasks s ! j)"
proof -
  have "\<forall>c \<in> set (fst (snd (lua cb s w))). case c of Call_cancel _ \<Rightarrow> False | Call_cancel_all \<Rightarrow> False | _ \<Rightarrow> True"
    using assms(1) unfolding cancels_nothing_def by blast
  then have "script_tasks (fold run_call calls s) ! j = script_tasks s ! j"
    using assms(2,3) by (intro keeps_calls) simp_all
  moreover have "j < length (script_tasks (fold run_call calls s))"
    using assms(3) advances_length [OF advances_calls [of s calls]] by simp
  ultimately show ?thesis by (auto simp: mark_finished_def nth_list_update)
qed

text \<open>What is not to be executed stays, what is to be executed is called.\<close>

lemma execute_others:
  assumes "execute_tasks lua ks s w = (s', w')" and "cancels_nothing lua"
  shows "j < length (script_tasks s) \<Longrightarrow> j \<notin> set ks \<Longrightarrow> script_tasks s' ! j = script_tasks s ! j"
  using assms(1)
proof (induction rule: execute_induct)
  case (Run k ks s w r calls v s' w')
  have "j < length (script_tasks (mark_finished k r (fold run_call calls s)))"
    using Run.prems advances_length [OF advances_call] by (rule_tac order.strict_trans2) auto
  with Run show ?case by (simp add: keeps_run [OF assms(2) Run(2)])
qed auto

lemma log_grows:
  "execute_tasks (logged lua) ks s x = (s', x') \<Longrightarrow> set (fst x) \<subseteq> set (fst x')"
  by (induction rule: execute_induct) (fastforce simp: logged_def split: prod.splits)+

lemma execute_called:
  assumes "execute_tasks (logged lua) ks s x = (s', x')" and "cancels_nothing lua"
  shows "j < length (script_tasks s) \<Longrightarrow> j \<in> set ks \<Longrightarrow> \<not> st_cancelled (script_tasks s ! j) \<Longrightarrow>
    st_callback (script_tasks s ! j) \<in> set (fst x') \<and>
    (\<not> st_periodic (script_tasks s ! j) \<longrightarrow> st_cancelled (script_tasks s' ! j))"
  using assms(1)
proof (induction rule: execute_induct)
  case (Run k ks s x r calls v s' x')
  let ?s = "mark_finished k r (fold run_call calls s)"
  note j = keeps_run [OF cancels_nothing_logged [OF assms(2)] Run(2) Run.prems(1), of k]
  have len: "j < length (script_tasks ?s)"
    using Run.prems(1) advances_length [OF advances_call] by (rule order.strict_trans2)
  show ?case
  proof (cases "j = k")
    case True
    have "st_callback (script_tasks s ! k) \<in> set (fst v)"
      using Run(2) by (auto simp: logged_def split: prod.splits)
    with log_grows [OF Run(3)] True have "st_callback (script_tasks s ! j) \<in> set (fst x')" by auto
    moreover have "\<not> st_periodic (script_tasks s ! j) \<longrightarrow> st_cancelled (script_tasks ?s ! j)"
      using j True by (simp add: finish_task_def)
    ultimately show ?thesis
      using advances_cancelled [OF advances_execute [OF Run(3)] len] by blast
  next
    case False
    with Run j len show ?thesis by simp
  qed
qed auto

lemma update_waiting:
  assumes "script_update lua e s w = (s', w')" and "cancels_nothing lua"
    and "t \<in> set (script_tasks s)" and "\<not> st_cancelled t" and "e < st_remaining t"
  shows "t\<lparr>st_remaining := st_remaining t - e\<rparr> \<in> set (script_tasks s')"
proof -
  let ?ks = "tasks_to_execute e (script_tasks s)" and ?s = "s\<lparr>script_tasks := map (tick e) (script_tasks s)\<rparr>"
  obtain k where k: "k < length (script_tasks s)" "script_tasks s ! k = t"
    using assms(3) by (auto simp: in_set_conv_nth)
  obtain u v where r: "execute_tasks lua ?ks ?s w = (u, v)" by (rule prod.exhaust)
  with assms(1,3) have s': "s' = u\<lparr>script_tasks := filter (\<lambda>t. \<not> st_cancelled t) (script_tasks u)\<rparr>"
    by (auto simp: script_update_def split: if_splits)
  have "k \<notin> set ?ks" using k assms(5) by (simp add: tasks_to_execute_def is_due_def)
  with execute_others [OF r assms(2), of k] k assms(4,5)
  have "script_tasks u ! k = t\<lparr>st_remaining := st_remaining t - e\<rparr>" by (simp add: tick_def)
  moreover have "k < length (script_tasks u)" using advances_length [OF advances_execute [OF r]] k by simp
  ultimately show ?thesis using assms(4) by (auto simp: s') (metis nth_mem)
qed

lemma update_runs:
  assumes "script_update (logged lua) e s x = (s', x')" and "cancels_nothing lua" and "script_inv s"
    and "t \<in> set (script_tasks s)" and "\<not> st_cancelled t" and "\<not> st_periodic t" and "st_remaining t \<le> e"
  shows "st_callback t \<in> set (fst x') \<and> \<not> script_is_pending (st_id t) s'"
proof -
  let ?ks = "tasks_to_execute e (script_tasks s)" and ?s = "s\<lparr>script_tasks := map (tick e) (script_tasks s)\<rparr>"
  obtain k where k: "k < length (script_tasks s)" "script_tasks s ! k = t"
    using assms(4) by (auto simp: in_set_conv_nth)
  obtain u v where r: "execute_tasks (logged lua) ?ks ?s x = (u, v)" by (rule prod.exhaust)
  with assms(1,4) have eq: "s' = u\<lparr>script_tasks := filter (\<lambda>t. \<not> st_cancelled t) (script_tasks u)\<rparr>" "x' = v"
    by (auto simp: script_update_def split: if_splits)
  have "k \<in> set ?ks" using k assms(5,7) by (simp add: tasks_to_execute_def is_due_def)
  with execute_called [OF r assms(2), of k] k assms(5,6)
  have called: "st_callback t \<in> set (fst v)" "st_cancelled (script_tasks u ! k)" by (auto simp: tick_def)
  have u: "k < length (script_tasks u)" "st_id (script_tasks u ! k) = st_id t"
    using advances_length [OF advances_execute [OF r]] advances_nth(3) [OF advances_execute [OF r], of k] k
    by (auto simp: tick_def)
  have "distinct (map st_id (script_tasks u))"
    using inv_execute [OF r inv_tick [OF assms(3)]] by (simp add: script_inv_def script_ids_def)
  with u called(2) have "\<not> script_is_pending (st_id t) s'"
    by (auto simp: script_is_pending_def eq in_set_conv_nth distinct_conv_nth) (metis)
  with called(1) show ?thesis by (simp add: eq)
qed

fun script_updates :: "('cb, 'w) lua \<Rightarrow> int list \<Rightarrow> 'cb ScriptScheduler \<Rightarrow> 'w \<Rightarrow> 'cb ScriptScheduler \<times> 'w" where
  "script_updates lua [] s w = (s, w)"
| "script_updates lua (e # es) s w = (case script_update lua e s w of (s, w) \<Rightarrow> script_updates lua es s w)"

lemma updates_waiting:
  assumes "cancels_nothing lua" and "script_updates lua es s w = (s', w')"
    and "\<forall>e \<in> set es. 0 \<le> e" and "sum_list es < st_remaining t"
    and "t \<in> set (script_tasks s)" and "\<not> st_cancelled t" and "script_inv s"
  shows "t\<lparr>st_remaining := st_remaining t - sum_list es\<rparr> \<in> set (script_tasks s') \<and> script_inv s'"
  using assms(2-)
proof (induction es arbitrary: s w t)
  case (Cons e es)
  let ?t = "t\<lparr>st_remaining := st_remaining t - e\<rparr>"
  obtain u v where r: "script_update lua e s w = (u, v)" by (rule prod.exhaust)
  have nn: "0 \<le> sum_list es" using Cons.prems(2) by (auto intro: sum_list_nonneg)
  have "?t \<in> set (script_tasks u)"
    using Cons.prems nn by (intro update_waiting [OF r assms(1)]) auto
  moreover have "script_inv u" using r Cons.prems(6) by (rule inv_update)
  ultimately have "?t\<lparr>st_remaining := st_remaining ?t - sum_list es\<rparr> \<in> set (script_tasks s') \<and> script_inv s'"
    using Cons.prems r by (intro Cons.IH [of u v]) auto
  then show ?case by (simp add: algebra_simps)
qed simp

text \<open>C32: A one-shot task of a script whose callbacks cancel nothing waits until its delay has passed, then
  runs in the very next update and is gone: it neither runs early nor late nor is lost, whatever other
  tasks do.\<close>

theorem one_shot_runs_on_time:
  assumes "script.run lua0 (new_script_scheduler, w0) ops (s, w)" and "cancels_nothing lua"
    and "script_schedule delay cb s = (i, s1)"
    and "script_updates lua es s1 w = (s2, w2)" and "\<forall>e \<in> set es. 0 \<le> e" and "sum_list es < delay * 1000"
    and "script_update (logged lua) e s2 ([], w2) = (s3, calls, w3)" and "delay * 1000 \<le> sum_list es + e"
  shows "script_is_pending i s2 \<and> cb \<in> set calls \<and> \<not> script_is_pending i s3"
proof -
  let ?t = "\<lparr>st_id = i, st_remaining = delay * 1000, st_interval = 0, st_callback = cb, st_periodic = False,
    st_cancelled = False\<rparr>"
  have "script_inv s" using script.run_from_init [OF _ assms(1)] by simp
  from inv_run_call [OF this, of "Call_schedule delay cb"] have inv: "script_inv s1"
    using assms(3) by (simp add: run_call_def)
  have t: "?t \<in> set (script_tasks s1)"
    using assms(3) by (auto simp: script_schedule_def script_generate_id_def)
  let ?u = "?t\<lparr>st_remaining := st_remaining ?t - sum_list es\<rparr>"
  have "?u \<in> set (script_tasks s2) \<and> script_inv s2"
    using assms(6) by (intro updates_waiting [OF assms(2,4,5) _ t]) (simp_all add: inv)
  then have u: "?u \<in> set (script_tasks s2)" "script_inv s2" by simp_all
  have "script_is_pending i s2"
    unfolding script_is_pending_def using u(1) by (intro bexI [of _ ?u]) simp_all
  with update_runs [OF assms(7,2) u(2,1)] assms(8) show ?thesis by simp
qed

lemmas script_eval = script_update_def script_schedule_def script_generate_id_def new_script_scheduler_def
  tasks_to_execute_def is_due_def tick_def mark_finished_def finish_task_def logged_def

theorem one_shot_runs_on_time_witness:
  "script_is_pending 1 \<lparr>script_tasks = [\<lparr>st_id = 1, st_remaining = 500, st_interval = 0, st_callback = ''a'',
      st_periodic = False, st_cancelled = False\<rparr>], next_script_id = 2\<rparr> \<and>
   ''a'' \<in> set [''a''] \<and> \<not> script_is_pending 1 (\<lparr>script_tasks = [], next_script_id = 2\<rparr> :: string ScriptScheduler)"
  by (rule one_shot_runs_on_time [of "\<lambda>cb s w. (Script_other, [], w)" "()" "[]" new_script_scheduler "()"
      "\<lambda>cb s w. (Script_other, [], w)" 3 "''a''" 1 "\<lparr>script_tasks = [\<lparr>st_id = 1, st_remaining = 3000,
        st_interval = 0, st_callback = ''a'', st_periodic = False, st_cancelled = False\<rparr>], next_script_id = 2\<rparr>"
      "[1000, 1500]" _ "()" 700 _ _ "()"])
    (rule script.run_nil | simp add: script_eval cancels_nothing_def)+

end
