(* ===== verification/CoreRun.thy ===== *)
theory CoreRun
  imports Scripting ScriptScheduler
begin

text \<open>
  The main loop (\<open>Core::run\<close>, \<open>ENetWrapper::process\<close>): an iteration serves the game's host, the
  host towards the server and the tasks of scripts, and then sleeps for as long as keeps the loop at an
  iteration every five milliseconds. Times are of the clock, in nanoseconds; durations are in
  microseconds.
\<close>

subsection \<open>Pacing\<close>

abbreviation sleep_timer :: int where "sleep_timer \<equiv> 5000"

text \<open>\<open>duration_cast\<close> rounds towards zero.\<close>

definition micros :: "int \<Rightarrow> int" where
  "micros ns = sgn ns * (\<bar>ns\<bar> div 1000)"

text \<open>From the time since the last iteration and \<open>sleep_duration\<close>: how long this iteration sleeps, and
  what it leaves in \<open>sleep_duration\<close>.\<close>

definition pace :: "int \<Rightarrow> int \<Rightarrow> int \<times> int" where
  "pace elapsed sleep_duration =
     (let sleep_duration = sleep_duration + (sleep_timer - elapsed)
      in (if sleep_duration > 0 then sleep_duration else 0,
          if sleep_duration \<ge> sleep_timer then 0 else sleep_duration))"

text \<open>When iterations start, if they take the given times and sleep exactly as long as they ask for.\<close>

fun loop_starts :: "int \<Rightarrow> int \<Rightarrow> int \<Rightarrow> int list \<Rightarrow> int list" where
  "loop_starts elapsed d now [] = [now]"
| "loop_starts elapsed d now (w # ws) =
     now # (let (s, d) = pace elapsed d in loop_starts (w + s) d (now + (w + s)) ws)"

lemma pace_on_time: "d + (sleep_timer - elapsed) = s \<Longrightarrow> 0 \<le> s \<Longrightarrow> s < sleep_timer \<Longrightarrow> pace elapsed d = (s, s)"
  by (simp add: pace_def)

text \<open>An iteration never sleeps for more than ten milliseconds, and after the first for less; what is
  kept for the next is less than five.\<close>

theorem sleep_bounded:
  assumes "0 \<le> elapsed" and "sleep_duration \<le> sleep_timer"
  shows "0 \<le> fst (pace elapsed sleep_duration) \<and> fst (pace elapsed sleep_duration) \<le> 2 * sleep_timer \<and>
    snd (pace elapsed sleep_duration) < sleep_timer \<and>
    (sleep_duration < sleep_timer \<longrightarrow> fst (pace elapsed sleep_duration) < 2 * sleep_timer)"
  using assms by (auto simp: pace_def Let_def)

theorem sleep_bounded_witness:
  "0 \<le> fst (pace 12 5000) \<and> fst (pace 12 5000) \<le> 2 * sleep_timer \<and> snd (pace 12 5000) < sleep_timer \<and>
    ((5000 :: int) < sleep_timer \<longrightarrow> fst (pace 12 5000) < 2 * sleep_timer)"
  using sleep_bounded [of 12 5000] by simp

lemma loop_starts_nth:
  assumes "\<forall>w \<in> set (w0 # ws). 0 < w \<and> w \<le> sleep_timer" and "0 \<le> d" and "d < sleep_timer" and "k \<le> length ws"
  shows "loop_starts (w0 + d) d now ws ! k = now + sleep_timer * int k + ((w0 # ws) ! k - w0)"
  using assms
proof (induction ws arbitrary: w0 d now k)
  case Nil
  then show ?case by simp
next
  case (Cons w ws)
  have p: "pace (w0 + d) d = (sleep_timer - w0, sleep_timer - w0)"
    using Cons.prems(1) by (intro pace_on_time) auto
  show ?case
  proof (cases k)
    case 0
    then show ?thesis by simp
  next
    case (Suc j)
    have "loop_starts (w + (sleep_timer - w0)) (sleep_timer - w0) (now + (w + (sleep_timer - w0))) ws ! j =
        now + (w + (sleep_timer - w0)) + sleep_timer * int j + ((w # ws) ! j - w)"
      using Cons.prems Suc by (intro Cons.IH) auto
    then show ?thesis by (simp add: Suc p)
  qed
qed



text \<open>After a delay the loop catches up: it does not sleep until the time it is behind is made up for.\<close>

theorem loop_catches_up:
  assumes "d + (sleep_timer - elapsed) = - behind" and "0 \<le> behind"
    and "\<forall>j \<le> length ws. sleep_timer * int j - sum_list (take j ws) \<le> behind" and "k \<le> length ws"
  shows "loop_starts elapsed d now ws ! k = now + sum_list (take k ws)"
  using assms
proof (induction ws arbitrary: elapsed d now behind k)
  case Nil
  then show ?case by simp
next
  case (Cons w ws)
  show ?case
  proof (cases k)
    case 0
    then show ?thesis by simp
  next
    case (Suc j)
    have p: "pace elapsed d = (0, - behind)"
      using Cons.prems(1,2) by (simp add: pace_def)
    have step: "sleep_timer * int i - sum_list (take i ws) \<le> behind + w - sleep_timer" if "i \<le> length ws" for i
      using Cons.prems(3) that by (auto dest!: spec [of _ "Suc i"])
    from step [of 0] have "loop_starts w (- behind) (now + w) ws ! j = now + w + sum_list (take j ws)"
      using step Cons.prems(4) Suc by (intro Cons.IH [of _ _ "behind + w - sleep_timer"]) auto
    then show ?thesis by (simp add: Suc p)
  qed
qed

theorem loop_catches_up_witness:
  "loop_starts 20000 0 0 [2000, 2000, 2000, 2000, 2000] ! 5 = 0 + sum_list (take 5 [2000, 2000, 2000, 2000, 2000])"
proof (rule loop_catches_up [where behind = 15000])
  have "sum_list (take j [2000, 2000, 2000, 2000, 2000 :: int]) = 2000 * int j" if "j \<le> 5" for j :: nat
  proof -
    from that have "j \<in> {0, 1, 2, 3, 4, 5}" by auto
    then show ?thesis by auto
  qed
  then show "\<forall>j \<le> length [2000, 2000, 2000, 2000, 2000 :: int].
      sleep_timer * int j - sum_list (take j [2000, 2000, 2000, 2000, 2000]) \<le> 15000"
    by simp
qed simp_all

subsection \<open>Whole iterations\<close>

text \<open>
  The state of the scripts: the bridge and the scheduler of their tasks. A callback for an event may do
  anything to both and to the proxy; a task does so to the bridge and the proxy, and calls the scheduler.
\<close>

type_synonym ('cb, 'ts) script_state = "'cb ScriptEventBridge \<times> 'ts ScriptScheduler"

definition core_bridge_handler ::
  "('cb, 'ts ScriptScheduler \<times> Proxy) lua_callbacks \<Rightarrow> ('cb CallbackEntry list \<Rightarrow> 'cb CallbackEntry list) \<Rightarrow>
     event_type \<Rightarrow> event_data \<Rightarrow> ('cb, 'ts) script_state \<times> Proxy \<Rightarrow>
     ((('cb, 'ts) script_state \<times> Proxy) \<times> bool) option"
where
  "core_bridge_handler lua srt t e st =
     (case st of ((b, s), px) \<Rightarrow>
        case invoke_callbacks lua srt t e (b, s, px) False of ((b, s, px), c) \<Rightarrow> Some (((b, s), px), c))"

text \<open>The listeners after \<open>Core\<close>'s constructor.\<close>

definition all_handlers ::
  "('cb, 'ts ScriptScheduler \<times> Proxy) lua_callbacks \<Rightarrow> ('cb CallbackEntry list \<Rightarrow> 'cb CallbackEntry list) \<Rightarrow>
     event_type list \<Rightarrow> 'z Env \<Rightarrow> orders \<Rightarrow> CommandRegistry \<Rightarrow>
     (event_type \<times> int \<times>
        (event_data \<Rightarrow> ('cb, 'ts) script_state \<times> Proxy \<Rightarrow> ((('cb, 'ts) script_state \<times> Proxy) \<times> bool) option)) list"
where
  "all_handlers lua srt = with_bridge (core_bridge_handler lua srt)"

text \<open>\<open>ENetWrapper::process\<close>: every event the host's service reports, until it reports none.\<close>

definition process_events :: "('e \<Rightarrow> 's \<Rightarrow> 's option) \<Rightarrow> 'e list \<Rightarrow> 's \<Rightarrow> 's option" where
  "process_events step es s = fold (\<lambda>e st. Option.bind st (step e)) es (Some s)"

record run_state =
  prev :: int
  sleep_duration :: int

text \<open>
  An iteration that starts at \<open>now\<close>, with the events of the two hosts; the result tells how long it
  sleeps. \<open>step\<close> handles an event of the network, \<open>update\<close> runs the tasks of scripts.
\<close>

definition core_iteration ::
  "(net_action \<Rightarrow> 's \<Rightarrow> 's option) \<Rightarrow> (int \<Rightarrow> 's \<Rightarrow> 's) \<Rightarrow> int \<times> net_action list \<times> net_action list \<Rightarrow>
     run_state \<times> 's \<Rightarrow> (int \<times> run_state \<times> 's) option"
where
  "core_iteration step update = (\<lambda>(now, server_events, client_events) (r, st).
     let elapsed = micros (now - prev r);
         (slept, d) = pace elapsed (sleep_duration r)
     in do {
       st \<leftarrow> process_events step server_events st;
       st \<leftarrow> process_events step client_events st;
       Some (slept, \<lparr>prev = now, sleep_duration = d\<rparr>, update elapsed st)
     })"

fun core_run ::
  "(net_action \<Rightarrow> 's \<Rightarrow> 's option) \<Rightarrow> (int \<Rightarrow> 's \<Rightarrow> 's) \<Rightarrow> (int \<times> net_action list \<times> net_action list) list \<Rightarrow>
     run_state \<times> 's \<Rightarrow> (run_state \<times> 's) option"
where
  "core_run step update [] x = Some x"
| "core_run step update (i # is) x =
     (case core_iteration step update i x of None \<Rightarrow> None | Some (slept, x) \<Rightarrow> core_run step update is x)"

definition update_scripts ::
  "('ts, 'cb ScriptEventBridge \<times> Proxy) lua \<Rightarrow> int \<Rightarrow> ('cb, 'ts) script_state \<times> Proxy \<Rightarrow> ('cb, 'ts) script_state \<times> Proxy"
where
  "update_scripts tasks elapsed = (\<lambda>((b, s), px).
     case script_update tasks elapsed s (b, px) of (s, b, px) \<Rightarrow> ((b, s), px))"

text \<open>\<open>Core::run\<close> when it is called.\<close>

definition start_run :: "int \<Rightarrow> run_state" where
  "start_run now = \<lparr>prev = now, sleep_duration = sleep_timer\<rparr>"

subsection \<open>Without scripts\<close>

lemma core_bridge_idle:
  assumes "script_callbacks b = []" and "sort_ok srt"
  shows "idle_bridge (core_bridge_handler lua srt) (b, s)"
proof -
  have "srt [] = []" using assms(2) unfolding sort_ok_def by (metis mset.simps(1) mset_zero_iff)
  then show ?thesis by (simp add: idle_bridge_def core_bridge_handler_def invoke_callbacks_def assms(1))
qed

lemma process_events_Nil [simp]: "process_events f [] s = Some s"
  by (simp add: process_events_def)

lemma process_events_Cons [simp]: "process_events f (e # es) s = Option.bind (f e s) (process_events f es)"
proof -
  have "fold (\<lambda>e st. Option.bind st (f e)) es None = None" by (induction es) auto
  then show ?thesis by (cases "f e s") (auto simp: process_events_def)
qed

lemma process_events_append: "process_events f (es @ fs) s = Option.bind (process_events f es s) (process_events f fs)"
  by (induction es arbitrary: s) (simp_all add: Option.bind_assoc, metis Option.bind_assoc)

lemma process_events_simulates:
  assumes "\<And>e px. map_option view (step' e px) = step e (view px)"
  shows "map_option view (process_events step' es px) = process_events step es (view px)"
proof (induction es arbitrary: px)
  case (Cons e es)
  have "step e (view px) = map_option view (step' e px)" by (simp add: assms)
  then show ?case by (cases "step' e px") (simp_all add: Cons.IH)
qed simp

lemma process_events_ok:
  assumes "\<And>e x y. ok x \<Longrightarrow> step e x = Some y \<Longrightarrow> ok y"
  shows "ok x \<Longrightarrow> process_events step es x = Some y \<Longrightarrow> ok y"
proof (induction es arbitrary: x)
  case (Cons e es)
  then obtain z where "step e x = Some z" "process_events step es z = Some y" by (auto simp: bind_eq_Some_conv)
  then show ?case using Cons.IH Cons.prems(1) assms by blast
qed simp

text \<open>A run whose steps do what those of a smaller program do and whose updates are not visible there:
  \<open>view\<close> is what the smaller program sees of a state that satisfies \<open>ok\<close>.\<close>

lemma process_events_abs:
  assumes "\<And>e x. ok x \<Longrightarrow> map_option view (step' e x) = step e (view x)"
    and "\<And>e x y. ok x \<Longrightarrow> step' e x = Some y \<Longrightarrow> ok y"
  shows "ok x \<Longrightarrow> map_option view (process_events step' es x) = process_events step es (view x)"
proof (induction es arbitrary: x)
  case (Cons e es)
  with assms(1) [OF Cons.prems, of e] show ?case
    by (cases "step' e x") (auto simp: Cons.IH [OF assms(2) [OF Cons.prems]] dest: sym)
qed simp

lemma core_run_abs:
  assumes "\<And>e x. ok x \<Longrightarrow> map_option view (step' e x) = step e (view x)"
    and "\<And>e x y. ok x \<Longrightarrow> step' e x = Some y \<Longrightarrow> ok y"
    and "\<And>el x. ok x \<Longrightarrow> ok (update el x) \<and> view (update el x) = view x"
  shows "ok x \<Longrightarrow> map_option (view \<circ> snd) (core_run step' update is (r, x)) =
    process_events step (concat (map (\<lambda>(now, server_events, client_events). server_events @ client_events) is)) (view x)"
proof (induction "is" arbitrary: r x)
  case Nil
  then show ?case by simp
next
  case (Cons i "is")
  obtain now se ce where i: "i = (now, se, ce)" by (cases i) auto
  have es: "map_option view (process_events step' es x) = process_events step es (view x)" if "ok x" for es x
    using process_events_abs [of ok view step' step] assms(1,2) that by blast
  have sa: "process_events step (se @ ce) (view x) = map_option view (process_events step' (se @ ce) x)"
    using es [OF Cons.prems] by simp
  let ?rest = "concat (map (\<lambda>(now, server_events, client_events). server_events @ client_events) is)"
  have run: "core_run step' update (i # is) (r, x) =
      Option.bind (process_events step' (se @ ce) x)
        (\<lambda>y. core_run step' update is
          (\<lparr>prev = now, sleep_duration = snd (pace (micros (now - prev r)) (sleep_duration r))\<rparr>,
           update (micros (now - prev r)) y))"
    unfolding process_events_append i
    by (cases "process_events step' se x"; cases "process_events step' ce (the (process_events step' se x))")
      (simp_all add: core_iteration_def Let_def split_beta)
  have split: "process_events step (concat (map (\<lambda>(now, server_events, client_events). server_events @ client_events) (i # is))) (view x) =
      Option.bind (process_events step (se @ ce) (view x)) (process_events step ?rest)"
    unfolding process_events_append [symmetric] by (simp add: i)
  show ?case
  proof (cases "process_events step' (se @ ce) x")
    case None
    with sa show ?thesis unfolding split run by simp
  next
    case (Some y)
    then have y: "ok y" using process_events_ok [of ok step'] assms(2) Cons.prems by blast
    then show ?thesis
      using sa assms(3) [OF y] Some Cons.IH unfolding split run by simp
  qed
qed

lemma core_run_ok:
  assumes "\<And>e x y. ok x \<Longrightarrow> step e x = Some y \<Longrightarrow> ok y" and "\<And>el x. ok x \<Longrightarrow> ok (update el x)"
  shows "ok x \<Longrightarrow> core_run step update is (r, x) = Some (r', y) \<Longrightarrow> ok y"
proof (induction "is" arbitrary: r x)
  case (Cons i "is")
  obtain now se ce where i: "i = (now, se, ce)" by (cases i) auto
  obtain slept r1 z where z: "core_iteration step update i (r, x) = Some (slept, r1, z)"
    "core_run step update is (r1, z) = Some (r', y)"
    using Cons.prems(2) by (cases "core_iteration step update i (r, x)") auto
  from z(1) obtain x1 x2 el where x: "process_events step se x = Some x1" "process_events step ce x1 = Some x2"
    "z = update el x2"
    unfolding i core_iteration_def by (auto simp: Let_def split_beta bind_eq_Some_conv)
  have "ok x1" using process_events_ok [of ok step] assms(1) Cons.prems(1) x(1) by blast
  then have "ok x2" using process_events_ok [of ok step] assms(1) x(2) by blast
  then have "ok z" unfolding x(3) by (rule assms(2))
  then show ?case by (rule Cons.IH [OF _ z(2)])
qed simp

text \<open>In a proxy without callbacks and tasks of scripts the main loop is the handling of the network's
  events in the order the iterations see them, those of the game's host first in each, whatever the
  clock says; and it leaves the scripts' state as it is.\<close>

theorem run_without_scripts:
  assumes "started B env ord reg d" and "started_with B' (all_handlers lua srt ts env ord reg) d'"
    and "script_callbacks b = []" and "sort_ok srt" and "script_tasks s = []"
  shows "map_option snd (core_run (scripted_process B' d' env) (update_scripts tasks) is (r, (b, s), px)) =
    map_option (Pair (b, s))
      (process_events (process B d env) (concat (map (\<lambda>(now, server_events, client_events). server_events @ client_events) is)) px)"
proof -
  let ?ok = "\<lambda>st. fst st = (b, s)"
  let ?step = "\<lambda>e. map_option (Pair (b, s)) \<circ> process B d env e \<circ> snd"
  have step: "scripted_process B' d' env e ((b, s), px) = map_option (Pair (b, s)) (process B d env e px)" for e px
    by (rule idle_process [OF assms(1) assms(2) [unfolded all_handlers_def] core_bridge_idle [OF assms(3,4)]])
  have "map_option (id \<circ> snd) (core_run (scripted_process B' d' env) (update_scripts tasks) is (r, (b, s), px)) =
      process_events ?step (concat (map (\<lambda>(now, server_events, client_events). server_events @ client_events) is))
        (id ((b, s), px))"
    by (rule core_run_abs [where ok = ?ok])
      (auto simp: step update_scripts_def script_update_def assms(5) option.map_id comp_def)
  also have "\<dots> = map_option (Pair (b, s)) (process_events (process B d env)
      (concat (map (\<lambda>(now, server_events, client_events). server_events @ client_events) is)) px)"
    by (simp add: process_events_simulates [where view = "Pair (b, s)", symmetric])
  finally show ?thesis by simp
qed

text \<open>Two iterations of the concrete proxy, with one message in each.\<close>

definition demo_whole ::
  "(event_type \<Rightarrow> (nat \<times> ((string, string) script_state \<times> Proxy) option listener) list, nat) PriorityEventDispatcher" where
  "demo_whole =
     append_all list_dispatcher (map (\<lambda>(t, p, h). (t, p, listen h))
       (all_handlers demo_lua (sort_key entry_priority) (bridge_types 127 PACKET_ID_MAP) demo_env demo_orders
          (register_default_commands new_registry))) no_listeners"

lemma demo_whole_started:
  "started_with list_dispatcher (all_handlers demo_lua (sort_key entry_priority) (bridge_types 127 PACKET_ID_MAP)
     demo_env demo_orders (register_default_commands new_registry)) demo_whole"
  unfolding started_with_def demo_whole_def
  by (rule exI [of _ no_listeners]) (simp add: list_dispatcher_ok no_listeners_inv, simp add: no_listeners_def)

theorem run_without_scripts_witness:
  "map_option snd (core_run (scripted_process list_dispatcher demo_whole demo_env)
      (update_scripts (\<lambda>cb s w. (Script_other, [], w)))
      [(5000000, [], [Received ClientHost 7 [4, 0, 0]]), (10000000, [Connected ServerHost 9], [])]
      (start_run 0, (new_bridge, new_script_scheduler), demo_proxy)) =
    map_option (Pair (new_bridge, new_script_scheduler))
      (process_events (process list_dispatcher demo_dispatcher demo_env)
        [Received ClientHost 7 [4, 0, 0], Connected ServerHost 9] demo_proxy)"
  using run_without_scripts [OF demo_started demo_whole_started _ sort_key_ok, of new_bridge new_script_scheduler
      "\<lambda>cb s w. (Script_other, [], w)"
      "[(5000000, [], [Received ClientHost 7 [4, 0, 0]]), (10000000, [Connected ServerHost 9], [])]"
      "start_run 0" demo_proxy]
  by (simp add: new_bridge_def new_script_scheduler_def del: process_events_Cons process_events_Nil)

end
