(* ===== verification/LuaCommands.thy ===== *)
theory LuaCommands
  imports HandlerFacts
begin

text \<open>
  Commands of scripts: \<open>src/scripting/bindings/command_bindings.cpp\<close> and \<open>LambdaCommand\<close> of
  \<open>src/command/command.hpp\<close>, in the registry of \<open>src/command/command_registry.cpp\<close> beside the built-in
  commands. The interpreter is an argument: what a callback returns, what it registers while it runs
  and what it does to the rest of the program. A built-in command is run by an argument, too, which the
  properties set to \<open>execute_command\<close>.
\<close>

subsection \<open>The registry\<close>

text \<open>A command of the program, or a \<open>LambdaCommand\<close> with its description and the Lua function.\<close>

datatype 'cb registered_command = Built_in command | LambdaCommand string 'cb

record 'cb LuaRegistry =
  lua_prefix :: char
  lua_commands :: "string \<Rightarrow> 'cb registered_command option"

definition lua_register :: "string \<Rightarrow> string \<Rightarrow> 'cb \<Rightarrow> 'cb LuaRegistry \<Rightarrow> 'cb LuaRegistry" where
  "lua_register name desc cb reg = reg\<lparr>lua_commands := (lua_commands reg)(name \<mapsto> LambdaCommand desc cb)\<rparr>"

text \<open>\<open>command.register(name, callback)\<close>.\<close>

definition lua_register_short :: "string \<Rightarrow> 'cb \<Rightarrow> 'cb LuaRegistry \<Rightarrow> 'cb LuaRegistry" where
  "lua_register_short name cb = lua_register name ''Script command'' cb"

fun command_description :: "'cb registered_command \<Rightarrow> string" where
  "command_description (Built_in c) = description c"
| "command_description (LambdaCommand desc _) = desc"

text \<open>\<open>command.list()\<close>: a table from names to descriptions.\<close>

definition lua_list :: "'cb LuaRegistry \<Rightarrow> string \<Rightarrow> string option" where
  "lua_list reg name = map_option command_description (lua_commands reg name)"

text \<open>\<open>std::string{1, prefix}\<close> is a list of two characters.\<close>

definition lua_get_prefix :: "'cb LuaRegistry \<Rightarrow> string" where
  "lua_get_prefix reg = [CHR 0x01, lua_prefix reg]"

definition lua_set_prefix :: "char \<Rightarrow> 'cb LuaRegistry \<Rightarrow> 'cb LuaRegistry" where
  "lua_set_prefix c reg = reg\<lparr>lua_prefix := c\<rparr>"

subsection \<open>Running a command\<close>

text \<open>What the Lua function made of the call.\<close>

datatype command_outcome = Lua_error | Lua_exception | Lua_boolean bool | Lua_other

fun lambda_result :: "command_outcome \<Rightarrow> Result" where
  "lambda_result Lua_error = Failed"
| "lambda_result Lua_exception = Failed"
| "lambda_result (Lua_boolean b) = (if b then Success else Failed)"
| "lambda_result Lua_other = Success"

text \<open>The table the function is called with; \<open>reply\<close> sends a log message to the game.\<close>

record lua_command_context =
  lua_args :: "string list"
  lua_raw :: string

definition lua_reply :: "'z Env \<Rightarrow> string \<Rightarrow> Proxy \<Rightarrow> bool \<times> Proxy" where
  "lua_reply env m px = write_server env (log_packet m) px"

text \<open>What it does to the registry.\<close>

datatype 'cb registry_call = Call_register string string 'cb | Call_set_prefix char

fun run_registry_call :: "'cb registry_call \<Rightarrow> 'cb LuaRegistry \<Rightarrow> 'cb LuaRegistry" where
  "run_registry_call (Call_register name desc cb) reg = lua_register name desc cb reg"
| "run_registry_call (Call_set_prefix c) reg = lua_set_prefix c reg"

type_synonym ('cb, 'w) lua_commands =
  "'cb \<Rightarrow> lua_command_context \<Rightarrow> 'w \<Rightarrow> command_outcome \<times> 'cb registry_call list \<times> 'w"

definition reads_prefix :: "'cb LuaRegistry \<Rightarrow> CommandRegistry" where
  "reads_prefix reg = \<lparr>prefix = lua_prefix reg, commands = (\<lambda>_. None)\<rparr>"

definition replaces :: "string \<Rightarrow> 'cb registry_call \<Rightarrow> bool" where
  "replaces name c \<longleftrightarrow> (case c of Call_register n _ _ \<Rightarrow> n = name | _ \<Rightarrow> False)"

text \<open>
  \<open>CommandRegistry::execute\<close>. Registering a name destroys the command it had: a function that registers
  the command it runs as is destroyed while it runs, a fault.
\<close>

definition execute_lambda ::
  "('cb, 'w) lua_commands \<Rightarrow> string \<Rightarrow> 'cb \<Rightarrow> lua_command_context \<Rightarrow> 'cb LuaRegistry \<times> 'w \<Rightarrow>
     (Result \<times> 'cb LuaRegistry \<times> 'w) option"
where
  "execute_lambda lua name cb ctx st =
     (case lua cb ctx (snd st) of
        (r, calls, w) \<Rightarrow>
          if list_ex (replaces name) calls then None
          else Some (lambda_result r, fold run_registry_call calls (fst st), w))"

definition lua_execute ::
  "('cb, 'w) lua_commands \<Rightarrow> ('cb LuaRegistry \<Rightarrow> command \<Rightarrow> string list \<Rightarrow> 'w \<Rightarrow> Result \<times> 'w) \<Rightarrow> string \<Rightarrow>
     'cb LuaRegistry \<times> 'w \<Rightarrow> (bool \<times> 'cb LuaRegistry \<times> 'w) option"
where
  "lua_execute lua built_in input st =
     (if \<not> is_command (reads_prefix (fst st)) input then Some (False, st)
      else case parse_command (reads_prefix (fst st)) input of (name, args) \<Rightarrow>
        if name = [] then Some (False, st)
        else case lua_commands (fst st) name of
          None \<Rightarrow> Some (False, st)
        | Some (Built_in c) \<Rightarrow> Some (True, fst st, snd (built_in (fst st) c args (snd st)))
        | Some (LambdaCommand _ cb) \<Rightarrow>
            map_option (\<lambda>(_, st). (True, st))
              (execute_lambda lua name cb \<lparr>lua_args = args, lua_raw = input\<rparr> st))"

text \<open>The built-in commands on a registry, seen by themselves.\<close>

definition built_in_part :: "'cb LuaRegistry \<Rightarrow> CommandRegistry" where
  "built_in_part reg =
     \<lparr>prefix = lua_prefix reg,
      commands = (\<lambda>n. case lua_commands reg n of Some (Built_in c) \<Rightarrow> Some c | _ \<Rightarrow> None)\<rparr>"

definition of_registry :: "CommandRegistry \<Rightarrow> 'cb LuaRegistry" where
  "of_registry reg = \<lparr>lua_prefix = prefix reg, lua_commands = (\<lambda>n. map_option Built_in (commands reg n))\<rparr>"

subsection \<open>Properties\<close>

lemma replaces_iff: "replaces name c \<longleftrightarrow> (\<exists>d f. c = Call_register name d f)"
  by (cases c) (auto simp: replaces_def)

lemma of_registry_simps [simp]:
  "lua_prefix (of_registry reg) = prefix reg"
  "lua_commands (of_registry reg) n = map_option Built_in (commands reg n)"
  by (simp_all add: of_registry_def)

text \<open>As long as no script has registered a command, the registry behaves as the one of the program.\<close>

theorem script_commands_conservative:
  "lua_execute lua (\<lambda>reg. execute_command env ord (built_in_part reg)) input (of_registry reg, px) =
    Some (case execute env ord reg input px of (ok, px') \<Rightarrow> (ok, of_registry reg, px'))"
proof -
  obtain name args where parse: "parse_command reg input = (name, args)" by fastforce
  have p: "is_command (reads_prefix (of_registry reg :: 'a LuaRegistry)) input = is_command reg input"
    "parse_command (reads_prefix (of_registry reg :: 'a LuaRegistry)) input = (name, args)"
    using parse by (simp_all add: is_command_def parse_command_def reads_prefix_def)
  have b: "built_in_part (of_registry reg :: 'a LuaRegistry) = reg"
    by (rule CommandRegistry.equality) (auto simp: built_in_part_def split: option.split)
  show ?thesis
  proof (cases "commands reg name")
    case None
    then show ?thesis by (simp add: lua_execute_def execute_def p parse get_command_def)
  next
    case (Some c)
    then show ?thesis by (simp add: lua_execute_def execute_def p parse b get_command_def)
  qed
qed

text \<open>A script's command runs with the words of the line as its arguments and the line itself, and the
  line is taken for a command whatever the function returns, so that it is not passed on; the registry
  afterwards is what the function made of it.\<close>

theorem script_command_runs:
  assumes "list_all is_word (name # args)" and "line = lua_prefix reg # join '' '' (name # args)"
    and "lua cb \<lparr>lua_args = args, lua_raw = line\<rparr> w = (r, calls, w')"
  shows "lua_execute lua built_in line (lua_register name desc cb reg, w) =
    (if \<exists>d f. Call_register name d f \<in> set calls then None
     else Some (True, fold run_registry_call calls (lua_register name desc cb reg), w'))"
proof -
  obtain reg' where reg': "lua_register name desc cb reg = reg'" by blast
  then have sel: "lua_prefix reg' = lua_prefix reg" "lua_commands reg' name = Some (LambdaCommand desc cb)"
    by (auto simp: lua_register_def)
  have "parse_command (reads_prefix reg') line = (name, args)" "is_command (reads_prefix reg') line"
    using words_join [OF assms(1)] by (simp_all add: parse_command_def is_command_def reads_prefix_def sel assms(2))
  moreover have "name \<noteq> []" using assms(1) by (simp add: is_word_def)
  moreover have "list_ex (replaces name) calls \<longleftrightarrow> (\<exists>d f. Call_register name d f \<in> set calls)"
    by (auto simp: list_ex_iff replaces_iff)
  ultimately show ?thesis
    by (simp add: reg' lua_execute_def execute_lambda_def sel(2) assms(3))
qed

theorem script_command_runs_witness:
  "lua_execute (\<lambda>cb ctx w. (Lua_boolean False, [Call_set_prefix (CHR ''!'')], w @ [(cb, lua_args ctx)]))
     (\<lambda>_ _ _ w. (Success, w)) ''/say hi'' (lua_register ''say'' ''Echo'' ''f'' (of_registry new_registry), []) =
   Some (True, lua_set_prefix (CHR ''!'') (lua_register ''say'' ''Echo'' ''f'' (of_registry new_registry)),
     [(''f'', [''hi''])])"
  using script_command_runs [of "''say''" "[''hi'']" "''/say hi''" "of_registry new_registry"
      "\<lambda>cb ctx w. (Lua_boolean False, [Call_set_prefix (CHR ''!'')], w @ [(cb, lua_args ctx)])" "''f''" "[]"
      "Lua_boolean False" "[Call_set_prefix (CHR ''!'')]" "[(''f'', [''hi''])]" "\<lambda>_ _ _ w. (Success, w)" "''Echo''"]
  by (simp add: is_word_def is_space_def new_registry_def)

text \<open>Registering replaces the command of that name, built-in or not, and no other, and the latest
  registration counts; \<open>command.list\<close> shows it.\<close>

theorem register_overrides:
  "lua_commands (lua_register name desc cb reg) name = Some (LambdaCommand desc cb) \<and>
    lua_list (lua_register name desc cb reg) name = Some desc \<and>
    (n \<noteq> name \<longrightarrow> lua_commands (lua_register name desc cb reg) n = lua_commands reg n \<and>
      lua_list (lua_register name desc cb reg) n = lua_list reg n) \<and>
    lua_register name desc' cb' (lua_register name desc cb reg) = lua_register name desc' cb' reg"
  by (simp add: lua_register_def lua_list_def)

text \<open>What \<open>command.get_prefix\<close> returns is not the prefix: a line put together from it is no command,
  unless the prefix is the character 1.\<close>

theorem prefix_of_scripts:
  "lua_get_prefix reg \<noteq> [lua_prefix reg] \<and>
    (lua_execute lua built_in (lua_get_prefix reg @ line) (reg, w) \<noteq> Some (False, reg, w) \<longrightarrow>
      lua_prefix reg = CHR 0x01)"
  by (auto simp: lua_get_prefix_def lua_execute_def is_command_def reads_prefix_def)

theorem prefix_of_scripts_witness:
  "lua_execute (\<lambda>cb ctx w. (Lua_other, [], w)) (\<lambda>_ _ _ w. (Success, w)) (lua_get_prefix (of_registry new_registry :: string LuaRegistry) @ ''exit'')
     (of_registry new_registry :: string LuaRegistry, ()) = Some (False, of_registry new_registry, ())"
  using prefix_of_scripts [of "of_registry new_registry :: string LuaRegistry" "\<lambda>cb ctx w. (Lua_other, [], w)"
      "\<lambda>_ _ _ w. (Success, w)" "''exit''" "()"]
  by (simp add: new_registry_def)

end
