(* ===== verification/WholeProxy.thy ===== *)
theory WholeProxy
  imports CoreRun LuaCommands LuaPackets PlayerFacts
begin

text \<open>
  The program with everything scripts add to it: the callbacks of the bridge, the commands of the
  registry and the timers, on one state with the proxy (\<open>src/core/core.cpp\<close>). The packet of an event
  is shared between its listeners and the scripts, so it is part of the state: what a callback
  assigns to it is what later listeners find.
\<close>

subsection \<open>State\<close>

type_synonym ('cb, 'cmd, 'ts) whole =
  "'cb ScriptEventBridge \<times> 'cmd LuaRegistry \<times> 'ts ScriptScheduler \<times> Proxy \<times> event_data"

text \<open>
  What is not the program's: callbacks on events, commands and timers, the choices of \<open>sort\<close>, and the
  iteration order of the map of commands. A callback may do anything to the state; commands and timers
  change the registry or the scheduler they are called from through its operations.
\<close>

record ('cb, 'cmd, 'ts) interpreter =
  event_lua :: "('cb, 'cmd LuaRegistry \<times> 'ts ScriptScheduler \<times> Proxy \<times> event_data) lua_callbacks"
  command_lua :: "('cmd, 'cb ScriptEventBridge \<times> 'ts ScriptScheduler \<times> Proxy \<times> event_data) lua_commands"
  task_lua :: "('ts, 'cb ScriptEventBridge \<times> 'cmd LuaRegistry \<times> Proxy \<times> event_data) lua"
  callback_sort :: "'cb CallbackEntry list \<Rightarrow> 'cb CallbackEntry list"
  command_list :: "(string \<Rightarrow> 'cmd registered_command option) \<Rightarrow> (string \<times> 'cmd registered_command) list"

subsection \<open>Listeners\<close>

text \<open>A listener of the proxy gets the event as it is now.\<close>

definition whole_listener :: "handler \<Rightarrow> event_data \<Rightarrow> ('cb, 'cmd, 'ts) whole \<Rightarrow> (('cb, 'cmd, 'ts) whole \<times> bool) option" where
  "whole_listener h _ = (\<lambda>(b, reg, s, px, e). map_option (\<lambda>(px, c). ((b, reg, s, px, e), c)) (h e px))"

text \<open>The contexts of the callbacks share the packet of the event.\<close>

definition shared_callbacks ::
  "event_type \<Rightarrow> ('cb, 'cmd LuaRegistry \<times> 'ts ScriptScheduler \<times> Proxy \<times> event_data) lua_callbacks \<Rightarrow>
     ('cb, 'cmd LuaRegistry \<times> 'ts ScriptScheduler \<times> Proxy \<times> event_data) lua_callbacks"
where
  "shared_callbacks t lua cb _ = (\<lambda>(b, reg, s, px, e). lua cb (event_context t e) (b, reg, s, px, e))"

definition whole_bridge ::
  "('cb, 'cmd, 'ts) interpreter \<Rightarrow> event_type \<Rightarrow> event_data \<Rightarrow> ('cb, 'cmd, 'ts) whole \<Rightarrow>
     (('cb, 'cmd, 'ts) whole \<times> bool) option"
where
  "whole_bridge I t e st = Some (invoke_callbacks (shared_callbacks t (event_lua I)) (callback_sort I) t e st False)"

text \<open>\<open>/help\<close> lists the commands of scripts as well; the other commands only use the prefix.\<close>

definition lua_help ::
  "'z Env \<Rightarrow> ((string \<Rightarrow> 'cmd registered_command option) \<Rightarrow> (string \<times> 'cmd registered_command) list) \<Rightarrow>
     'cmd LuaRegistry \<Rightarrow> string list \<Rightarrow> Proxy \<Rightarrow> Result \<times> Proxy"
where
  "lua_help env lst reg args px =
     (if args = [] then
        let cs = map (\<lambda>(n, c). (n, command_description c)) (lst (lua_commands reg));
            px = send_log env (''Available commands: '' @ chars (length cs)) px
        in (Success,
            fold (\<lambda>(name, desc). send_log env (''``'' @ [lua_prefix reg] @ name @ '': '' @ desc)) cs px)
      else case lua_commands reg (args ! 0) of
        Some c \<Rightarrow> (Success, send_log env (''``'' @ [lua_prefix reg] @ args ! 0 @ '': '' @ command_description c) px)
      | None \<Rightarrow> (Failed, send_log env (''`4Error: ``Command '' @ [CHR 0x27] @ args ! 0 @ [CHR 0x27] @ '' not found'') px))"

definition whole_command ::
  "'z Env \<Rightarrow> orders \<Rightarrow> ('cb, 'cmd, 'ts) interpreter \<Rightarrow> 'cmd LuaRegistry \<Rightarrow> command \<Rightarrow> string list \<Rightarrow>
     'cb ScriptEventBridge \<times> 'ts ScriptScheduler \<times> Proxy \<times> event_data \<Rightarrow>
     Result \<times> 'cb ScriptEventBridge \<times> 'ts ScriptScheduler \<times> Proxy \<times> event_data"
where
  "whole_command env ord I reg c args = (\<lambda>(b, s, px, e).
     case (if c = HelpCommand then lua_help env (command_list I) reg args px
           else execute_command env ord (built_in_part reg) c args px) of
       (r, px) \<Rightarrow> (r, b, s, px, e))"

text \<open>\<open>CommandHandler::on_text_packet\<close> with the registry scripts add to.\<close>

definition whole_chat ::
  "'z Env \<Rightarrow> orders \<Rightarrow> ('cb, 'cmd, 'ts) interpreter \<Rightarrow> event_data \<Rightarrow> ('cb, 'cmd, 'ts) whole \<Rightarrow>
     (('cb, 'cmd, 'ts) whole \<times> bool) option"
where
  "whole_chat env ord I _ = (\<lambda>(b, reg, s, px, e).
     case typed_packet Id_Input e of
       Some (_, P_Input p) \<Rightarrow>
         map_option (\<lambda>(ok, reg, b, s, px, e). ((b, reg, s, px, e), ok))
           (lua_execute (command_lua I) (whole_command env ord I) (input_text p) (reg, b, s, px, e))
     | _ \<Rightarrow> Some ((b, reg, s, px, e), False))"

text \<open>The listeners of the proxy in the order of \<open>Core\<close>, the chat listener told from the others.\<close>

definition proxy_listeners :: "'z Env \<Rightarrow> (event_type \<times> int \<times> (handler + unit)) list" where
  "proxy_listeners env =
     map (\<lambda>(t, p, h). (t, p, Inl h))
       (web_listeners env @ connection_listeners env @ forwarding_listeners env @ world_listeners env) @
     [(packet_event_type Id_Input, Priority_Highest, Inr ())]"

definition whole_of ::
  "'z Env \<Rightarrow> orders \<Rightarrow> ('cb, 'cmd, 'ts) interpreter \<Rightarrow> handler + unit \<Rightarrow> event_data \<Rightarrow> ('cb, 'cmd, 'ts) whole \<Rightarrow>
     (('cb, 'cmd, 'ts) whole \<times> bool) option"
where
  "whole_of env ord I x = (case x of Inl h \<Rightarrow> whole_listener h | Inr _ \<Rightarrow> whole_chat env ord I)"

definition whole_handlers ::
  "('cb, 'cmd, 'ts) interpreter \<Rightarrow> event_type list \<Rightarrow> 'z Env \<Rightarrow> orders \<Rightarrow>
     (event_type \<times> int \<times>
        (event_data \<Rightarrow> ('cb, 'cmd, 'ts) whole \<Rightarrow> (('cb, 'cmd, 'ts) whole \<times> bool) option)) list"
where
  "whole_handlers I ts env ord =
     map (\<lambda>(t, p, x). (t, p, whole_of env ord I x)) (proxy_listeners env) @
     map (\<lambda>t. (t, Priority_FairlyHigh, whole_bridge I t)) ts"

subsection \<open>Events\<close>

text \<open>A new event object takes the place of the last one.\<close>

definition announce :: "event_data \<Rightarrow> ('cb, 'cmd, 'ts) whole \<Rightarrow> ('cb, 'cmd, 'ts) whole" where
  "announce e = (\<lambda>(b, reg, s, px, _). (b, reg, s, px, e))"

definition whole_dispatch ::
  "('d, 'h, ('cb, 'cmd, 'ts) whole option listener) base_dispatcher \<Rightarrow> ('d, 'h) PriorityEventDispatcher \<Rightarrow>
     event_type \<Rightarrow> event_data \<Rightarrow> ('cb, 'cmd, 'ts) whole option \<Rightarrow> ('cb, 'cmd, 'ts) whole option \<times> bool"
where
  "whole_dispatch B d t e st = dispatch B d t e (map_option (announce e) st) False"

definition whole_emit ::
  "('d, 'h, ('cb, 'cmd, 'ts) whole option listener) base_dispatcher \<Rightarrow> ('d, 'h) PriorityEventDispatcher \<Rightarrow>
     Direction \<Rightarrow> IPacket \<Rightarrow> ('cb, 'cmd, 'ts) whole option \<Rightarrow> ('cb, 'cmd, 'ts) whole option \<times> bool option"
where
  "whole_emit B d dir p st =
     (if has_event registered_events (packet_id p)
      then let (st, canceled) = whole_dispatch B d (packet_event_type (packet_id p)) (TypedPacketEvent dir p) st
           in (st, Some canceled)
      else (st, None))"

definition whole_deliver ::
  "('d, 'h, ('cb, 'cmd, 'ts) whole option listener) base_dispatcher \<Rightarrow> ('d, 'h) PriorityEventDispatcher \<Rightarrow>
     'z Env \<Rightarrow> Direction \<Rightarrow> event_type \<Rightarrow> bytes \<Rightarrow> ('cb, 'cmd, 'ts) whole \<Rightarrow> ('cb, 'cmd, 'ts) whole option"
where
  "whole_deliver B d env dir raw_type data st = do {
     decoded \<leftarrow> decode (zlib_lib env) (regex_multiline env) (packet_registry env) (log_config env) data;
     let forward = (\<lambda>st. fst (whole_dispatch B d raw_type (RawPacketEvent data) st));
     case decoded of
       None \<Rightarrow> forward (Some st)
     | Some packet \<Rightarrow> do {
         p \<leftarrow> packet;
         case whole_emit B d dir p (Some st) of
           (None, _) \<Rightarrow> None
         | (Some st, canceled) \<Rightarrow> if canceled = Some True then Some st else forward (Some st)
       }
   }"

definition on_whole :: "(Proxy \<Rightarrow> Proxy) \<Rightarrow> ('cb, 'cmd, 'ts) whole \<Rightarrow> ('cb, 'cmd, 'ts) whole" where
  "on_whole f = (\<lambda>(b, reg, s, px, e). (b, reg, s, f px, e))"

definition whole_proxy :: "('cb, 'cmd, 'ts) whole \<Rightarrow> Proxy" where
  "whole_proxy = (\<lambda>(b, reg, s, px, e). px)"

definition whole_process ::
  "('d, 'h, ('cb, 'cmd, 'ts) whole option listener) base_dispatcher \<Rightarrow> ('d, 'h) PriorityEventDispatcher \<Rightarrow>
     'z Env \<Rightarrow> net_action \<Rightarrow> ('cb, 'cmd, 'ts) whole \<Rightarrow> ('cb, 'cmd, 'ts) whole option"
where
  "whole_process B d env a st =
     (let st' = on_whole (act a) st;
          event = (\<lambda>t st. fst (whole_dispatch B d t ConnectionEvent (Some st)))
      in case a of
           Connected ClientHost p \<Rightarrow> event Type_ServerConnect (on_whole (\<lambda>px. px\<lparr>client_peer := Some p\<rparr>) st')
         | Connected ServerHost p \<Rightarrow> event Type_ClientConnect (on_whole (\<lambda>px. px\<lparr>server_peer := Some p\<rparr>) st')
         | Received ClientHost p data \<Rightarrow>
             if client_peer (whole_proxy st') \<noteq> Some p then Some st'
             else if length data < 4 then Some (on_whole client_disconnect st')
             else whole_deliver B d env ClientBound Type_ClientBoundPacket data st'
         | Received ServerHost p data \<Rightarrow>
             if server_peer (whole_proxy st') \<noteq> Some p then Some st'
             else if length data < 4 \<or> length data > 16384 then Some (on_whole server_disconnect st')
             else whole_deliver B d env ServerBound Type_ServerBoundPacket data st'
         | Disconnected ClientHost p \<Rightarrow>
             if client_peer (whole_proxy st') \<noteq> Some p then Some st'
             else event Type_ServerDisconnect (on_whole (\<lambda>px. px\<lparr>client_peer := None\<rparr>) st')
         | Disconnected ServerHost p \<Rightarrow>
             if server_peer (whole_proxy st') \<noteq> Some p then Some st'
             else event Type_ClientDisconnect (on_whole (\<lambda>px. px\<lparr>server_peer := None\<rparr>) st')
         | _ \<Rightarrow> Some st)"

text \<open>\<open>ScriptScheduler::update\<close> in the loop.\<close>

definition whole_update ::
  "('cb, 'cmd, 'ts) interpreter \<Rightarrow> int \<Rightarrow> ('cb, 'cmd, 'ts) whole \<Rightarrow> ('cb, 'cmd, 'ts) whole"
where
  "whole_update I elapsed = (\<lambda>(b, reg, s, px, e).
     case script_update (task_lua I) elapsed s (b, reg, px, e) of (s, b, reg, px, e) \<Rightarrow> (b, reg, s, px, e))"

subsection \<open>Without scripts\<close>

text \<open>The registry of the program alone, and lists of commands that come in the same order.\<close>

definition same_order :: "orders \<Rightarrow> ('cb, 'cmd, 'ts) interpreter \<Rightarrow> bool" where
  "same_order ord I \<longleftrightarrow>
     (\<forall>f. command_list I (\<lambda>n. map_option Built_in (f n)) = map (\<lambda>(n, c). (n, Built_in c)) (command_order ord f))"

lemma help_without_scripts:
  assumes "same_order ord I"
  shows "lua_help env (command_list I) (of_registry reg) args px = execute_help env ord reg args px"
proof -
  have "map (\<lambda>(n, c). (n, command_description c)) (command_list I (lua_commands (of_registry reg))) =
      get_all_commands ord reg"
    using assms by (auto simp: same_order_def of_registry_def get_all_commands_def)
  then show ?thesis
    by (simp add: lua_help_def execute_help_def get_command_def Let_def split: option.split)
qed

lemma built_in_of_registry [simp]: "built_in_part (of_registry reg) = reg"
  by (rule CommandRegistry.equality) (auto simp: built_in_part_def of_registry_def split: option.split)

lemma command_without_scripts:
  assumes "same_order ord I"
  shows "whole_command env ord I (of_registry reg) c args (b, s, px, e) =
    (case execute_command env ord reg c args px of (r, px) \<Rightarrow> (r, b, s, px, e))"
  by (simp add: whole_command_def help_without_scripts [OF assms] execute_command_def)

lemma lua_execute_built_in:
  "lua_execute lua built_in input (of_registry reg, w) =
     (if \<not> is_command reg input then Some (False, of_registry reg, w)
      else case parse_command reg input of (name, args) \<Rightarrow>
        if name = [] then Some (False, of_registry reg, w)
        else case get_command reg name of
          None \<Rightarrow> Some (False, of_registry reg, w)
        | Some c \<Rightarrow> Some (True, of_registry reg, snd (built_in (of_registry reg) c args w)))"
proof -
  have p: "is_command (reads_prefix (of_registry reg)) input = is_command reg input"
    "parse_command (reads_prefix (of_registry reg)) input = parse_command reg input"
    by (simp_all add: is_command_def parse_command_def reads_prefix_def)
  show ?thesis
    by (simp add: lua_execute_def p get_command_def split: prod.split option.split)
qed

lemma chat_without_scripts:
  assumes "same_order ord I"
  shows "whole_chat env ord I e' (b, of_registry reg, s, px, e) =
    map_option (\<lambda>(px, c). ((b, of_registry reg, s, px, e), c)) (on_text_packet env ord reg e px)"
proof -
  have "lua_execute (command_lua I) (whole_command env ord I) input (of_registry reg, b, s, px, e) =
      Some (case execute env ord reg input px of (ok, px) \<Rightarrow> (ok, of_registry reg, b, s, px, e))" for input
    by (simp add: lua_execute_built_in execute_def command_without_scripts [OF assms] split_beta split: option.split)
  then show ?thesis
    by (simp add: whole_chat_def on_text_packet_def split: option.split prod.split IPacket.split)
qed

text \<open>The listeners of the program by themselves.\<close>

definition plain_of :: "'z Env \<Rightarrow> orders \<Rightarrow> CommandRegistry \<Rightarrow> handler + unit \<Rightarrow> handler" where
  "plain_of env ord reg x = (case x of Inl h \<Rightarrow> h | Inr _ \<Rightarrow> on_text_packet env ord reg)"

lemma plain_listeners: "core_handlers env ord reg = map (\<lambda>(t, p, x). (t, p, plain_of env ord reg x)) (proxy_listeners env)"
  by (simp add: core_handlers_def proxy_listeners_def plain_of_def comp_def split_beta)

lemma registrations_map_snd: "registrations t (map (\<lambda>(t, p, x). (t, p, f x)) hs) = map (\<lambda>(p, x). (p, f x)) (registrations t hs)"
  by (induction hs) (auto simp: registrations_def)

definition whole_tagged ::
  "'z Env \<Rightarrow> orders \<Rightarrow> ('cb, 'cmd, 'ts) interpreter \<Rightarrow> event_type \<Rightarrow> (handler + unit) option \<Rightarrow> event_data \<Rightarrow>
     ('cb, 'cmd, 'ts) whole \<Rightarrow> (('cb, 'cmd, 'ts) whole \<times> bool) option"
where
  "whole_tagged env ord I t x = (case x of Some y \<Rightarrow> whole_of env ord I y | None \<Rightarrow> whole_bridge I t)"

lemma whole_registrations:
  "registrations t (whole_handlers I ts env ord) =
     map (\<lambda>(p, x). (p, whole_tagged env ord I t x)) (tagged ts (proxy_listeners env) t)"
proof -
  have "registrations t (map (\<lambda>t. (t, Priority_FairlyHigh, whole_bridge I t)) ts) =
      map (\<lambda>(p, x). (p, whole_tagged env ord I t x)) (map (\<lambda>_. (Priority_FairlyHigh, None)) (filter (\<lambda>u. u = t) ts))"
    by (induction ts) (auto simp: registrations_def whole_tagged_def)
  then show ?thesis
    by (simp add: whole_handlers_def registrations_append registrations_map_snd tagged_def whole_tagged_def
        comp_def split_beta)
qed

lemma dispatch_whole:
  assumes "started_with B (whole_handlers I ts env ord) d"
  shows "whole_dispatch B d t e st =
    invoke (map (\<lambda>x. listen (whole_tagged env ord I t x)) (map snd (sort_key fst (tagged ts (proxy_listeners env) t))))
      e (map_option (announce e) st) False"
  by (simp add: whole_dispatch_def dispatch_with [OF assms] whole_registrations sort_key_map_snd comp_def split_beta)

lemma dispatch_plain:
  assumes "started B env ord reg d"
  shows "dispatch B d t e st c =
    invoke (map (\<lambda>x. listen (plain_of env ord reg x)) (map snd (sort_key fst (registrations t (proxy_listeners env))))) e st c"
  by (simp add: dispatch_started [OF assms] plain_listeners registrations_map_snd sort_key_map_snd comp_def split_beta)

lemma dispatch_whole_idle:
  assumes "started B env ord reg d" and "started_with B' (whole_handlers I ts env ord) d'"
    and "same_order ord I" and "sort_ok (callback_sort I)" and "script_callbacks b = []"
  shows "whole_dispatch B' d' t e (Some (b, of_registry reg, s, px, e0)) =
    (case dispatch B d t e (Some px) False of (st, c) \<Rightarrow> (map_option (\<lambda>px. (b, of_registry reg, s, px, e)) st, c))"
proof -
  have srt: "callback_sort I [] = []"
    using assms(4) unfolding sort_ok_def by (metis mset.simps(1) mset_zero_iff)
  have idle: "whole_bridge I t e (b, of_registry reg, s, px, e) = Some ((b, of_registry reg, s, px, e), False)" for px
    by (simp add: whole_bridge_def invoke_callbacks_def assms(5) srt)
  have "whole_of env ord I x e (b, of_registry reg, s, px, e) =
      map_option (\<lambda>(px, c). ((b, of_registry reg, s, px, e), c)) (plain_of env ord reg x e px)" for x px
    by (cases x) (simp_all add: whole_of_def plain_of_def whole_listener_def chat_without_scripts [OF assms(3)])
  then have "invoke (map (\<lambda>x. listen (whole_tagged env ord I t x)) xs) e (Some (b, of_registry reg, s, px, e)) False =
      (case invoke (map (\<lambda>x. listen (plain_of env ord reg x)) (List.map_filter id xs)) e (Some px) False of
         (st, c) \<Rightarrow> (map_option (\<lambda>px. (b, of_registry reg, s, px, e)) st, c))" for xs
    by (intro invoke_simulates [where emb = "\<lambda>px. (b, of_registry reg, s, px, e)"])
      (simp_all add: whole_tagged_def idle)
  then show ?thesis
    by (simp only: dispatch_whole [OF assms(2)] dispatch_plain [OF assms(1)] map_filter_sorted [symmetric, of _ _ ts]
        announce_def option.map split_conv)
qed

text \<open>What the program without scripts sees of a state.\<close>

definition forget_event :: "('cb, 'cmd, 'ts) whole \<Rightarrow>
     'cb ScriptEventBridge \<times> 'cmd LuaRegistry \<times> 'ts ScriptScheduler \<times> Proxy" where
  "forget_event = (\<lambda>(b, reg, s, px, e). (b, reg, s, px))"

lemma deliver_whole_idle:
  assumes "\<And>t e px e0. whole_dispatch B' d' t e (Some (b, reg', s, px, e0)) =
    (case dispatch B d t e (Some px) False of (st, c) \<Rightarrow> (map_option (\<lambda>px. (b, reg', s, px, e)) st, c))"
  shows "map_option forget_event (whole_deliver B' d' env dir t data (b, reg', s, px, e0)) =
    map_option (\<lambda>px. (b, reg', s, px)) (deliver B d env dir t data px)"
proof -
  have fwd: "map_option forget_event (fst (whole_dispatch B' d' t (RawPacketEvent data) (Some (b, reg', s, px, e0)))) =
      map_option (\<lambda>px. (b, reg', s, px)) (fst (dispatch B d t (RawPacketEvent data) (Some px) False))" for px e0
    by (simp add: assms forget_event_def option.map_comp comp_def split: prod.split)
  let ?dec = "decode (zlib_lib env) (regex_multiline env) (packet_registry env) (log_config env) data"
  consider "?dec = None" | "?dec = Some None" | "?dec = Some (Some None)" | p where "?dec = Some (Some (Some p))"
    by (metis not_None_eq)
  then show ?thesis
  proof cases
    case (4 p)
    show ?thesis
    proof (cases "has_event registered_events (packet_id p)")
      case False
      then show ?thesis by (simp add: whole_deliver_def deliver_def 4 whole_emit_def emit_def fwd)
    next
      case True
      obtain st c where "dispatch B d (packet_event_type (packet_id p)) (TypedPacketEvent dir p) (Some px) False = (st, c)"
        by fastforce
      with True show ?thesis
        by (cases st) (simp_all add: whole_deliver_def deliver_def 4 whole_emit_def emit_def assms(1) forget_event_def
            option.map_comp comp_def split: prod.split)
    qed
  qed (simp_all add: whole_deliver_def deliver_def fwd)
qed

lemma process_whole_idle:
  assumes "\<And>t e px e0. whole_dispatch B' d' t e (Some (b, reg', s, px, e0)) =
    (case dispatch B d t e (Some px) False of (st, c) \<Rightarrow> (map_option (\<lambda>px. (b, reg', s, px, e)) st, c))"
  shows "map_option forget_event (whole_process B' d' env a (b, reg', s, px, e0)) =
    map_option (\<lambda>px. (b, reg', s, px)) (process B d env a px)"
proof -
  have fst_dsp: "map_option forget_event (fst (whole_dispatch B' d' t e (Some (b, reg', s, px, e0)))) =
      map_option (\<lambda>px. (b, reg', s, px)) (fst (dispatch B d t e (Some px) False))" for t e px e0
    by (simp add: assms forget_event_def option.map_comp comp_def split: prod.split)
  note defs = whole_process_def process_def on_whole_def whole_proxy_def client_on_connect_def server_on_connect_def
    client_on_receive_def server_on_receive_def client_on_disconnect_def server_on_disconnect_def
    fst_dsp deliver_whole_idle [OF assms] Let_def
  show ?thesis
  proof (cases a)
    case (Connected h p)
    then show ?thesis by (cases h) (simp_all add: defs)
  next
    case (Received h p data)
    then show ?thesis by (cases h) (auto simp: defs, simp_all add: forget_event_def)
  next
    case (Disconnected h p)
    then show ?thesis by (cases h) (auto simp: defs, simp_all add: forget_event_def)
  qed (simp_all add: defs forget_event_def)
qed

text \<open>In a program whose scripts have registered nothing - no callbacks, no commands, no timers - every run
  of the main loop is the handling of the network's events in their order, whatever the clock says:
  the scripts' components cannot be noticed.\<close>

theorem program_without_scripts:
  assumes "started B env ord reg d" and "started_with B' (whole_handlers I ts env ord) d'"
    and "same_order ord I" and "sort_ok (callback_sort I)" and "script_callbacks b = []" and "script_tasks s = []"
  shows "map_option (forget_event \<circ> snd)
      (core_run (whole_process B' d' env) (whole_update I) is (r, b, of_registry reg, s, px, e)) =
    map_option (\<lambda>px. (b, of_registry reg, s, px))
      (process_events (process B d env) (concat (map (\<lambda>(now, server_events, client_events). server_events @ client_events) is)) px)"
proof -
  let ?ok = "\<lambda>(b', reg', s', px', e'). (b', reg', s') = (b, of_registry reg, s)"
  let ?view = "\<lambda>(b', reg', s', px', e'). px'"
  have step: "map_option forget_event (whole_process B' d' env a (b, of_registry reg, s, px, e)) =
      map_option (\<lambda>px. (b, of_registry reg, s, px)) (process B d env a px)" for a px e
    by (rule process_whole_idle) (rule dispatch_whole_idle [OF assms(1-5)])
  have s: "map_option ?view (whole_process B' d' env a x) = process B d env a (?view x)"
    "whole_process B' d' env a x = Some y \<Longrightarrow> ?ok y" if "?ok x" for a x y
  proof -
    obtain px e where x: "x = (b, of_registry reg, s, px, e)" using \<open>?ok x\<close> by (cases x) auto
    show "map_option ?view (whole_process B' d' env a x) = process B d env a (?view x)"
      using step [of a px e] unfolding x
      by (cases "whole_process B' d' env a (b, of_registry reg, s, px, e)"; cases "process B d env a px")
        (auto simp: forget_event_def)
    show "whole_process B' d' env a x = Some y \<Longrightarrow> ?ok y"
      using step [of a px e] unfolding x
      by (cases "process B d env a px") (auto simp: forget_event_def split: prod.splits)
  qed
  have u: "?ok (whole_update I el x) \<and> ?view (whole_update I el x) = ?view x" if "?ok x" for el x
    using that by (cases x) (auto simp: whole_update_def script_update_def assms(6))
  let ?run = "core_run (whole_process B' d' env) (whole_update I) is (r, b, of_registry reg, s, px, e)"
  have view: "map_option (?view \<circ> snd) ?run = process_events (process B d env)
      (concat (map (\<lambda>(now, server_events, client_events). server_events @ client_events) is)) px"
    using core_run_abs [of ?ok ?view "whole_process B' d' env" "process B d env" "whole_update I"
        "(b, of_registry reg, s, px, e)" "is" r] s u by simp
  have "?ok y" if "?run = Some (r', y)" for r' y
    using core_run_ok [of ?ok "whole_process B' d' env" "whole_update I" "(b, of_registry reg, s, px, e)" "is" r r' y]
      s u that by simp
  then have "map_option (forget_event \<circ> snd) ?run =
      map_option (\<lambda>px. (b, of_registry reg, s, px)) (map_option (?view \<circ> snd) ?run)"
    by (cases ?run) (auto simp: forget_event_def split: prod.splits)
  then show ?thesis by (simp only: view)
qed

subsection \<open>What scripts make of packets\<close>

lemma act_received [simp]: "client_peer (act (Received h p data) px) = client_peer px"
  "server_peer (act (Received h p data) px) = server_peer px"
  by (simp_all add: act_def)

text \<open>A message nothing has canceled is forwarded, unless a script listens to raw messages.\<close>

lemma forward_whole:
  assumes "started_with B (whole_handlers I ts env ord) d" and "sort_ok (callback_sort I)"
    and "listens_once ts t" and "\<forall>c \<in> set (script_callbacks b). entry_type c \<noteq> t"
    and "t = Type_ClientBoundPacket \<and> fwd = server_write env \<or> t = Type_ServerBoundPacket \<and> fwd = client_write env"
  shows "fst (whole_dispatch B d t (RawPacketEvent data) (Some (b, reg, s, px, e0))) =
    Some (b, reg, s, snd (fwd data px), RawPacketEvent data)"
proof -
  have srt: "callback_sort I [] = []"
    using assms(2) unfolding sort_ok_def by (metis mset.simps(1) mset_zero_iff)
  have none: "filter (\<lambda>c. entry_type c = t) (script_callbacks b) = []"
    using assms(4) by (simp add: filter_empty_conv)
  let ?h = "if t = Type_ClientBoundPacket then forward_client_bound env else forward_server_bound env"
  have "registrations t (proxy_listeners env) = [(Priority_Normal, Inl ?h)]"
    using assms(5) by (auto simp: proxy_listeners_def core_handler_simps)
  then have "sort_key fst (tagged ts (proxy_listeners env) t) = [(Priority_FairlyHigh, None), (Priority_Normal, Some (Inl ?h))]"
    using assms(3) by (simp add: tagged_def listens_once_def Priority_FairlyHigh_def Priority_Normal_def)
  then show ?thesis
    using assms(5)
    by (auto simp: dispatch_whole [OF assms(1)] whole_tagged_def whole_of_def whole_listener_def whole_bridge_def
        invoke_callbacks_def none srt listen_def announce_def forward_client_bound_def forward_server_bound_def
        raw_packet_def go_def)
qed

lemma packet_listeners:
  assumes "i \<in> set registered_events" and "i \<noteq> Id_Input" and "packet_handler env ord reg i = Some h"
  shows "registrations (packet_event_type i) (proxy_listeners env) = [(Priority_Normal, Inl h)]"
  using assms unfolding registered_events_def
  by (simp only: set_simps insert_iff empty_iff, elim disjE)
    (simp_all add: core_handler_simps proxy_listeners_def packet_handler_def)

lemma dispatch_edited:
  assumes "started_with B (whole_handlers I ts env ord) d"
    and "i \<in> set registered_events" and "i \<noteq> Id_Input" and "packet_handler env ord reg' i = Some h"
    and "listens_once ts (packet_event_type i)"
    and "invoke_callbacks (shared_callbacks (packet_event_type i) (event_lua I)) (callback_sort I) (packet_event_type i)
      e (b, reg, s, px, e) False = ((b1, reg1, s1, px1, e1), canceled)"
  shows "whole_dispatch B d (packet_event_type i) e (Some (b, reg, s, px, e0)) =
    (if canceled then (Some (b1, reg1, s1, px1, e1), True)
     else case h e1 px1 of None \<Rightarrow> (None, True) | Some (px2, c) \<Rightarrow> (Some (b1, reg1, s1, px2, e1), c))"
proof -
  have "sort_key fst (tagged ts (proxy_listeners env) (packet_event_type i)) =
      [(Priority_FairlyHigh, None), (Priority_Normal, Some (Inl h))]"
    using assms(5) by (simp add: tagged_def packet_listeners [OF assms(2-4)] listens_once_def Priority_FairlyHigh_def
        Priority_Normal_def)
  then show ?thesis
    by (auto simp: dispatch_whole [OF assms(1)] whole_tagged_def whole_of_def whole_listener_def whole_bridge_def
        assms(6) listen_def announce_def split: option.split)
qed

text \<open>C37: scripts work on the packet of the event itself: the listener of the proxy, which comes after them, is
  run with the packet as they left it, unless they cancel the event; but what is passed on is the
  message as it came, if neither they nor the listener cancel it. So a script can make the proxy see
  something else than the game, or the server, gets.\<close>

theorem script_edits_seen:
  assumes "started_with B (whole_handlers I ts env ord) d" and "sort_ok (callback_sort I)"
    and "packet_id pk \<in> set registered_events" and "packet_id pk \<noteq> Id_Input"
    and "packet_handler env ord reg' (packet_id pk) = Some h"
    and "listens_once ts (packet_event_type (packet_id pk))" and "listens_once ts Type_ClientBoundPacket"
    and "decoded env data = Some (Some (Some pk))" and "4 \<le> length data" and "client_peer px = Some p"
    and "invoke_callbacks (shared_callbacks (packet_event_type (packet_id pk)) (event_lua I)) (callback_sort I)
      (packet_event_type (packet_id pk)) (TypedPacketEvent ClientBound pk)
      (b, reg, s, act (Received ClientHost p data) px, TypedPacketEvent ClientBound pk) False =
        ((b1, reg1, s1, px1, e1), canceled)"
    and "\<forall>c \<in> set (script_callbacks b1). entry_type c \<noteq> Type_ClientBoundPacket"
  shows "whole_process B d env (Received ClientHost p data) (b, reg, s, px, e0) =
    (if canceled then Some (b1, reg1, s1, px1, e1)
     else case h e1 px1 of None \<Rightarrow> None
        | Some (px2, True) \<Rightarrow> Some (b1, reg1, s1, px2, e1)
        | Some (px2, False) \<Rightarrow> Some (b1, reg1, s1, snd (server_write env data px2), RawPacketEvent data))"
proof -
  let ?e = "TypedPacketEvent ClientBound pk"
  note forward = forward_whole [OF assms(1,2,7,12) disjI1, OF conjI [OF refl refl]]
  note emitted = dispatch_edited [OF assms(1,3,4,5,6,11)]
  have "whole_process B d env (Received ClientHost p data) (b, reg, s, px, e0) =
      whole_deliver B d env ClientBound Type_ClientBoundPacket data (b, reg, s, act (Received ClientHost p data) px, e0)"
    using assms(9,10) by (simp add: whole_process_def on_whole_def whole_proxy_def Let_def)
  also have "\<dots> = (case whole_dispatch B d (packet_event_type (packet_id pk)) ?e
        (Some (b, reg, s, act (Received ClientHost p data) px, e0)) of
      (None, _) \<Rightarrow> None
    | (Some st, c) \<Rightarrow> if c then Some st
        else fst (whole_dispatch B d Type_ClientBoundPacket (RawPacketEvent data) (Some st)))"
    using assms(3,8) by (simp add: whole_deliver_def decoded_def whole_emit_def has_event_def
        split: prod.split option.split)
  finally show ?thesis
    by (simp add: emitted forward split: prod.split option.split bool.split)
qed

subsection \<open>What scripts make of the chat\<close>

lemma dispatch_command:
  assumes "started_with B (whole_handlers I ts env ord) d"
    and "whole_chat env ord I e (b, reg, s, px, e) = Some (st, True)"
  shows "whole_dispatch B d (packet_event_type Id_Input) e (Some (b, reg, s, px, e0)) = (Some st, True)"
proof -
  let ?us = "map (\<lambda>_. (Priority_FairlyHigh, None)) (filter (\<lambda>u. u = packet_event_type Id_Input) ts)"
  let ?ls = "(Priority_Highest, Some (Inr ())) # ?us :: (int \<times> (handler + unit) option) list"
  have "tagged ts (proxy_listeners env) (packet_event_type Id_Input) = ?ls"
    by (simp add: tagged_def proxy_listeners_def core_handler_simps)
  moreover have "sorted (map fst ?ls)"
    by (auto simp: Priority_Highest_def Priority_FairlyHigh_def comp_def sorted_replicate map_replicate_const)
  ultimately have "sort_key fst (tagged ts (proxy_listeners env) (packet_event_type Id_Input)) = ?ls"
    by (simp only: sorted_in_place)
  then show ?thesis
    using assms(2) by (simp add: dispatch_whole [OF assms(1)] whole_tagged_def whole_of_def listen_def announce_def)
qed

text \<open>C40: A line of the chat that names a command of a script runs its function, with the words of the line,
  on the state the message has met. Whatever the function returns, and even if it fails, the line is
  neither shown to the callbacks of scripts nor passed on to the server: what is left is the state the
  function has made, with its changes of the registry.\<close>

theorem script_command_in_chat:
  assumes "started_with B (whole_handlers I ts env ord) d"
    and "decoded env data = Some (Some (Some (P_Input pkt)))" and "4 \<le> length data" and "length data \<le> 16384"
    and "list_all is_word (name # args)" and "input_text pkt = lua_prefix reg # join '' '' (name # args)"
    and "lua_commands reg name = Some (LambdaCommand desc cb)" and "server_peer px = Some p"
    and "command_lua I cb \<lparr>lua_args = args, lua_raw = input_text pkt\<rparr>
      (b, s, act (Received ServerHost p data) px, TypedPacketEvent ServerBound (P_Input pkt)) =
        (r, calls, b1, s1, px1, e1)"
    and "\<forall>d f. Call_register name d f \<notin> set calls"
  shows "whole_process B d env (Received ServerHost p data) (b, reg, s, px, e0) =
    Some (b1, fold run_registry_call calls reg, s1, px1, e1)"
proof -
  let ?e = "TypedPacketEvent ServerBound (P_Input pkt)" and ?px = "act (Received ServerHost p data) px"
  have "parse_command (reads_prefix reg) (input_text pkt) = (name, args)"
    "is_command (reads_prefix reg) (input_text pkt)"
    using words_join [OF assms(5)] by (simp_all add: parse_command_def is_command_def reads_prefix_def assms(6))
  moreover have "name \<noteq> []" using assms(5) by (simp add: is_word_def)
  moreover have "\<not> list_ex (replaces name) calls" using assms(10) by (auto simp: list_ex_iff replaces_iff)
  ultimately have "lua_execute (command_lua I) (whole_command env ord I) (input_text pkt) (reg, b, s, ?px, ?e) =
      Some (True, fold run_registry_call calls reg, b1, s1, px1, e1)"
    by (simp add: lua_execute_def execute_lambda_def assms(7,9))
  then have "whole_chat env ord I ?e (b, reg, s, ?px, ?e) = Some ((b1, fold run_registry_call calls reg, s1, px1, e1), True)"
    by (simp add: whole_chat_def)
  note ran = dispatch_command [OF assms(1) this]
  have "whole_process B d env (Received ServerHost p data) (b, reg, s, px, e0) =
      whole_deliver B d env ServerBound Type_ServerBoundPacket data (b, reg, s, ?px, e0)"
    using assms(3,4,8) by (simp add: whole_process_def on_whole_def whole_proxy_def Let_def)
  also have "\<dots> = Some (b1, fold run_registry_call calls reg, s1, px1, e1)"
    using assms(2) by (simp add: whole_deliver_def decoded_def whole_emit_def has_event_def registered_events_def ran)
  finally show ?thesis .
qed

subsection \<open>A concrete program\<close>

text \<open>
  The scripts of the witnesses: callbacks assign their name to the \<open>name\<close> of the packet they get,
  commands put a log message through \<open>reply\<close> and set the prefix, timers do nothing.
\<close>

definition rename_packet :: "string \<Rightarrow> IPacket \<Rightarrow> IPacket" where
  "rename_packet n p = (case lua_put (Lua_packet p) ''name'' (L_string n) of Some (Lua_packet q) \<Rightarrow> q | _ \<Rightarrow> p)"

definition renaming :: "(string, 'r \<times> 's \<times> Proxy \<times> event_data) lua_callbacks" where
  "renaming cb ctx = (\<lambda>(b, reg, s, px, e).
     case (get_packet ctx, e) of
       (Some (Lua_packet p), TypedPacketEvent dir _) \<Rightarrow>
         (Callback_other, False, b, reg, s, px, TypedPacketEvent dir (rename_packet cb p))
     | _ \<Rightarrow> (Callback_error, False, b, reg, s, px, e))"

definition replying :: "(string, 'b \<times> 's \<times> Proxy \<times> event_data) lua_commands" where
  "replying cb ctx = (\<lambda>(b, s, px, e).
     (Lua_boolean False, [Call_set_prefix (CHR ''!'')], b, s, snd (lua_reply demo_env cb px), e))"

definition demo_interpreter :: "(string, string, string) interpreter" where
  "demo_interpreter = \<lparr>event_lua = renaming, command_lua = replying, task_lua = (\<lambda>cb s w. (Script_other, [], w)),
     callback_sort = sort_key entry_priority,
     command_list = (\<lambda>_. map (\<lambda>(n, c). (n, Built_in c)) (command_order demo_orders (\<lambda>_. None)))\<rparr>"

lemma demo_interpreter_simps [simp]:
  "event_lua demo_interpreter = renaming" "command_lua demo_interpreter = replying"
  "callback_sort demo_interpreter = sort_key entry_priority"
  by (simp_all add: demo_interpreter_def)

abbreviation demo_types :: "event_type list" where
  "demo_types \<equiv> bridge_types 127 PACKET_ID_MAP"

definition demo_program ::
  "(event_type \<Rightarrow> (nat \<times> (string, string, string) whole option listener) list, nat) PriorityEventDispatcher" where
  "demo_program =
     append_all list_dispatcher (map (\<lambda>(t, p, h). (t, p, listen h))
       (whole_handlers demo_interpreter demo_types demo_env demo_orders)) no_listeners"

lemma demo_program_started: "started_with list_dispatcher (whole_handlers demo_interpreter demo_types demo_env demo_orders) demo_program"
  unfolding started_with_def demo_program_def
  by (rule exI [of _ no_listeners]) (simp add: list_dispatcher_ok no_listeners_inv, simp add: no_listeners_def)

lemma demo_same_order: "same_order demo_orders demo_interpreter"
  by (simp add: same_order_def demo_interpreter_def demo_orders_def)

theorem program_without_scripts_witness:
  "map_option (forget_event \<circ> snd)
      (core_run (whole_process list_dispatcher demo_program demo_env) (whole_update demo_interpreter)
        [(5000000, [], [Received ClientHost 7 [4, 0, 0]]), (10000000, [Connected ServerHost 9], [])]
        (start_run 0, new_bridge, of_registry (register_default_commands new_registry), new_script_scheduler,
         demo_proxy, ConnectionEvent)) =
    map_option (\<lambda>px. (new_bridge, of_registry (register_default_commands new_registry), new_script_scheduler, px))
      (process_events (process list_dispatcher demo_dispatcher demo_env)
        [Received ClientHost 7 [4, 0, 0], Connected ServerHost 9] demo_proxy)"
  using program_without_scripts [OF demo_started demo_program_started demo_same_order, of new_bridge
      new_script_scheduler "[(5000000, [], [Received ClientHost 7 [4, 0, 0]]), (10000000, [Connected ServerHost 9], [])]"
      "start_run 0" demo_proxy ConnectionEvent]
  by (simp add: sort_key_ok new_bridge_def new_script_scheduler_def del: process_events_Cons process_events_Nil)

text \<open>A callback renames the player of a spawn call: the table of players has the new name, the game the old.\<close>

definition bob_bridge :: "string ScriptEventBridge" where
  "bob_bridge = \<lparr>script_callbacks =
     [\<lparr>entry_handle = 0, entry_type = packet_event_type Id_OnSpawn, entry_priority = 0, entry_callback = ''Bob''\<rparr>],
     next_handle = 1\<rparr>"

lemma rename_spawn: "rename_packet n (P_OnSpawn r) = P_OnSpawn (r\<lparr>spawn_name := n\<rparr>)"
  by (simp add: rename_packet_def lua_put_def OnSpawn_members_def variable_def member_put_def pull_string_def)

lemma renamed_player:
  "from_on_spawn r = Some pl \<Longrightarrow> from_on_spawn (r\<lparr>spawn_name := n\<rparr>) = Some (pl\<lparr>player_name := n\<rparr>)"
  by (cases "spawn_collision r") (auto simp: from_on_spawn_def bind_eq_Some_conv)

lemma bob_renames:
  "invoke_callbacks (shared_callbacks (packet_event_type Id_OnSpawn) renaming) (sort_key entry_priority)
     (packet_event_type Id_OnSpawn) e
     (bob_bridge, reg, s, px, TypedPacketEvent ClientBound (P_OnSpawn r)) False =
   ((bob_bridge, reg, s, px, TypedPacketEvent ClientBound (P_OnSpawn (r\<lparr>spawn_name := ''Bob''\<rparr>))), False)"
proof -
  have "event_context (packet_event_type Id_OnSpawn) (TypedPacketEvent ClientBound (P_OnSpawn r)) =
      \<lparr>ctx_type = packet_event_type Id_OnSpawn, ctx_raw_data = [], ctx_valid = True,
       ctx_packet = Some (P_OnSpawn r), ctx_direction = Some ClientBound\<rparr>"
    by (subst context_of_packet) (simp_all add: registered_events_def typed_context_ids_def)
  then show ?thesis
    by (simp add: invoke_callbacks_def bob_bridge_def shared_callbacks_def renaming_def get_packet_def check_valid_def
        rename_spawn)
qed

theorem script_edits_seen_witness:
  "\<exists>px'. whole_process list_dispatcher demo_program demo_env (Received ClientHost 7 (spawn_message demo_spawn))
      (bob_bridge, of_registry new_registry, new_script_scheduler, demo_proxy, ConnectionEvent) =
        Some (bob_bridge, of_registry new_registry, new_script_scheduler, px', RawPacketEvent (spawn_message demo_spawn)) \<and>
     get_player (world px') 3 = Some (demo_known\<lparr>player_name := ''Bob''\<rparr>) \<and>
     trace px' = [Received ClientHost 7 (spawn_message demo_spawn), Send ServerHost 8 (spawn_message demo_spawn)]"
proof -
  obtain r where r: "decoded demo_env (spawn_message demo_spawn) = Some (Some (Some (P_OnSpawn r)))"
      and s: "same_player r demo_spawn"
    using decode_spawn [OF demo_spawn_ok] unfolding decoded_def demo_simps by blast
  let ?px = "act (Received ClientHost 7 (spawn_message demo_spawn)) demo_proxy"
  let ?r = "r\<lparr>spawn_name := ''Bob''\<rparr>"
  have pl: "from_on_spawn ?r = Some (demo_known\<lparr>player_name := ''Bob''\<rparr>)"
    using s by (intro renamed_player) (simp add: same_player_def demo_spawned)
  have h: "packet_handler demo_env demo_orders new_registry (packet_id (P_OnSpawn r)) = Some world_on_spawn"
    by (simp add: packet_handler_def)
  have once: "listens_once demo_types (packet_event_type Id_OnSpawn)"
    by (simp add: listens_once_def bridge_types_def enum_values_def event_type_enumerators_def PACKET_ID_MAP_def
        packet_event_type_def packet_event_offset_def)
  have "whole_process list_dispatcher demo_program demo_env (Received ClientHost 7 (spawn_message demo_spawn))
      (bob_bridge, of_registry new_registry, new_script_scheduler, demo_proxy, ConnectionEvent) =
    Some (bob_bridge, of_registry new_registry, new_script_scheduler,
      snd (server_write demo_env (spawn_message demo_spawn) (on_world (add_player (demo_known\<lparr>player_name := ''Bob''\<rparr>)) ?px)),
      RawPacketEvent (spawn_message demo_spawn))"
    using script_edits_seen [OF demo_program_started _ _ _ h _ bridge_listens_raw(1) r _ _, of demo_proxy 7 bob_bridge
        "of_registry new_registry" new_script_scheduler bob_bridge "of_registry new_registry" new_script_scheduler ?px
        "TypedPacketEvent ClientBound (P_OnSpawn ?r)" False ConnectionEvent]
    by (simp add: sort_key_ok registered_events_def once bob_renames world_on_spawn_def pl go_def)
      (simp add: bob_bridge_def packet_event_type_def packet_event_offset_def)
  then show ?thesis
    by (simp add: server_write_def server_connected_def act_def on_world_def add_player_def get_player_def demo_known_def Let_def)
qed

theorem script_command_in_chat_witness:
  "whole_process list_dispatcher demo_program demo_env (Received ServerHost 8 (chat_message ''/exit''))
     (demo_bridge, lua_register ''exit'' ''Leave'' ''bye'' (of_registry (register_default_commands new_registry)),
      new_script_scheduler, demo_proxy, ConnectionEvent) =
   Some (demo_bridge, lua_set_prefix (CHR ''!'')
        (lua_register ''exit'' ''Leave'' ''bye'' (of_registry (register_default_commands new_registry))),
      new_script_scheduler,
      snd (lua_reply demo_env ''bye'' (act (Received ServerHost 8 (chat_message ''/exit'')) demo_proxy)),
      TypedPacketEvent ServerBound (P_Input
        \<lparr>raw_data = [], text_parse = [(''action'', [''input'']), (''text'', [''/exit''])], input_text = ''/exit''\<rparr>))"
proof -
  let ?reg = "lua_register ''exit'' ''Leave'' ''bye'' (of_registry (register_default_commands new_registry))"
  have reg: "lua_prefix ?reg = CHR ''/''" "lua_commands ?reg ''exit'' = Some (LambdaCommand ''Leave'' ''bye'')"
    by (simp_all add: lua_register_def register_default_commands_def add_command_def new_registry_def)
  have len: "4 \<le> length (chat_message ''/exit'')" "length (chat_message ''/exit'') \<le> 16384"
    by (simp_all add: chat_message_def serialize_text)
  show ?thesis
    using script_command_in_chat [OF demo_program_started decoded_chat len _ _ reg(2), of "[]" demo_proxy 8 demo_bridge
        new_script_scheduler "Lua_boolean False" "[Call_set_prefix (CHR ''!'')]" demo_bridge new_script_scheduler
        "snd (lua_reply demo_env ''bye'' (act (Received ServerHost 8 (chat_message ''/exit'')) demo_proxy))"]
    by (simp add: reg replying_def is_word_def is_space_def)
qed

end
