(* ===== verification/NetUtils.thy ===== *)
theory NetUtils
  imports TextParse
begin

text \<open>
  Addresses and names: \<open>utils::network\<close> (\<open>src/utils/network.hpp\<close>) and the DNS resolver
  (\<open>src/network/dns_resolver.cpp\<close>). The HTTPS request and the JSON reader are parameters.
\<close>

subsection \<open>Addresses\<close>

datatype HostType = IpAddress | Hostname

definition valid_octet :: "string \<Rightarrow> bool" where
  "valid_octet part = (case from_chars_u8 part of Inl _ \<Rightarrow> False | Inr value \<Rightarrow> value > 0 \<and> value \<le> 255)"

definition is_valid_ip_address :: "string \<Rightarrow> bool" where
  "is_valid_ip_address address =
     (let parts = tokenize address ''.'' True
      in if length parts \<noteq> 4 then False else list_all valid_octet parts)"

definition classify_host :: "string \<Rightarrow> HostType" where
  "classify_host host = (if is_valid_ip_address host then IpAddress else Hostname)"

text \<open>ENet keeps addresses in network byte order: the first byte is the lowest.\<close>

definition octet :: "u32 \<Rightarrow> nat \<Rightarrow> u32" where
  "octet ip_address k = drop_bit (8 * k) ip_address AND 0xFF"

definition format_ip_address :: "u32 \<Rightarrow> string" where
  "format_ip_address ip_address = join ''.'' (map (\<lambda>k. to_chars (uint (octet ip_address k))) [0, 1, 2, 3])"

subsection \<open>DNS\<close>

text \<open>The statuses are an enumeration over \<open>int\<close>, which the reply may leave.\<close>

type_synonym DnsStatus = int

abbreviation NoError :: DnsStatus where "NoError \<equiv> 0"
abbreviation ServerFail :: DnsStatus where "ServerFail \<equiv> 2"
abbreviation NameError :: DnsStatus where "NameError \<equiv> 3"

datatype DnsProvider = CloudflareDnsProvider | GoogleDnsProvider

fun get_host :: "DnsProvider \<Rightarrow> string" where
  "get_host CloudflareDnsProvider = ''cloudflare-dns.com''"
| "get_host GoogleDnsProvider = ''dns.google''"

fun get_path :: "DnsProvider \<Rightarrow> string" where
  "get_path CloudflareDnsProvider = ''/dns-query''"
| "get_path GoogleDnsProvider = ''/resolve''"

definition create_dns_provider :: "string \<Rightarrow> DnsProvider" where
  "create_dns_provider name =
     (if name = ''cloudflare'' then CloudflareDnsProvider
      else if name = ''google'' then GoogleDnsProvider
      else GoogleDnsProvider)"

text \<open>A request without a result, or a response: whether the error is \<open>Success\<close>, status and body.\<close>

datatype http_result = No_Result | Response bool int string

text \<open>\<open>fetch\<close> gets a path from a host; \<open>read_json\<close> is the reader of \<open>DnsResponse\<close>, status and answers.\<close>

record dns_client =
  fetch :: "string \<Rightarrow> string \<Rightarrow> http_result"
  read_json :: "string \<Rightarrow> (int \<times> string list) option"

definition resolve_domain :: "dns_client \<Rightarrow> DnsProvider \<Rightarrow> string \<Rightarrow> DnsStatus \<times> string" where
  "resolve_domain dns provider domain =
     (case fetch dns (get_host provider) (get_path provider @ ''?name='' @ domain @ ''&type=A'') of
        No_Result \<Rightarrow> (ServerFail, [])
      | Response ok status body \<Rightarrow>
          if \<not> ok \<or> status \<noteq> 200 then (ServerFail, [])
          else if body = [] then (ServerFail, [])
          else case read_json dns body of
            None \<Rightarrow> (ServerFail, [])
          | Some (dns_status, answer) \<Rightarrow>
              if dns_status \<noteq> NoError then (dns_status, [])
              else if answer = [] then (NameError, [])
              else (dns_status, last answer))"

definition resolve_ip :: "dns_client \<Rightarrow> DnsProvider \<Rightarrow> string \<Rightarrow> string" where
  "resolve_ip dns provider host =
     (if classify_host host \<noteq> Hostname then host
      else case resolve_domain dns provider host of
        (status, ip) \<Rightarrow> if status \<noteq> NoError then [] else ip)"

subsection \<open>Printed addresses\<close>

lemma octet_range: "uint (octet w k) \<le> 255"
proof -
  have "octet w k = take_bit 8 (drop_bit (8 * k) w)"
    by (simp add: octet_def take_bit_eq_mask mask_eq_exp_minus_1)
  then have "uint (octet w k) < 2 ^ 8"
    using take_bit_int_less_exp [of 8] by (simp add: unsigned_take_bit_eq)
  then show ?thesis by simp
qed

lemma tokenize_dotted:
  assumes "\<forall>v \<in> set vs. CHR ''.'' \<notin> set v" and "vs \<noteq> []" and "hd vs \<noteq> []"
  shows "tokenize (join ''.'' vs) ''.'' True = vs"
proof -
  have "join ''.'' vs \<noteq> []" using assms(2,3) by (cases vs) (auto simp: join_map_Cons)
  moreover have "dropWhile (\<lambda>sv. sv = []) vs = vs" using assms(2,3) by (cases vs) auto
  ultimately show ?thesis using assms by (simp add: tokenize_keep split_view_join)
qed

lemma valid_octet_chars: "0 \<le> i \<Longrightarrow> i \<le> 255 \<Longrightarrow> valid_octet (to_chars i) = (0 < i)"
  by (simp add: valid_octet_def from_chars_to_chars)

lemma valid_printed:
  "is_valid_ip_address (format_ip_address w) = list_all (\<lambda>k. octet w k \<noteq> 0) [0, 1, 2, 3]"
proof -
  let ?ps = "map (\<lambda>k. to_chars (uint (octet w k))) [0, 1, 2, 3]"
  have "\<not> is_digit 10 (CHR ''.'')" by (simp add: is_digit_def digit_value_def)
  then have "\<forall>v \<in> set ?ps. CHR ''.'' \<notin> set v" using to_chars_no by auto
  moreover have "to_chars i \<noteq> []" for i by (simp add: to_chars_def)
  ultimately have "tokenize (format_ip_address w) ''.'' True = ?ps"
    unfolding format_ip_address_def by (intro tokenize_dotted) auto
  moreover have "valid_octet (to_chars (uint (octet w k))) = (octet w k \<noteq> 0)" for k
    using octet_range [of w k] by (simp add: valid_octet_chars less_le) (metis unsigned_eq_0_iff)
  ultimately show ?thesis
    by (simp add: is_valid_ip_address_def Let_def)
qed

subsection \<open>Properties\<close>

text \<open>A printed IPv4 address is taken for an address only when none of its four bytes is zero;
  every other one, the local host among them, goes to the DNS server as if it were a name.\<close>

theorem printed_address_resolved:
  "resolve_ip dns provider (format_ip_address w) =
    (if list_all (\<lambda>k. octet w k \<noteq> 0) [0, 1, 2, 3] then format_ip_address w
     else (case resolve_domain dns provider (format_ip_address w) of
       (status, ip) \<Rightarrow> if status = NoError then ip else []))"
  unfolding resolve_ip_def classify_host_def valid_printed by (simp add: case_prod_beta)

text \<open>What the resolver hands out came from an answer of the DNS server: without a reply, with an
  error or without answers it is empty.\<close>

theorem resolved_from_answer:
  assumes "classify_host host = Hostname" and "resolve_ip dns provider host \<noteq> []"
  shows "\<exists>body answers. fetch dns (get_host provider) (get_path provider @ ''?name='' @ host @ ''&type=A'') =
      Response True 200 body \<and> read_json dns body = Some (NoError, answers) \<and>
    answers \<noteq> [] \<and> resolve_ip dns provider host = last answers"
  using assms
  by (auto simp: resolve_ip_def resolve_domain_def split: http_result.splits option.splits if_splits prod.splits)

theorem resolved_from_answer_witness:
  "\<exists>body answers. answers \<noteq> [] \<and> resolve_ip \<lparr>fetch = \<lambda>_ _. Response True 200 ''x'', read_json = \<lambda>_. Some (0, [''1.2.3.4''])\<rparr>
    GoogleDnsProvider ''example'' = last answers \<and> body = ''x''"
proof -
  let ?dns = "\<lparr>fetch = \<lambda>_ _. Response True 200 ''x'', read_json = \<lambda>_. Some (0, [''1.2.3.4''])\<rparr>"
  have "CHR ''.'' \<notin> set ''example''" by simp
  then have "tokenize ''example'' ''.'' True = [''example'']"
    by (subst tokenize_keep) simp_all
  then have h: "classify_host ''example'' = Hostname"
    by (simp add: classify_host_def is_valid_ip_address_def Let_def)
  then have "resolve_ip ?dns GoogleDnsProvider ''example'' \<noteq> []"
    by (simp add: resolve_ip_def resolve_domain_def)
  from resolved_from_answer [OF h this] show ?thesis by auto
qed

end
