(* ===== verification/WebServer.thy ===== *)
theory WebServer
  imports NetUtils CoreFacts
begin

text \<open>
  \<open>core::WebServer\<close> (\<open>src/core/web_server.cpp\<close>): the answer to \<open>server_data.php\<close>, in which the
  proxy puts itself in the place of the Growtopia server and remembers where that is. The HTTPS
  requests are parameters; the two members the handler writes are \<open>web_address\<close> and \<open>web_port\<close> of
  the proxy. The handler runs in a thread of its own; an execution of it is one step here.
\<close>

subsection \<open>server_data.php\<close>

text \<open>
  \<open>post\<close> forwards the request to a host under the name of the server; the request itself is only
  passed on.
\<close>

record 'r web_client = dns_client +
  dns_provider :: DnsProvider
  post :: "string \<Rightarrow> string \<Rightarrow> 'r \<Rightarrow> http_result"
  server_address_config :: string
  own_port :: int

text \<open>The status the handler sets, if it sets one, and the content with its type.\<close>

record reply =
  reply_status :: "int option"
  content :: "(string \<times> string) option"

definition server_data :: "'r web_client \<Rightarrow> 'r \<Rightarrow> string \<times> u16 \<Rightarrow> reply \<times> string \<times> u16" where
  "server_data web req pending =
     (let resolved_ip = resolve_ip (dns_client.truncate web) (dns_provider web) (server_address_config web)
      in if resolved_ip = [] then
           (\<lparr>reply_status = Some 500, content = Some (''Failed to resolve server address'', ''text/plain'')\<rparr>, pending)
         else case post web resolved_ip (server_address_config web) req of
           No_Result \<Rightarrow>
             (\<lparr>reply_status = Some 502, content = Some (''Failed to get response from server'', ''text/plain'')\<rparr>, pending)
         | Response ok status body \<Rightarrow>
             if \<not> ok \<or> status \<noteq> 200 then
               (\<lparr>reply_status = Some 502, content = Some (''Failed to get response from server'', ''text/plain'')\<rparr>, pending)
             else if body = [] then
               (\<lparr>reply_status = Some 502, content = Some (''Empty response from server'', ''text/plain'')\<rparr>, pending)
             else
               let d = parse body bar
               in if d = [] then (\<lparr>reply_status = Some 500, content = None\<rparr>, pending)
                  else
                    let address = get d ''server'' 0
                    in case from_chars_u16 (get d ''port'' 0) of
                      Inl _ \<Rightarrow> (\<lparr>reply_status = Some 500, content = None\<rparr>, address, snd pending)
                    | Inr port \<Rightarrow>
                        let d = set_val d ''server'' [''127.0.0.1''];
                            d = set_val d ''port'' [to_chars (own_port web)];
                            d = set_val d ''type2'' [''1'']
                        in (\<lparr>reply_status = None, content = Some (raw d, ''text/html'')\<rparr>, address, word_of_int port))"

definition serve :: "'r web_client \<Rightarrow> 'r \<Rightarrow> Proxy \<Rightarrow> reply \<times> Proxy" where
  "serve web req px =
     (case server_data web req (web_address px, web_port px) of
        (r, address, port) \<Rightarrow> (r, px\<lparr>web_address := address, web_port := port\<rparr>))"

subsection \<open>The rewritten answer\<close>

lemma text_ok_set_val:
  assumes "text_ok c d" and "k \<noteq> []" and "field_ok c k" and "vs \<noteq> []" and "list_all (field_ok c) vs"
  shows "text_ok c (set_val d k vs)"
  using assms(1)
proof (induction d)
  case Nil
  then show ?case using assms(2-5) by (simp add: text_ok_def)
next
  case (Cons p d)
  then show ?case using assms(2-5) by (cases p) (auto simp: text_ok_def)
qed

lemma set_val_nonempty [simp]: "set_val d k vs \<noteq> []"
  by (cases d) (auto split: if_splits)

text \<open>An upstream answer of the kind the Growtopia server gives.\<close>

definition upstream_ok :: "'r web_client \<Rightarrow> 'r \<Rightarrow> text_data \<Rightarrow> int \<Rightarrow> bool" where
  "upstream_ok web req d port \<longleftrightarrow>
     (\<exists>ip. resolve_ip (dns_client.truncate web) (dns_provider web) (server_address_config web) = ip \<and> ip \<noteq> [] \<and>
        post web ip (server_address_config web) req = Response True 200 (raw d)) \<and>
     text_ok (CHR ''|'') d \<and> get d ''port'' 0 = to_chars port \<and> 0 \<le> port \<and> port < 65536"

lemma raw_nonempty: "text_ok (CHR ''|'') d \<Longrightarrow> d \<noteq> [] \<Longrightarrow> raw d \<noteq> []"
  by (cases d) (auto simp: text_ok_def)

lemma to_chars_field_ok: "field_ok (CHR ''|'') (to_chars i)"
  using to_chars_no [of "CHR ''|''"] to_chars_no [of "CHR 0x0A"]
  by (simp add: field_ok_def is_digit_def digit_value_def)

lemma to_chars_ne [simp]: "to_chars i \<noteq> []"
  by (simp add: to_chars_def)

lemma server_data_upstream:
  assumes "upstream_ok web req d port"
  shows "server_data web req pending =
    (\<lparr>reply_status = None, content = Some (raw (set_val (set_val (set_val d ''server'' [''127.0.0.1''])
        ''port'' [to_chars (own_port web)]) ''type2'' [''1'']), ''text/html'')\<rparr>,
     get d ''server'' 0, word_of_int port)"
proof -
  have ok: "text_ok (CHR ''|'') d" and port: "get d ''port'' 0 = to_chars port" "0 \<le> port" "port < 65536"
    using assms by (simp_all add: upstream_ok_def)
  have "get [] ''port'' 0 = []" by (simp add: get_def)
  then have d: "d \<noteq> []" using port(1) to_chars_ne [of port] by metis
  have "parse (raw d) bar = d" by (rule parse_get_raw [OF _ ok]) simp
  moreover have "from_chars_u16 (to_chars port) = Inr port"
    using port by (intro from_chars_to_chars) simp_all
  ultimately show ?thesis
    using assms d raw_nonempty [OF ok d]
    by (auto simp: server_data_def upstream_ok_def Let_def)
qed

lemma game_connects_bound:
  assumes "started B env ord reg d" and "https_bound env" and "web_port px \<noteq> no_port"
  shows "process B d env (Connected ServerHost p) px =
    (let px1 = act (Connected ServerHost p) px\<lparr>server_peer := Some p\<rparr>;
         px2 = (snd (client_connect env (web_address px) (web_port px) px1))\<lparr>web_address := [], web_port := no_port\<rparr>
     in map_option fst (conn_client_connect env ConnectionEvent px2))"
  using assms(2,3) by (simp add: game_connects [OF assms(1)] web_on_client_connect_def go_def Let_def act_def)

subsection \<open>A concrete answer\<close>

definition demo_data :: text_data where
  "demo_data = [(''server'', [''213.179.209.175'']), (''port'', [''17235'']), (''meta'', [''ni.com''])]"

definition demo_web :: "unit web_client" where
  "demo_web = \<lparr>fetch = (\<lambda>_ _. Response True 200 ''{}''), read_json = (\<lambda>_. Some (0, [''213.179.209.168''])),
     dns_provider = CloudflareDnsProvider, post = (\<lambda>_ _ _. Response True 200 (raw demo_data)),
     server_address_config = ''www.growtopia1.com'', own_port = 16999\<rparr>"

lemma demo_upstream: "upstream_ok demo_web () demo_data 17235"
proof -
  have "tokenize (join ''.'' [''www'', ''growtopia1'', ''com'']) ''.'' True = [''www'', ''growtopia1'', ''com'']"
    by (rule tokenize_dotted) simp_all
  then have "classify_host ''www.growtopia1.com'' = Hostname"
    by (simp add: classify_host_def is_valid_ip_address_def)
  then have ip: "resolve_ip (dns_client.truncate demo_web) CloudflareDnsProvider ''www.growtopia1.com'' = ''213.179.209.168''"
    by (simp add: resolve_ip_def resolve_domain_def demo_web_def dns_client.truncate_def)
  have "to_chars 17235 = ''17235''"
    by (simp add: to_chars_def dec_nat.simps dec_digit_def char_of_def bit_Suc_0_iff)
  then show ?thesis
    using ip unfolding upstream_ok_def
    by (simp add: demo_web_def demo_data_def get_def text_ok_def field_ok_def dns_client.truncate_def)
qed

subsection \<open>Properties\<close>

text \<open>C8: what the game reads in the answer is the upstream answer with the proxy in the place of the
  server: address, port and the second type are replaced, every other key has its upstream value,
  and the proxy keeps the upstream address and port.\<close>

theorem server_data_rewritten:
  assumes "upstream_ok web req d port" and "server_data web req pending = (r, address, p)"
  shows "reply_status r = None \<and> address = get d ''server'' 0 \<and> p = word_of_int port \<and>
    (\<exists>text. content r = Some (text, ''text/html'') \<and>
      (let g = parse text bar
       in get g ''server'' 0 = ''127.0.0.1'' \<and> get g ''port'' 0 = to_chars (own_port web) \<and>
          get g ''type2'' 0 = ''1'' \<and>
          (\<forall>k i. k \<notin> {''server'', ''port'', ''type2''} \<longrightarrow> get g k i = get d k i)))"
proof -
  let ?g = "set_val (set_val (set_val d ''server'' [''127.0.0.1'']) ''port'' [to_chars (own_port web)])
    ''type2'' [''1'']"
  have "text_ok (CHR ''|'') ?g"
    using assms(1) to_chars_field_ok
    by (intro text_ok_set_val) (simp_all add: upstream_ok_def field_ok_def)
  then have "parse (raw ?g) bar = ?g" by (intro parse_get_raw) simp_all
  then show ?thesis
    using assms(2) server_data_upstream [OF assms(1)]
    by (auto simp: Let_def get_def tp.lookup_update)
qed

theorem server_data_rewritten_witness:
  "\<exists>text p. server_data demo_web () ([], no_port) =
      (\<lparr>reply_status = None, content = Some (text, ''text/html'')\<rparr>, ''213.179.209.175'', p) \<and> p = 17235 \<and>
    get (parse text bar) ''server'' 0 = ''127.0.0.1'' \<and> get (parse text bar) ''meta'' 0 = ''ni.com''"
proof -
  obtain r a p where s: "server_data demo_web () ([], no_port) = (r, a, p)" by (metis prod_cases3)
  note w = server_data_rewritten [OF demo_upstream s]
  then obtain t where c: "content r = Some (t, ''text/html'')"
    and g: "get (parse t bar) ''server'' 0 = ''127.0.0.1''"
    and k: "\<forall>k i. k \<notin> {''server'', ''port'', ''type2''} \<longrightarrow> get (parse t bar) k i = get demo_data k i"
    unfolding Let_def by blast
  have m: "get (parse t bar) ''meta'' 0 = get demo_data ''meta'' 0"
    by (rule k [rule_format]) simp
  have "get demo_data ''server'' 0 = ''213.179.209.175''" "get demo_data ''meta'' 0 = ''ni.com''"
    by (simp_all add: demo_data_def get_def)
  moreover have "r = \<lparr>reply_status = None, content = Some (t, ''text/html'')\<rparr>"
    using w c by (cases r) simp
  ultimately show ?thesis using s w g m by (intro exI [of _ t] exI [of _ p]) simp
qed



text \<open>The first connection of the game is different: the port of the redirect has not been set yet,
  and unless it happens to hold 65535 the proxy connects a second time, to no address and that port,
  and the connection to the Growtopia server is forgotten.\<close>

theorem first_login_connects_twice:
  assumes "started B env ord reg d" and "https_bound env" and "garbage \<noteq> no_port"
    and "upstream_ok web req dat port" and "port \<noteq> 65535"
    and "serve web req (new_Proxy garbage cache threads) = (r, px1)"
    and "process B d env (Connected ServerHost q) px1 = Some px2"
  shows "trace px2 = [Connected ServerHost q, Connect (get dat ''server'' 0) (word_of_int port), Connect [] garbage] \<and>
    client_peer px2 = enet_connect env
      [Connected ServerHost q, Connect (get dat ''server'' 0) (word_of_int port)] [] garbage"
proof -
  have px1: "px1 = (new_Proxy garbage cache threads)\<lparr>web_address := get dat ''server'' 0, web_port := word_of_int port\<rparr>"
    using assms(6) server_data_upstream [OF assms(4)] by (auto simp: serve_def)
  have "0 \<le> port" "port < 65536" using assms(4) by (simp_all add: upstream_ok_def)
  then have "uint (word_of_int port :: u16) = port"
    by (simp add: unsigned_of_int take_bit_int_eq_self)
  then have "(word_of_int port :: u16) \<noteq> no_port" using assms(5) by auto
  then show ?thesis
    using assms(3,7) game_connects_bound [OF assms(1,2), of px1 q]
    by (auto simp: px1 new_Proxy_def Let_def client_connect_def conn_client_connect_def go_def act_def)
qed

theorem first_login_connects_twice_witness:
  "\<exists>px. process list_dispatcher demo_dispatcher demo_env (Connected ServerHost 8)
      (snd (serve demo_web () (new_Proxy 0 None 1))) = Some px \<and>
    trace px = [Connected ServerHost 8, Connect ''213.179.209.175'' 17235, Connect [] 0]"
proof -
  obtain r px1 where s: "serve demo_web () (new_Proxy 0 None 1) = (r, px1)" by fastforce
  obtain px2 where p: "process list_dispatcher demo_dispatcher demo_env (Connected ServerHost 8) px1 = Some px2"
    using game_connects_returns [OF demo_started] by blast
  from first_login_connects_twice [OF demo_started _ _ demo_upstream _ s p] s p show ?thesis
    by (simp add: demo_data_def get_def)
qed

subsection \<open>The answer that is sent\<close>

text \<open>
  What \<open>setup_server\<close> gives the HTTPS server: httplib calls the error handler for every answer with a
  status of 400 or more, and the exception handler for what the handler of the request throws. An answer
  without a status is sent with 200. \<open>status_message\<close> names a status.
\<close>

definition error_handler :: "(int \<Rightarrow> string) \<Rightarrow> int \<Rightarrow> string \<times> string" where
  "error_handler status_message status = (status_message status @ '' ('' @ to_chars status @ '')'', ''text/plain'')"

definition exception_handler :: "string option \<Rightarrow> reply" where
  "exception_handler ex =
     \<lparr>reply_status = Some 500, content = Some (case ex of Some w \<Rightarrow> w | None \<Rightarrow> ''Unknown Exception'', ''text/plain'')\<rparr>"

definition sent :: "(int \<Rightarrow> string) \<Rightarrow> reply \<Rightarrow> int \<times> (string \<times> string) option" where
  "sent status_message r =
     (let status = (case reply_status r of None \<Rightarrow> 200 | Some s \<Rightarrow> s)
      in (status, if 400 \<le> status then Some (error_handler status_message status) else content r))"

text \<open>The game gets the rewritten answer or an error that names the status only: the texts in which the
  handler says what went wrong, and those of exceptions, are replaced by the error handler.\<close>

theorem error_texts_replaced:
  "(case reply_status (fst (serve web req px)) of
      None \<Rightarrow> \<exists>body. sent sm (fst (serve web req px)) = (200, Some (body, ''text/html''))
    | Some s \<Rightarrow> s \<in> {500, 502} \<and> sent sm (fst (serve web req px)) = (s, Some (sm s @ '' ('' @ to_chars s @ '')'', ''text/plain'')) \<and>
        web_port (snd (serve web req px)) = web_port px) \<and>
   sent sm (exception_handler ex) = (500, Some (sm 500 @ '' ('' @ to_chars 500 @ '')'', ''text/plain''))"
  by (auto simp: serve_def server_data_def sent_def error_handler_def exception_handler_def Let_def
      split: prod.splits http_result.splits sum.splits if_splits)

end
