(* ===== verification/WholeReachable.thy ===== *)
theory WholeReachable
  imports WholeProxy Reachable WebServer
begin

text \<open>
  The whole program as a state machine: what the network, the tasks of both schedulers, the requests to the
  web server and scripts do to it. Scripts reach the proxy only through the functions they are given
  (\<open>src/scripting/bindings\<close>); as long as they do, what holds of every state the proxy can reach holds
  with them as well.
\<close>

subsection \<open>What scripts can do to the proxy\<close>

text \<open>
  They send packets, bytes and texts to either side, assign members of tiles and objects they were handed, and
  run commands; players and items are read-only. One callback may do any number of these things.
\<close>

inductive script_effect :: "'z Env \<Rightarrow> Proxy \<Rightarrow> Proxy \<Rightarrow> bool" for env where
  nothing: "script_effect env px px"
| packet_to_server: "script_effect env px (snd (lua_send_to_server env p px))"
| packet_to_client: "script_effect env px (snd (lua_send_to_client env p px))"
| bytes_sent: "script_effect env px (snd (lua_send_raw env t to_server px))"
| text_sent: "script_effect env px (snd (send_text_packet env m to_server msg_type px))"
| tile_assigned: "script_effect env px (px\<lparr>world := (world px)\<lparr>tile_map := tm\<rparr>\<rparr>)"
| object_assigned: "script_effect env px (px\<lparr>world := (world px)\<lparr>object_map := om\<rparr>\<rparr>)"
| command_run: "script_effect env px (snd (execute_command env ord reg c args px))"
| then_another: "script_effect env px px1 \<Longrightarrow> script_effect env px1 px2 \<Longrightarrow> script_effect env px px2"

text \<open>Interpreters whose callbacks, commands and timers do nothing else to the proxy. What they do to the
  bridge, the registry, the timers and the packet of the event is left open.\<close>

definition lawful :: "'z Env \<Rightarrow> ('cb, 'cmd, 'ts) interpreter \<Rightarrow> bool" where
  "lawful env I \<longleftrightarrow>
     (\<forall>cb ctx st r c st'. event_lua I cb ctx st = (r, c, st') \<longrightarrow> script_effect env (whole_proxy st) (whole_proxy st')) \<and>
     (\<forall>cb ctx b s px e r calls b' s' px' e'.
        command_lua I cb ctx (b, s, px, e) = (r, calls, b', s', px', e') \<longrightarrow> script_effect env px px') \<and>
     (\<forall>cb s b reg px e r calls b' reg' px' e'.
        task_lua I cb s (b, reg, px, e) = (r, calls, b', reg', px', e') \<longrightarrow> script_effect env px px')"

lemma whole_proxy_simp [simp]: "whole_proxy (b, reg, s, px, e) = px"
  by (simp add: whole_proxy_def)

lemma effect_inv: "script_effect env px px' \<Longrightarrow> proxy_inv env px \<Longrightarrow> proxy_inv env px'"
proof (induction rule: script_effect.induct)
  case (bytes_sent px t to_server)
  then show ?case by (simp add: lua_send_raw_def send_to_direction_def Let_def)
next
  case (text_sent px m to_server msg_type)
  then show ?case by (simp add: send_text_packet_def send_to_direction_def Let_def)
next
  case (tile_assigned px tm)
  then show ?case by (intro proxy_inv_world) (simp_all add: world_inv_simps proxy_inv_worldD)
next
  case (object_assigned px om)
  then show ?case by (intro proxy_inv_world) (simp_all add: world_inv_simps proxy_inv_worldD)
next
  case (command_run px ord reg c args)
  then show ?case by (rule inv_command)
qed (simp_all add: lua_send_to_server_def lua_send_to_client_def)

subsection \<open>Listeners\<close>

definition whole_inv :: "'z Env \<Rightarrow> ('cb, 'cmd, 'ts) whole \<Rightarrow> bool" where
  "whole_inv env st \<longleftrightarrow> proxy_inv env (whole_proxy st)"

lemma whole_inv_simp [simp]: "whole_inv env (b, reg, s, px, e) \<longleftrightarrow> proxy_inv env px"
  by (simp add: whole_inv_def)

definition keeps ::
  "'z Env \<Rightarrow> (event_data \<Rightarrow> ('cb, 'cmd, 'ts) whole \<Rightarrow> (('cb, 'cmd, 'ts) whole \<times> bool) option) \<Rightarrow> bool"
where
  "keeps env f \<longleftrightarrow> (\<forall>e st st' c. f e st = Some (st', c) \<longrightarrow> whole_inv env st \<longrightarrow> whole_inv env st')"

lemma keepsI: "(\<And>e st st' c. f e st = Some (st', c) \<Longrightarrow> whole_inv env st \<Longrightarrow> whole_inv env st') \<Longrightarrow> keeps env f"
  unfolding keeps_def by blast

lemma keepsD: "keeps env f \<Longrightarrow> f e st = Some (st', c) \<Longrightarrow> whole_inv env st \<Longrightarrow> whole_inv env st'"
  unfolding keeps_def by blast

lemma keeps_listener: "tame env h \<Longrightarrow> keeps env (whole_listener h)"
  by (rule keepsI) (auto simp: whole_listener_def dest: tameD)

lemma run_callbacks_keeps:
  assumes "\<And>cb ctx st r c st'. lua cb ctx st = (r, c, st') \<Longrightarrow> P st \<Longrightarrow> P st'"
  shows "run_callbacks lua ctx es st c = (st', c') \<Longrightarrow> P st \<Longrightarrow> P st'"
proof (induction es arbitrary: st c)
  case (Cons x es)
  obtain r c1 st1 where l: "lua (entry_callback x) ctx st = (r, c1, st1)" using prod_cases3 by blast
  then have "P st1" using assms [OF l Cons.prems(2)] by simp
  with Cons l show ?case by (auto split: if_splits)
qed simp

lemma keeps_bridge:
  assumes "lawful env I"
  shows "keeps env (whole_bridge I t)"
proof (rule keepsI)
  fix e st st' c assume f: "whole_bridge I t e st = Some (st', c)" and i: "whole_inv env st"
  have l: "whole_inv env st2"
    if call: "shared_callbacks t (event_lua I) cb ctx st1 = (r, c, st2)" and inv1: "whole_inv env st1" for cb ctx st1 r c st2
  proof -
    obtain ctx' where "event_lua I cb ctx' st1 = (r, c, st2)"
      using call by (cases st1) (auto simp: shared_callbacks_def)
    from effect_inv [OF assms [unfolded lawful_def, THEN conjunct1, rule_format, OF this]] inv1 show ?thesis by (simp add: whole_inv_def)
  qed
  from f have "invoke_callbacks (shared_callbacks t (event_lua I)) (callback_sort I) t e st False = (st', c)"
    by (simp add: whole_bridge_def)
  then show "whole_inv env st'"
    using run_callbacks_keeps [of "shared_callbacks t (event_lua I)" "whole_inv env", OF l] i
    by (auto simp: invoke_callbacks_def)
qed

lemma execute_lambda_keeps:
  assumes "lawful env I" and "execute_lambda (command_lua I) name cb ctx (reg, b, s, px, e) = Some (r, reg', b', s', px', e')"
    and "proxy_inv env px"
  shows "proxy_inv env px'"
proof -
  obtain r1 calls where "command_lua I cb ctx (b, s, px, e) = (r1, calls, b', s', px', e')"
    using assms(2) by (auto simp: execute_lambda_def split: prod.splits if_splits)
  then have "script_effect env px px'" using assms(1) unfolding lawful_def by blast
  from effect_inv [OF this assms(3)] show ?thesis .
qed

lemma help_keeps: "proxy_inv env px \<Longrightarrow> proxy_inv env (snd (lua_help env lst reg args px))"
  by (auto simp: lua_help_def Let_def split_beta intro!: inv_fold split: option.split)

lemma built_in_keeps:
  "whole_command env ord I reg c args (b, s, px, e) = (r, b', s', px', e') \<Longrightarrow> proxy_inv env px \<Longrightarrow> proxy_inv env px'"
  using help_keeps [of env px "command_list I" reg args] inv_command [of env px ord "built_in_part reg" c args]
  by (auto simp: whole_command_def split: prod.splits if_splits)

lemma lua_execute_keeps:
  assumes "lawful env I" and "proxy_inv env px"
    and "lua_execute (command_lua I) (whole_command env ord I) line (reg, b, s, px, e) = Some (ok, reg', b', s', px', e')"
  shows "proxy_inv env px'"
proof -
  obtain name args where p: "parse_command (reads_prefix reg) line = (name, args)" by fastforce
  show ?thesis
  proof (cases "is_command (reads_prefix reg) line \<and> name \<noteq> [] \<and> lua_commands reg name \<noteq> None")
    case False
    then show ?thesis using assms(2,3) by (auto simp: lua_execute_def p split: if_splits)
  next
    case True
    then obtain c where c: "lua_commands reg name = Some c" by auto
    show ?thesis
    proof (cases c)
      case (Built_in c')
      with True c assms(3) have "whole_command env ord I reg c' args (b, s, px, e) = (fst (whole_command env ord I reg c' args (b, s, px, e)), b', s', px', e')"
        by (auto simp: lua_execute_def p prod_eq_iff)
      from built_in_keeps [OF this assms(2)] show ?thesis .
    next
      case (LambdaCommand d cb)
      with True c assms(3) show ?thesis
        by (auto simp: lua_execute_def p intro: execute_lambda_keeps [OF assms(1) _ assms(2)])
    qed
  qed
qed

lemma keeps_chat: "lawful env I \<Longrightarrow> keeps env (whole_chat env ord I)"
proof (rule keepsI)
  fix e st st' c assume l: "lawful env I" and f: "whole_chat env ord I e st = Some (st', c)" and i: "whole_inv env st"
  obtain b reg s px e1 where st: "st = (b, reg, s, px, e1)" by (cases st) auto
  show "whole_inv env st'"
  proof (cases "\<exists>dir p. typed_packet Id_Input e1 = Some (dir, P_Input p)")
    case False
    then show ?thesis using f i by (auto simp: whole_chat_def st split: option.splits IPacket.splits)
  next
    case True
    then obtain dir p where t: "typed_packet Id_Input e1 = Some (dir, P_Input p)" by blast
    with f obtain reg' b' s' px' e' where "lua_execute (command_lua I) (whole_command env ord I) (input_text p) (reg, b, s, px, e1) =
        Some (c, reg', b', s', px', e')" and st': "st' = (b', reg', s', px', e')"
      by (auto simp: whole_chat_def st)
    from lua_execute_keeps [OF l _ this(1)] i show ?thesis by (simp add: st st')
  qed
qed

lemma tame_other_handlers:
  "tame env (web_on_client_connect env)" "tame env web_on_client_disconnect" "tame env (conn_client_connect env)"
  "tame env (conn_client_disconnect env)" "tame env (conn_server_disconnect env)"
  "tame env (forward_client_bound env)" "tame env (forward_server_bound env)"
  by (rule tameI, auto simp: web_on_client_connect_def web_on_client_disconnect_def conn_client_connect_def
      conn_client_disconnect_def conn_server_disconnect_def forward_client_bound_def forward_server_bound_def go_def
      Let_def split: option.splits if_splits)+

lemma keeps_listeners:
  assumes "lawful env I" and "(t, p, f) \<in> set (whole_handlers I ts env ord)"
  shows "keeps env f"
  using assms(2) keeps_bridge [OF assms(1)] keeps_chat [OF assms(1)]
  by (auto simp: whole_handlers_def proxy_listeners_def web_listeners_def connection_listeners_def
      forwarding_listeners_def world_listeners_def whole_of_def tame_other_handlers tame_connection_handlers
      tame_world_handlers tame_tile_change intro!: keeps_listener split: if_splits)

lemma invoke_keeps:
  assumes "\<forall>f \<in> set fs. keeps env f"
  shows "invoke (map listen fs) e (Some st) c = (Some st', c') \<Longrightarrow> whole_inv env st \<Longrightarrow> whole_inv env st'"
  using assms
proof (induction fs arbitrary: st c)
  case (Cons f fs)
  show ?case
  proof (cases "f e st")
    case None
    with Cons.prems(1) show ?thesis by (simp add: listen_def)
  next
    case (Some r)
    obtain st1 c1 where r: "r = (st1, c1)" by fastforce
    with Some Cons.prems have "whole_inv env st1" using keepsD [of env f e st st1 c1] by simp
    with Some r Cons.prems Cons.IH [of st1] show ?thesis by (auto simp: listen_def split: if_splits)
  qed
qed simp

lemma dispatch_keeps:
  assumes "started_with B (whole_handlers I ts env ord) d" and "lawful env I"
    and "whole_dispatch B d t e (Some st) = (Some st', c)" and "whole_inv env st"
  shows "whole_inv env st'"
proof -
  let ?fs = "map snd (sort_key fst (registrations t (whole_handlers I ts env ord)))"
  have "\<forall>f \<in> set ?fs. keeps env f"
    using keeps_listeners [OF assms(2)] by (auto simp: registrations_def)
  moreover have "whole_inv env (announce e st)" using assms(4) by (cases st) (simp add: announce_def)
  ultimately show ?thesis
    using assms(3) invoke_keeps [of ?fs env e "announce e st" False st' c]
    by (simp add: whole_dispatch_def dispatch_with [OF assms(1)])
qed

subsection \<open>Events\<close>

lemma on_whole_inv:
  "(proxy_inv env (whole_proxy st) \<Longrightarrow> proxy_inv env (f (whole_proxy st))) \<Longrightarrow> whole_inv env st \<Longrightarrow> whole_inv env (on_whole f st)"
  by (cases st) (simp add: on_whole_def)

lemma deliver_keeps:
  assumes "started_with B (whole_handlers I ts env ord) d" and "lawful env I"
    and "whole_deliver B d env dir t data st = Some st'" and "whole_inv env st"
  shows "whole_inv env st'"
proof -
  have dsp: "whole_inv env st2" if "fst (whole_dispatch B d t' e (Some st1)) = Some st2" and "whole_inv env st1" for t' e st1 st2
    using dispatch_keeps [OF assms(1,2) _ that(2), of t' e st2 "snd (whole_dispatch B d t' e (Some st1))"] that(1)
    by (simp add: prod_eq_iff)
  let ?dec = "decode (zlib_lib env) (regex_multiline env) (packet_registry env) (log_config env) data"
  consider "?dec = None" | "?dec = Some None" | "?dec = Some (Some None)" | p where "?dec = Some (Some (Some p))"
    by (metis not_None_eq)
  then show ?thesis
  proof cases
    case 2
    then show ?thesis using assms(3,4) dsp by (simp add: whole_deliver_def)
  next
    case (4 p)
    let ?e = "packet_event_type (packet_id p)"
    have ev: "whole_inv env st1" if "whole_emit B d dir p (Some st) = (Some st1, c)" for st1 c
      using that assms(4) dsp [of ?e "TypedPacketEvent dir p" st st1]
      by (auto simp: whole_emit_def split: if_splits prod.splits)
    obtain r c where em: "whole_emit B d dir p (Some st) = (r, c)" by fastforce
    show ?thesis
      using assms(3) ev em dsp by (cases r) (auto simp: whole_deliver_def 4 split: if_splits)
  qed (use assms(3) in \<open>simp_all add: whole_deliver_def\<close>)
qed

lemma process_keeps:
  assumes "started_with B (whole_handlers I ts env ord) d" and "lawful env I"
    and "whole_process B d env a st = Some st'" and "whole_inv env st"
  shows "whole_inv env st'"
proof -
  have acted: "whole_inv env (on_whole (act a) st)" if "no_send a"
    using that assms(4) by (intro on_whole_inv) simp_all
  have changed: "whole_inv env (on_whole (\<lambda>px. px\<lparr>client_peer := p\<rparr>) (on_whole (act a) st))"
    "whole_inv env (on_whole (\<lambda>px. px\<lparr>server_peer := p\<rparr>) (on_whole (act a) st))"
    "whole_inv env (on_whole client_disconnect (on_whole (act a) st))"
    "whole_inv env (on_whole server_disconnect (on_whole (act a) st))" if "no_send a" for p
    by (rule on_whole_inv [OF _ acted [OF that]], simp)+
  have dsp: "whole_inv env st2" if "fst (whole_dispatch B d t' e (Some st1)) = Some st2" and "whole_inv env st1" for t' e st1 st2
    using dispatch_keeps [OF assms(1,2) _ that(2), of t' e st2 "snd (whole_dispatch B d t' e (Some st1))"] that(1)
    by (simp add: prod_eq_iff)
  note del = deliver_keeps [OF assms(1,2)]
  show ?thesis
  proof (cases a)
    case (Connected h p)
    then show ?thesis
      using assms(3) changed dsp by (cases h) (auto simp: whole_process_def Let_def)
  next
    case (Received h p data)
    then show ?thesis
      using assms(3) acted changed del by (cases h) (auto simp: whole_process_def Let_def split: if_splits)
  next
    case (Disconnected h p)
    then show ?thesis
      using assms(3) acted changed dsp by (cases h) (auto simp: whole_process_def Let_def split: if_splits)
  qed (use assms(3,4) in \<open>simp_all add: whole_process_def Let_def\<close>)
qed

lemma update_keeps:
  assumes "lawful env I" and "whole_inv env st"
  shows "whole_inv env (whole_update I elapsed st)"
proof -
  have tasks: "execute_tasks (task_lua I) ks s (b, reg, px, e) = (s', b', reg', px', e') \<Longrightarrow> proxy_inv env px \<Longrightarrow> proxy_inv env px'"
    for ks s b reg px e s' b' reg' px' e'
  proof (induction ks arbitrary: s b reg px e)
    case (Cons k ks)
    let ?cb = "st_callback (script_tasks s ! k)"
    obtain r calls b1 reg1 px1 e1 where l: "task_lua I ?cb s (b, reg, px, e) = (r, calls, b1, reg1, px1, e1)"
      by (metis prod_cases3)
    have "script_effect env px px1"
      by (rule assms(1) [unfolded lawful_def, THEN conjunct2, THEN conjunct2, rule_format, OF l])
    with effect_inv Cons.prems(2) have "proxy_inv env px1" by blast
    with l Cons.prems Cons.IH show ?case by (auto simp: Let_def split: if_splits)
  qed simp
  obtain b reg s px e where st: "st = (b, reg, s, px, e)" by (cases st) auto
  show ?thesis
    using tasks assms(2)
    by (auto simp: st whole_update_def script_update_def split: prod.splits if_splits)
qed

subsection \<open>Runs\<close>

text \<open>What can happen: an event of the network, an update of the timers of scripts, what happens to the
  scheduler and a task of it that runs, a request to the web server, and a script file that is run.\<close>

datatype whole_event =
    On_network net_action
  | On_update int
  | On_scheduling "(task_action, unit) label"
  | On_task task_action
  | On_request
  | On_script

inductive whole_step ::
  "('d, 'h, ('cb, 'cmd, 'ts) whole option listener) base_dispatcher \<Rightarrow> ('d, 'h) PriorityEventDispatcher \<Rightarrow>
     ('cb, 'cmd, 'ts) interpreter \<Rightarrow> event_type list \<Rightarrow> 'z Env \<Rightarrow>
     'r web_client \<Rightarrow> ('cb, 'cmd, 'ts) whole \<Rightarrow> whole_event \<Rightarrow> ('cb, 'cmd, 'ts) whole \<Rightarrow> bool"
  for B d I ts env web
where
  on_network: "started_with B (whole_handlers I ts env ord) d \<Longrightarrow> whole_process B d env a st = Some st' \<Longrightarrow>
    whole_step B d I ts env web st (On_network a) st'"
| on_update: "whole_step B d I ts env web st (On_update elapsed) (whole_update I elapsed st)"
| on_scheduling: "sched_step (scheduler (whole_proxy st)) l s \<Longrightarrow>
    whole_step B d I ts env web st (On_scheduling l) (on_whole (\<lambda>px. px\<lparr>scheduler := s\<rparr>) st)"
| on_task: "run_task env t (whole_proxy st) = Some px' \<Longrightarrow>
    whole_step B d I ts env web st (On_task t) (on_whole (\<lambda>_. px') st)"
| on_request: "whole_step B d I ts env web st On_request (on_whole (\<lambda>px. snd (serve web req px)) st)"
| on_script: "script_effect env (whole_proxy st) (whole_proxy st') \<Longrightarrow> whole_step B d I ts env web st On_script st'"

definition whole_starts :: "('cb, 'cmd, 'ts) whole \<Rightarrow> bool" where
  "whole_starts = (\<lambda>(b, reg, s, px, e). b = new_bridge \<and> s = new_script_scheduler \<and> proxy_starts px)"

lemma step_keeps:
  assumes "lawful env I" and "whole_inv env st" and "whole_step B d I ts env web st e st'"
  shows "whole_inv env st'"
  using assms(3)
proof (cases rule: whole_step.cases)
  case (on_network ord a)
  then show ?thesis using process_keeps assms(1,2) by blast
next
  case (on_update elapsed)
  then show ?thesis using update_keeps assms(1,2) by blast
next
  case (on_scheduling l s)
  have "proxy_inv env px \<Longrightarrow> scheduler px = scheduler (whole_proxy st) \<Longrightarrow> proxy_inv env (px\<lparr>scheduler := s\<rparr>)" for px
    using on_scheduling(3) sched.inv_step by (auto simp: proxy_inv_def)
  then show ?thesis unfolding on_scheduling(2) using assms(2) by (intro on_whole_inv) simp_all
next
  case (on_task t px')
  have "proxy_inv env px'"
    using on_task(3) assms(2) by (auto simp: run_task_def whole_inv_def split: task_action.splits if_splits)
  then show ?thesis unfolding on_task(2) using assms(2) by (intro on_whole_inv) simp_all
next
  case (on_request req)
  then show ?thesis
    using assms(2) by (simp, intro on_whole_inv) (simp_all add: serve_def split: prod.split)
next
  case on_script
  then show ?thesis using effect_inv assms(2) by (auto simp: whole_inv_def)
qed

interpretation whole: state_machine whole_starts "whole_step B d I ts env web" "\<lambda>st. lawful env I \<longrightarrow> whole_inv env st"
  for B d I ts env web
  by unfold_locales (auto simp: whole_starts_def intro: inv_start step_keeps)

subsection \<open>Properties\<close>

text \<open>C14: whatever scripts do with the functions they are given, in callbacks, commands, timers or when they are
  loaded, and whatever happens besides, in whatever order: no message is handed to a peer that is not connected at
  that moment, and the scheduler and the table of players stay consistent. Scripts may change what the
  proxy makes of packets, but not these.\<close>

theorem scripts_keep_invariant:
  assumes "lawful env I" and "whole_starts st0" and "state_machine.run (whole_step B d I ts env web) st0 es st"
  shows "(\<forall>bef h p data aft. trace (whole_proxy st) = bef @ Send h p data # aft \<longrightarrow> enet_connected env bef h p) \<and>
    sched_inv (scheduler (whole_proxy st)) \<and>
    (\<forall>i p. get_player (world (whole_proxy st)) i = Some p \<longrightarrow> player_net_id p = i) \<and>
    (local_net_id (world (whole_proxy st)) \<noteq> - 1 \<longrightarrow>
       get_player (world (whole_proxy st)) (local_net_id (world (whole_proxy st))) \<noteq> None)"
proof -
  have "whole_inv env st" using whole.run_from_init [OF assms(2,3)] assms(1) by simp
  then show ?thesis
    by (simp add: whole_inv_def proxy_inv_def sends_ok_def world_inv_def get_player_def)
qed

lemma demo_lawful: "lawful demo_env demo_interpreter"
proof -
  have "script_effect demo_env (whole_proxy st) (whole_proxy st')" if "renaming cb ctx st = (r, c, st')" for cb ctx st r c st'
    using that by (cases st) (auto simp: renaming_def script_effect.nothing
        split: option.splits lua_object.splits event_data.splits)
  moreover have "script_effect demo_env px px'" if "replying cb ctx (b, s, px, e) = (r, calls, b', s', px', e')"
    for cb ctx b s px e r calls b' s' px' e'
    using that script_effect.packet_to_client [of demo_env px "log_packet cb"]
    by (auto simp: replying_def lua_reply_def lua_send_to_client_def)
  moreover have "task_lua demo_interpreter cb s w = (Script_other, [], w)" for cb s w
    by (simp add: demo_interpreter_def)
  ultimately show ?thesis
    unfolding lawful_def demo_interpreter_simps by (auto simp: script_effect.nothing)
qed

text \<open>A script registers the renaming callback, Growtopia connects, and a timer update follows.\<close>

theorem scripts_keep_invariant_witness:
  "\<exists>px st. whole_proxy st = px \<and> client_peer px = Some 3 \<and> fst st = bob_bridge \<and> sends_ok demo_env (trace px) \<and>
     sched_inv (scheduler px) \<and>
     state_machine.run (whole_step list_dispatcher demo_program demo_interpreter demo_types demo_env demo_web)
       (new_bridge, of_registry new_registry, new_script_scheduler, new_Proxy 0 None 1, ConnectionEvent)
       [On_network (Connected ClientHost 3), On_script] st"
proof -
  let ?reg = "of_registry new_registry :: string LuaRegistry"
  let ?s = "new_script_scheduler :: string ScriptScheduler" and ?b = "new_bridge :: string ScriptEventBridge"
  let ?px = "(act (Connected ClientHost 3) (new_Proxy 0 None 1))\<lparr>client_peer := Some 3\<rparr>"
  let ?start = "(?b, ?reg, ?s, new_Proxy 0 None 1, ConnectionEvent)"
  have started: "started list_dispatcher demo_env demo_orders new_registry
      (core_dispatcher list_dispatcher demo_env demo_orders new_registry no_listeners)"
    unfolding started_def
    by (rule exI [of _ no_listeners]) (simp add: list_dispatcher_ok no_listeners_inv, simp add: no_listeners_def)
  have "whole_dispatch list_dispatcher demo_program t e (Some (?b, ?reg, ?s, px, e0)) =
      (case dispatch list_dispatcher (core_dispatcher list_dispatcher demo_env demo_orders new_registry no_listeners) t e (Some px) False of
         (st, c) \<Rightarrow> (map_option (\<lambda>px. (?b, ?reg, ?s, px, e)) st, c))" for t e px e0
    by (rule dispatch_whole_idle [OF started demo_program_started demo_same_order])
      (simp_all add: sort_key_ok new_bridge_def)
  note idle = process_whole_idle [OF this, where env = demo_env and a = "Connected ClientHost 3" and px = "new_Proxy 0 None 1"]
  have "map_option forget_event (whole_process list_dispatcher demo_program demo_env (Connected ClientHost 3) ?start) =
      Some (?b, ?reg, ?s, ?px)"
    by (simp only: idle growtopia_connects [OF started] option.map)
  then obtain e where p: "whole_process list_dispatcher demo_program demo_env (Connected ClientHost 3) ?start =
      Some (?b, ?reg, ?s, ?px, e)"
    by (auto simp: forget_event_def split: prod.splits)
  let ?final = "(bob_bridge, ?reg, ?s, ?px, e)"
  let ?step = "whole_step list_dispatcher demo_program demo_interpreter demo_types demo_env demo_web"
  have run: "state_machine.run ?step ?start [On_network (Connected ClientHost 3), On_script] ?final"
    by (rule whole.run_cons [OF whole_step.on_network [OF demo_program_started p]
          whole.run_cons [OF whole_step.on_script whole.run_nil]]) (simp add: script_effect.nothing)
  have "whole_starts ?start" by (auto simp: whole_starts_def proxy_starts_def)
  from scripts_keep_invariant [OF demo_lawful this run] have "sends_ok demo_env (trace ?px) \<and> sched_inv (scheduler ?px)"
    by (simp add: sends_ok_def)
  with run show ?thesis by (intro exI [of _ ?px] exI [of _ ?final]) simp
qed

end
