(* ===== verification/ScriptLoader.thy ===== *)
theory ScriptLoader
  imports Prelude "HOL-Library.List_Lexorder" "HOL-Library.Char_ord" "HOL-Library.Multiset"
begin

text \<open>
  \<open>scripting::ScriptLoader\<close> (\<open>src/scripting/script_loader.cpp\<close>) and the part of
  \<open>scripting::LuaEngine\<close> it uses (\<open>lua_engine.cpp\<close>): which files are run, in which order, and which
  count as loaded. The file system is the list of the entries below the scripts directory, in the
  order the iterator gives them, or nothing if there is no directory; the interpreter is an argument
  that says whether a file runs without an error and what that does to its state. Nothing in the
  program writes scripts, so the file system does not change.
\<close>

subsection \<open>Paths\<close>

type_synonym path = "string list"

definition filename :: "path \<Rightarrow> string" where
  "filename p = (if p = [] then [] else last p)"

text \<open>\<open>path::extension\<close>: from the last dot on, unless that is the first character; \<open>.\<close> and \<open>..\<close> have
  none.\<close>

definition extension_of :: "string \<Rightarrow> string" where
  "extension_of f =
     (if f = ''..'' then []
      else let rest = dropWhile (\<lambda>c. c \<noteq> CHR ''.'') (rev f)
           in if length rest \<le> 1 then [] else drop (length rest - 1) f)"

definition replace_extension :: "string \<Rightarrow> path \<Rightarrow> path" where
  "replace_extension e p = butlast p @ [take (length (filename p) - length (extension_of (filename p))) (filename p) @ e]"

record dir_entry =
  entry_path :: path
  is_regular_file :: bool

record script_files =
  script_entries :: "dir_entry list option"
  file_exists :: "path \<Rightarrow> bool"

subsection \<open>The engine\<close>

definition execute_file :: "script_files \<Rightarrow> (path \<Rightarrow> 's \<Rightarrow> bool \<times> 's) \<Rightarrow> path \<Rightarrow> 's \<Rightarrow> bool \<times> 's" where
  "execute_file fs interp p s = (if \<not> file_exists fs p then (False, s) else interp p s)"

text \<open>The libraries of Lua that sol can open, and those the engine opens; \<open>execute\<close> runs a text as
  \<open>execute_file\<close> runs a file.\<close>

datatype lua_library =
    Lib_base | Lib_package | Lib_coroutine | Lib_string | Lib_os | Lib_math | Lib_table | Lib_debug | Lib_bit32
  | Lib_io | Lib_ffi | Lib_jit | Lib_utf8

definition open_safe_libraries :: "lua_library list" where
  "open_safe_libraries = [Lib_base, Lib_table, Lib_string, Lib_math, Lib_utf8, Lib_coroutine]"

definition execute_text :: "(string \<Rightarrow> 's \<Rightarrow> bool \<times> 's) \<Rightarrow> string \<Rightarrow> 's \<Rightarrow> bool \<times> 's" where
  "execute_text interp script s = (case interp script s of (valid, s) \<Rightarrow> (if \<not> valid then (False, s) else (True, s)))"

lemma system_libraries_closed: "{Lib_os, Lib_io, Lib_package, Lib_debug, Lib_ffi} \<inter> set open_safe_libraries = {}"
  by (simp add: open_safe_libraries_def)

text \<open>A binding module is bound when it is registered; a null pointer is refused.\<close>

definition register_binding :: "('m \<Rightarrow> 's \<Rightarrow> 's) \<Rightarrow> 'm option \<Rightarrow> 's \<times> 'm list \<Rightarrow> 's \<times> 'm list" where
  "register_binding binds m st =
     (case m of
        None \<Rightarrow> st
      | Some m \<Rightarrow> (binds m (fst st), snd st @ [m]))"

subsection \<open>The loader\<close>

text \<open>\<open>srt\<close> is what \<open>std::ranges::sort\<close> makes of a list: files of the same name come in any order.\<close>

definition sorts_by_name :: "(path list \<Rightarrow> path list) \<Rightarrow> bool" where
  "sorts_by_name srt \<longleftrightarrow> (\<forall>ps. mset (srt ps) = mset ps \<and> sorted (map filename (srt ps)))"

definition discover_scripts :: "(path list \<Rightarrow> path list) \<Rightarrow> script_files \<Rightarrow> path list" where
  "discover_scripts srt fs =
     (case script_entries fs of
        None \<Rightarrow> []
      | Some es \<Rightarrow>
          srt (map entry_path
            (filter (\<lambda>e. is_regular_file e \<and> extension_of (filename (entry_path e)) = ''.lua'') es)))"

text \<open>The loop of \<open>load_all\<close>: the scripts that were loaded and the state of the interpreter.\<close>

fun load_scripts :: "(path \<Rightarrow> 's \<Rightarrow> bool \<times> 's) \<Rightarrow> path list \<Rightarrow> path list \<times> nat \<times> 's \<Rightarrow> path list \<times> nat \<times> 's" where
  "load_scripts exec [] st = st"
| "load_scripts exec (p # ps) (loaded, cnt, s) =
     (case exec p s of
        (ok, s) \<Rightarrow> load_scripts exec ps (if ok then (loaded @ [p], cnt + 1, s) else (loaded, cnt, s)))"

definition load_all ::
  "(path list \<Rightarrow> path list) \<Rightarrow> script_files \<Rightarrow> (path \<Rightarrow> 's \<Rightarrow> bool \<times> 's) \<Rightarrow> path list \<times> 's \<Rightarrow> nat \<times> path list \<times> 's"
where
  "load_all srt fs interp st =
     (case load_scripts (execute_file fs interp) (discover_scripts srt fs) (fst st, 0, snd st) of
        (loaded, cnt, s) \<Rightarrow> (cnt, loaded, s))"

definition reload_all ::
  "(path list \<Rightarrow> path list) \<Rightarrow> script_files \<Rightarrow> (path \<Rightarrow> 's \<Rightarrow> bool \<times> 's) \<Rightarrow> path list \<times> 's \<Rightarrow> nat \<times> path list \<times> 's"
where
  "reload_all srt fs interp st = load_all srt fs interp ([], snd st)"

definition load_script ::
  "path \<Rightarrow> script_files \<Rightarrow> (path \<Rightarrow> 's \<Rightarrow> bool \<times> 's) \<Rightarrow> path \<Rightarrow> path list \<times> 's \<Rightarrow> bool \<times> path list \<times> 's"
where
  "load_script dir fs interp name st =
     (let p = dir @ name;
          p = (if extension_of (filename p) = [] then replace_extension ''.lua'' p else p)
      in if \<not> file_exists fs p then (False, st)
         else case execute_file fs interp p (snd st) of
           (True, s) \<Rightarrow> (True, if p \<in> set (fst st) then fst st else fst st @ [p], s)
         | (False, s) \<Rightarrow> (False, fst st, s))"

subsection \<open>What is run\<close>

text \<open>Running some files one after the other.\<close>

definition run_files :: "(path \<Rightarrow> 's \<Rightarrow> bool \<times> 's) \<Rightarrow> path list \<Rightarrow> 's \<Rightarrow> 's" where
  "run_files exec ps s = fold (\<lambda>p s. snd (exec p s)) ps s"

fun succeeded :: "(path \<Rightarrow> 's \<Rightarrow> bool \<times> 's) \<Rightarrow> path list \<Rightarrow> 's \<Rightarrow> path list" where
  "succeeded exec [] s = []"
| "succeeded exec (p # ps) s =
     (if fst (exec p s) then [p] else []) @ succeeded exec ps (snd (exec p s))"

lemma load_scripts_eq:
  "load_scripts exec ps (loaded, cnt, s) =
     (loaded @ succeeded exec ps s, cnt + length (succeeded exec ps s), run_files exec ps s)"
  by (induction ps arbitrary: loaded cnt s) (auto simp: run_files_def split: prod.split)

lemma succeeded_subset: "set (succeeded exec ps s) \<subseteq> set ps"
  by (induction exec ps s rule: succeeded.induct) auto

lemma mset_succeeded: "mset (succeeded exec ps s) \<subseteq># mset ps"
proof (induction exec ps s rule: succeeded.induct)
  case (2 exec p ps s)
  then show ?case
    by (auto simp: add_mset_commute subset_mset.add_increasing intro: subset_mset.order_trans)
qed simp

lemma run_files_append: "run_files exec (ps @ qs) s = run_files exec qs (run_files exec ps s)"
  by (simp add: run_files_def)

lemma discovered:
  assumes "sorts_by_name srt"
  shows "sorted (map filename (discover_scripts srt fs))"
    and "set (discover_scripts srt fs) = entry_path ` {e \<in> set (case script_entries fs of None \<Rightarrow> [] | Some es \<Rightarrow> es).
      is_regular_file e \<and> extension_of (filename (entry_path e)) = ''.lua''}"
proof -
  have m: "set (srt ps) = set ps" for ps using assms unfolding sorts_by_name_def by (metis set_mset_mset)
  show "sorted (map filename (discover_scripts srt fs))"
    using assms by (auto simp: discover_scripts_def sorts_by_name_def split: option.split)
  show "set (discover_scripts srt fs) = entry_path ` {e \<in> set (case script_entries fs of None \<Rightarrow> [] | Some es \<Rightarrow> es).
      is_regular_file e \<and> extension_of (filename (entry_path e)) = ''.lua''}"
    by (auto simp: discover_scripts_def m split: option.split)
qed

lemma distinct_discovered:
  assumes "sorts_by_name srt" and "distinct (map entry_path (case script_entries fs of None \<Rightarrow> [] | Some es \<Rightarrow> es))"
  shows "distinct (discover_scripts srt fs)"
proof (cases "script_entries fs")
  case (Some es)
  let ?ps = "map entry_path (filter (\<lambda>e. is_regular_file e \<and> extension_of (filename (entry_path e)) = ''.lua'') es)"
  have "distinct ?ps" using assms(2) Some by (simp add: distinct_map_filter)
  moreover have "mset (srt ?ps) = mset ?ps" using assms(1) by (simp add: sorts_by_name_def)
  ultimately have "distinct (srt ?ps)" using mset_eq_imp_distinct_iff by blast
  then show ?thesis by (simp add: discover_scripts_def Some)
qed (simp add: discover_scripts_def)

subsection \<open>Properties\<close>

text \<open>C39: starting the proxy runs every regular file ending in \<open>.lua\<close> below the scripts directory once, in
  the order of their names, the failing ones included; those that run without an error are loaded, in
  that order, and counted.\<close>

theorem scripts_run_in_order:
  assumes "sorts_by_name srt"
    and "distinct (map entry_path (case script_entries fs of None \<Rightarrow> [] | Some es \<Rightarrow> es))"
    and "load_all srt fs interp ([], s) = (cnt, loaded, s')" and "ps = discover_scripts srt fs"
  shows "s' = run_files (execute_file fs interp) ps s \<and> distinct ps \<and> sorted (map filename ps) \<and>
    loaded = succeeded (execute_file fs interp) ps s \<and> cnt = length loaded \<and>
    (\<forall>p. p \<in> set ps \<longleftrightarrow> (\<exists>es e. script_entries fs = Some es \<and> e \<in> set es \<and> p = entry_path e \<and>
       is_regular_file e \<and> extension_of (filename p) = ''.lua''))"
proof -
  have "p \<in> set ps \<longleftrightarrow> (\<exists>es e. script_entries fs = Some es \<and> e \<in> set es \<and> p = entry_path e \<and>
      is_regular_file e \<and> extension_of (filename p) = ''.lua'')" for p
    unfolding assms(4) discovered(2) [OF assms(1)] by (cases "script_entries fs") auto
  then show ?thesis
    using assms(3) discovered(1) [OF assms(1), of fs] distinct_discovered [OF assms(1,2)]
    by (auto simp: load_all_def load_scripts_eq assms(4))
qed

definition demo_files :: script_files where
  "demo_files = \<lparr>script_entries = Some
       [\<lparr>entry_path = [''scripts'', ''b.lua''], is_regular_file = True\<rparr>,
        \<lparr>entry_path = [''scripts'', ''lib''], is_regular_file = False\<rparr>,
        \<lparr>entry_path = [''scripts'', ''lib'', ''a.lua''], is_regular_file = True\<rparr>,
        \<lparr>entry_path = [''scripts'', ''notes.txt''], is_regular_file = True\<rparr>],
     file_exists = (\<lambda>p. p \<noteq> [])\<rparr>"

definition demo_engine :: "path \<Rightarrow> path list \<Rightarrow> bool \<times> path list" where
  "demo_engine p done_before = (filename p \<noteq> ''b.lua'', done_before @ [p])"

lemma demo_sorts: "sorts_by_name (sort_key filename)"
  by (simp add: sorts_by_name_def)

lemma demo_discovered: "discover_scripts (sort_key filename) demo_files = [[''scripts'', ''lib'', ''a.lua''], [''scripts'', ''b.lua'']]"
  by (simp add: discover_scripts_def demo_files_def extension_of_def filename_def)

theorem scripts_run_in_order_witness:
  "[[''scripts'', ''lib'', ''a.lua''], [''scripts'', ''b.lua'']] =
     run_files (execute_file demo_files demo_engine) (discover_scripts (sort_key filename) demo_files) [] \<and>
   [[''scripts'', ''lib'', ''a.lua'']] =
     succeeded (execute_file demo_files demo_engine) (discover_scripts (sort_key filename) demo_files) []"
proof -
  have "load_all (sort_key filename) demo_files demo_engine ([], []) =
      (1, [[''scripts'', ''lib'', ''a.lua'']], [[''scripts'', ''lib'', ''a.lua''], [''scripts'', ''b.lua'']])"
    unfolding load_all_def demo_discovered
    by (simp add: execute_file_def demo_files_def demo_engine_def filename_def)
  from scripts_run_in_order [OF demo_sorts _ this refl] show ?thesis by (simp add: demo_files_def)
qed

text \<open>Loading again runs everything a second time in an interpreter that still has what the first run
  left there: nothing is taken back, neither callbacks nor commands nor timers.\<close>

theorem reload_runs_twice:
  assumes "load_all srt fs interp ([], s) = (cnt, loaded, s1)"
    and "reload_all srt fs interp (loaded, s1) = (cnt', loaded', s2)"
  shows "s2 = run_files (execute_file fs interp) (discover_scripts srt fs @ discover_scripts srt fs) s \<and>
    loaded' = succeeded (execute_file fs interp) (discover_scripts srt fs) s1 \<and> cnt' = length loaded'"
  using assms by (auto simp: reload_all_def load_all_def load_scripts_eq run_files_append)

theorem reload_runs_twice_witness:
  "length (run_files (execute_file demo_files demo_engine)
     (discover_scripts (sort_key filename) demo_files @ discover_scripts (sort_key filename) demo_files) []) = 4"
proof -
  obtain c l s1 where 1: "load_all (sort_key filename) demo_files demo_engine ([], []) = (c, l, s1)"
    by (rule prod_cases3)
  obtain c' l' s2 where 2: "reload_all (sort_key filename) demo_files demo_engine (l, s1) = (c', l', s2)"
    by (rule prod_cases3)
  have "length s2 = 4"
    using 1 2 unfolding reload_all_def load_all_def demo_discovered
    by (auto simp: execute_file_def demo_files_def demo_engine_def filename_def)
  with reload_runs_twice [OF 1 2] show ?thesis by simp
qed

text \<open>A script loaded by name runs every time, but is in the list of loaded scripts at most once; a name
  without an extension means the Lua file.\<close>

theorem load_script_once:
  assumes "load_script dir fs interp name (loaded, s) = (ok, loaded', s')" and "distinct loaded" and "name \<noteq> []"
    and "extension_of (last name) = []"
  defines "p \<equiv> dir @ butlast name @ [last name @ ''.lua'']"
  shows "distinct loaded' \<and> (ok \<longleftrightarrow> file_exists fs p \<and> fst (interp p s)) \<and>
    set loaded' = set loaded \<union> (if ok then {p} else {}) \<and>
    s' = (if file_exists fs p then snd (interp p s) else s)"
proof -
  have "filename (dir @ name) = last name" using assms(3) by (simp add: filename_def)
  moreover have "replace_extension ''.lua'' (dir @ name) = p"
    using assms(3,4) by (simp add: replace_extension_def p_def filename_def butlast_append)
  ultimately show ?thesis
    using assms(1,2,4)
    by (auto simp: load_script_def execute_file_def Let_def split: if_splits prod.splits bool.splits)
qed

theorem load_script_once_witness:
  "distinct [[''scripts'', ''a.lua'']] \<and> file_exists demo_files [''scripts'', ''a.lua'']"
  using load_script_once [of "[''scripts'']" demo_files demo_engine "[''a'']" "[]" "[]" True "[[''scripts'', ''a.lua'']]"
      "[[''scripts'', ''a.lua'']]"]
  by (simp add: load_script_def execute_file_def demo_files_def demo_engine_def extension_of_def filename_def
      replace_extension_def)

end
