(* ===== verification/Config.thy ===== *)
theory Config
  imports WebServer
begin

text \<open>
  \<open>core::Config\<close> (\<open>src/core/config.hpp\<close>, \<open>config.cpp\<close>): the settings with their defaults, how they are
  read at the start and who uses them. The JSON library and the file system are parameters.
\<close>

subsection \<open>Settings\<close>

record ServerConfig =
  server_port :: int
  server_address :: string

record ClientConfig =
  game_version :: string
  protocol :: int
  dns_server :: string

record CommandConfig =
  command_prefix :: char

record WrapperConfig =
  server_config :: ServerConfig
  client_config :: ClientConfig
  wrapper_log :: LogConfig
  command_config :: CommandConfig

definition default_config :: WrapperConfig where
  "default_config =
     \<lparr>server_config = \<lparr>server_port = 16999, server_address = ''www.growtopia1.com''\<rparr>,
      client_config = \<lparr>game_version = ''5.39'', protocol = 225, dns_server = ''cloudflare''\<rparr>,
      wrapper_log = \<lparr>print_message = True, print_game_update_packet = False, print_variant = True, print_extra = True\<rparr>,
      command_config = \<lparr>command_prefix = CHR ''/''\<rparr>\<rparr>"

subsection \<open>Reading\<close>

text \<open>
  glaze reads a text over the settings that are there, or fails, and prints settings. The file is what
  can be read of it; \<open>writable\<close> tells whether it can be created.
\<close>

record 'f glaze =
  read_json :: "'f \<Rightarrow> WrapperConfig \<Rightarrow> WrapperConfig option"
  write_json :: "WrapperConfig \<Rightarrow> 'f"

datatype config_error = Load_failed | Create_failed

definition load_config :: "'f glaze \<Rightarrow> bool \<Rightarrow> 'f option \<Rightarrow> (config_error + WrapperConfig) \<times> 'f option" where
  "load_config json writable file =
     (case file of
        None \<Rightarrow>
          if writable then (Inr default_config, Some (write_json json default_config)) else (Inl Create_failed, None)
      | Some f \<Rightarrow>
          (case read_json json f default_config of
             None \<Rightarrow> (Inl Load_failed, file)
           | Some c \<Rightarrow> (Inr c, file)))"

subsection \<open>Use\<close>

text \<open>What the decoder, the redirect, the commands and the web server take from it.\<close>

definition configure_env :: "WrapperConfig \<Rightarrow> 'z Env \<Rightarrow> 'z Env" where
  "configure_env c env = env\<lparr>log_config := wrapper_log c, server_port_config := server_port (server_config c)\<rparr>"

definition configured_commands :: "WrapperConfig \<Rightarrow> CommandRegistry" where
  "configured_commands c =
     register_default_commands (set_prefix (command_prefix (command_config c)) new_registry)"

definition configure_web :: "WrapperConfig \<Rightarrow> 'r web_client \<Rightarrow> 'r web_client" where
  "configure_web c web =
     web\<lparr>dns_provider := create_dns_provider (dns_server (client_config c)),
       server_address_config := server_address (server_config c), own_port := server_port (server_config c)\<rparr>"

subsection \<open>What is saved is loaded\<close>

text \<open>The first start without a file writes the defaults and goes on with them; every later start with
  that file loads the same settings and leaves the file alone, if glaze reads back what it prints.\<close>

theorem first_configuration_kept:
  assumes "read_json json (write_json json default_config) default_config = Some default_config"
    and "load_config json True None = (c, file)"
  shows "c = Inr default_config \<and> load_config json writable file = (c, file)"
  using assms by (auto simp: load_config_def)

text \<open>A printer and a reader of settings: the empty object is the defaults, any other text fails.\<close>

definition demo_json :: "string glaze" where
  "demo_json = \<lparr>read_json = (\<lambda>f d. if f = ''{}'' then Some d else None), write_json = (\<lambda>_. ''{}'')\<rparr>"

theorem first_configuration_kept_witness:
  "(Inr default_config :: config_error + WrapperConfig) = Inr default_config \<and>
    load_config demo_json False (Some ''{}'') = (Inr default_config, Some ''{}'')"
  by (rule first_configuration_kept [of demo_json]) (simp_all add: demo_json_def load_config_def)

text \<open>Whatever character is configured, the chat inputs that start with it, and no others, are taken for
  commands, and the built-in commands are found under it.\<close>

theorem configured_prefix:
  "is_command (configured_commands c) (p # text) = (p = command_prefix (command_config c)) \<and>
   (\<forall>cmd. get_command (configured_commands c) (command_name cmd) = Some cmd)"
proof -
  have "prefix (configured_commands c) = command_prefix (command_config c)"
    by (simp add: configured_commands_def register_default_commands_def add_command_def set_prefix_def)
  moreover have "get_command (configured_commands c) (command_name cmd) = Some cmd" for cmd
    by (cases cmd) (simp_all add: get_command_def configured_commands_def register_default_commands_def
        add_command_def set_prefix_def new_registry_def)
  ultimately show ?thesis by (auto simp: is_command_def)
qed

end
