(* ===== verification/Lifecycle.thy ===== *)
theory Lifecycle
  imports WholeProxy ScriptLoader Config
begin

text \<open>
  The program from \<open>main\<close> to the end of the process (\<open>src/main.cpp\<close>, the constructor and destructor of
  \<open>core::Core\<close> in \<open>core/core.cpp\<close>): what has to succeed for it to start, what is destroyed in which
  order when it does not or when a signal has stopped the loop, and what the process ends with. What
  an object uses while it is destroyed and is gone by then is a fault.
\<close>

subsection \<open>Starting\<close>

text \<open>What can fail on the machine the program runs on.\<close>

record platform =
  log_file_opens :: bool
  settings :: "config_error + WrapperConfig"
  enet_initializes :: bool
  enet_host_create :: "int option \<Rightarrow> bool"
  enet_host_compress :: "int option \<Rightarrow> bool"
  port_443_bound :: bool
  scripts_directory_made :: bool

text \<open>The hosts of ENet, for one peer and two channels each: the game connects to a port of the one, the
  other connects to the server. Both compress and check what they send; which headers they expect
  differs.\<close>

record enet_host =
  bound_port :: "int option"
  peer_count :: nat
  channel_limit :: nat
  range_coder :: bool
  checksum_crc32 :: bool
  new_packet :: bool
  new_packet_for_server :: bool

definition create_server_host :: "'a platform_scheme \<Rightarrow> int \<Rightarrow> enet_host option" where
  "create_server_host pl p =
     (if \<not> enet_host_create pl (Some p) then None
      else if \<not> enet_host_compress pl (Some p) then None
      else Some \<lparr>bound_port = Some p, peer_count = 1, channel_limit = 2, range_coder = True, checksum_crc32 = True,
        new_packet = False, new_packet_for_server = True\<rparr>)"

definition create_client_host :: "'a platform_scheme \<Rightarrow> enet_host option" where
  "create_client_host pl =
     (if \<not> enet_host_create pl None then None
      else if \<not> enet_host_compress pl None then None
      else Some \<lparr>bound_port = None, peer_count = 1, channel_limit = 2, range_coder = True, checksum_crc32 = True,
        new_packet = True, new_packet_for_server = False\<rparr>)"

definition server_host_made :: "'a platform_scheme \<Rightarrow> bool" where
  "server_host_made pl \<longleftrightarrow>
     create_server_host pl (case settings pl of Inl _ \<Rightarrow> 0 | Inr cfg \<Rightarrow> server_port (server_config cfg)) \<noteq> None"

definition client_host_made :: "'a platform_scheme \<Rightarrow> bool" where
  "client_host_made pl \<longleftrightarrow> create_client_host pl \<noteq> None"

text \<open>The members of \<open>Core\<close>.\<close>

datatype part =
    Config_part | Dispatcher_part | Scheduler_part | Server_part | Client_part | WebServer_part
  | ConnectionHandler_part | ForwardingHandler_part | WorldHandler_part | CommandHandler_part
  | LuaEngine_part | ScriptScheduler_part | ScriptEventBridge_part | ScriptLoader_part

datatype construction = Construct part | Enet_initialize

definition core_constructor :: "construction list" where
  "core_constructor =
     [Construct Config_part, Construct Dispatcher_part, Construct Scheduler_part, Enet_initialize,
      Construct Server_part, Construct Client_part, Construct WebServer_part,
      Construct ConnectionHandler_part, Construct ForwardingHandler_part, Construct WorldHandler_part,
      Construct CommandHandler_part, Construct LuaEngine_part, Construct ScriptScheduler_part,
      Construct ScriptEventBridge_part, Construct ScriptLoader_part]"

text \<open>Which steps come through without an exception. A web server that cannot bind its port only says so.\<close>

fun succeeds :: "platform \<Rightarrow> construction \<Rightarrow> bool" where
  "succeeds pl Enet_initialize = enet_initializes pl"
| "succeeds pl (Construct p) =
     (case p of
        Config_part \<Rightarrow> (case settings pl of Inl _ \<Rightarrow> False | Inr _ \<Rightarrow> True)
      | Server_part \<Rightarrow> server_host_made pl
      | Client_part \<Rightarrow> client_host_made pl
      | ScriptLoader_part \<Rightarrow> scripts_directory_made pl
      | _ \<Rightarrow> True)"

text \<open>Whether all steps succeed, and the members that are there then, the latest first.\<close>

fun construct :: "platform \<Rightarrow> construction list \<Rightarrow> part list \<Rightarrow> bool \<times> part list" where
  "construct pl [] ps = (True, ps)"
| "construct pl (c # cs) ps =
     (if succeeds pl c then construct pl cs (case c of Construct p \<Rightarrow> p # ps | Enet_initialize \<Rightarrow> ps)
      else (False, ps))"

subsection \<open>Destroying\<close>

datatype fault = Null_logger | Closed_lua | Unjoinable_thread | Dead_dispatcher | Fault_in_loop

datatype ending = Returns nat | Faults fault

text \<open>
  Members are destroyed in the reverse order. Listeners are taken off the dispatcher; functions of Lua are
  given back to their interpreter; the web server joins its thread, which was not started without its
  port; the scheduler writes to the log, which \<open>spdlog::shutdown\<close> has left without a logger. \<open>refs\<close>
  counts the functions of Lua a member keeps, \<open>rest\<close> are the members that are still there.
\<close>

definition takes_off_listeners :: "part list \<Rightarrow> fault option" where
  "takes_off_listeners rest = (if Dispatcher_part \<in> set rest then None else Some Dead_dispatcher)"

definition gives_back_functions :: "nat \<Rightarrow> part list \<Rightarrow> fault option" where
  "gives_back_functions n rest = (if n = 0 \<or> LuaEngine_part \<in> set rest then None else Some Closed_lua)"

definition destructor_fault :: "platform \<Rightarrow> (part \<Rightarrow> nat) \<Rightarrow> bool \<Rightarrow> part \<Rightarrow> part list \<Rightarrow> fault option" where
  "destructor_fault pl refs logging p rest =
     (case p of
        Scheduler_part \<Rightarrow> if logging then None else Some Null_logger
      | WebServer_part \<Rightarrow> if port_443_bound pl then None else Some Unjoinable_thread
      | ConnectionHandler_part \<Rightarrow> takes_off_listeners rest
      | ForwardingHandler_part \<Rightarrow> takes_off_listeners rest
      | WorldHandler_part \<Rightarrow> takes_off_listeners rest
      | CommandHandler_part \<Rightarrow>
          (case takes_off_listeners rest of Some f \<Rightarrow> Some f | None \<Rightarrow> gives_back_functions (refs p) rest)
      | ScriptEventBridge_part \<Rightarrow>
          (case takes_off_listeners rest of Some f \<Rightarrow> Some f | None \<Rightarrow> gives_back_functions (refs p) rest)
      | ScriptScheduler_part \<Rightarrow> gives_back_functions (refs p) rest
      | _ \<Rightarrow> None)"

fun destroy :: "platform \<Rightarrow> (part \<Rightarrow> nat) \<Rightarrow> bool \<Rightarrow> part list \<Rightarrow> fault option" where
  "destroy pl refs logging [] = None"
| "destroy pl refs logging (p # ps) =
     (case destructor_fault pl refs logging p ps of Some f \<Rightarrow> Some f | None \<Rightarrow> destroy pl refs logging ps)"

fun is_lambda :: "'cmd registered_command \<Rightarrow> bool" where
  "is_lambda (LambdaCommand _ _) = True"
| "is_lambda (Built_in _) = False"

definition lua_functions_held :: "('cb, 'cmd, 'ts) interpreter \<Rightarrow> ('cb, 'cmd, 'ts) whole \<Rightarrow> part \<Rightarrow> nat" where
  "lua_functions_held I = (\<lambda>(b, reg, s, px, e) p.
     case p of
       CommandHandler_part \<Rightarrow> length (filter (is_lambda \<circ> snd) (command_list I (lua_commands reg)))
     | ScriptEventBridge_part \<Rightarrow> length (script_callbacks b)
     | ScriptScheduler_part \<Rightarrow> length (script_tasks s)
     | _ \<Rightarrow> 0)"

subsection \<open>The log\<close>

text \<open>The logger writes every message to a file, and those from some level on to the console.\<close>

datatype sink = Console_sink nat | File_sink string nat nat

abbreviation level_trace :: nat where "level_trace \<equiv> 0"
abbreviation level_info :: nat where "level_info \<equiv> 2"

definition log_sinks :: "bool \<Rightarrow> sink list" where
  "log_sinks debug = [Console_sink (if debug then level_trace else level_info), File_sink ''proxy.log'' (1024 * 1024 * 2) 4]"

definition reaches :: "nat \<Rightarrow> sink \<Rightarrow> bool" where
  "reaches level s = (case s of Console_sink l \<Rightarrow> l \<le> level | File_sink _ _ _ \<Rightarrow> True)"

text \<open>The destructor of \<open>Logger\<close> flushes through its pointer, which is set when both sinks have been made:
  the sinks of the logger are nothing until then.\<close>

definition destroy_logger :: "sink list option \<Rightarrow> fault option" where
  "destroy_logger l = (case l of None \<Rightarrow> Some Null_logger | Some _ \<Rightarrow> None)"

text \<open>The first part of \<open>main\<close>: what the process ends with if the log cannot be set up. Opening the file is
  what can throw.\<close>

definition set_up_log :: "'a platform_scheme \<Rightarrow> bool \<Rightarrow> ending + sink list" where
  "set_up_log pl debug =
     (if log_file_opens pl then
        (case destroy_logger (Some (log_sinks debug)) of Some f \<Rightarrow> Inl (Faults f) | None \<Rightarrow> Inr (log_sinks debug))
      else Inl (case destroy_logger None of Some f \<Rightarrow> Faults f | None \<Rightarrow> Returns 1))"

lemma every_message_filed: "\<exists>s \<in> set (log_sinks debug). reaches level s \<and> (\<exists>f m n. s = File_sink f m n)"
  by (simp add: log_sinks_def reaches_def)

subsection \<open>The loop\<close>

text \<open>
  \<open>Core::run\<close>: \<open>signal_handler\<close> clears \<open>running_\<close>, which is looked at before each iteration. A
  schedule has for each time the loop comes to its test whether a signal has come since the last, and
  what the iteration meets. The result tells whether the loop has ended.
\<close>

fun main_loop ::
  "(net_action \<Rightarrow> 's \<Rightarrow> 's option) \<Rightarrow> (int \<Rightarrow> 's \<Rightarrow> 's) \<Rightarrow> (bool \<times> int \<times> net_action list \<times> net_action list) list \<Rightarrow>
     run_state \<times> 's \<Rightarrow> (bool \<times> run_state \<times> 's) option"
where
  "main_loop step update [] x = Some (False, x)"
| "main_loop step update ((signaled, i) # sched) x =
     (if signaled then Some (True, x)
      else case core_iteration step update i x of None \<Rightarrow> None | Some (slept, x) \<Rightarrow> main_loop step update sched x)"

subsection \<open>The program\<close>

text \<open>Everything the program meets: the platform, ENet, HTTPS, zlib and the rest of \<open>Env\<close>, the
  interpreter with its script files, and what is left open otherwise.\<close>

record ('z, 'cb, 'cmd, 'ts) machine = platform +
  debug_build :: bool
  machine_env :: "'z Env"
  lua_interpreter :: "('cb, 'cmd, 'ts) interpreter"
  listened_types :: "event_type list"
  map_orders :: orders
  scripts :: script_files
  run_script :: "path \<Rightarrow> ('cb, 'cmd, 'ts) whole \<Rightarrow> bool \<times> ('cb, 'cmd, 'ts) whole"
  sort_scripts :: "path list \<Rightarrow> path list"
  garbage_port :: u16
  item_file :: "bytes option"
  hardware_threads :: nat

definition configured :: "WrapperConfig \<Rightarrow> ('z, 'cb, 'cmd, 'ts) machine \<Rightarrow> 'z Env" where
  "configured cfg M = (configure_env cfg (machine_env M))\<lparr>https_bound := port_443_bound M\<rparr>"

text \<open>The dispatcher and the state after the constructor; \<open>d0\<close> is the empty dispatcher.\<close>

definition whole_dispatcher where
  "whole_dispatcher B cfg M d0 =
     append_all B (map (\<lambda>(t, p, h). (t, p, listen h))
       (whole_handlers (lua_interpreter M) (listened_types M) (configured cfg M) (map_orders M))) d0"

definition new_whole :: "WrapperConfig \<Rightarrow> ('z, 'cb, 'cmd, 'ts) machine \<Rightarrow> ('cb, 'cmd, 'ts) whole" where
  "new_whole cfg M =
     (new_bridge, of_registry (configured_commands cfg), new_script_scheduler,
      new_Proxy (garbage_port M) (item_file M) (hardware_threads M), ConnectionEvent)"

datatype 's program_result = Running 's | Ended ending

text \<open>
  \<open>main\<close>. When \<open>Core\<close> cannot be constructed the members it has are destroyed and \<open>main\<close> returns 1.
  Otherwise the core is destroyed after \<open>main\<close> has shut the log down and returned.
\<close>

definition gtproxy ::
  "('d, 'h, ('cb, 'cmd, 'ts) whole option listener) base_dispatcher \<Rightarrow> ('d, 'h) PriorityEventDispatcher \<Rightarrow>
     ('z, 'cb, 'cmd, 'ts) machine \<Rightarrow> int \<Rightarrow> (bool \<times> int \<times> net_action list \<times> net_action list) list \<Rightarrow>
     ('cb, 'cmd, 'ts) whole program_result"
where
  "gtproxy B d0 M now sched =
     (let pl = platform.truncate M
      in case set_up_log M (debug_build M) of
           Inl e \<Rightarrow> Ended e
         | Inr sinks \<Rightarrow> (case construct pl core_constructor [] of
           (False, ps) \<Rightarrow>
             Ended (case destroy pl (\<lambda>_. 0) True ps of Some f \<Rightarrow> Faults f | None \<Rightarrow> Returns 1)
         | (True, ps) \<Rightarrow>
             let cfg = projr (settings M);
                 I = lua_interpreter M;
                 (_, _, st) = load_all (sort_scripts M) (scripts M) (run_script M) ([], new_whole cfg M)
             in case main_loop (whole_process B (whole_dispatcher B cfg M d0) (configured cfg M)) (whole_update I) sched
                       (start_run now, st) of
               None \<Rightarrow> Ended (Faults Fault_in_loop)
             | Some (False, _, st) \<Rightarrow> Running st
             | Some (True, _, st) \<Rightarrow>
                 Ended (case destroy pl (lua_functions_held I st) False ps of
                          Some f \<Rightarrow> Faults f | None \<Rightarrow> Returns 0)))"

subsection \<open>How the process ends\<close>

definition members :: "part list" where
  "members =
     [ScriptLoader_part, ScriptEventBridge_part, ScriptScheduler_part, LuaEngine_part, CommandHandler_part,
      WorldHandler_part, ForwardingHandler_part, ConnectionHandler_part, WebServer_part, Client_part, Server_part,
      Scheduler_part, Dispatcher_part, Config_part]"

lemma constructed:
  "construct pl core_constructor [] =
     (if \<forall>cfg. settings pl \<noteq> Inr cfg then (False, [])
      else if \<not> (enet_initializes pl \<and> server_host_made pl) then (False, drop 11 members)
      else if \<not> client_host_made pl then (False, drop 10 members)
      else if \<not> scripts_directory_made pl then (False, drop 1 members)
      else (True, members))"
  by (simp add: core_constructor_def members_def split: sum.split)

lemmas destroy_defs = members_def destructor_fault_def takes_off_listeners_def gives_back_functions_def

lemma destroyed_early:
  "destroy pl refs True (drop 11 members) = None"
  "destroy pl refs True (drop 10 members) = None"
  "destroy pl (\<lambda>_. 0) True (drop 1 members) = (if port_443_bound pl then None else Some Unjoinable_thread)"
  by (simp_all add: destroy_defs)

lemma destroyed_late:
  "destroy pl refs False members =
     Some (if 0 < refs CommandHandler_part then Closed_lua
           else if \<not> port_443_bound pl then Unjoinable_thread else Null_logger)"
  by (simp add: destroy_defs)

definition script_commands :: "('cb, 'cmd, 'ts) interpreter \<Rightarrow> ('cb, 'cmd, 'ts) whole \<Rightarrow> bool" where
  "script_commands I = (\<lambda>(b, reg, s, px, e). list_ex (is_lambda \<circ> snd) (command_list I (lua_commands reg)))"

lemma refs_of_commands:
  "0 < lua_functions_held I st CommandHandler_part \<longleftrightarrow> script_commands I st"
  "lua_functions_held I st CommandHandler_part = 0 \<longleftrightarrow> \<not> script_commands I st"
  by (cases st, auto simp: lua_functions_held_def script_commands_def list_ex_iff filter_empty_conv)+

lemma gtproxy_cases:
  "gtproxy B d0 M now sched =
    (if \<not> log_file_opens M then Ended (Faults Null_logger)
     else case settings M of
       Inl _ \<Rightarrow> Ended (Returns 1)
     | Inr cfg \<Rightarrow>
         if \<not> (enet_initializes M \<and> server_host_made M \<and> client_host_made M) then Ended (Returns 1)
         else if \<not> scripts_directory_made M then
           Ended (if port_443_bound M then Returns 1 else Faults Unjoinable_thread)
         else case main_loop (whole_process B (whole_dispatcher B cfg M d0) (configured cfg M)) (whole_update (lua_interpreter M))
             sched (start_run now, snd (snd (load_all (sort_scripts M) (scripts M) (run_script M) ([], new_whole cfg M)))) of
           None \<Rightarrow> Ended (Faults Fault_in_loop)
         | Some (False, _, st) \<Rightarrow> Running st
         | Some (True, _, st) \<Rightarrow>
             Ended (Faults (if script_commands (lua_interpreter M) st then Closed_lua
               else if \<not> port_443_bound M then Unjoinable_thread else Null_logger)))"
proof -
  have fields: "settings (platform.truncate M) = settings M" "enet_initializes (platform.truncate M) = enet_initializes M"
    "server_host_made (platform.truncate M) = server_host_made M" "client_host_made (platform.truncate M) = client_host_made M"
    "scripts_directory_made (platform.truncate M) = scripts_directory_made M"
    "port_443_bound (platform.truncate M) = port_443_bound M"
    by (simp_all add: platform.defs server_host_made_def client_host_made_def create_server_host_def create_client_host_def)
  show ?thesis
    by (auto simp: gtproxy_def set_up_log_def destroy_logger_def constructed fields destroyed_early destroyed_late refs_of_commands split_beta Let_def
        destroy_defs split: sum.split option.split bool.split)
qed

text \<open>C35: what the process ends with. A start that fails returns 1, unless the log file cannot be opened, or
  the scripts directory cannot be made and the port of the web server was taken as well. A start that
  succeeds and is stopped by a signal never ends well: if scripts have registered commands their
  functions are given back to the interpreter that is gone; otherwise, without its port the web server
  joins a thread that was never started, and with it the scheduler writes to the log after it was shut
  down. \<open>main\<close> returns 0 each time, but the process does not.\<close>

theorem program_endings:
  "gtproxy B d0 M now sched =
    (if \<not> log_file_opens M then Ended (Faults Null_logger)
     else case settings M of
       Inl _ \<Rightarrow> Ended (Returns 1)
     | Inr cfg \<Rightarrow>
         if \<not> (enet_initializes M \<and> server_host_made M \<and> client_host_made M) then Ended (Returns 1)
         else if \<not> scripts_directory_made M then
           Ended (if port_443_bound M then Returns 1 else Faults Unjoinable_thread)
         else case main_loop (whole_process B (whole_dispatcher B cfg M d0) (configured cfg M)) (whole_update (lua_interpreter M))
             sched (start_run now, snd (snd (load_all (sort_scripts M) (scripts M) (run_script M) ([], new_whole cfg M)))) of
           None \<Rightarrow> Ended (Faults Fault_in_loop)
         | Some (False, _, st) \<Rightarrow> Running st
         | Some (True, _, st) \<Rightarrow>
             Ended (Faults (if script_commands (lua_interpreter M) st then Closed_lua
               else if \<not> port_443_bound M then Unjoinable_thread else Null_logger)))
   \<and> gtproxy B d0 M now sched \<noteq> Ended (Returns 0)"
  by (simp add: gtproxy_cases split: sum.split option.split prod.split bool.split)

text \<open>A signal ends the loop between two iterations: the run is that of the iterations before it.\<close>

lemma main_loop_eq:
  "main_loop step update sched x =
     map_option (Pair (list_ex fst sched)) (core_run step update (map snd (takeWhile (\<lambda>(signaled, i). \<not> signaled) sched)) x)"
proof (induction sched arbitrary: x)
  case (Cons a sched)
  then show ?case
    by (cases a) (auto split: option.split)
qed simp

definition starts :: "('z, 'cb, 'cmd, 'ts) machine \<Rightarrow> WrapperConfig \<Rightarrow> bool" where
  "starts M cfg \<longleftrightarrow> log_file_opens M \<and> settings M = Inr cfg \<and> enet_initializes M \<and> server_host_made M \<and>
     client_host_made M \<and> scripts_directory_made M"

definition handled :: "(bool \<times> int \<times> net_action list \<times> net_action list) list \<Rightarrow> net_action list" where
  "handled sched = concat (map (\<lambda>(now, server_events, client_events). server_events @ client_events)
     (map snd (takeWhile (\<lambda>(signaled, i). \<not> signaled) sched)))"

lemma load_nothing: "discover_scripts srt fs = [] \<Longrightarrow> load_all srt fs interp (ps, s) = (0, ps, s)"
  by (simp add: load_all_def)

lemma no_script_commands:
  assumes "same_order ord I"
  shows "\<not> script_commands I (b, of_registry reg, s, px, e)"
  using assms by (auto simp: script_commands_def same_order_def of_registry_def list_ex_iff)

text \<open>C13: from the call of \<open>main\<close> on: a program that starts, without scripts in its directory, handles the events
  of the network in their order from a new proxy on, with the settings and the commands of its
  configuration, up to the first signal, whatever the clock says; and it runs until there is one.\<close>

theorem program_runs:
  assumes "starts M cfg" and "discover_scripts (sort_scripts M) (scripts M) = []"
    and "same_order (map_orders M) (lua_interpreter M)" and "sort_ok (callback_sort (lua_interpreter M))"
    and "eventpp_ok B" and "dispatcher_inv B d0" and "handles d0 = (\<lambda>_. [])"
    and "eventpp_ok B'" and "dispatcher_inv B' d0'" and "handles d0' = (\<lambda>_. [])"
  shows "map_program_result forget_event (gtproxy B d0 M now sched) =
    (case process_events
        (process B' (core_dispatcher B' (configured cfg M) (map_orders M) (configured_commands cfg) d0') (configured cfg M))
        (handled sched) (new_Proxy (garbage_port M) (item_file M) (hardware_threads M)) of
       None \<Rightarrow> Ended (Faults Fault_in_loop)
     | Some px \<Rightarrow>
         if list_ex fst sched then Ended (Faults (if port_443_bound M then Null_logger else Unjoinable_thread))
         else Running (new_bridge, of_registry (configured_commands cfg), new_script_scheduler, px))"
proof -
  let ?env = "configured cfg M" and ?reg = "configured_commands cfg" and ?I = "lua_interpreter M"
  let ?d = "core_dispatcher B' ?env (map_orders M) ?reg d0'" and ?d' = "whole_dispatcher B cfg M d0"
  let ?px = "new_Proxy (garbage_port M) (item_file M) (hardware_threads M)"
  let ?is = "map snd (takeWhile (\<lambda>(signaled, i). \<not> signaled) sched)"
  have "started B' ?env (map_orders M) ?reg ?d" "started_with B (whole_handlers ?I (listened_types M) ?env (map_orders M)) ?d'"
    using assms(5-10) unfolding started_def started_with_def whole_dispatcher_def by blast+
  from program_without_scripts [OF this assms(3,4), of new_bridge new_script_scheduler ?is "start_run now" ?px ConnectionEvent]
  have run: "map_option (forget_event \<circ> snd) (core_run (whole_process B ?d' ?env) (whole_update ?I) ?is (start_run now, new_whole cfg M)) =
      map_option (\<lambda>px. (new_bridge, of_registry ?reg, new_script_scheduler, px))
        (process_events (process B' ?d ?env) (handled sched) ?px)"
    unfolding new_whole_def handled_def by (simp add: new_bridge_def new_script_scheduler_def)
  have ok: "log_file_opens M" "settings M = Inr cfg" "enet_initializes M" "server_host_made M" "client_host_made M"
    "scripts_directory_made M" using assms(1) by (simp_all add: starts_def)
  show ?thesis
  proof (cases "process_events (process B' ?d ?env) (handled sched) ?px")
    case None
    with run have "core_run (whole_process B ?d' ?env) (whole_update ?I) ?is (start_run now, new_whole cfg M) = None" by simp
    with None show ?thesis by (simp add: gtproxy_cases ok load_nothing [OF assms(2)] main_loop_eq)
  next
    case (Some px)
    with run obtain r st where core: "core_run (whole_process B ?d' ?env) (whole_update ?I) ?is (start_run now, new_whole cfg M) = Some (r, st)"
      and f: "forget_event st = (new_bridge, of_registry ?reg, new_script_scheduler, px)" by auto
    obtain e where "st = (new_bridge, of_registry ?reg, new_script_scheduler, px, e)"
      using f by (cases st) (auto simp: forget_event_def)
    with no_script_commands [OF assms(3)] have "\<not> script_commands ?I st" by simp
    with Some core f show ?thesis by (simp add: gtproxy_cases ok load_nothing [OF assms(2)] main_loop_eq)
  qed
qed

text \<open>A machine on which everything works, with an empty directory of scripts; the game connects, and then
  a signal comes.\<close>

definition demo_machine :: "(bytes, string, string, string) machine" where
  "demo_machine =
     \<lparr>log_file_opens = True, settings = Inr default_config, enet_initializes = True, enet_host_create = (\<lambda>_. True),
      enet_host_compress = (\<lambda>_. True), port_443_bound = True, scripts_directory_made = True, debug_build = False,
      machine_env = demo_env,
      lua_interpreter = demo_interpreter, listened_types = demo_types, map_orders = demo_orders,
      scripts = \<lparr>script_entries = Some [], file_exists = (\<lambda>_. False)\<rparr>, run_script = (\<lambda>_ st. (True, st)),
      sort_scripts = sort_key filename, garbage_port = 0, item_file = None, hardware_threads = 1\<rparr>"

theorem program_runs_witness:
  "map_program_result forget_event
     (gtproxy list_dispatcher no_listeners demo_machine 0
        [(False, 5000000, [Connected ClientHost 7], []), (True, 10000000, [Received ClientHost 7 [4, 0, 0]], [])]) =
   (case process_events
       (process list_dispatcher (core_dispatcher list_dispatcher (configured default_config demo_machine) demo_orders
          (configured_commands default_config) no_listeners) (configured default_config demo_machine))
       [Connected ClientHost 7] (new_Proxy 0 None 1) of
      None \<Rightarrow> Ended (Faults Fault_in_loop)
    | Some px \<Rightarrow> Ended (Faults Null_logger))"
proof -
  have m: "starts demo_machine default_config" "lua_interpreter demo_machine = demo_interpreter"
    "map_orders demo_machine = demo_orders" "port_443_bound demo_machine" "garbage_port demo_machine = 0"
    "item_file demo_machine = None" "hardware_threads demo_machine = 1"
    "discover_scripts (sort_scripts demo_machine) (scripts demo_machine) = []"
    by (simp_all add: demo_machine_def starts_def discover_scripts_def server_host_made_def client_host_made_def
        create_server_host_def create_client_host_def)
  have n: "dispatcher_inv list_dispatcher no_listeners" "handles no_listeners = (\<lambda>_. [])"
    by (rule no_listeners_inv, simp add: no_listeners_def)
  show ?thesis
    using program_runs [OF m(1,8) _ _ list_dispatcher_ok n list_dispatcher_ok n, of 0
        "[(False, 5000000, [Connected ClientHost 7], []), (True, 10000000, [Received ClientHost 7 [4, 0, 0]], [])]"]
    by (simp add: m demo_same_order sort_key_ok handled_def del: process_events_Cons process_events_Nil cong: option.case_cong)
qed

end
