(* ===== verification/Spec2Isabelle.thy ===== *)
theory Spec2Isabelle
  imports TextParse Hash HandlerFacts Printing ItemFlags WholeReachable Lifecycle
begin

text \<open>
  Verification of GTProxy.

  GTProxy stands between the Growtopia game and a Growtopia server. It is the server of the game
  (\<open>network::Server\<close>) and a client of the server (\<open>network::Client\<close>), decodes every message of
  both, lets listeners look at it, and forwards it unless a listener has canceled it. Its own listeners
  keep the connection to the right server when the game is sent elsewhere (\<open>ConnectionHandler\<close>), keep
  a copy of the world (\<open>WorldHandler\<close>), run commands typed into the chat (\<open>CommandHandler\<close>) and
  forward (\<open>ForwardingHandler\<close>). An HTTPS server (\<open>WebServer\<close>) answers the game's question for the
  address of the server, and Lua scripts add listeners, commands and timers.

  \<^bold>\<open>Bytes and texts.\<close> \<open>Prelude\<close> has the little-endian bytes of words and the lemmas everything shares;
  \<open>Interfaces\<close> has the two locales without bytes, keyed stores and state machines. \<open>ByteStream\<close> is
  \<open>utils/byte_stream.hpp\<close>: a buffer with a 64-bit cursor, whose operations return None where the code
  would read or write outside the buffer; its locale of wire codecs (a writer, a reader, and the reader
  undoes the writer) is interpreted by every format above it. \<open>CharConv\<close> is \<open>std::from_chars\<close> and
  \<open>std::to_chars\<close>, \<open>TextParse\<close> is \<open>utils/text_parse.hpp\<close>, \<open>Hash\<close> is \<open>utils/hash.hpp\<close> and
  \<open>Zlib\<close> is \<open>utils/zlib.hpp\<close> over a record of the calls into zlib.

  \<^bold>\<open>Packets.\<close> \<open>PacketTypes\<close> has the packed header of \<open>packet/packet_types.hpp\<close> with its unions,
  \<open>PacketVariant\<close> the argument lists of remote calls, \<open>Payload\<close> the payloads and the identifiers
  derived from them, \<open>Packets\<close> and \<open>GamePackets\<close> one record per class of \<open>packet/message\<close> and
  \<open>packet/game\<close> with its \<open>read\<close> and \<open>write\<close>, and \<open>PacketRegistry\<close> the helper, the registry
  and the decoder. \<open>PacketFacts\<close> states for each class what a written packet is read back as, and
  \<open>Decoding\<close> composes this with the decoder: what is decoded from the bytes that were sent. A decoded
  message is \<open>Some (Some (Some p))\<close>; the outer options are a fault, no packet, and a null pointer.

  \<^bold>\<open>State of the game.\<close> \<open>ItemDatabase\<close> is the parser of \<open>items.dat\<close> (\<open>item/\<close>), \<open>TileExtra\<close> the
  data of each kind of tile, \<open>TileMap\<close> the grid of tiles and \<open>World\<close> the rest of \<open>world/\<close> and
  \<open>player/\<close>. What C++ leaves uninitialised is a parameter of these parsers.

  \<^bold>\<open>The running proxy.\<close> \<open>Scheduler\<close> is \<open>core/scheduler.cpp\<close>: each critical section is an operation
  on a record, the timer thread and the workers are steps of a relation. \<open>EventDispatch\<close> is
  \<open>event/event.hpp\<close> over a record of the calls into eventpp. \<open>Proxy\<close> is the state of the program and
  its connections: ENet is a trace of what it was asked and what it reported, and its answers are
  functions of that trace. \<open>Handlers\<close> and \<open>Commands\<close> have every listener and every built-in command
  as functions of that state; \<open>Core\<close> registers the listeners in the order of \<open>Core::Core\<close> and
  \<open>process\<close> handles one event of the network. \<open>NetUtils\<close> is \<open>utils/network.hpp\<close> and the resolver,
  \<open>WebServer\<close> is \<open>core/web_server.cpp\<close>, \<open>Config\<close> is \<open>core/config.cpp\<close> and \<open>Printing\<close> the log
  lines of the decoder. \<open>CoreFacts\<close> states what happens to a message, \<open>HandlerFacts\<close> and
  \<open>PlayerFacts\<close> what the handlers do to the world, and \<open>Reachable\<close> what holds in every state that events, timers and requests can lead
  to, whatever the environment does.

  \<^bold>\<open>Scripts.\<close> \<open>ScriptScheduler\<close>, \<open>ScriptBridge\<close> and \<open>LuaCommands\<close> are the timers, listeners and
  commands of scripts, \<open>LuaPackets\<close> and \<open>LuaData\<close> the members of packets, items, players and the world
  that scripts see (\<open>scripting/bindings\<close>), and \<open>ScriptLoader\<close> the order in which script files run. The
  interpreter is a parameter: a callback is a function that returns a result, the calls it made, and a new
  state of everything it can reach. \<open>ScriptFacts\<close>, \<open>LuaFacts\<close> and \<open>LuaDataFacts\<close> state what
  scripts see and what becomes of what they write; \<open>Scripting\<close> puts the bridge on the dispatcher of the
  proxy and \<open>CoreRun\<close> adds the timers and the paced loop of \<open>Core::run\<close>. \<open>WholeProxy\<close> has everything scripts
  add on one state with the proxy, the packet of the event included, which callbacks can write to, and
  \<open>WholeReachable\<close> what holds in every state of it as long as scripts use the functions they are given.

  \<^bold>\<open>The process.\<close> \<open>Lifecycle\<close> is \<open>main.cpp\<close> with the constructor and the destructor of \<open>Core\<close>: the log,
  the steps that can fail, the scripts that are run, the loop until a signal, and the destruction of the
  members in their reverse order, in which what a destructor uses and is gone by then is a fault.
  \<open>ItemFlags\<close> has the bit fields of items and the flags of packets.
\<close>

text \<open>
  \<^bold>\<open>What is shown.\<close> Every wire format is read back from what is written, and where it is not the loss is
  a theorem: the texts of \<open>Log\<close> and \<open>ValidateWorld\<close>, the fields of scripts' edits of received packets,
  argument counts beyond a byte. The decoder comes to a result on every message without leaving it, but
  for one option of the log. Messages are forwarded byte for byte, once, or not at all; redirects are
  replaced and followed; commands are kept from the server and from scripts, those of scripts
  included; what scripts write into a packet is seen by the proxy and not by the game. Invariants hold in all
  reachable states of the scheduler, the dispatcher, the script scheduler and the whole proxy. Listeners
  run in order of priority, and so do the callbacks of scripts; without scripts the program behaves as if
  their components were not there, from the call of \<open>main\<close> to the signal that ends the loop; how the process
  ends then, and after a start that fails, is stated for every case. Several theorems state faults of
  the program, where it reads outside its data or does not do what it means to: they hold of the code as
  it is.

  \<^bold>\<open>Parameters and their laws.\<close> eventpp (\<open>eventpp_ok\<close>: its list operations do what their names say), zlib
  (that inflating makes progress, and that it undoes deflating), ENet and HTTPS (no law), the JSON library
  (\<open>read_json\<close>), the clock (no law; the pacing theorems name the times they assume), the order of
  unordered maps and of equal elements in \<open>std::ranges::sort\<close> (any permutation that is sorted), the
  range of magic_enum (any), spdlog (after \<open>shutdown\<close> there is no default logger), httplib (its error handler is
  called for every status from 400 on), the multiline reading of regular expressions (both), the Lua interpreter (no
  law, or, where a theorem says so, a callback that does not cancel tasks, and scripts that reach the proxy
  through their bindings only) and the values of uninitialised
  memory (any). Each is instantiated by a concrete function in a witness.

  \<^bold>\<open>Numbers.\<close> Integers that travel are words of their width; sizes and indices of containers are natural
  numbers, except in \<open>ByteStream\<close>, where the 64-bit sums matter; times are integers. Floats are the words
  that represent them: the program moves them but hardly computes with them. The one loop that
  might not end is inflating, a partial function; \<open>Zlib\<close> shows that it returns for every library that
  makes progress. There is no fuel.

  \<^bold>\<open>Not modelled.\<close> Log lines other than the decoder's (no decision depends on them), the generators of
  \<open>utils/random.hpp\<close>, which nothing uses, over the third-party \<open>utils/randutils.hpp\<close>, the templates of
  \<open>utils/singleton.hpp\<close> and \<open>utils/types.hpp\<close>, which have no behaviour of their own, the threads of HTTPS server and scheduler
  below the level of their critical sections, tasks of the scheduler that come due while the program is
  destroyed, and exhaustion of memory.
\<close>

end
